(* ===== verification/Prelude.thy ===== *)
theory Prelude imports Complex_Main "HOL-Library.Word" begin

text \<open>
  Shared material of the development: the values of the source language
  (numbers, strings, \<open>null\<close>), the HTTP exceptions the services throw, and database
  tables as lists of rows with the query and update combinators of the data client.

  Numbers. A JavaScript number that carries an amount, a rate or a percentage is an
  exact rational (\<open>rat\<close>). The rounding functions of the language (\<open>Math.round\<close>,
  \<open>Math.ceil\<close>, \<open>Math.floor\<close>) are modelled exactly on that type; the representation
  error of binary floating point is outside the model. Where the code can meet
  \<open>NaN\<close> or an infinity and its tests depend on it, the type \<open>jsnum\<close> below is used.

  Strings. A string is a list of 8-bit characters and case conversion is that of
  ASCII; all identifiers, statuses and currency codes of the program are ASCII.
\<close>

named_theorems js_defs \<open>definitions of the language values\<close>
named_theorems tbl_defs \<open>definitions of table operations\<close>
named_theorems result_simps \<open>inversion facts about results\<close>

section \<open>Exceptions and results\<close>

text \<open>
  The exceptions of the web framework. The argument is the \<open>code\<close> field of the body
  where the code sends one, and the empty string for a plain message.
\<close>

datatype exn =
    BadRequestException string
  | NotFoundException string
  | ConflictException string
  | ForbiddenException string
  | UnauthorizedException string
  | ServiceUnavailableException string
  | TooManyRequestsException int
  | DbException string
  | ErrorException string

type_synonym 'a result = "exn + 'a"

definition is_ok :: "'a result \<Rightarrow> bool" where
  "is_ok r = (case r of Inl _ \<Rightarrow> False | Inr _ \<Rightarrow> True)"

lemma is_ok_simps [simp]: "is_ok (Inr x)" "\<not> is_ok (Inl e)"
  by (simp_all add: is_ok_def)

lemma is_ok_iff: "is_ok r \<longleftrightarrow> (\<exists>x. r = Inr x)"
  by (cases r) auto

definition bind_r :: "'a result \<Rightarrow> ('a \<Rightarrow> 'b result) \<Rightarrow> 'b result" where
  "bind_r r f = (case r of Inl e \<Rightarrow> Inl e | Inr x \<Rightarrow> f x)"

lemma bind_r_simps [simp]: "bind_r (Inl e) f = Inl e" "bind_r (Inr x) f = f x"
  by (simp_all add: bind_r_def)

lemma bind_r_Inr [result_simps]: "bind_r r f = Inr y \<longleftrightarrow> (\<exists>x. r = Inr x \<and> f x = Inr y)"
  by (cases r) auto

section \<open>Numbers\<close>

definition js_floor :: "rat \<Rightarrow> rat" where
  [js_defs]: "js_floor x = of_int \<lfloor>x\<rfloor>"

definition js_ceil :: "rat \<Rightarrow> rat" where
  [js_defs]: "js_ceil x = of_int \<lceil>x\<rceil>"

text \<open>\<open>Math.round\<close> rounds halves towards plus infinity.\<close>

definition js_round :: "rat \<Rightarrow> rat" where
  [js_defs]: "js_round x = of_int \<lfloor>x + 1 / 2\<rfloor>"

lemma js_round_of_int [simp]: "js_round (of_int n) = of_int n"
  by (simp add: js_round_def floor_eq_iff)

lemma js_round_0 [simp]: "js_round 0 = 0"
  by (simp add: js_round_def floor_eq_iff)

lemma js_round_mono: "x \<le> y \<Longrightarrow> js_round x \<le> js_round y"
  by (simp add: js_round_def floor_mono)

lemma js_round_lower: "x - 1 / 2 < js_round x"
  unfolding js_round_def by linarith

lemma js_round_upper: "js_round x \<le> x + 1 / 2"
  unfolding js_round_def by linarith

lemma js_round_nonneg: "0 \<le> x \<Longrightarrow> 0 \<le> js_round x"
  using js_round_mono [of 0 x] by simp

lemma js_round_is_int: "\<exists>n. js_round x = of_int n"
  by (auto simp: js_round_def)

lemma js_ceil_ge: "x \<le> js_ceil x"
  by (simp add: js_ceil_def)

lemma js_floor_le: "js_floor x \<le> x"
  by (simp add: js_floor_def)

lemma js_floor_nonneg: "0 \<le> x \<Longrightarrow> 0 \<le> js_floor x"
  by (simp add: js_floor_def)

text \<open>Numbers that may be \<open>NaN\<close> or infinite: the results of parsing text.\<close>

datatype jsnum = Fin rat | PosInf | NegInf | NaN

fun js_less :: "jsnum \<Rightarrow> jsnum \<Rightarrow> bool" where
  "js_less NaN _ = False"
| "js_less _ NaN = False"
| "js_less (Fin x) (Fin y) = (x < y)"
| "js_less (Fin _) PosInf = True"
| "js_less NegInf (Fin _) = True"
| "js_less NegInf PosInf = True"
| "js_less _ _ = False"

fun js_leq :: "jsnum \<Rightarrow> jsnum \<Rightarrow> bool" where
  "js_leq NaN _ = False"
| "js_leq _ NaN = False"
| "js_leq (Fin x) (Fin y) = (x \<le> y)"
| "js_leq NegInf _ = True"
| "js_leq _ PosInf = True"
| "js_leq _ _ = False"

definition is_finite_num :: "jsnum \<Rightarrow> bool" where
  [js_defs]: "is_finite_num x = (case x of Fin _ \<Rightarrow> True | _ \<Rightarrow> False)"

lemma js_less_NaN [simp]: "\<not> js_less x NaN"
  by (cases x) auto

lemma js_leq_NaN [simp]: "\<not> js_leq x NaN"
  by (cases x) auto

definition js_div :: "rat \<Rightarrow> rat \<Rightarrow> jsnum" where
  [js_defs]: "js_div a b = (if b \<noteq> 0 then Fin (a / b) else if 0 < a then PosInf
     else if a < 0 then NegInf else NaN)"

text \<open>\<open>toFixed(2)\<close> read back as a number: the nearest of two decimals, and of two that are
  equally near the one farther from zero.\<close>

definition toFixed2 :: "rat \<Rightarrow> rat" where
  [js_defs]: "toFixed2 x = (if x < 0 then - js_round (- x * 100) / 100 else js_round (x * 100) / 100)"

fun fixed2 :: "jsnum \<Rightarrow> jsnum" where
  "fixed2 (Fin x) = Fin (toFixed2 x)"
| "fixed2 n = n"

section \<open>Strings\<close>

definition lower_char :: "char \<Rightarrow> char" where
  "lower_char c = (let n = (of_char c :: nat) in
     if 65 \<le> n \<and> n \<le> 90 then char_of (n + 32) else c)"

definition upper_char :: "char \<Rightarrow> char" where
  "upper_char c = (let n = (of_char c :: nat) in
     if 97 \<le> n \<and> n \<le> 122 then char_of (n - 32) else c)"

definition to_lower :: "string \<Rightarrow> string" where
  [js_defs]: "to_lower s = map lower_char s"

definition to_upper :: "string \<Rightarrow> string" where
  [js_defs]: "to_upper s = map upper_char s"

text \<open>The ASCII part of the white space that \<open>trim()\<close> removes: 9 to 13 and 32.\<close>

definition is_space :: "char \<Rightarrow> bool" where
  "is_space c = (let n = (of_char c :: nat) in n = 32 \<or> (9 \<le> n \<and> n \<le> 13))"

definition trim_ws :: "string \<Rightarrow> string" where
  [js_defs]: "trim_ws s = rev (dropWhile is_space (rev (dropWhile is_space s)))"

text \<open>
  \<open>parseInt(s, 10)\<close> and \<open>parseFloat(s)\<close>: white space, a sign and the longest prefix that is
  a number; without one the result is \<open>NaN\<close>.
\<close>

definition is_digit :: "char \<Rightarrow> bool" where
  "is_digit c = (let n = (of_char c :: nat) in 48 \<le> n \<and> n \<le> 57)"

definition digits_value :: "string \<Rightarrow> nat" where
  "digits_value s = foldl (\<lambda>n c. n * 10 + (of_char c - 48)) 0 s"

definition split_sign :: "string \<Rightarrow> bool \<times> string" where
  "split_sign s = (case s of
     [] \<Rightarrow> (False, [])
   | c # r \<Rightarrow> if c = CHR ''-'' then (True, r) else if c = CHR ''+'' then (False, r) else (False, s))"

definition parse_int :: "string \<Rightarrow> jsnum" where
  [js_defs]: "parse_int s =
     (let (neg, t) = split_sign (dropWhile is_space s);
          ds = takeWhile is_digit t
      in if ds = [] then NaN
         else Fin (if neg then - of_nat (digits_value ds) else of_nat (digits_value ds)))"

definition parse_exponent :: "string \<Rightarrow> int" where
  "parse_exponent r = (case r of
     [] \<Rightarrow> 0
   | c # t \<Rightarrow>
       if c = CHR ''e'' \<or> c = CHR ''E'' then
         let (neg, u) = split_sign t; ds = takeWhile is_digit u
         in if ds = [] then 0 else if neg then - int (digits_value ds) else int (digits_value ds)
       else 0)"

definition pow10 :: "int \<Rightarrow> rat" where
  "pow10 e = (if 0 \<le> e then 10 ^ nat e else 1 / 10 ^ nat (- e))"

definition parse_float :: "string \<Rightarrow> jsnum" where
  [js_defs]: "parse_float s =
     (let (neg, t) = split_sign (dropWhile is_space s);
          ip = takeWhile is_digit t; r = dropWhile is_digit t;
          fp = (case r of c # u \<Rightarrow> if c = CHR ''.'' then takeWhile is_digit u else [] | [] \<Rightarrow> []);
          rest = (case r of c # u \<Rightarrow> if c = CHR ''.'' then dropWhile is_digit u else r | [] \<Rightarrow> []);
          v = of_nat (digits_value (ip @ fp)) / 10 ^ length fp * pow10 (parse_exponent rest)
      in if take 8 t = ''Infinity'' then (if neg then NegInf else PosInf)
         else if ip = [] \<and> fp = [] then NaN
         else Fin (if neg then - v else v))"

text \<open>A string that may be \<open>null\<close> or \<open>undefined\<close>; it is falsy as well when empty.\<close>

type_synonym ostring = "string option"

definition truthy :: "ostring \<Rightarrow> bool" where
  [js_defs]: "truthy s = (case s of None \<Rightarrow> False | Some t \<Rightarrow> t \<noteq> '''')"

definition or_else :: "'a option \<Rightarrow> 'a \<Rightarrow> 'a" where
  [js_defs]: "or_else x d = (case x of None \<Rightarrow> d | Some v \<Rightarrow> v)"

text \<open>\<open>a ?? b\<close> where \<open>b\<close> may be absent too.\<close>

definition nullish :: "'a option \<Rightarrow> 'a option \<Rightarrow> 'a option" where
  "nullish a b = (case a of Some x \<Rightarrow> Some x | None \<Rightarrow> b)"

lemma truthy_simps [simp]: "\<not> truthy None" "truthy (Some t) \<longleftrightarrow> t \<noteq> ''''"
  by (simp_all add: truthy_def)

lemma or_else_simps [simp]: "or_else None d = d" "or_else (Some v) d = v"
  by (simp_all add: or_else_def)

text \<open>Lower case of the letters, to evaluate literals.\<close>

lemma lower_chars:
  "lower_char CHR ''A'' = CHR ''a''" "lower_char CHR ''B'' = CHR ''b''"
  "lower_char CHR ''C'' = CHR ''c''" "lower_char CHR ''D'' = CHR ''d''"
  "lower_char CHR ''E'' = CHR ''e''" "lower_char CHR ''F'' = CHR ''f''"
  "lower_char CHR ''G'' = CHR ''g''" "lower_char CHR ''H'' = CHR ''h''"
  "lower_char CHR ''I'' = CHR ''i''" "lower_char CHR ''J'' = CHR ''j''"
  "lower_char CHR ''K'' = CHR ''k''" "lower_char CHR ''L'' = CHR ''l''"
  "lower_char CHR ''M'' = CHR ''m''" "lower_char CHR ''N'' = CHR ''n''"
  "lower_char CHR ''O'' = CHR ''o''" "lower_char CHR ''P'' = CHR ''p''"
  "lower_char CHR ''Q'' = CHR ''q''" "lower_char CHR ''R'' = CHR ''r''"
  "lower_char CHR ''S'' = CHR ''s''" "lower_char CHR ''T'' = CHR ''t''"
  "lower_char CHR ''U'' = CHR ''u''" "lower_char CHR ''V'' = CHR ''v''"
  "lower_char CHR ''W'' = CHR ''w''" "lower_char CHR ''X'' = CHR ''x''"
  "lower_char CHR ''Y'' = CHR ''y''" "lower_char CHR ''Z'' = CHR ''z''"
  "lower_char CHR ''a'' = CHR ''a''" "lower_char CHR ''b'' = CHR ''b''"
  "lower_char CHR ''c'' = CHR ''c''" "lower_char CHR ''d'' = CHR ''d''"
  "lower_char CHR ''e'' = CHR ''e''" "lower_char CHR ''f'' = CHR ''f''"
  "lower_char CHR ''g'' = CHR ''g''" "lower_char CHR ''h'' = CHR ''h''"
  "lower_char CHR ''i'' = CHR ''i''" "lower_char CHR ''j'' = CHR ''j''"
  "lower_char CHR ''k'' = CHR ''k''" "lower_char CHR ''l'' = CHR ''l''"
  "lower_char CHR ''m'' = CHR ''m''" "lower_char CHR ''n'' = CHR ''n''"
  "lower_char CHR ''o'' = CHR ''o''" "lower_char CHR ''p'' = CHR ''p''"
  "lower_char CHR ''q'' = CHR ''q''" "lower_char CHR ''r'' = CHR ''r''"
  "lower_char CHR ''s'' = CHR ''s''" "lower_char CHR ''t'' = CHR ''t''"
  "lower_char CHR ''u'' = CHR ''u''" "lower_char CHR ''v'' = CHR ''v''"
  "lower_char CHR ''w'' = CHR ''w''" "lower_char CHR ''x'' = CHR ''x''"
  "lower_char CHR ''y'' = CHR ''y''" "lower_char CHR ''z'' = CHR ''z''"
  "lower_char CHR ''0'' = CHR ''0''" "lower_char CHR ''1'' = CHR ''1''"
  "lower_char CHR ''2'' = CHR ''2''" "lower_char CHR ''3'' = CHR ''3''"
  "lower_char CHR ''4'' = CHR ''4''" "lower_char CHR ''5'' = CHR ''5''"
  "lower_char CHR ''6'' = CHR ''6''" "lower_char CHR ''7'' = CHR ''7''"
  "lower_char CHR ''8'' = CHR ''8''" "lower_char CHR ''9'' = CHR ''9''"
  "lower_char CHR ''_'' = CHR ''_''" "lower_char CHR ''-'' = CHR ''-''"
  by (simp_all add: lower_char_def char_of_def bit_0)

lemma lower_char_idem [simp]: "lower_char (lower_char c) = lower_char c"
proof -
  have "of_char (char_of (n + 32) :: char) = n + 32" if "n \<le> 90" for n :: nat
    using that by (simp add: of_char_of)
  then show ?thesis by (auto simp: lower_char_def Let_def)
qed

lemma to_lower_idem [simp]: "to_lower (to_lower s) = to_lower s"
  by (simp add: to_lower_def)

lemma to_lower_Nil [simp]: "to_lower [] = []" "to_lower s = [] \<longleftrightarrow> s = []"
  by (simp_all add: to_lower_def)

lemma upper_char_idem [simp]: "upper_char (upper_char c) = upper_char c"
proof -
  define n :: nat where "n = of_char c"
  have "n < 256" unfolding n_def using nat_of_char_less_256 by simp
  then show ?thesis by (auto simp: upper_char_def Let_def n_def)
qed

lemma to_upper_idem [simp]: "to_upper (to_upper s) = to_upper s"
  by (simp add: to_upper_def)

lemma to_upper_Nil [simp]: "to_upper [] = []" "to_upper s = [] \<longleftrightarrow> s = []"
  by (simp_all add: to_upper_def)

section \<open>Tables\<close>

text \<open>
  A table is the list of its rows. \<open>maybe_single\<close> is the \<open>data\<close> field of
  \<open>.single()\<close> and \<open>.maybeSingle()\<close>: the row when exactly one matches and \<open>null\<close>
  otherwise. \<open>first_row\<close> is \<open>.limit(1).maybeSingle()\<close>. \<open>update_where\<close> is an
  \<open>UPDATE\<close> with its \<open>WHERE\<close> clause.
\<close>

definition maybe_single :: "'r list \<Rightarrow> 'r option" where
  [tbl_defs]: "maybe_single rs = (case rs of [r] \<Rightarrow> Some r | _ \<Rightarrow> None)"

definition first_row :: "'r list \<Rightarrow> 'r option" where
  [tbl_defs]: "first_row rs = (case rs of [] \<Rightarrow> None | r # _ \<Rightarrow> Some r)"

definition update_where :: "('r \<Rightarrow> bool) \<Rightarrow> ('r \<Rightarrow> 'r) \<Rightarrow> 'r list \<Rightarrow> 'r list" where
  [tbl_defs]: "update_where p f rs = map (\<lambda>r. if p r then f r else r) rs"

lemma maybe_single_simps [simp]:
  "maybe_single [] = None" "maybe_single [r] = Some r" "maybe_single (r # r' # rs) = None"
  by (simp_all add: maybe_single_def)

lemma first_row_simps [simp]:
  "first_row [] = None" "first_row (r # rs) = Some r"
  by (simp_all add: first_row_def)

lemma maybe_single_Some [result_simps]: "maybe_single rs = Some r \<longleftrightarrow> rs = [r]"
  by (auto simp: maybe_single_def split: list.splits)

lemma maybe_single_in: "maybe_single (filter p rs) = Some r \<Longrightarrow> r \<in> set rs \<and> p r"
proof -
  assume "maybe_single (filter p rs) = Some r"
  then have "r \<in> set (filter p rs)" by (simp add: maybe_single_Some)
  then show "r \<in> set rs \<and> p r" by simp
qed

lemma first_row_in: "first_row (filter p rs) = Some r \<Longrightarrow> r \<in> set rs \<and> p r"
proof -
  assume "first_row (filter p rs) = Some r"
  then have "r \<in> set (filter p rs)" by (cases "filter p rs") auto
  then show "r \<in> set rs \<and> p r" by simp
qed

lemma first_row_None [result_simps]: "first_row rs = None \<longleftrightarrow> rs = []"
  by (cases rs) auto

lemma update_where_none:
  "(\<And>r. r \<in> set rs \<Longrightarrow> \<not> p r) \<Longrightarrow> update_where p f rs = rs"
  by (simp add: update_where_def map_idI)

lemma length_update_where [simp]: "length (update_where p f rs) = length rs"
  by (simp add: update_where_def)

lemma update_where_simps [simp]:
  "update_where p f [] = []"
  "update_where p f (r # rs) = (if p r then f r else r) # update_where p f rs"
  by (simp_all add: update_where_def)

lemma set_update_where:
  "set (update_where p f rs) = {if p r then f r else r |r. r \<in> set rs}"
  by (auto simp: update_where_def)

lemma update_whereE:
  assumes "q \<in> set (update_where p f rs)"
  obtains (changed) r where "r \<in> set rs" "p r" "q = f r" | (kept) "q \<in> set rs" "\<not> p q"
  using assms by (auto simp: set_update_where split: if_splits)

lemma update_where_clears: "(\<And>r. p r \<Longrightarrow> \<not> p (f r)) \<Longrightarrow> filter p (update_where p f rs) = []"
  by (induction rs) auto

lemma filter_update_where: "(\<And>r. p (f r) = p r) \<Longrightarrow> filter p (update_where p f rs) = map f (filter p rs)"
  by (induction rs) simp_all

lemma update_where_empty: "filter p rs = [] \<Longrightarrow> update_where p f rs = rs"
  by (induction rs) (auto split: if_splits)

lemma map_update_where:
  "(\<And>r. g (f r) = g r) \<Longrightarrow> map g (update_where p f rs) = map g rs"
  by (simp add: update_where_def)

text \<open>Rows keyed by a field without duplicates: a key selects at most one row.\<close>

lemma filter_key_single:
  assumes "distinct (map k rs)" "r \<in> set rs" "k r = x"
  shows "filter (\<lambda>q. k q = x) rs = [r]"
  using assms by (induction rs) (auto simp: filter_empty_conv image_iff)

lemma filter_key_le1: "distinct (map k rs) \<Longrightarrow> length (filter (\<lambda>q. k q = x) rs) \<le> 1"
  by (induction rs) (auto simp: filter_empty_conv image_iff)

lemma maybe_single_key:
  assumes "distinct (map k rs)"
  shows "maybe_single (filter (\<lambda>q. k q = x) rs) = find (\<lambda>q. k q = x) rs"
proof (cases "find (\<lambda>q. k q = x) rs")
  case None
  then have "filter (\<lambda>q. k q = x) rs = []" by (auto simp: find_None_iff filter_empty_conv)
  with None show ?thesis by simp
next
  case (Some r)
  then have "r \<in> set rs" "k r = x" by (auto simp: find_Some_iff)
  with assms Some show ?thesis by (simp add: filter_key_single)
qed

section \<open>Audit trail\<close>

text \<open>The columns of \<open>audit_logs\<close> the services fill in every row.\<close>

record audit_row =
  au_performed_by :: ostring
  au_action :: string
  au_table_name :: string
  au_record_id :: string

definition audit :: "ostring \<Rightarrow> string \<Rightarrow> string \<Rightarrow> string \<Rightarrow> audit_row" where
  "audit who act tbl rec =
     \<lparr>au_performed_by = who, au_action = act, au_table_name = tbl, au_record_id = rec\<rparr>"

text \<open>A field of a partial update: the new value when the request carries one.\<close>

definition patch :: "'a option \<Rightarrow> 'a \<Rightarrow> 'a" where
  [js_defs]: "patch x old = or_else x old"

definition patch_opt :: "'a option \<Rightarrow> 'a option \<Rightarrow> 'a option" where
  [js_defs]: "patch_opt x old = (case x of None \<Rightarrow> old | Some v \<Rightarrow> Some v)"

lemma patch_simps [simp]: "patch None old = old" "patch (Some v) old = v"
  "patch_opt None o' = o'" "patch_opt (Some v) o' = Some v"
  by (simp_all add: patch_def patch_opt_def)

end
