(* ===== verification/FixedOutput.thy ===== *)
theory FixedOutput imports Prelude begin

text \<open>
  Fixed-output quotes of wallet payouts in a currency other than the dollar,
  \<open>src/application/payment-orders/fiat-us-fixed-output.ts\<close>: the fee rule, the rounding
  to cents, and the gross-up that finds the amount to debit. The two correction loops of
  the source run at most 100,000 times each; they are \<open>grow\<close> and \<open>shrink\<close> with that
  number as fuel.
\<close>

section \<open>Rounding to cents and the fee rule\<close>

definition FIXED_OUTPUT_DEST_CURRENCIES :: "string list" where
  "FIXED_OUTPUT_DEST_CURRENCIES = [''EUR'', ''MXN'', ''BRL'', ''GBP'', ''COP'']"

definition isFixedOutputCurrency :: "string \<Rightarrow> bool" where
  "isFixedOutputCurrency currency \<longleftrightarrow> to_upper currency \<in> set FIXED_OUTPUT_DEST_CURRENCIES"

record fee_rule =
  rule_fee_type :: string
  rule_fee_percent :: rat
  rule_fee_fixed :: rat
  rule_min_fee :: rat
  rule_max_fee :: rat

definition round2 :: "rat \<Rightarrow> rat" where
  "round2 n = js_round (n * 100) / 100"

definition ceil2 :: "rat \<Rightarrow> rat" where
  "ceil2 n = js_ceil (n * 100 - 1 / 10 ^ 9) / 100"

definition floor2 :: "rat \<Rightarrow> rat" where
  "floor2 n = js_floor (n * 100 + 1 / 10 ^ 9) / 100"

definition computeFee :: "rat \<Rightarrow> fee_rule option \<Rightarrow> rat" where
  "computeFee amount rule =
     (case rule of
        None \<Rightarrow> 0
      | Some r \<Rightarrow>
          let amountCents = js_round (amount * 100);
              fixedCents = js_round (rule_fee_fixed r * 100);
              feeCents =
                (if rule_fee_type r = ''percent'' then js_round (amountCents * rule_fee_percent r / 100)
                 else if rule_fee_type r = ''fixed'' then fixedCents
                 else if rule_fee_type r = ''mixed''
                   then fixedCents + js_round (amountCents * rule_fee_percent r / 100)
                 else 0);
              minCents = js_round (rule_min_fee r * 100);
              maxCents = js_round (rule_max_fee r * 100);
              feeCents = (if minCents > 0 then max feeCents minCents else feeCents);
              feeCents = (if maxCents > 0 then min feeCents maxCents else feeCents)
          in feeCents / 100)"

definition bridgeMinSourceAmount :: "rat \<Rightarrow> rat \<Rightarrow> rat \<Rightarrow> rat" where
  "bridgeMinSourceAmount destinationAmount bridgeSellRate developerFee =
     ceil2 (destinationAmount / bridgeSellRate + developerFee)"

definition destinationFromSource :: "rat \<Rightarrow> rat \<Rightarrow> fee_rule option \<Rightarrow> rat" where
  "destinationFromSource sourceAmount clientRate rule =
     (let net = sourceAmount - computeFee sourceAmount rule
      in if net > 0 then floor2 (net * clientRate) else 0)"

section \<open>The gross-up\<close>

definition covers :: "fee_rule option \<Rightarrow> rat \<Rightarrow> rat \<Rightarrow> bool" where
  "covers rule netRequired s \<longleftrightarrow> round2 (s - computeFee s rule) \<ge> netRequired"

fun grow :: "nat \<Rightarrow> (rat \<Rightarrow> bool) \<Rightarrow> rat \<Rightarrow> rat" where
  "grow n c s = (if n = 0 \<or> c s then s else grow (n - 1) c (round2 (s + 1 / 100)))"

fun shrink :: "nat \<Rightarrow> (rat \<Rightarrow> bool) \<Rightarrow> rat \<Rightarrow> rat" where
  "shrink n c s =
     (if n = 0 \<or> \<not> (s > 1 / 100 \<and> c (round2 (s - 1 / 100))) then s
      else shrink (n - 1) c (round2 (s - 1 / 100)))"

declare grow.simps [simp del] shrink.simps [simp del]

definition LOOP_BOUND :: nat where
  "LOOP_BOUND = 100000"

record fixed_output_amounts =
  fo_source_amount :: rat
  fo_fee_amount :: rat
  fo_net_amount :: rat
  fo_destination_amount :: rat
  fo_client_rate :: rat
  fo_bridge_min_source_amount :: rat
  fo_fx_buffer_amount :: rat

definition rule_pct :: "fee_rule option \<Rightarrow> rat" where
  "rule_pct rule = (case rule of None \<Rightarrow> 0 | Some r \<Rightarrow>
     if rule_fee_type r \<noteq> ''fixed'' then rule_fee_percent r / 100 else 0)"

definition rule_fixed :: "fee_rule option \<Rightarrow> rat" where
  "rule_fixed rule = (case rule of None \<Rightarrow> 0 | Some r \<Rightarrow>
     if rule_fee_type r \<noteq> ''percent'' then rule_fee_fixed r else 0)"

definition first_guess :: "rat \<Rightarrow> fee_rule option \<Rightarrow> rat" where
  "first_guess netRequired rule =
     ceil2 (if rule_pct rule < 1 then (netRequired + rule_fixed rule) / (1 - rule_pct rule)
            else netRequired + rule_fixed rule)"

definition calculateFixedOutputAmounts ::
  "rat \<Rightarrow> rat \<Rightarrow> rat \<Rightarrow> fee_rule option \<Rightarrow> fixed_output_amounts result" where
  "calculateFixedOutputAmounts destinationAmount clientRate bridgeSellRate rule =
     (if \<not> (destinationAmount > 0 \<and> clientRate > 0 \<and> bridgeSellRate > 0)
      then Inl (ErrorException ''Montos o tasas'')
      else
        let netRequired = ceil2 (destinationAmount / clientRate);
            c = covers rule netRequired;
            source = grow LOOP_BOUND c (first_guess netRequired rule);
            source = shrink LOOP_BOUND c source;
            fee = computeFee source rule;
            bridgeMin = bridgeMinSourceAmount destinationAmount bridgeSellRate fee
        in Inr \<lparr>fo_source_amount = source, fo_fee_amount = fee,
                fo_net_amount = round2 (source - fee),
                fo_destination_amount = destinationAmount, fo_client_rate = clientRate,
                fo_bridge_min_source_amount = bridgeMin,
                fo_fx_buffer_amount = round2 (source - bridgeMin)\<rparr>)"

section \<open>Cents\<close>

definition cents :: "int \<Rightarrow> rat" where
  "cents n = of_int n / 100"

lemma round2_cents [simp]: "round2 (cents n) = cents n"
  by (simp add: round2_def cents_def)

lemma cents_plus: "cents n + 1 / 100 = cents (n + 1)"
  by (simp add: cents_def add_divide_distrib)

lemma cents_minus: "cents n - 1 / 100 = cents (n - 1)"
  by (simp add: cents_def diff_divide_distrib)

lemma cents_diff: "cents a - cents b = cents (a - b)"
  by (simp add: cents_def diff_divide_distrib)

lemma cents_le [simp]: "cents a \<le> cents b \<longleftrightarrow> a \<le> b"
  by (simp add: cents_def divide_le_cancel)

lemma cents_nonneg [simp]: "0 \<le> cents a \<longleftrightarrow> 0 \<le> a"
  by (simp add: cents_def zero_le_divide_iff)

lemma ceil2_cents: "ceil2 x = cents \<lceil>x * 100 - 1 / 10 ^ 9\<rceil>"
  by (simp add: ceil2_def js_ceil_def cents_def)

lemma ceil2_ge: "x - 1 / 10 ^ 11 \<le> ceil2 x"
proof -
  define z where "z = rat_of_int \<lceil>x * 100 - 1 / 10 ^ 9\<rceil>"
  have "x * 100 - 1 / 10 ^ 9 \<le> z" unfolding z_def by (rule le_of_int_ceiling)
  then have "x - 1 / 10 ^ 11 \<le> z / 100" by simp
  then show ?thesis by (simp only: ceil2_cents cents_def z_def)
qed

text \<open>The fee in cents, as an integer, with the clamps of the rule.\<close>

definition base_fee_cents :: "int \<Rightarrow> fee_rule \<Rightarrow> int" where
  "base_fee_cents a r =
     (let p = \<lfloor>of_int a * rule_fee_percent r / 100 + 1 / 2\<rfloor>;
          f = \<lfloor>rule_fee_fixed r * 100 + 1 / 2\<rfloor>
      in if rule_fee_type r = ''percent'' then p
         else if rule_fee_type r = ''fixed'' then f
         else if rule_fee_type r = ''mixed'' then f + p else 0)"

definition clamp_fee :: "int \<Rightarrow> fee_rule \<Rightarrow> int" where
  "clamp_fee fee r =
     (let mn = \<lfloor>rule_min_fee r * 100 + 1 / 2\<rfloor>; mx = \<lfloor>rule_max_fee r * 100 + 1 / 2\<rfloor>;
          fee = (if mn > 0 then max fee mn else fee)
      in if mx > 0 then min fee mx else fee)"

definition fee_cents :: "int \<Rightarrow> fee_rule option \<Rightarrow> int" where
  "fee_cents a rule = (case rule of None \<Rightarrow> 0 | Some r \<Rightarrow> clamp_fee (base_fee_cents a r) r)"

lemma of_int_max: "of_int (max a b) = (max (of_int a) (of_int b) :: rat)"
  by (simp add: max_def)

lemma of_int_min: "of_int (min a b) = (min (of_int a) (of_int b) :: rat)"
  by (simp add: min_def)

lemma computeFee_cents: "computeFee (cents a) rule = cents (fee_cents a rule)"
proof (cases rule)
  case None
  then show ?thesis by (simp add: computeFee_def fee_cents_def cents_def)
next
  case (Some r)
  have "js_round (cents a * 100) = of_int a" by (simp add: cents_def)
  then show ?thesis
    unfolding Some computeFee_def fee_cents_def cents_def clamp_fee_def base_fee_cents_def Let_def
    by (simp add: js_round_def of_int_max of_int_min)
qed

lemma covers_cents:
  "covers rule (cents n) (cents s) \<longleftrightarrow> n \<le> s - fee_cents s rule"
  by (simp add: covers_def computeFee_cents cents_diff)

section \<open>The loops\<close>

lemma grow_stop: "c s \<Longrightarrow> grow n c s = s"
  by (simp add: grow.simps)

lemma grow_cents: "\<exists>m. m \<ge> s \<and> grow n c (cents s) = cents m"
proof (induction n arbitrary: s)
  case 0
  then show ?case by (auto simp: grow.simps)
next
  case (Suc n)
  obtain m where "m \<ge> s + 1" "grow n c (cents (s + 1)) = cents m" using Suc by blast
  then show ?case
    by (cases "c (cents s)") (auto simp: grow.simps [of "Suc n"] cents_plus intro: exI [of _ m])
qed

lemma grow_finds:
  assumes "c (cents (s + int k))" "k \<le> n"
  shows "c (grow n c (cents s))"
  using assms
proof (induction n arbitrary: s k)
  case 0
  then show ?case by (simp add: grow.simps)
next
  case (Suc n)
  show ?case
  proof (cases "c (cents s)")
    case True
    then show ?thesis by (simp add: grow_stop)
  next
    case False
    with Suc.prems obtain j where k: "k = Suc j" by (cases k) auto
    with Suc.prems have "c (cents (s + 1 + int j))" "j \<le> n" by (simp_all add: add.assoc)
    with Suc.IH have "c (grow n c (cents (s + 1)))" by blast
    with False show ?thesis by (simp add: grow.simps [of "Suc n"] cents_plus)
  qed
qed

lemma shrink_cents: "\<exists>m. s - int n \<le> m \<and> m \<le> s \<and> shrink n c (cents s) = cents m"
proof (induction n arbitrary: s)
  case 0
  then show ?case by (auto simp: shrink.simps)
next
  case (Suc n)
  obtain m where "s - 1 - int n \<le> m" "m \<le> s - 1" "shrink n c (cents (s - 1)) = cents m"
    using Suc by blast
  then show ?case
    by (cases "cents s > 1 / 100 \<and> c (cents (s - 1))")
       (auto simp: shrink.simps [of "Suc n"] cents_minus intro: exI [of _ m] exI [of _ s])
qed

lemma shrink_keeps: "c s \<Longrightarrow> c (shrink n c s)"
proof (induction n arbitrary: s)
  case 0
  then show ?case by (simp add: shrink.simps)
next
  case (Suc n)
  then show ?case by (simp add: shrink.simps [of "Suc n"])
qed

text \<open>Where the walk down ends with fuel left, no smaller amount one cent below covers.\<close>

lemma shrink_minimal:
  assumes "shrink n c (cents s) = cents m" "s - m < int n"
  shows "\<not> (cents m > 1 / 100 \<and> c (cents (m - 1)))"
  using assms
proof (induction n arbitrary: s)
  case 0
  from 0 have "cents s = cents m" by (simp add: shrink.simps)
  with 0 show ?case by (simp add: cents_def)
next
  case (Suc n)
  show ?case
  proof (cases "cents s > 1 / 100 \<and> c (cents (s - 1))")
    case True
    with Suc.prems have "shrink n c (cents (s - 1)) = cents m"
      by (simp add: shrink.simps [of "Suc n"] cents_minus)
    with Suc show ?thesis by simp
  next
    case False
    with Suc.prems have "cents s = cents m"
      by (simp add: shrink.simps [of "Suc n"] cents_minus)
    then have "s = m" by (simp add: cents_def)
    with False show ?thesis by simp
  qed
qed

section \<open>The walk up always arrives\<close>

text \<open>
  The rules for which the loop bound is enough: a percentage of at most 99, no negative
  component, and a minimum fee of at most 999 (dollars). \<open>rule_ok\<close> states it.
\<close>

definition rule_ok :: "fee_rule option \<Rightarrow> bool" where
  "rule_ok rule = (case rule of None \<Rightarrow> True | Some r \<Rightarrow>
     rule_fee_type r \<in> {''percent'', ''fixed'', ''mixed''}
     \<and> 0 \<le> rule_fee_percent r \<and> rule_fee_percent r \<le> 99
     \<and> 0 \<le> rule_fee_fixed r \<and> 0 \<le> rule_min_fee r \<and> rule_min_fee r \<le> 999)"

lemma rule_pct_bounds: "rule_ok rule \<Longrightarrow> 0 \<le> rule_pct rule \<and> rule_pct rule \<le> 99 / 100"
  by (auto simp: rule_ok_def rule_pct_def split: option.splits)

lemma rule_fixed_nonneg: "rule_ok rule \<Longrightarrow> 0 \<le> rule_fixed rule"
  by (auto simp: rule_ok_def rule_fixed_def split: option.splits)

lemma fee_cents_upper:
  assumes "rule_ok rule"
  shows "fee_cents s rule \<le> 99900
    \<or> of_int (fee_cents s rule) \<le> rule_fixed rule * 100 + of_int s * rule_pct rule + 1"
proof (cases rule)
  case None
  then show ?thesis by (simp add: fee_cents_def)
next
  case (Some r)
  define P where "P = \<lfloor>of_int s * rule_fee_percent r / 100 + 1 / 2\<rfloor>"
  define F where "F = \<lfloor>rule_fee_fixed r * 100 + 1 / 2\<rfloor>"
  let ?mn = "\<lfloor>rule_min_fee r * 100 + 1 / 2\<rfloor>"
  have p: "of_int P \<le> of_int s * rule_fee_percent r / 100 + 1 / 2"
    unfolding P_def by (rule of_int_floor_le)
  have f: "of_int F \<le> rule_fee_fixed r * 100 + 1 / 2"
    unfolding F_def by (rule of_int_floor_le)
  have b: "base_fee_cents s r = (if rule_fee_type r = ''percent'' then P
      else if rule_fee_type r = ''fixed'' then F
      else if rule_fee_type r = ''mixed'' then F + P else 0)"
    by (simp only: base_fee_cents_def Let_def P_def F_def)
  have "rule_fee_type r = ''percent'' \<or> rule_fee_type r = ''fixed'' \<or> rule_fee_type r = ''mixed''"
    using assms by (simp add: Some rule_ok_def)
  then have base:
    "of_int (base_fee_cents s r) \<le> rule_fixed rule * 100 + of_int s * rule_pct rule + 1"
  proof (elim disjE)
    assume "rule_fee_type r = ''percent''"
    with p show ?thesis by (simp add: Some b rule_fixed_def rule_pct_def)
  next
    assume "rule_fee_type r = ''fixed''"
    with f show ?thesis by (simp add: Some b rule_fixed_def rule_pct_def)
  next
    assume "rule_fee_type r = ''mixed''"
    with p f show ?thesis by (simp add: Some b rule_fixed_def rule_pct_def)
  qed
  have "of_int ?mn \<le> rule_min_fee r * 100 + 1 / 2" by (rule of_int_floor_le)
  also have "\<dots> \<le> 99900 + 1 / 2" using assms by (simp add: Some rule_ok_def)
  finally have mn: "?mn \<le> 99900" by linarith
  define M where "M = ?mn"
  define X where "X = \<lfloor>rule_max_fee r * 100 + 1 / 2\<rfloor>"
  have "clamp_fee b r = (let fee = (if M > 0 then max b M else b) in if X > 0 then min fee X else fee)"
    for b by (simp only: clamp_fee_def Let_def M_def X_def)
  then have "clamp_fee b r \<le> max b 99900" for b
    using mn by (auto simp: Let_def M_def [symmetric] max_def min_def)
  then have "fee_cents s rule \<le> max (base_fee_cents s r) 99900"
    by (simp add: fee_cents_def Some)
  with base show ?thesis by (auto simp: max_def split: if_splits)
qed

lemma first_guess_lower:
  assumes "rule_ok rule" "0 \<le> N" "first_guess (cents N) rule = cents s"
  shows "N \<le> s"
    and "of_int N + rule_fixed rule * 100 - 1 \<le> of_int s * (1 - rule_pct rule)"
proof -
  let ?q = "1 - rule_pct rule"
  let ?x = "(cents N + rule_fixed rule) / ?q"
  have q: "1 / 100 \<le> ?q" "?q \<le> 1" using rule_pct_bounds [OF assms(1)] by auto
  have fx: "0 \<le> rule_fixed rule" by (rule rule_fixed_nonneg [OF assms(1)])
  have "cents s = ceil2 ?x" using assms(3) q by (simp add: first_guess_def)
  with ceil2_ge [of ?x] have lo: "?x - 1 / 10 ^ 11 \<le> cents s" by simp
  have "cents N + rule_fixed rule \<le> ?x"
  proof -
    have "(cents N + rule_fixed rule) * ?q \<le> (cents N + rule_fixed rule) * 1"
      using q fx assms(2) by (intro mult_left_mono) auto
    then show ?thesis using q by (simp add: le_divide_eq)
  qed
  with lo fx have "cents N - 1 / 10 ^ 11 \<le> cents s" by linarith
  then have "of_int N - 1 / 10 ^ 9 \<le> (of_int s :: rat)" by (simp add: cents_def)
  then have "of_int N < (of_int (s + 1) :: rat)" by simp
  then show "N \<le> s" by linarith
  have "(?x - 1 / 10 ^ 11) * ?q \<le> cents s * ?q" using lo q by (intro mult_right_mono) auto
  moreover have "?x * ?q = cents N + rule_fixed rule" using q by simp
  ultimately have "cents N + rule_fixed rule - 1 / 10 ^ 11 * ?q \<le> cents s * ?q"
    by (simp add: left_diff_distrib)
  moreover have "1 / 10 ^ 11 * ?q \<le> 1 / 100" using q by simp
  ultimately have "cents N + rule_fixed rule - 1 / 100 \<le> cents s * ?q" by linarith
  then show "of_int N + rule_fixed rule * 100 - 1 \<le> of_int s * ?q"
    by (simp add: cents_def)
qed

lemma covers_far_up:
  assumes "rule_ok rule" "0 \<le> N" "first_guess (cents N) rule = cents s"
  shows "covers rule (cents N) (cents (s + 100000))"
proof -
  let ?S = "s + 100000"
  note g = first_guess_lower [OF assms]
  have q: "1 / 100 \<le> 1 - rule_pct rule" using rule_pct_bounds [OF assms(1)] by auto
  have "N \<le> ?S - fee_cents ?S rule"
    using fee_cents_upper [OF assms(1), of ?S]
  proof
    assume "fee_cents ?S rule \<le> 99900"
    with g(1) show ?thesis by simp
  next
    assume "of_int (fee_cents ?S rule) \<le> rule_fixed rule * 100 + of_int ?S * rule_pct rule + 1"
    then have "of_int ?S - of_int (fee_cents ?S rule)
        \<ge> of_int s * (1 - rule_pct rule) + 100000 * (1 - rule_pct rule) - rule_fixed rule * 100 - 1"
      by (simp add: algebra_simps)
    with g(2) q have "of_int N \<le> (of_int (?S - fee_cents ?S rule) :: rat)" by simp
    then show ?thesis by linarith
  qed
  then show ?thesis by (simp add: covers_cents)
qed

lemma first_guess_cents: "\<exists>s. first_guess n rule = cents s"
  by (auto simp: first_guess_def ceil2_cents)

lemma source_covers:
  assumes "rule_ok rule" "0 \<le> N"
  shows "covers rule (cents N)
    (shrink LOOP_BOUND (covers rule (cents N))
      (grow LOOP_BOUND (covers rule (cents N)) (first_guess (cents N) rule)))"
proof -
  obtain s where s: "first_guess (cents N) rule = cents s" using first_guess_cents by blast
  have "covers rule (cents N) (cents (s + int 100000))"
    using covers_far_up [OF assms s] by simp
  then have "covers rule (cents N) (grow LOOP_BOUND (covers rule (cents N)) (cents s))"
    by (rule grow_finds) (simp add: LOOP_BOUND_def)
  then show ?thesis unfolding s by (rule shrink_keeps)
qed

lemma calculate_ok:
  assumes "calculateFixedOutputAmounts d cr br rule = Inr a"
  shows "0 < d" "0 < cr" "0 < br"
    and "\<exists>N m. 0 \<le> N \<and> ceil2 (d / cr) = cents N \<and> fo_source_amount a = cents m
      \<and> fo_source_amount a = shrink LOOP_BOUND (covers rule (cents N))
          (grow LOOP_BOUND (covers rule (cents N)) (first_guess (cents N) rule))"
    and "fo_fee_amount a = computeFee (fo_source_amount a) rule"
    and "fo_net_amount a = round2 (fo_source_amount a - fo_fee_amount a)"
    and "fo_destination_amount a = d" "fo_client_rate a = cr"
proof -
  show pos: "0 < d" "0 < cr" "0 < br"
    and "fo_fee_amount a = computeFee (fo_source_amount a) rule"
    and "fo_net_amount a = round2 (fo_source_amount a - fo_fee_amount a)"
    and "fo_destination_amount a = d" "fo_client_rate a = cr"
    using assms by (auto simp: calculateFixedOutputAmounts_def Let_def split: if_splits)
  define N where "N = \<lceil>d / cr * 100 - 1 / 10 ^ 9\<rceil>"
  have N: "ceil2 (d / cr) = cents N" by (simp only: ceil2_cents N_def)
  define e :: rat where "e = 1 / 10 ^ 9"
  define y where "y = d / cr"
  have "0 < y" using pos by (simp add: y_def)
  moreover have "e < 1" by (simp add: e_def)
  ultimately have "-1 < y * 100 - e" by linarith
  then have "-1 < d / cr * 100 - 1 / 10 ^ 9" unfolding e_def y_def .
  then have N0: "0 \<le> N" unfolding N_def by (simp only: zero_le_ceiling)
  obtain s where s: "first_guess (cents N) rule = cents s" using first_guess_cents by blast
  obtain u where u: "grow LOOP_BOUND (covers rule (cents N)) (cents s) = cents u"
    using grow_cents by blast
  obtain m where m: "shrink LOOP_BOUND (covers rule (cents N)) (cents u) = cents m"
    using shrink_cents by blast
  have "fo_source_amount a = shrink LOOP_BOUND (covers rule (cents N))
          (grow LOOP_BOUND (covers rule (cents N)) (first_guess (cents N) rule))"
    using assms unfolding calculateFixedOutputAmounts_def
    by (auto simp: Let_def N split: if_splits)
  with N N0 s u m show "\<exists>N m. 0 \<le> N \<and> ceil2 (d / cr) = cents N \<and> fo_source_amount a = cents m
      \<and> fo_source_amount a = shrink LOOP_BOUND (covers rule (cents N))
          (grow LOOP_BOUND (covers rule (cents N)) (first_guess (cents N) rule))"
    by auto
qed

section \<open>The walk down reaches the least amount\<close>

lemma grow_first:
  "grow n c (cents s) = cents u \<Longrightarrow> u = s \<or> \<not> c (cents (u - 1))"
proof (induction n arbitrary: s)
  case 0
  then show ?case by (simp add: grow.simps cents_def)
next
  case (Suc n)
  show ?case
  proof (cases "c (cents s)")
    case True
    with Suc.prems show ?thesis by (simp add: grow_stop cents_def)
  next
    case False
    with Suc.prems have "grow n c (cents (s + 1)) = cents u"
      by (simp add: grow.simps [of "Suc n"] cents_plus)
    with Suc.IH False show ?thesis by fastforce
  qed
qed

lemma first_guess_upper:
  assumes "rule_ok rule" "first_guess (cents N) rule = cents s"
  shows "of_int s * (1 - rule_pct rule) \<le> of_int N + rule_fixed rule * 100 + 1"
proof -
  let ?q = "1 - rule_pct rule"
  define x where "x = (cents N + rule_fixed rule) / ?q"
  have q: "1 / 100 \<le> ?q" "?q \<le> 1" using rule_pct_bounds [OF assms(1)] by auto
  have "cents s = cents \<lceil>x * 100 - 1 / 10 ^ 9\<rceil>"
    using assms(2) q by (simp only: first_guess_def ceil2_cents x_def) simp
  then have s: "s = \<lceil>x * 100 - 1 / 10 ^ 9\<rceil>" by (simp add: cents_def)
  define e :: rat where "e = 1 / 10 ^ 9"
  have "0 \<le> e" by (simp add: e_def)
  moreover have "of_int s < x * 100 - e + 1" unfolding s e_def by (rule ceiling_correct [THEN conjunct1, THEN diff_less_eq [THEN iffD1]])
  ultimately have "of_int s \<le> x * 100 + 1" by linarith
  then have "of_int s * ?q \<le> (x * 100 + 1) * ?q" using q by (intro mult_right_mono) auto
  also have "\<dots> = x * ?q * 100 + ?q" by (simp add: algebra_simps)
  also have "x * ?q = cents N + rule_fixed rule" using q by (simp add: x_def)
  finally show ?thesis using q by (simp add: cents_def)
qed

lemma fee_cents_lower:
  assumes "rule_ok rule" "\<And>r. rule = Some r \<Longrightarrow> rule_max_fee r = 0"
  shows "rule_fixed rule * 100 + of_int s * rule_pct rule - 1 \<le> of_int (fee_cents s rule)"
proof (cases rule)
  case None
  then show ?thesis by (simp add: fee_cents_def rule_fixed_def rule_pct_def)
next
  case (Some r)
  define P where "P = \<lfloor>of_int s * rule_fee_percent r / 100 + 1 / 2\<rfloor>"
  define F where "F = \<lfloor>rule_fee_fixed r * 100 + 1 / 2\<rfloor>"
  have p: "of_int s * rule_fee_percent r / 100 - 1 / 2 < of_int P" unfolding P_def by linarith
  have f: "rule_fee_fixed r * 100 - 1 / 2 < of_int F" unfolding F_def by linarith
  have b: "base_fee_cents s r = (if rule_fee_type r = ''percent'' then P
      else if rule_fee_type r = ''fixed'' then F
      else if rule_fee_type r = ''mixed'' then F + P else 0)"
    by (simp only: base_fee_cents_def Let_def P_def F_def)
  have "rule_fee_type r = ''percent'' \<or> rule_fee_type r = ''fixed'' \<or> rule_fee_type r = ''mixed''"
    using assms by (simp add: Some rule_ok_def)
  then have base:
    "rule_fixed rule * 100 + of_int s * rule_pct rule - 1 \<le> of_int (base_fee_cents s r)"
  proof (elim disjE)
    assume "rule_fee_type r = ''percent''"
    with p show ?thesis by (simp add: Some b rule_fixed_def rule_pct_def)
  next
    assume "rule_fee_type r = ''fixed''"
    with f show ?thesis by (simp add: Some b rule_fixed_def rule_pct_def)
  next
    assume "rule_fee_type r = ''mixed''"
    with p f show ?thesis by (simp add: Some b rule_fixed_def rule_pct_def)
  qed
  have "base_fee_cents s r \<le> fee_cents s rule"
    using assms(2) [OF Some] by (simp add: fee_cents_def Some clamp_fee_def Let_def)
  with base show ?thesis by (meson of_int_le_iff order_trans)
qed

lemma covers_not_far_down:
  assumes "rule_ok rule" "\<And>r. rule = Some r \<Longrightarrow> rule_max_fee r = 0"
    and "first_guess (cents N) rule = cents s" "covers rule (cents N) (cents m)"
  shows "s - m \<le> 200"
proof -
  have q: "1 / 100 \<le> 1 - rule_pct rule" using rule_pct_bounds [OF assms(1)] by auto
  have "N \<le> m - fee_cents m rule" using assms(4) by (simp add: covers_cents)
  then have "of_int N \<le> (of_int m - of_int (fee_cents m rule) :: rat)" by linarith
  with fee_cents_lower [OF assms(1,2), of m]
  have "of_int N + rule_fixed rule * 100 - 1 \<le> of_int m * (1 - rule_pct rule)"
    by (simp add: algebra_simps)
  with first_guess_upper [OF assms(1,3)]
  have "(of_int s - of_int m) * (1 - rule_pct rule) \<le> 2" by (simp add: left_diff_distrib)
  then have d2: "(of_int s - of_int m) * (1 - rule_pct rule) \<le> 2" .
  show ?thesis
  proof (cases "m \<le> s")
    case True
    then have "(of_int s - of_int m) * (1 / 100) \<le> (of_int s - of_int m) * (1 - rule_pct rule)"
      using q by (intro mult_left_mono) auto
    with d2 have "((of_int s :: rat) - of_int m) * (1 / 100) \<le> 2" by (rule order_trans [rotated])
    then have "(of_int s :: rat) - of_int m \<le> 200" by simp
    then show ?thesis by linarith
  qed simp
qed

lemma source_minimal:
  assumes "rule_ok rule" "0 \<le> N" "\<And>r. rule = Some r \<Longrightarrow> rule_max_fee r = 0"
    and "shrink LOOP_BOUND (covers rule (cents N))
          (grow LOOP_BOUND (covers rule (cents N)) (first_guess (cents N) rule)) = cents m"
  shows "\<not> (cents m > 1 / 100 \<and> covers rule (cents N) (cents (m - 1)))"
proof -
  let ?c = "covers rule (cents N)"
  obtain s where s: "first_guess (cents N) rule = cents s" using first_guess_cents by blast
  obtain u where u: "grow LOOP_BOUND ?c (cents s) = cents u" using grow_cents by blast
  have m: "shrink LOOP_BOUND ?c (cents u) = cents m" using assms(4) by (simp add: s u)
  have cm: "?c (cents m)"
    using source_covers [OF assms(1,2)] assms(4) by simp
  show ?thesis
  proof (cases "u = s")
    case True
    with covers_not_far_down [OF assms(1,3) s cm] shrink_minimal [OF m]
    show ?thesis by (simp add: LOOP_BOUND_def)
  next
    case False
    with grow_first [OF u] have "\<not> ?c (cents (u - 1))" by blast
    then have "shrink LOOP_BOUND ?c (cents u) = cents u"
      by (simp add: shrink.simps [of LOOP_BOUND] cents_minus)
    with m \<open>\<not> ?c (cents (u - 1))\<close> show ?thesis by (auto simp: cents_def)
  qed
qed

section \<open>Properties\<close>

text \<open>C18: The gross-up of a fixed-output quote is sufficient and consistent. For a sane fee
  rule and positive inputs the calculation returns; the net amount is what the client is
  debited less the fee of the rule on that debit; and it covers the destination amount at
  the client's rate, rounded up to the cent.\<close>

theorem fixed_output_covers_destination:
  assumes "rule_ok rule" "0 < d" "0 < cr" "0 < br"
  shows "\<exists>a. calculateFixedOutputAmounts d cr br rule = Inr a
    \<and> fo_fee_amount a = computeFee (fo_source_amount a) rule
    \<and> fo_net_amount a = fo_source_amount a - fo_fee_amount a
    \<and> ceil2 (d / cr) \<le> fo_net_amount a
    \<and> d - cr / 10 ^ 11 \<le> fo_net_amount a * cr"
proof -
  obtain a where a: "calculateFixedOutputAmounts d cr br rule = Inr a"
    using assms by (simp add: calculateFixedOutputAmounts_def Let_def)
  note ok = calculate_ok [OF a]
  from ok(4) obtain N m where N: "0 \<le> N" "ceil2 (d / cr) = cents N"
    and m: "fo_source_amount a = cents m"
    and src: "fo_source_amount a = shrink LOOP_BOUND (covers rule (cents N))
          (grow LOOP_BOUND (covers rule (cents N)) (first_guess (cents N) rule))" by blast
  have "covers rule (cents N) (fo_source_amount a)"
    unfolding src by (rule source_covers [OF assms(1) N(1)])
  then have net: "cents N \<le> fo_net_amount a" by (simp add: covers_def ok(5,6))
  have exact: "fo_net_amount a = fo_source_amount a - fo_fee_amount a"
    by (simp add: ok(5,6) m computeFee_cents cents_diff)
  have "d / cr - 1 / 10 ^ 11 \<le> fo_net_amount a"
    using ceil2_ge [of "d / cr"] net N(2) by simp
  then have "(d / cr - 1 / 10 ^ 11) * cr \<le> fo_net_amount a * cr"
    using assms(3) by (intro mult_right_mono) auto
  then have "d - cr / 10 ^ 11 \<le> fo_net_amount a * cr"
    using assms(3) by (simp add: left_diff_distrib)
  with a exact net N(2) ok(5) show ?thesis by auto
qed

theorem fixed_output_covers_destination_witness:
  "\<exists>a. calculateFixedOutputAmounts 100 (9 / 10) (8955 / 10000)
      (Some \<lparr>rule_fee_type = ''mixed'', rule_fee_percent = 1, rule_fee_fixed = 1,
        rule_min_fee = 0, rule_max_fee = 0\<rparr>) = Inr a
    \<and> fo_fee_amount a = computeFee (fo_source_amount a) (Some \<lparr>rule_fee_type = ''mixed'',
        rule_fee_percent = 1, rule_fee_fixed = 1, rule_min_fee = 0, rule_max_fee = 0\<rparr>)
    \<and> fo_net_amount a = fo_source_amount a - fo_fee_amount a
    \<and> ceil2 (100 / (9 / 10)) \<le> fo_net_amount a
    \<and> 100 - (9 / 10) / 10 ^ 11 \<le> fo_net_amount a * (9 / 10)"
  by (rule fixed_output_covers_destination) (simp_all add: rule_ok_def)

text \<open>Without a cap on the fee the debit is the least that covers the quote: one cent
  less would not leave the required net amount.\<close>

theorem fixed_output_debit_minimal:
  assumes "rule_ok rule" "\<And>r. rule = Some r \<Longrightarrow> rule_max_fee r = 0"
    and "calculateFixedOutputAmounts d cr br rule = Inr a"
    and "1 / 100 < fo_source_amount a"
  shows "\<not> covers rule (ceil2 (d / cr)) (fo_source_amount a - 1 / 100)"
proof -
  from calculate_ok(4) [OF assms(3)] obtain N m where N: "0 \<le> N" "ceil2 (d / cr) = cents N"
    and m: "fo_source_amount a = cents m"
    and src: "fo_source_amount a = shrink LOOP_BOUND (covers rule (cents N))
          (grow LOOP_BOUND (covers rule (cents N)) (first_guess (cents N) rule))" by blast
  with source_minimal [OF assms(1) N(1) assms(2), of m] assms(4)
  show ?thesis by (simp add: cents_minus)
qed

theorem fixed_output_debit_minimal_witness:
  "\<exists>a. calculateFixedOutputAmounts 100 1 1 None = Inr a
     \<and> \<not> covers None (ceil2 (100 / 1)) (fo_source_amount a - 1 / 100)"
proof -
  have r: "rule_ok None" by (simp add: rule_ok_def)
  obtain a where a: "calculateFixedOutputAmounts 100 1 1 None = Inr a"
    by (simp add: calculateFixedOutputAmounts_def Let_def)
  from calculate_ok(4) [OF a] obtain N m where N: "0 \<le> N" "ceil2 (100 / 1) = cents N"
    and src: "fo_source_amount a = shrink LOOP_BOUND (covers None (cents N))
          (grow LOOP_BOUND (covers None (cents N)) (first_guess (cents N) None))"
    and m: "fo_source_amount a = cents m" by blast
  have "ceil2 (100 / 1) = cents 10000" by (simp add: ceil2_def js_ceil_def cents_def ceiling_eq_iff)
  with N have n: "N = 10000" by (simp add: cents_def)
  have "covers None (cents N) (cents m)"
    using source_covers [OF r N(1)] unfolding src [symmetric] m .
  then have "10000 \<le> m" by (simp add: n covers_cents fee_cents_def)
  then have "1 / 100 < fo_source_amount a" by (simp add: m cents_def)
  with a fixed_output_debit_minimal [OF r _ a] show ?thesis by auto
qed

text \<open>With a capped percentage fee the debit can exceed what is needed by hundreds of
  dollars. The first guess ignores the cap, and the walk down stops after 100,000 cents:
  for 200,000 at rate 1, with 1 percent capped at 50 dollars, 200,050 is enough, yet more
  than 201,020 is debited.\<close>

theorem fixed_output_capped_fee_overcharges:
  "\<exists>r a. rule_ok (Some r) \<and> rule_max_fee r = 50
    \<and> calculateFixedOutputAmounts 200000 1 1 (Some r) = Inr a
    \<and> covers (Some r) (ceil2 (200000 / 1)) 200050 \<and> 201020 < fo_source_amount a"
proof -
  define r where "r = \<lparr>rule_fee_type = ''percent'', rule_fee_percent = 1, rule_fee_fixed = 0,
    rule_min_fee = 0, rule_max_fee = 50\<rparr>"
  have ok: "rule_ok (Some r)" by (simp add: rule_ok_def r_def)
  obtain a where a: "calculateFixedOutputAmounts 200000 1 1 (Some r) = Inr a"
    by (simp add: calculateFixedOutputAmounts_def Let_def)
  from calculate_ok(4) [OF a] obtain N m where N: "ceil2 (200000 / 1) = cents N"
    and m: "fo_source_amount a = cents m"
    and src: "fo_source_amount a = shrink LOOP_BOUND (covers (Some r) (cents N))
          (grow LOOP_BOUND (covers (Some r) (cents N)) (first_guess (cents N) (Some r)))" by blast
  have n: "ceil2 (200000 / 1) = cents 20000000"
    by (simp add: ceil2_def js_ceil_def cents_def ceiling_eq_iff)
  with N have N: "N = 20000000" by (simp add: cents_def)
  have guess: "first_guess (cents 20000000) (Some r) = cents 20202021"
    by (simp add: first_guess_def rule_pct_def rule_fixed_def r_def ceil2_def js_ceil_def
        cents_def ceiling_eq_iff)
  have fl: "\<lfloor>20202071 / 100 :: rat\<rfloor> = 202020" "\<lfloor>10001 / 2 :: rat\<rfloor> = 5000"
    "\<lfloor>400101 / 2 :: rat\<rfloor> = 200050"
    by (simp_all add: floor_eq_iff)
  have "covers (Some r) (cents 20000000) (cents 20202021)"
    by (simp add: covers_cents fee_cents_def r_def clamp_fee_def base_fee_cents_def Let_def fl)
  then have "fo_source_amount a = shrink LOOP_BOUND (covers (Some r) (cents N)) (cents 20202021)"
    by (simp add: src N guess grow_stop)
  then obtain m' where "20202021 - int LOOP_BOUND \<le> m'" "fo_source_amount a = cents m'"
    using shrink_cents by metis
  then have "201020 < fo_source_amount a" by (simp add: LOOP_BOUND_def cents_def)
  moreover have "covers (Some r) (cents 20000000) (cents 20005000)"
    by (simp add: covers_cents fee_cents_def r_def clamp_fee_def base_fee_cents_def Let_def fl)
  ultimately show ?thesis using ok a n
    by (intro exI [of _ r] exI [of _ a]) (simp add: r_def cents_def)
qed

end
