(* ===== verification/Overrides.thy ===== *)
theory Overrides imports Prelude begin

text \<open>
  The contract the three per-client override tables share: fees
  (\<open>customer_fee_overrides\<close>), amount limits (\<open>customer_limit_overrides\<close>) and flow
  visibility (\<open>customer_flow_overrides\<close>). Each has an active flag and a key, and each
  service refuses to create or reactivate a row while another active row has its key. The
  locale states what every operation promises of the table; its lemma is that no sequence
  of operations ever leaves two active rows for one key, so the lookup of the effective
  override is never ambiguous.
\<close>

definition unique_active :: "('r \<Rightarrow> bool) \<Rightarrow> ('r \<Rightarrow> 'k) \<Rightarrow> 'r list \<Rightarrow> bool" where
  "unique_active act key t \<longleftrightarrow> (\<forall>k. length (filter (\<lambda>r. act r \<and> key r = k) t) \<le> 1)"

definition distinct_ids :: "('r \<Rightarrow> string) \<Rightarrow> 'r list \<Rightarrow> bool" where
  "distinct_ids rid t \<longleftrightarrow> distinct (map rid t)"

lemma unique_active_Nil [simp]: "unique_active act key []"
  by (simp add: unique_active_def)

lemma unique_active_single:
  assumes "unique_active act key t" "r \<in> set t" "act r"
  shows "filter (\<lambda>q. act q \<and> key q = key r) t = [r]"
proof -
  let ?f = "filter (\<lambda>q. act q \<and> key q = key r) t"
  have "r \<in> set ?f" "length ?f \<le> 1" using assms by (auto simp: unique_active_def)
  then show ?thesis by (cases ?f) auto
qed

lemma unique_active_append:
  assumes "unique_active act key t" "filter (\<lambda>q. act q \<and> key q = key r) t = []"
  shows "unique_active act key (t @ [r])"
  using assms by (auto simp: unique_active_def)

lemma length_filter_filter: "length (filter a (filter p t)) \<le> length (filter a t)"
  by (induction t) auto

lemma unique_active_filter: "unique_active act key t \<Longrightarrow> unique_active act key (filter p t)"
  unfolding unique_active_def using length_filter_filter le_trans by blast

text \<open>Replacing one row by a row of the same key keeps uniqueness when the new row is
  inactive, or the old one was active, or no other active row has the key.\<close>

lemma unique_active_iff:
  assumes "distinct_ids rid t"
  shows "unique_active act key t \<longleftrightarrow>
    (\<forall>q\<in>set t. \<forall>q'\<in>set t. act q \<and> act q' \<and> key q = key q' \<longrightarrow> rid q = rid q')"
proof
  assume u: "unique_active act key t"
  show "\<forall>q\<in>set t. \<forall>q'\<in>set t. act q \<and> act q' \<and> key q = key q' \<longrightarrow> rid q = rid q'"
  proof (intro ballI impI)
    fix q q' assume "q \<in> set t" "q' \<in> set t" "act q \<and> act q' \<and> key q = key q'"
    with unique_active_single [OF u, of q] have "q' \<in> set [q]" by (metis (mono_tags, lifting) filter_set Set.filter_eq mem_Collect_eq)
    then show "rid q = rid q'" by simp
  qed
next
  assume a: "\<forall>q\<in>set t. \<forall>q'\<in>set t. act q \<and> act q' \<and> key q = key q' \<longrightarrow> rid q = rid q'"
  show "unique_active act key t"
    unfolding unique_active_def
  proof
    fix k
    let ?f = "filter (\<lambda>r. act r \<and> key r = k) t"
    have d: "distinct (map rid ?f)" using assms unfolding distinct_ids_def
      by (rule distinct_map_filter)
    show "length ?f \<le> 1"
    proof (cases ?f)
      case (Cons x xs)
      show ?thesis
      proof (cases xs)
        case (Cons y ys)
        with \<open>?f = x # xs\<close> have "x \<in> set ?f" "y \<in> set ?f" by simp_all
        with a have "rid x = rid y" by auto
        with d \<open>?f = x # xs\<close> Cons show ?thesis by simp
      qed (use \<open>?f = x # xs\<close> in simp)
    qed simp
  qed
qed

lemma unique_active_update:
  assumes d: "distinct_ids rid t" and u: "unique_active act key t"
    and f: "\<And>q. rid (f q) = rid q" "\<And>q. key (f q) = key q"
    and free: "\<And>q. q \<in> set t \<Longrightarrow> rid q = i \<Longrightarrow> act (f q) \<Longrightarrow>
      act q \<or> (\<forall>q'\<in>set t. act q' \<and> key q' = key q \<longrightarrow> rid q' = i)"
  shows "unique_active act key (update_where (\<lambda>q. rid q = i) f t)"
    and "distinct_ids rid (update_where (\<lambda>q. rid q = i) f t)"
proof -
  show d': "distinct_ids rid (update_where (\<lambda>q. rid q = i) f t)"
    using d by (simp add: distinct_ids_def map_update_where f)
  have u': "\<And>q q'. q \<in> set t \<Longrightarrow> q' \<in> set t \<Longrightarrow> act q \<Longrightarrow> act q' \<Longrightarrow> key q = key q'
      \<Longrightarrow> rid q = rid q'"
    using u unfolding unique_active_iff [OF d] by blast
  show "unique_active act key (update_where (\<lambda>q. rid q = i) f t)"
    unfolding unique_active_iff [OF d'] set_update_where
  proof (intro ballI impI)
    fix q q'
    assume q: "q \<in> {if rid r = i then f r else r |r. r \<in> set t}"
      and q': "q' \<in> {if rid r = i then f r else r |r. r \<in> set t}"
      and a: "act q \<and> act q' \<and> key q = key q'"
    from q obtain r where r: "r \<in> set t" "q = (if rid r = i then f r else r)" by blast
    from q' obtain r' where r': "r' \<in> set t" "q' = (if rid r' = i then f r' else r')" by blast
    have k: "key r = key r'" "rid q = rid r" "rid q' = rid r'"
      using a r(2) r'(2) by (simp_all add: f split: if_splits)
    show "rid q = rid q'"
    proof (cases "rid r = i"; cases "rid r' = i")
      assume "rid r = i" "rid r' \<noteq> i"
      with a r r' k free [of r] u' [of r r'] show ?thesis by auto
    next
      assume "rid r \<noteq> i" "rid r' = i"
      with a r r' k free [of r'] u' [of r r'] show ?thesis by auto
    next
      assume "rid r \<noteq> i" "rid r' \<noteq> i"
      with a r r' k u' [of r r'] show ?thesis by simp
    qed (simp add: k)
  qed
qed

section \<open>The two conflict checks\<close>

text \<open>
  Every table checks for a conflict with \<open>maybeSingle()\<close>, which cannot tell no row from
  several. While active rows are unique per key the answer is exact.
\<close>

lemma length_filter_mono: "(\<And>x. p x \<Longrightarrow> q x) \<Longrightarrow> length (filter p t) \<le> length (filter q t)"
  by (induction t) auto

lemma no_conflict_rows:
  assumes "unique_active act key t" "\<And>r. p r \<Longrightarrow> act r \<and> key r = k"
    and "maybe_single (filter p t) = None"
  shows "filter p t = []"
proof -
  have "length (filter p t) \<le> length (filter (\<lambda>r. act r \<and> key r = k) t)"
    by (rule length_filter_mono) (rule assms(2))
  also have "\<dots> \<le> 1" using assms(1) unfolding unique_active_def by blast
  finally show ?thesis using assms(3) by (auto simp: maybe_single_def split: list.splits)
qed

lemma guarded_update:
  assumes "unique_active act key t" "filter (\<lambda>r. rid r = i) t = [cur]"
    and "act (f cur) \<Longrightarrow> \<not> act cur \<Longrightarrow>
      maybe_single (filter (\<lambda>r. act r \<and> key r = key cur \<and> rid r \<noteq> i) t) = None"
    and "q \<in> set t" "rid q = i" "act (f q)"
  shows "act q \<or> (\<forall>q'\<in>set t. act q' \<and> key q' = key q \<longrightarrow> rid q' = i)"
proof -
  have "q \<in> set (filter (\<lambda>r. rid r = i) t)" using assms(4,5) by simp
  then have q: "q = cur" by (simp add: assms(2))
  show ?thesis
  proof (cases "act q")
    case False
    with assms(3,6) q
    have "maybe_single (filter (\<lambda>r. act r \<and> key r = key q \<and> rid r \<noteq> i) t) = None" by simp
    then have "filter (\<lambda>r. act r \<and> key r = key q \<and> rid r \<noteq> i) t = []"
      by (rule no_conflict_rows [OF assms(1), rotated]) simp
    then show ?thesis by (auto simp: filter_empty_conv)
  qed simp
qed

lemma created_row:
  assumes "unique_active act key t" "t' = t @ [r]" "rid r = i"
    and "maybe_single (filter (\<lambda>q. act q \<and> key q = key r) t) = None"
  shows "t' = t @ [r] \<and> rid r = i \<and> filter (\<lambda>q. act q \<and> key q = key r) t = []"
  using assms(2,3) no_conflict_rows [OF assms(1) _ assms(4)] by blast

lemma updated_row:
  assumes "unique_active act key t" "maybe_single (filter (\<lambda>r. rid r = i) t) = Some cur"
    and "act (f cur) \<Longrightarrow> \<not> act cur \<Longrightarrow>
      maybe_single (filter (\<lambda>r. act r \<and> key r = key cur \<and> rid r \<noteq> i) t) = None"
    and "\<And>q. rid (f q) = rid q" "\<And>q. key (f q) = key q"
    and "t' = update_where (\<lambda>r. rid r = i) f t"
  shows "\<exists>f. t' = update_where (\<lambda>q. rid q = i) f t
    \<and> (\<forall>q. rid (f q) = rid q) \<and> (\<forall>q. key (f q) = key q)
    \<and> (\<forall>q\<in>set t. rid q = i \<longrightarrow> act (f q) \<longrightarrow>
         act q \<or> (\<forall>q'\<in>set t. act q' \<and> key q' = key q \<longrightarrow> rid q' = i))"
proof -
  have cur: "filter (\<lambda>r. rid r = i) t = [cur]" using assms(2) by (simp add: maybe_single_Some)
  show ?thesis
    using guarded_update [where f = f, OF assms(1) cur] assms(3-6) by (intro exI [of _ f]) blast
qed

section \<open>The contract\<close>

locale override_table =
  fixes rid :: "'r \<Rightarrow> string"
    and key :: "'r \<Rightarrow> 'k"
    and act :: "'r \<Rightarrow> bool"
    and rows :: "'s \<Rightarrow> 'r list"
    and create :: "string \<Rightarrow> 'c \<Rightarrow> 's \<Rightarrow> 'r result \<times> 's"
    and upd :: "string \<Rightarrow> 'u \<Rightarrow> 's \<Rightarrow> 'r result \<times> 's"
    and del :: "string \<Rightarrow> 's \<Rightarrow> unit result \<times> 's"
  assumes create_ok: "unique_active act key (rows s) \<Longrightarrow> create i c s = (Inr r, s') \<Longrightarrow>
      rows s' = rows s @ [r] \<and> rid r = i \<and> filter (\<lambda>q. act q \<and> key q = key r) (rows s) = []"
    and create_err: "create i c s = (Inl e, s') \<Longrightarrow> rows s' = rows s"
    and update_ok: "distinct_ids rid (rows s) \<Longrightarrow> unique_active act key (rows s) \<Longrightarrow>
      upd i u s = (Inr r, s') \<Longrightarrow>
      \<exists>f. rows s' = update_where (\<lambda>q. rid q = i) f (rows s)
        \<and> (\<forall>q. rid (f q) = rid q) \<and> (\<forall>q. key (f q) = key q)
        \<and> (\<forall>q\<in>set (rows s). rid q = i \<longrightarrow> act (f q) \<longrightarrow>
             act q \<or> (\<forall>q'\<in>set (rows s). act q' \<and> key q' = key q \<longrightarrow> rid q' = i))"
    and update_err: "upd i u s = (Inl e, s') \<Longrightarrow> rows s' = rows s"
    and delete_rows: "del i s = (res, s') \<Longrightarrow>
      rows s' = rows s \<or> rows s' = filter (\<lambda>q. rid q \<noteq> i) (rows s)"
begin

definition ok :: "'s \<Rightarrow> bool" where
  "ok s \<longleftrightarrow> distinct_ids rid (rows s) \<and> unique_active act key (rows s)"

text \<open>One operation; ids of new rows are generated by the database, so they are unused.\<close>

inductive step :: "'s \<Rightarrow> 's \<Rightarrow> bool" where
  step_create: "i \<notin> rid ` set (rows s) \<Longrightarrow> create i c s = (res, s') \<Longrightarrow> step s s'"
| step_update: "upd i u s = (res, s') \<Longrightarrow> step s s'"
| step_delete: "del i s = (res', s') \<Longrightarrow> step s s'"

lemma create_keeps: "ok s \<Longrightarrow> i \<notin> rid ` set (rows s) \<Longrightarrow> create i c s = (res, s') \<Longrightarrow> ok s'"
proof (cases res)
  case (Inl e)
  then show "ok s \<Longrightarrow> create i c s = (res, s') \<Longrightarrow> ok s'"
    using create_err by (simp add: ok_def)
next
  case (Inr r)
  assume a: "ok s" "i \<notin> rid ` set (rows s)" "create i c s = (res, s')"
  with Inr create_ok [of s i c r s'] have "rows s' = rows s @ [r]" "rid r = i"
      "filter (\<lambda>q. act q \<and> key q = key r) (rows s) = []"
    by (simp_all add: ok_def)
  with a show "ok s'"
    by (simp add: ok_def distinct_ids_def unique_active_append)
qed

lemma update_keeps: "ok s \<Longrightarrow> upd i u s = (res, s') \<Longrightarrow> ok s'"
proof (cases res)
  case (Inl e)
  then show "ok s \<Longrightarrow> upd i u s = (res, s') \<Longrightarrow> ok s'"
    using update_err by (simp add: ok_def)
next
  case (Inr r)
  assume a: "ok s" "upd i u s = (res, s')"
  with Inr update_ok [of s i u r s'] obtain f where
    f: "rows s' = update_where (\<lambda>q. rid q = i) f (rows s)"
      "\<And>q. rid (f q) = rid q" "\<And>q. key (f q) = key q"
      "\<And>q. q \<in> set (rows s) \<Longrightarrow> rid q = i \<Longrightarrow> act (f q) \<Longrightarrow>
        act q \<or> (\<forall>q'\<in>set (rows s). act q' \<and> key q' = key q \<longrightarrow> rid q' = i)"
    unfolding ok_def by blast
  from a have d: "distinct_ids rid (rows s)" "unique_active act key (rows s)"
    by (simp_all add: ok_def)
  show "ok s'"
    unfolding ok_def f(1)
    using unique_active_update [OF d f(2) f(3), of i] f(4) by blast
qed

lemma delete_keeps: "ok s \<Longrightarrow> del i s = (res, s') \<Longrightarrow> ok s'"
  using delete_rows [of i s res s']
  by (auto simp: ok_def distinct_ids_def unique_active_filter distinct_map_filter)

lemma step_keeps: "step s s' \<Longrightarrow> ok s \<Longrightarrow> ok s'"
  by (induction rule: step.induct) (blast intro: create_keeps update_keeps delete_keeps)+

lemma steps_keep: "step\<^sup>*\<^sup>* s s' \<Longrightarrow> ok s \<Longrightarrow> ok s'"
  by (induction rule: rtranclp_induct) (auto intro: step_keeps)

text \<open>The lookup of the active override of a key finds it whenever there is one.\<close>

lemma lookup_active:
  assumes "ok s" "r \<in> set (rows s)" "act r"
  shows "maybe_single (filter (\<lambda>q. act q \<and> key q = key r) (rows s)) = Some r"
proof -
  have "filter (\<lambda>q. act q \<and> key q = key r) (rows s) = [r]"
    using assms by (intro unique_active_single) (simp_all add: ok_def)
  then show ?thesis by simp
qed

end

end
