(* ===== verification/Fees.thy ===== *)
theory Fees imports FixedOutput Overrides begin

text \<open>
  The fee service, \<open>src/application/fees/fees.service.ts\<close>: the global fee table, the
  per-client overrides, and the calculation of a fee in whole cents. A table is a list of
  rows; \<open>db_ok\<close> says whether the write of the operation succeeds; dates are day numbers;
  ids of new rows come from the database and are arguments. Notifications over web sockets
  are left out. The decimal text of a percentage is its value.
\<close>

section \<open>Tables\<close>

record fee_fields =
  ff_fee_type :: string
  ff_fee_percent :: "rat option"
  ff_fee_fixed :: "rat option"
  ff_min_fee :: "rat option"
  ff_max_fee :: "rat option"

record fee_config =
  fc_id :: string
  fc_operation_type :: string
  fc_payment_rail :: string
  fc_currency :: string
  fc_fee :: fee_fields
  fc_is_active :: bool

record fee_override =
  fov_id :: string
  fov_user_id :: string
  fov_operation_type :: string
  fov_payment_rail :: string
  fov_currency :: string
  fov_fee :: fee_fields
  fov_is_active :: bool
  fov_valid_from :: "int option"
  fov_valid_until :: "int option"
  fov_created_by :: string

record fees_db =
  fees_config :: "fee_config list"
  customer_fee_overrides :: "fee_override list"
  fees_audit :: "audit_row list"

section \<open>Resolution of the applicable fee\<close>

definition override_matches ::
  "int \<Rightarrow> string \<Rightarrow> string \<Rightarrow> string \<Rightarrow> string \<Rightarrow> fee_override \<Rightarrow> bool" where
  "override_matches today userId operationType rail cur r \<longleftrightarrow>
     fov_user_id r = userId \<and> fov_operation_type r = operationType
     \<and> fov_payment_rail r = rail \<and> fov_currency r = cur \<and> fov_is_active r
     \<and> (case fov_valid_from r of None \<Rightarrow> True | Some d \<Rightarrow> d \<le> today)
     \<and> (case fov_valid_until r of None \<Rightarrow> True | Some d \<Rightarrow> today \<le> d)"

definition config_matches :: "string \<Rightarrow> string \<Rightarrow> string \<Rightarrow> fee_config \<Rightarrow> bool" where
  "config_matches operationType rail cur r \<longleftrightarrow>
     fc_operation_type r = operationType \<and> fc_payment_rail r = rail \<and> fc_currency r = cur
     \<and> fc_is_active r"

text \<open>The query every method starts with: the client's override, then the global row.\<close>

definition find_override ::
  "int \<Rightarrow> string \<Rightarrow> string \<Rightarrow> string \<Rightarrow> string \<Rightarrow> fees_db \<Rightarrow> fee_override option" where
  "find_override today userId operationType paymentRail currency db =
     maybe_single (filter (override_matches today userId operationType (to_lower paymentRail)
       (to_lower currency)) (customer_fee_overrides db))"

definition find_global :: "string \<Rightarrow> string \<Rightarrow> string \<Rightarrow> fees_db \<Rightarrow> fee_config option" where
  "find_global operationType paymentRail currency db =
     maybe_single (filter (config_matches operationType (to_lower paymentRail)
       (to_lower currency)) (fees_config db))"

definition resolve_fee ::
  "int \<Rightarrow> string \<Rightarrow> string \<Rightarrow> string \<Rightarrow> string \<Rightarrow> fees_db \<Rightarrow> fee_fields option" where
  "resolve_fee today userId operationType paymentRail currency db =
     (case find_override today userId operationType paymentRail currency db of
        Some r \<Rightarrow> Some (fov_fee r)
      | None \<Rightarrow> map_option fc_fee (find_global operationType paymentRail currency db))"

section \<open>Calculation\<close>

record fee_amounts =
  fee_amount :: rat
  net_amount :: rat

definition calculateFee ::
  "int \<Rightarrow> string \<Rightarrow> string \<Rightarrow> string \<Rightarrow> string \<Rightarrow> rat \<Rightarrow> fees_db \<Rightarrow> fee_amounts" where
  "calculateFee today userId operationType paymentRail currency amount db =
     (let feeConfig = resolve_fee today userId operationType paymentRail currency db in
      case feeConfig of
        None \<Rightarrow> \<lparr>fee_amount = 0, net_amount = amount\<rparr>
      | Some c \<Rightarrow>
          let amountCents = js_round (amount * 100);
              feePercent = or_else (ff_fee_percent c) 0;
              feeFixedCents = js_round (or_else (ff_fee_fixed c) 0 * 100);
              feeCents =
                (if ff_fee_type c = ''percent'' then js_round (amountCents * feePercent / 100)
                 else if ff_fee_type c = ''fixed'' then feeFixedCents
                 else if ff_fee_type c = ''mixed''
                   then feeFixedCents + js_round (amountCents * feePercent / 100)
                 else 0);
              minFeeCents = js_round (or_else (ff_min_fee c) 0 * 100);
              maxFeeCents = js_round (or_else (ff_max_fee c) 0 * 100);
              feeCents = (if minFeeCents > 0 then max feeCents minFeeCents else feeCents);
              feeCents = (if maxFeeCents > 0 then min feeCents maxFeeCents else feeCents)
          in \<lparr>fee_amount = feeCents / 100, net_amount = (amountCents - feeCents) / 100\<rparr>)"

record fee_preview = fee_amounts +
  pv_fee_type :: string
  pv_fee_percent :: rat
  pv_fee_fixed :: rat
  pv_min_fee :: rat
  pv_max_fee :: rat
  pv_is_override :: bool

definition previewFee ::
  "int \<Rightarrow> string \<Rightarrow> string \<Rightarrow> string \<Rightarrow> string \<Rightarrow> rat \<Rightarrow> fees_db \<Rightarrow> fee_preview" where
  "previewFee today userId operationType paymentRail currency amount db =
     (let override = find_override today userId operationType paymentRail currency db;
          global = find_global operationType paymentRail currency db;
          feeConfig = (case override of Some r \<Rightarrow> Some (fov_fee r) | None \<Rightarrow> map_option fc_fee global)
      in case feeConfig of
        None \<Rightarrow> \<lparr>fee_amount = 0, net_amount = amount, pv_fee_type = ''percent'',
          pv_fee_percent = 0, pv_fee_fixed = 0, pv_min_fee = 0, pv_max_fee = 0,
          pv_is_override = False\<rparr>
      | Some c \<Rightarrow>
          let amountCents = js_round (amount * 100);
              feePercent = or_else (ff_fee_percent c) 0;
              feeFixedCents = js_round (or_else (ff_fee_fixed c) 0 * 100);
              feeCents =
                (if ff_fee_type c = ''percent'' then js_round (amountCents * feePercent / 100)
                 else if ff_fee_type c = ''fixed'' then feeFixedCents
                 else if ff_fee_type c = ''mixed''
                   then feeFixedCents + js_round (amountCents * feePercent / 100)
                 else 0);
              minFeeCents = js_round (or_else (ff_min_fee c) 0 * 100);
              maxFeeCents = js_round (or_else (ff_max_fee c) 0 * 100);
              feeCents = (if minFeeCents > 0 then max feeCents minFeeCents else feeCents);
              feeCents = (if maxFeeCents > 0 then min feeCents maxFeeCents else feeCents)
          in \<lparr>fee_amount = feeCents / 100, net_amount = (amountCents - feeCents) / 100,
              pv_fee_type = ff_fee_type c, pv_fee_percent = or_else (ff_fee_percent c) 0,
              pv_fee_fixed = or_else (ff_fee_fixed c) 0, pv_min_fee = or_else (ff_min_fee c) 0,
              pv_max_fee = or_else (ff_max_fee c) 0, pv_is_override = (override \<noteq> None)\<rparr>)"

definition getFeePercent ::
  "int \<Rightarrow> string \<Rightarrow> string \<Rightarrow> string \<Rightarrow> string \<Rightarrow> fees_db \<Rightarrow> rat" where
  "getFeePercent today userId operationType paymentRail currency db =
     (case Option.bind (find_override today userId operationType paymentRail currency db)
             (\<lambda>r. ff_fee_percent (fov_fee r)) of
        Some p \<Rightarrow> p
      | None \<Rightarrow> or_else (Option.bind (find_global operationType paymentRail currency db)
             (\<lambda>r. ff_fee_percent (fc_fee r))) 0)"

definition getFeeConfigRow ::
  "int \<Rightarrow> string \<Rightarrow> string \<Rightarrow> string \<Rightarrow> string \<Rightarrow> fees_db \<Rightarrow> fee_rule option" where
  "getFeeConfigRow today userId operationType paymentRail currency db =
     map_option (\<lambda>c. \<lparr>rule_fee_type = ff_fee_type c,
         rule_fee_percent = or_else (ff_fee_percent c) 0,
         rule_fee_fixed = or_else (ff_fee_fixed c) 0,
         rule_min_fee = or_else (ff_min_fee c) 0,
         rule_max_fee = or_else (ff_max_fee c) 0\<rparr>)
       (resolve_fee today userId operationType paymentRail currency db)"

definition assertFeeConfigured ::
  "int \<Rightarrow> string \<Rightarrow> string \<Rightarrow> string \<Rightarrow> string \<Rightarrow> fees_db \<Rightarrow> unit result" where
  "assertFeeConfigured today userId operationType paymentRail currency db =
     (if find_override today userId operationType paymentRail currency db \<noteq> None then Inr ()
      else if find_global operationType paymentRail currency db \<noteq> None then Inr ()
      else Inl (BadRequestException ''''))"

section \<open>Global fees: create, update, delete\<close>

record create_fee_dto =
  cf_operation_type :: string
  cf_payment_rail :: string
  cf_currency :: string
  cf_fee :: fee_fields

record update_fee_dto =
  uf_fee_type :: "string option"
  uf_fee_percent :: "rat option"
  uf_fee_fixed :: "rat option"
  uf_min_fee :: "rat option"
  uf_max_fee :: "rat option"
  uf_is_active :: "bool option"

definition createFee ::
  "bool \<Rightarrow> string \<Rightarrow> create_fee_dto \<Rightarrow> string \<Rightarrow> fees_db \<Rightarrow> fee_config result \<times> fees_db" where
  "createFee db_ok new_id dto actorId db =
     (let row = \<lparr>fc_id = new_id, fc_operation_type = cf_operation_type dto,
                 fc_payment_rail = to_lower (cf_payment_rail dto),
                 fc_currency = cf_currency dto, fc_fee = cf_fee dto, fc_is_active = True\<rparr>
      in if \<not> db_ok then (Inl (DbException ''''), db)
         else (Inr row, db\<lparr>fees_config := fees_config db @ [row],
                 fees_audit := fees_audit db
                   @ [audit (Some actorId) ''FEE_CONFIG_CREATED'' ''fees_config'' new_id]\<rparr>))"

definition patch_fee :: "update_fee_dto \<Rightarrow> fee_fields \<Rightarrow> fee_fields" where
  "patch_fee d f = f\<lparr>ff_fee_type := patch (uf_fee_type d) (ff_fee_type f),
     ff_fee_percent := patch_opt (uf_fee_percent d) (ff_fee_percent f),
     ff_fee_fixed := patch_opt (uf_fee_fixed d) (ff_fee_fixed f),
     ff_min_fee := patch_opt (uf_min_fee d) (ff_min_fee f),
     ff_max_fee := patch_opt (uf_max_fee d) (ff_max_fee f)\<rparr>"

definition updateFee ::
  "bool \<Rightarrow> string \<Rightarrow> update_fee_dto \<Rightarrow> string \<Rightarrow> fees_db \<Rightarrow> fee_config result \<times> fees_db" where
  "updateFee db_ok feeId dto actorId db =
     (if \<not> db_ok then (Inl (NotFoundException ''''), db)
      else
        let tbl = update_where (\<lambda>r. fc_id r = feeId)
              (\<lambda>r. r\<lparr>fc_fee := patch_fee dto (fc_fee r),
                     fc_is_active := patch (uf_is_active dto) (fc_is_active r)\<rparr>)
              (fees_config db)
        in case maybe_single (filter (\<lambda>r. fc_id r = feeId) tbl) of
             None \<Rightarrow> (Inl (NotFoundException ''''), db\<lparr>fees_config := tbl\<rparr>)
           | Some r \<Rightarrow> (Inr r, db\<lparr>fees_config := tbl, fees_audit := fees_audit db
               @ [audit (Some actorId) ''FEE_CONFIG_UPDATED'' ''fees_config'' feeId]\<rparr>))"

definition deleteFee :: "bool \<Rightarrow> string \<Rightarrow> string \<Rightarrow> fees_db \<Rightarrow> unit result \<times> fees_db" where
  "deleteFee db_ok feeId actorId db =
     (case maybe_single (filter (\<lambda>r. fc_id r = feeId) (fees_config db)) of
        None \<Rightarrow> (Inl (NotFoundException ''''), db)
      | Some _ \<Rightarrow>
          if \<not> db_ok then (Inl (BadRequestException ''''), db)
          else (Inr (), db\<lparr>fees_config := filter (\<lambda>r. fc_id r \<noteq> feeId) (fees_config db),
                  fees_audit := fees_audit db
                    @ [audit (Some actorId) ''FEE_CONFIG_DELETED'' ''fees_config'' feeId]\<rparr>))"

section \<open>Overrides of a client\<close>

record create_override_dto =
  co_user_id :: string
  co_operation_type :: string
  co_payment_rail :: string
  co_currency :: string
  co_fee :: fee_fields
  co_valid_from :: "int option"
  co_valid_until :: "int option"

record update_override_dto =
  uo_fee :: update_fee_dto
  uo_is_active :: "bool option"
  uo_valid_until :: "int option"

definition override_key :: "fee_override \<Rightarrow> string \<times> string \<times> string \<times> string" where
  "override_key r =
     (fov_user_id r, fov_operation_type r, fov_payment_rail r, fov_currency r)"

definition getOverrides :: "string \<Rightarrow> fees_db \<Rightarrow> fee_override list" where
  "getOverrides userId db = filter (\<lambda>r. fov_user_id r = userId) (customer_fee_overrides db)"

definition createOverride ::
  "bool \<Rightarrow> int \<Rightarrow> string \<Rightarrow> create_override_dto \<Rightarrow> string \<Rightarrow> fees_db
    \<Rightarrow> fee_override result \<times> fees_db" where
  "createOverride db_ok today new_id dto actorId db =
     (let rail = to_lower (co_payment_rail dto);
          cur = to_lower (co_currency dto);
          conflict = maybe_single (filter (\<lambda>r. fov_is_active r
            \<and> override_key r = (co_user_id dto, co_operation_type dto, rail, cur))
            (customer_fee_overrides db));
          row = \<lparr>fov_id = new_id, fov_user_id = co_user_id dto,
            fov_operation_type = co_operation_type dto, fov_payment_rail = rail,
            fov_currency = cur, fov_fee = co_fee dto, fov_is_active = True,
            fov_valid_from = Some (or_else (co_valid_from dto) today),
            fov_valid_until = co_valid_until dto, fov_created_by = actorId\<rparr>
      in if conflict \<noteq> None then (Inl (BadRequestException ''''), db)
         else if \<not> db_ok then (Inl (DbException ''''), db)
         else (Inr row, db\<lparr>customer_fee_overrides := customer_fee_overrides db @ [row],
            fees_audit := fees_audit db
              @ [audit (Some actorId) ''FEE_OVERRIDE_CREATED'' ''customer_fee_overrides'' new_id]\<rparr>))"

definition patch_override :: "update_override_dto \<Rightarrow> fee_override \<Rightarrow> fee_override" where
  "patch_override d r = r\<lparr>fov_fee := patch_fee (uo_fee d) (fov_fee r),
     fov_is_active := patch (uo_is_active d) (fov_is_active r),
     fov_valid_until := patch_opt (uo_valid_until d) (fov_valid_until r)\<rparr>"

definition updateOverride ::
  "bool \<Rightarrow> string \<Rightarrow> update_override_dto \<Rightarrow> string \<Rightarrow> fees_db
    \<Rightarrow> fee_override result \<times> fees_db" where
  "updateOverride db_ok overrideId dto actorId db =
     (case maybe_single (filter (\<lambda>r. fov_id r = overrideId) (customer_fee_overrides db)) of
        None \<Rightarrow> (Inl (NotFoundException ''''), db)
      | Some current \<Rightarrow>
          let conflict = maybe_single (filter (\<lambda>r. fov_is_active r
                \<and> override_key r = override_key current \<and> fov_id r \<noteq> overrideId)
                (customer_fee_overrides db))
          in if uo_is_active dto = Some True \<and> \<not> fov_is_active current \<and> conflict \<noteq> None
             then (Inl (BadRequestException ''''), db)
             else if \<not> db_ok then (Inl (BadRequestException ''''), db)
             else
               (Inr (patch_override dto current),
                db\<lparr>customer_fee_overrides := update_where (\<lambda>r. fov_id r = overrideId)
                     (patch_override dto) (customer_fee_overrides db),
                   fees_audit := fees_audit db @ [audit (Some actorId) ''FEE_OVERRIDE_UPDATED''
                     ''customer_fee_overrides'' overrideId]\<rparr>))"

definition deleteOverride :: "bool \<Rightarrow> string \<Rightarrow> string \<Rightarrow> fees_db \<Rightarrow> unit result \<times> fees_db" where
  "deleteOverride db_ok overrideId actorId db =
     (case maybe_single (filter (\<lambda>r. fov_id r = overrideId) (customer_fee_overrides db)) of
        None \<Rightarrow> (Inl (NotFoundException ''''), db)
      | Some _ \<Rightarrow>
          if \<not> db_ok then (Inl (BadRequestException ''''), db)
          else (Inr (), db\<lparr>customer_fee_overrides :=
                  filter (\<lambda>r. fov_id r \<noteq> overrideId) (customer_fee_overrides db),
                fees_audit := fees_audit db @ [audit (Some actorId) ''FEE_OVERRIDE_DELETED''
                  ''customer_fee_overrides'' overrideId]\<rparr>))"

text \<open>
  \<open>initOperationOverrides\<close>: one inactive zero-percent override per configured rail and
  currency the client has none for. The keys that exist are read once, before the loop.
  \<open>ids\<close> and \<open>db_ok\<close> give the id and the outcome of the insert of each fee row.
\<close>

definition init_override_row ::
  "int \<Rightarrow> string \<Rightarrow> string \<Rightarrow> string \<Rightarrow> string \<Rightarrow> fee_config \<Rightarrow> fee_override" where
  "init_override_row today userId operationType actorId new_id feeRow =
     \<lparr>fov_id = new_id, fov_user_id = userId, fov_operation_type = operationType,
      fov_payment_rail = to_lower (fc_payment_rail feeRow),
      fov_currency = to_lower (fc_currency feeRow),
      fov_fee = \<lparr>ff_fee_type = ''percent'', ff_fee_percent = Some 0, ff_fee_fixed = None,
        ff_min_fee = None, ff_max_fee = None\<rparr>,
      fov_is_active = False, fov_valid_from = Some today, fov_valid_until = None,
      fov_created_by = actorId\<rparr>"

definition existing_keys :: "string \<Rightarrow> string \<Rightarrow> fees_db \<Rightarrow> (string \<times> string) set" where
  "existing_keys userId operationType db =
     (\<lambda>r. (to_lower (fov_currency r), to_lower (fov_payment_rail r))) `
       set (filter (\<lambda>r. fov_user_id r = userId \<and> fov_operation_type r = operationType)
         (customer_fee_overrides db))"

fun init_loop ::
  "(fee_config \<Rightarrow> bool) \<Rightarrow> (fee_config \<Rightarrow> string) \<Rightarrow> (string \<times> string) set
    \<Rightarrow> (string \<Rightarrow> fee_config \<Rightarrow> fee_override) \<Rightarrow> fee_config list \<Rightarrow> fee_override list \<times> nat" where
  "init_loop db_ok ids keys mk [] = ([], 0)"
| "init_loop db_ok ids keys mk (f # fs) =
     (let (rows, n) = init_loop db_ok ids keys mk fs
      in if (to_lower (fc_currency f), to_lower (fc_payment_rail f)) \<in> keys \<or> \<not> db_ok f
         then (rows, n)
         else (mk (ids f) f # rows, Suc n))"

definition initOperationOverrides ::
  "(fee_config \<Rightarrow> bool) \<Rightarrow> int \<Rightarrow> (fee_config \<Rightarrow> string) \<Rightarrow> string \<Rightarrow> string \<Rightarrow> string \<Rightarrow> fees_db
    \<Rightarrow> (nat \<times> nat \<times> fee_override list) result \<times> fees_db" where
  "initOperationOverrides db_ok today ids userId operationType actorId db =
     (let feeRows = filter (\<lambda>r. fc_operation_type r = operationType) (fees_config db)
      in if feeRows = [] then (Inl (NotFoundException ''''), db)
         else
           let (rows, created) = init_loop db_ok ids (existing_keys userId operationType db)
                 (init_override_row today userId operationType actorId) feeRows;
               tbl = customer_fee_overrides db @ rows;
               log = (if created > 0 then [audit (Some actorId) ''FEE_OVERRIDES_INITIALIZED''
                        ''customer_fee_overrides'' ''''] else [])
           in (Inr (created, length feeRows - created,
                 filter (\<lambda>r. fov_user_id r = userId \<and> fov_operation_type r = operationType) tbl),
               db\<lparr>customer_fee_overrides := tbl, fees_audit := fees_audit db @ log\<rparr>))"

section \<open>The overrides obey their contract\<close>

lemma override_create_law:
  assumes "unique_active fov_is_active override_key (customer_fee_overrides s)"
    and "createOverride ok today i dto actor s = (Inr r, s')"
  shows "customer_fee_overrides s' = customer_fee_overrides s @ [r] \<and> fov_id r = i
    \<and> filter (\<lambda>q. fov_is_active q \<and> override_key q = override_key r) (customer_fee_overrides s) = []"
proof -
  let ?t = "customer_fee_overrides s"
  from assms(2) have r: "customer_fee_overrides s' = ?t @ [r]" "fov_id r = i"
    and none: "maybe_single (filter (\<lambda>q. fov_is_active q \<and> override_key q = override_key r) ?t) = None"
    by (auto simp: createOverride_def Let_def override_key_def split: if_splits)
  with no_conflict_rows [OF assms(1) _ none] show ?thesis by blast
qed

lemma override_update_law:
  assumes "distinct_ids fov_id (customer_fee_overrides s)"
    and "unique_active fov_is_active override_key (customer_fee_overrides s)"
    and "updateOverride ok i dto actor s = (Inr r, s')"
  shows "\<exists>f. customer_fee_overrides s' =
      update_where (\<lambda>q. fov_id q = i) f (customer_fee_overrides s)
    \<and> (\<forall>q. fov_id (f q) = fov_id q) \<and> (\<forall>q. override_key (f q) = override_key q)
    \<and> (\<forall>q\<in>set (customer_fee_overrides s). fov_id q = i \<longrightarrow> fov_is_active (f q) \<longrightarrow>
         fov_is_active q \<or> (\<forall>q'\<in>set (customer_fee_overrides s).
           fov_is_active q' \<and> override_key q' = override_key q \<longrightarrow> fov_id q' = i))"
proof -
  let ?t = "customer_fee_overrides s"
  from assms(3) obtain cur where c: "maybe_single (filter (\<lambda>r. fov_id r = i) ?t) = Some cur"
    by (cases "maybe_single (filter (\<lambda>r. fov_id r = i) ?t)") (auto simp: updateOverride_def)
  then have cur: "filter (\<lambda>r. fov_id r = i) ?t = [cur]" by (simp add: maybe_single_Some)
  from assms(3) c
  have t': "customer_fee_overrides s' = update_where (\<lambda>r. fov_id r = i) (patch_override dto) ?t"
    and chk: "uo_is_active dto = Some True \<Longrightarrow> \<not> fov_is_active cur \<Longrightarrow>
      maybe_single (filter (\<lambda>r. fov_is_active r \<and> override_key r = override_key cur
        \<and> fov_id r \<noteq> i) ?t) = None"
    by (auto simp: updateOverride_def Let_def split: if_splits)
  note free = guarded_update [where f = "patch_override dto", OF assms(2) cur]
  have "uo_is_active dto = Some True"
    if "fov_is_active (patch_override dto cur)" "\<not> fov_is_active cur"
    using that by (cases "uo_is_active dto") (auto simp: patch_override_def)
  with chk free t' show ?thesis
    by (intro exI [of _ "patch_override dto"]) (auto simp: patch_override_def override_key_def)
qed

interpretation fee_ov: override_table fov_id override_key fov_is_active customer_fee_overrides
  "\<lambda>i (ok, today, dto, actor) s. createOverride ok today i dto actor s"
  "\<lambda>i (ok, dto, actor) s. updateOverride ok i dto actor s"
  "\<lambda>i s. deleteOverride ok i actor s" for ok actor
proof (unfold_locales, goal_cases)
  case (1 s i c r s')
  then show ?case using override_create_law by (cases c) auto
next
  case (2 i c s e s')
  then show ?case by (auto simp: createOverride_def Let_def split: if_splits prod.splits)
next
  case (3 s i u r s')
  then show ?case using override_update_law by (cases u) auto
next
  case (4 i u s e s')
  then show ?case
    by (auto simp: updateOverride_def Let_def split: if_splits prod.splits option.splits)
next
  case (5 i s res s')
  then show ?case by (auto simp: deleteOverride_def split: option.splits if_splits)
qed

section \<open>Lemmas on the calculation\<close>

lemma resolve_rule:
  "getFeeConfigRow today u op rail cur db = None \<longleftrightarrow> resolve_fee today u op rail cur db = None"
  by (simp add: getFeeConfigRow_def)

lemma calculateFee_computeFee:
  "fee_amount (calculateFee today u op rail cur amount db) =
     computeFee amount (getFeeConfigRow today u op rail cur db)"
  by (cases "resolve_fee today u op rail cur db")
     (simp_all add: calculateFee_def getFeeConfigRow_def computeFee_def Let_def)

lemma calculateFee_net:
  "net_amount (calculateFee today u op rail cur amount db) =
     (case resolve_fee today u op rail cur db of None \<Rightarrow> amount
      | Some _ \<Rightarrow> round2 amount - fee_amount (calculateFee today u op rail cur amount db))"
  by (cases "resolve_fee today u op rail cur db")
     (simp_all add: calculateFee_def round2_def Let_def diff_divide_distrib)

lemma computeFee_nonneg:
  assumes "0 \<le> amount" "0 \<le> rule_fee_percent r" "0 \<le> rule_fee_fixed r"
  shows "0 \<le> computeFee amount (Some r)"
proof -
  have "0 \<le> js_round (js_round (amount * 100) * rule_fee_percent r / 100)"
    "0 \<le> js_round (rule_fee_fixed r * 100)"
    using assms by (auto intro!: js_round_nonneg mult_nonneg_nonneg divide_nonneg_nonneg)
  then show ?thesis by (auto simp: computeFee_def Let_def)
qed

lemma computeFee_upper:
  "0 < js_round (rule_max_fee r * 100) \<Longrightarrow> computeFee amount (Some r) \<le> round2 (rule_max_fee r)"
  by (auto simp: computeFee_def Let_def round2_def divide_right_mono)

lemma computeFee_lower:
  "js_round (rule_max_fee r * 100) \<le> 0 \<or> rule_min_fee r \<le> rule_max_fee r \<Longrightarrow>
   0 < js_round (rule_min_fee r * 100) \<Longrightarrow> round2 (rule_min_fee r) \<le> computeFee amount (Some r)"
  using js_round_mono [of "rule_min_fee r * 100" "rule_max_fee r * 100"]
  by (auto simp: computeFee_def Let_def round2_def divide_right_mono)

end
