(* ===== verification/FeeProperties.thy ===== *)
theory FeeProperties imports Fees begin

text \<open>
  What the fee service guarantees: the tables its operations can reach, and the properties
  of the calculation and of the overrides on them.
\<close>

section \<open>Reachable fee tables\<close>

text \<open>One call of any operation that writes the fee tables, with any outcome.\<close>

inductive fees_step :: "fees_db \<Rightarrow> fees_db \<Rightarrow> bool" where
  fs_create: "createFee ok i dto actor db = (res, db') \<Longrightarrow> fees_step db db'"
| fs_update: "updateFee ok i udto actor db = (res, db') \<Longrightarrow> fees_step db db'"
| fs_delete: "deleteFee ok i actor db = (ures, db') \<Longrightarrow> fees_step db db'"
| fs_create_override: "i \<notin> fov_id ` set (customer_fee_overrides db) \<Longrightarrow>
    createOverride ok today i cdto actor db = (ores, db') \<Longrightarrow> fees_step db db'"
| fs_update_override: "updateOverride ok i uodto actor db = (ores, db') \<Longrightarrow> fees_step db db'"
| fs_delete_override: "deleteOverride ok i actor db = (ures, db') \<Longrightarrow> fees_step db db'"
| fs_init: "inj_on ids (set (fees_config db)) \<Longrightarrow> distinct (fees_config db) \<Longrightarrow>
    ids ` set (fees_config db) \<inter> fov_id ` set (customer_fee_overrides db) = {} \<Longrightarrow>
    initOperationOverrides oks today ids u op actor db = (ires, db') \<Longrightarrow> fees_step db db'"

text \<open>The invariant: unique ids, one active override per key, lower-case keys.\<close>

definition lower_keys :: "fees_db \<Rightarrow> bool" where
  "lower_keys db \<longleftrightarrow> (\<forall>r\<in>set (customer_fee_overrides db).
     to_lower (fov_payment_rail r) = fov_payment_rail r
     \<and> to_lower (fov_currency r) = fov_currency r)"

definition fees_inv :: "fees_db \<Rightarrow> bool" where
  "fees_inv db \<longleftrightarrow> distinct_ids fov_id (customer_fee_overrides db)
     \<and> unique_active fov_is_active override_key (customer_fee_overrides db) \<and> lower_keys db"

lemma fees_inv_ok: "fees_inv db \<longleftrightarrow> fee_ov.ok db \<and> lower_keys db"
  by (auto simp: fees_inv_def fee_ov.ok_def)

lemma fees_inv_cong:
  "customer_fee_overrides db' = customer_fee_overrides db \<Longrightarrow> fees_inv db' \<longleftrightarrow> fees_inv db"
  by (simp add: fees_inv_def lower_keys_def)

lemma init_loop_rows:
  "init_loop oks ids keys mk fs = (rows, n) \<Longrightarrow>
   rows = map (\<lambda>f. mk (ids f) f) (filter (\<lambda>f. \<not> ((to_lower (fc_currency f), to_lower (fc_payment_rail f))
     \<in> keys \<or> \<not> oks f)) fs) \<and> n = length rows"
  by (induction fs arbitrary: rows n) (auto simp: Let_def split: prod.splits if_splits)

lemma init_overrides_rows:
  assumes "initOperationOverrides oks today ids u op actor db = (res, db')"
  obtains fs where "set fs \<subseteq> set (fees_config db)" "distinct (fees_config db) \<longrightarrow> distinct fs"
    "customer_fee_overrides db' = customer_fee_overrides db
       @ map (\<lambda>f. init_override_row today u op actor (ids f) f) fs"
    "fees_config db' = fees_config db"
proof -
  let ?feeRows = "filter (\<lambda>r. fc_operation_type r = op) (fees_config db)"
  obtain rows n where l: "init_loop oks ids (existing_keys u op db)
      (init_override_row today u op actor) ?feeRows = (rows, n)" by fastforce
  show thesis
  proof (cases "?feeRows = []")
    case True
    with assms have "db' = db" by (simp add: initOperationOverrides_def)
    with that [of "[]"] show ?thesis by simp
  next
    case False
    with assms l have "customer_fee_overrides db' = customer_fee_overrides db @ rows"
      "fees_config db' = fees_config db"
      by (auto simp: initOperationOverrides_def Let_def)
    moreover define fs where "fs = filter (\<lambda>f. \<not> ((to_lower (fc_currency f), to_lower (fc_payment_rail f))
        \<in> existing_keys u op db \<or> \<not> oks f)) ?feeRows"
    ultimately have "customer_fee_overrides db' = customer_fee_overrides db
        @ map (\<lambda>f. init_override_row today u op actor (ids f) f) fs" "fees_config db' = fees_config db"
      using init_loop_rows [OF l] by simp_all
    moreover have "set fs \<subseteq> set (fees_config db)" by (auto simp: fs_def)
    moreover have "distinct (fees_config db) \<longrightarrow> distinct fs" by (simp add: fs_def)
    ultimately show ?thesis by (intro that)
  qed
qed

lemma init_keeps:
  assumes "fees_inv db" "inj_on ids (set (fees_config db))" "distinct (fees_config db)"
    and "ids ` set (fees_config db) \<inter> fov_id ` set (customer_fee_overrides db) = {}"
    and "initOperationOverrides oks today ids u op actor db = (res, db')"
  shows "fees_inv db'"
proof -
  let ?mk = "\<lambda>f. init_override_row today u op actor (ids f) f"
  from init_overrides_rows [OF assms(5)] obtain fs where fs: "set fs \<subseteq> set (fees_config db)"
    "distinct fs" "customer_fee_overrides db' = customer_fee_overrides db @ map ?mk fs"
    using assms(3) by metis
  have ids: "map fov_id (map ?mk fs) = map ids fs" by (simp add: init_override_row_def)
  have "inj_on ids (set fs)" using assms(2) fs(1) by (rule inj_on_subset)
  then have "distinct (map ids fs)" using fs(2) by (simp add: distinct_map)
  moreover have "ids ` set fs \<inter> fov_id ` set (customer_fee_overrides db) = {}"
    using assms(4) fs(1) by blast
  moreover have "fov_id ` ?mk ` set fs = ids ` set fs"
    by (simp add: image_image init_override_row_def)
  ultimately have "distinct_ids fov_id (customer_fee_overrides db')"
    using assms(1) ids by (auto simp: distinct_ids_def fees_inv_def fs(3) simp del: map_map)
  moreover have "filter (\<lambda>r. fov_is_active r \<and> override_key r = k) (map ?mk fs) = []" for k
    by (auto simp: filter_empty_conv init_override_row_def)
  then have "unique_active fov_is_active override_key (customer_fee_overrides db')"
    using assms(1) by (simp add: fs(3) unique_active_def fees_inv_def)
  moreover have "lower_keys db'"
    using assms(1) by (auto simp: lower_keys_def fees_inv_def fs(3) init_override_row_def)
  ultimately show ?thesis by (simp add: fees_inv_def)
qed

lemma lower_keys_create: "createOverride ok today i cdto actor db = (res, db') \<Longrightarrow>
    lower_keys db \<Longrightarrow> lower_keys db'"
  by (auto simp: createOverride_def Let_def lower_keys_def split: if_splits)

lemma lower_keys_update: "updateOverride ok i uodto actor db = (res, db') \<Longrightarrow>
    lower_keys db \<Longrightarrow> lower_keys db'"
  by (auto simp: updateOverride_def Let_def lower_keys_def set_update_where patch_override_def
      split: if_splits option.splits)

lemma lower_keys_delete: "deleteOverride ok i actor db = (res, db') \<Longrightarrow>
    lower_keys db \<Longrightarrow> lower_keys db'"
  by (auto simp: deleteOverride_def lower_keys_def split: if_splits option.splits)

lemma fees_step_inv: "fees_step db db' \<Longrightarrow> fees_inv db \<Longrightarrow> fees_inv db'"
proof (induction rule: fees_step.induct)
  case (fs_create ok i dto actor db res db')
  then have "customer_fee_overrides db' = customer_fee_overrides db"
    by (auto simp: createFee_def Let_def split: if_splits)
  from fees_inv_cong [OF this] fs_create show ?case by blast
next
  case (fs_update ok i udto actor db res db')
  then have "customer_fee_overrides db' = customer_fee_overrides db"
    by (auto simp: updateFee_def Let_def split: if_splits option.splits)
  from fees_inv_cong [OF this] fs_update show ?case by blast
next
  case (fs_delete ok i actor db ures db')
  then have "customer_fee_overrides db' = customer_fee_overrides db"
    by (auto simp: deleteFee_def split: if_splits option.splits)
  from fees_inv_cong [OF this] fs_delete show ?case by blast
next
  case (fs_create_override i db ok today cdto actor ores db')
  then show ?case
    using fee_ov.create_keeps [of db i "(ok, today, cdto, actor)" ores db']
      lower_keys_create [of ok today i cdto actor db ores db']
    by (simp add: fees_inv_ok)
next
  case (fs_update_override ok i uodto actor db ores db')
  then show ?case
    using fee_ov.update_keeps [of db i "(ok, uodto, actor)" ores db']
      lower_keys_update [of ok i uodto actor db ores db']
    by (simp add: fees_inv_ok)
next
  case (fs_delete_override ok i actor db ures db')
  then show ?case
    using fee_ov.delete_keeps [of db ok i actor ures db']
      lower_keys_delete [of ok i actor db ures db']
    by (simp add: fees_inv_ok)
next
  case (fs_init ids db oks today u op actor ires db')
  then show ?case by (intro init_keeps [of db ids oks today u op actor ires db'])
qed

lemma fees_steps_inv: "fees_step\<^sup>*\<^sup>* db db' \<Longrightarrow> fees_inv db \<Longrightarrow> fees_inv db'"
  by (induction rule: rtranclp_induct) (auto intro: fees_step_inv)

lemma valid_override_found:
  assumes "fees_inv db" "r \<in> set (customer_fee_overrides db)"
    and "override_matches today (fov_user_id r) (fov_operation_type r) (fov_payment_rail r)
      (fov_currency r) r"
    and "to_lower rail = fov_payment_rail r" "to_lower cur = fov_currency r"
  shows "find_override today (fov_user_id r) (fov_operation_type r) rail cur db = Some r"
proof -
  let ?m = "override_matches today (fov_user_id r) (fov_operation_type r) (fov_payment_rail r)
      (fov_currency r)"
  let ?t = "customer_fee_overrides db"
  have "r \<in> set (filter ?m ?t)" using assms(2,3) by simp
  moreover have "length (filter ?m ?t) \<le> length (filter (\<lambda>q. fov_is_active q
      \<and> override_key q = override_key r) ?t)"
    by (rule length_filter_mono) (simp add: override_matches_def override_key_def)
  moreover have "length (filter (\<lambda>q. fov_is_active q \<and> override_key q = override_key r) ?t) \<le> 1"
    using assms(1) unfolding fees_inv_def unique_active_def by blast
  ultimately have "r \<in> set (filter ?m ?t)" "length (filter ?m ?t) \<le> 1" by linarith+
  then have "filter ?m ?t = [r]" by (cases "filter ?m ?t") auto
  then show ?thesis by (simp add: find_override_def assms(4,5))
qed

section \<open>Properties\<close>

text \<open>C28: The fee a client is quoted, the fee an order is charged and the fee the fixed-output
  quote computes for itself are the same number. The preview differs from the calculation
  only in the extra fields it shows.\<close>

theorem fee_calculations_agree:
  "fee_amounts.truncate (previewFee today u op rail cur amount db)
     = calculateFee today u op rail cur amount db
   \<and> computeFee amount (getFeeConfigRow today u op rail cur db)
     = fee_amount (calculateFee today u op rail cur amount db)"
proof
  show "fee_amounts.truncate (previewFee today u op rail cur amount db)
     = calculateFee today u op rail cur amount db"
    by (simp add: previewFee_def calculateFee_def resolve_fee_def fee_amounts.defs Let_def
        split: option.splits)
  show "computeFee amount (getFeeConfigRow today u op rail cur db)
     = fee_amount (calculateFee today u op rail cur amount db)"
    by (simp add: calculateFee_computeFee)
qed

text \<open>Bounds of the fee. With a configured fee without negative fields the fee is not
  negative, fee and net add up to the amount in cents, and the minimum and the maximum of
  the rule hold, the maximum winning when they conflict.\<close>

theorem calculated_fee_bounds:
  assumes "getFeeConfigRow today u op rail cur db = Some r"
    and "0 \<le> amount" "0 \<le> rule_fee_percent r" "0 \<le> rule_fee_fixed r"
  shows "let c = calculateFee today u op rail cur amount db in
     0 \<le> fee_amount c \<and> fee_amount c + net_amount c = round2 amount
     \<and> (0 < round2 (rule_max_fee r) \<longrightarrow> fee_amount c \<le> round2 (rule_max_fee r))
     \<and> (0 < round2 (rule_min_fee r) \<longrightarrow>
          round2 (rule_max_fee r) \<le> 0 \<or> rule_min_fee r \<le> rule_max_fee r \<longrightarrow>
          round2 (rule_min_fee r) \<le> fee_amount c)"
proof -
  let ?c = "calculateFee today u op rail cur amount db"
  have f: "fee_amount ?c = computeFee amount (Some r)"
    by (simp add: calculateFee_computeFee assms(1))
  have "resolve_fee today u op rail cur db \<noteq> None" using assms(1) resolve_rule [of today u op rail cur db] by (metis option.simps(3))
  then have "fee_amount ?c + net_amount ?c = round2 amount"
    by (auto simp: calculateFee_net)
  moreover have "0 \<le> fee_amount ?c" unfolding f using assms(2-4) by (rule computeFee_nonneg)
  moreover have "0 < round2 x \<longleftrightarrow> 0 < js_round (x * 100)" for x
    by (simp add: round2_def zero_less_divide_iff)
  moreover have "round2 x \<le> 0 \<longleftrightarrow> js_round (x * 100) \<le> 0" for x
    by (simp add: round2_def divide_le_0_iff)
  ultimately show ?thesis
    using computeFee_upper [of r amount] computeFee_lower [of r amount]
    unfolding f Let_def by blast
qed

definition sample_fees :: fees_db where
  "sample_fees = \<lparr>fees_config = [\<lparr>fc_id = ''f1'', fc_operation_type = ''ramp_off_crypto'',
      fc_payment_rail = ''bridge'', fc_currency = ''usdc'', fc_fee = \<lparr>ff_fee_type = ''percent'',
        ff_fee_percent = Some 1, ff_fee_fixed = None, ff_min_fee = Some 2,
        ff_max_fee = Some 50\<rparr>, fc_is_active = True\<rparr>],
    customer_fee_overrides = [], fees_audit = []\<rparr>"

lemma sample_lower: "to_lower ''bridge'' = ''bridge''" "to_lower ''usdc'' = ''usdc''"
  by (simp_all add: to_lower_def lower_char_def)

lemma sample_config: "getFeeConfigRow 0 ''u'' ''ramp_off_crypto'' ''bridge'' ''usdc'' sample_fees =
    Some \<lparr>rule_fee_type = ''percent'', rule_fee_percent = 1, rule_fee_fixed = 0,
      rule_min_fee = 2, rule_max_fee = 50\<rparr>"
  by (simp add: getFeeConfigRow_def resolve_fee_def find_override_def find_global_def
      sample_fees_def config_matches_def sample_lower)

theorem calculated_fee_bounds_witness:
  "let c = calculateFee 0 ''u'' ''ramp_off_crypto'' ''bridge'' ''usdc'' 100 sample_fees in
     0 \<le> fee_amount c \<and> fee_amount c + net_amount c = round2 100
     \<and> fee_amount c \<le> round2 50 \<and> round2 2 \<le> fee_amount c"
proof -
  have r: "0 < round2 50" "0 < round2 2"
    by (simp_all add: round2_def js_round_def)
  show ?thesis
    using calculated_fee_bounds [OF sample_config, of 100] r by (simp add: Let_def)
qed

text \<open>C20: An active override that is valid today always decides the fee. In every table the
  service can reach from one without overrides, through any sequence of operations with any
  outcome, the override is found under its key whatever the case of the rail and currency in
  the request, and its fields are the ones applied.\<close>

theorem active_override_applies:
  assumes "fees_step\<^sup>*\<^sup>* db0 db" "customer_fee_overrides db0 = []"
    and "r \<in> set (customer_fee_overrides db)"
    and "override_matches today (fov_user_id r) (fov_operation_type r) (fov_payment_rail r)
      (fov_currency r) r"
    and "to_lower rail = fov_payment_rail r" "to_lower cur = fov_currency r"
  shows "resolve_fee today (fov_user_id r) (fov_operation_type r) rail cur db = Some (fov_fee r)"
proof -
  have "fees_inv db0" using assms(2) by (simp add: fees_inv_def distinct_ids_def lower_keys_def)
  with assms(1) have "fees_inv db" by (rule fees_steps_inv)
  with assms(3-) have "find_override today (fov_user_id r) (fov_operation_type r) rail cur db
      = Some r" by (intro valid_override_found)
  then show ?thesis by (simp add: resolve_fee_def)
qed

definition vip_dto :: create_override_dto where
  "vip_dto = \<lparr>co_user_id = ''u'', co_operation_type = ''ramp_off_crypto'',
     co_payment_rail = ''BRIDGE'', co_currency = ''USDC'', co_fee = \<lparr>ff_fee_type = ''percent'',
       ff_fee_percent = Some 0, ff_fee_fixed = None, ff_min_fee = None, ff_max_fee = None\<rparr>,
     co_valid_from = None, co_valid_until = None\<rparr>"

theorem active_override_applies_witness:
  "resolve_fee 7 ''u'' ''ramp_off_crypto'' ''Bridge'' ''usdC''
     (snd (createOverride True 7 ''o1'' vip_dto ''staff'' sample_fees)) = Some (co_fee vip_dto)"
proof -
  let ?db = "snd (createOverride True 7 ''o1'' vip_dto ''staff'' sample_fees)"
  obtain r where r: "createOverride True 7 ''o1'' vip_dto ''staff'' sample_fees = (Inr r, ?db)"
      "customer_fee_overrides ?db = [r]" "fov_fee r = co_fee vip_dto"
      "override_key r = (''u'', ''ramp_off_crypto'', ''bridge'', ''usdc'')"
      "fov_is_active r" "fov_valid_from r = Some 7" "fov_valid_until r = None"
    by (simp add: createOverride_def sample_fees_def vip_dto_def override_key_def Let_def
        to_lower_def lower_chars)
  have "fees_step sample_fees ?db"
    by (rule fs_create_override [OF _ r(1)]) (simp add: sample_fees_def)
  then have st: "fees_step\<^sup>*\<^sup>* sample_fees ?db" by blast
  have "resolve_fee 7 (fov_user_id r) (fov_operation_type r) ''Bridge'' ''usdC'' ?db = Some (fov_fee r)"
    by (rule active_override_applies [OF st])
       (use r in \<open>auto simp: sample_fees_def override_matches_def override_key_def to_lower_def
          lower_chars\<close>)
  with r show ?thesis by (simp add: override_key_def)
qed

text \<open>A global fee created with a currency that is not in lower case is never applied.
  \<open>createFee\<close> normalises the rail but stores the currency as it comes (its documentation
  gives the example USD), while every lookup lower-cases the currency.\<close>

theorem createFee_uppercase_currency_ignored:
  assumes "to_lower (cf_currency dto) \<noteq> cf_currency dto"
  shows "calculateFee today u op rail cur amount (snd (createFee ok i dto actor db))
     = calculateFee today u op rail cur amount db"
proof -
  let ?db = "snd (createFee ok i dto actor db)"
  have "cf_currency dto \<noteq> to_lower cur"
  proof
    assume "cf_currency dto = to_lower cur"
    with assms show False by simp
  qed
  then have "find_global op rail cur ?db = find_global op rail cur db"
    by (simp add: createFee_def find_global_def config_matches_def Let_def)
  moreover have "find_override today u op rail cur ?db = find_override today u op rail cur db"
    by (simp add: createFee_def find_override_def Let_def)
  ultimately have "resolve_fee today u op rail cur ?db = resolve_fee today u op rail cur db"
    by (simp add: resolve_fee_def split: option.split)
  then show ?thesis unfolding calculateFee_def by simp
qed

theorem createFee_uppercase_currency_ignored_witness:
  "calculateFee 0 ''u'' ''payout'' ''wire'' ''USD'' 100
     (snd (createFee True ''f2'' \<lparr>cf_operation_type = ''payout'', cf_payment_rail = ''wire'',
        cf_currency = ''USD'', cf_fee = co_fee vip_dto\<rparr> ''staff'' sample_fees))
   = calculateFee 0 ''u'' ''payout'' ''wire'' ''USD'' 100 sample_fees"
  by (rule createFee_uppercase_currency_ignored) (simp add: to_lower_def lower_chars)

lemma init_covers_keys:
  assumes "initOperationOverrides (\<lambda>_. True) today ids u op actor db = (Inr res, db')"
    and "f \<in> set (fees_config db)" "fc_operation_type f = op"
  shows "(to_lower (fc_currency f), to_lower (fc_payment_rail f)) \<in> existing_keys u op db'"
proof -
  let ?k = "(to_lower (fc_currency f), to_lower (fc_payment_rail f))"
  let ?feeRows = "filter (\<lambda>r. fc_operation_type r = op) (fees_config db)"
  obtain rows n where l: "init_loop (\<lambda>_. True) ids (existing_keys u op db)
      (init_override_row today u op actor) ?feeRows = (rows, n)" by fastforce
  have ne: "?feeRows \<noteq> []" using assms(2,3) by (auto simp: filter_empty_conv)
  with assms(1) l have t: "customer_fee_overrides db' = customer_fee_overrides db @ rows"
    by (auto simp: initOperationOverrides_def Let_def)
  show ?thesis
  proof (cases "?k \<in> existing_keys u op db")
    case True
    then show ?thesis unfolding existing_keys_def t by auto
  next
    case False
    then have "init_override_row today u op actor (ids f) f \<in> set rows"
      using init_loop_rows [OF l] assms(2,3) by auto
    then show ?thesis unfolding existing_keys_def t
      by (intro image_eqI [of _ _ "init_override_row today u op actor (ids f) f"])
         (auto simp: init_override_row_def)
  qed
qed

text \<open>Initialising the overrides of an operation is harmless and needs no repetition. It
  changes no fee, and when every insert succeeded a second run creates nothing.\<close>

theorem init_overrides_harmless:
  assumes "initOperationOverrides (\<lambda>_. True) today ids u op actor db = (Inr res, db')"
  shows "calculateFee d v op' rail cur amount db' = calculateFee d v op' rail cur amount db
    \<and> (\<exists>n ovs db''. initOperationOverrides oks today' ids' u op actor' db' = (Inr (0, n, ovs), db'')
        \<and> customer_fee_overrides db'' = customer_fee_overrides db')"
proof
  from init_overrides_rows [OF assms] obtain fs where
    t: "customer_fee_overrides db' = customer_fee_overrides db
       @ map (\<lambda>f. init_override_row today u op actor (ids f) f) fs"
      "fees_config db' = fees_config db" by metis
  have "filter (override_matches d v op' (to_lower rail) (to_lower cur))
      (map (\<lambda>f. init_override_row today u op actor (ids f) f) fs) = []"
    by (auto simp: filter_empty_conv override_matches_def init_override_row_def)
  then have "resolve_fee d v op' rail cur db' = resolve_fee d v op' rail cur db"
    by (simp add: resolve_fee_def find_override_def find_global_def t split: option.split)
  then show "calculateFee d v op' rail cur amount db' = calculateFee d v op' rail cur amount db"
    by (simp add: calculateFee_def)
  let ?feeRows = "filter (\<lambda>r. fc_operation_type r = op) (fees_config db)"
  have ne: "?feeRows \<noteq> []" using assms by (auto simp: initOperationOverrides_def split: if_splits)
  obtain rows n where l: "init_loop oks ids' (existing_keys u op db')
      (init_override_row today' u op actor') ?feeRows = (rows, n)" by fastforce
  have "rows = []" "n = 0"
    using init_loop_rows [OF l] init_covers_keys [OF assms] by (auto simp: filter_empty_conv)
  with l ne show "\<exists>n ovs db''. initOperationOverrides oks today' ids' u op actor' db'
      = (Inr (0, n, ovs), db'') \<and> customer_fee_overrides db'' = customer_fee_overrides db'"
    by (auto simp: initOperationOverrides_def t(2) Let_def)
qed

theorem init_overrides_harmless_witness:
  "\<exists>res db'. initOperationOverrides (\<lambda>_. True) 0 fc_id ''u'' ''ramp_off_crypto'' ''staff'' sample_fees
       = (Inr res, db')
     \<and> calculateFee 0 ''u'' ''ramp_off_crypto'' ''bridge'' ''usdc'' 100 db'
       = calculateFee 0 ''u'' ''ramp_off_crypto'' ''bridge'' ''usdc'' 100 sample_fees"
proof -
  obtain res db' where i: "initOperationOverrides (\<lambda>_. True) 0 fc_id ''u'' ''ramp_off_crypto''
      ''staff'' sample_fees = (Inr res, db')"
    by (simp add: initOperationOverrides_def sample_fees_def Let_def existing_keys_def)
  with init_overrides_harmless [OF i] show ?thesis by blast
qed

end
