(* ===== verification/Ledger.thy ===== *)
theory Ledger imports Prelude begin

text \<open>
  The ledger: \<open>src/application/ledger/ledger.service.ts\<close>, the database trigger
  \<open>update_balance_on_ledger_entry\<close> that moves the balances whenever an entry enters or
  leaves the status \<open>settled\<close> (\<open>migrations/20260620_fix_update_balance_on_ledger_entry_debit_reservation.sql\<close>),
  the function \<open>settle_and_release_reserved\<close> (\<open>migrations/20260731_...\<close>), the check
  constraints of the table \<open>balances\<close> (\<open>migrations/20260813_baseline...\<close>) and the
  release of a reserve of \<open>bridge.service.ts\<close>. A statement whose trigger violates a check
  has no effect; it is \<open>None\<close> below. Ids of new rows come from the database and are
  arguments.
\<close>

section \<open>Tables\<close>

record wallet =
  wa_id :: string
  wa_user_id :: string
  wa_provider_wallet_id :: ostring
  wa_network :: ostring
  wa_is_active :: bool

record balance =
  ba_user_id :: string
  ba_currency :: string
  ba_amount :: rat
  ba_available :: rat
  ba_reserved :: rat

record ledger_entry =
  le_id :: string
  le_wallet_id :: string
  le_type :: string
  le_amount :: rat
  le_currency :: string
  le_status :: string
  le_reference_type :: ostring
  le_reference_id :: ostring
  le_bridge_transfer_id :: ostring
  le_description :: string
  le_created_at :: int

record ledger_db =
  wallets :: "wallet list"
  balances :: "balance list"
  ledger_entries :: "ledger_entry list"
  audit_logs :: "audit_row list"

section \<open>The trigger\<close>

definition signed_amount :: "ledger_entry \<Rightarrow> rat" where
  "signed_amount e = (if le_type e = ''credit'' then le_amount e else - le_amount e)"

definition trigger_diff :: "ledger_entry option \<Rightarrow> ledger_entry \<Rightarrow> rat" where
  "trigger_diff old new =
     (case old of
        None \<Rightarrow> if le_status new = ''settled'' then signed_amount new else 0
      | Some o' \<Rightarrow>
          if le_status new = ''settled'' \<and> le_status o' \<noteq> ''settled'' then signed_amount new
          else if le_status o' = ''settled'' \<and> le_status new \<noteq> ''settled''
            then - signed_amount o'
          else 0)"

definition move_balance :: "rat \<Rightarrow> balance \<Rightarrow> balance" where
  "move_balance d b = b\<lparr>ba_amount := ba_amount b + d,
     ba_reserved := (if d < 0 then max 0 (ba_reserved b + d) else ba_reserved b),
     ba_available := (if d < 0 then ba_available b + min 0 (d + ba_reserved b)
                      else ba_available b + d)\<rparr>"

definition check_balance :: "balance \<Rightarrow> bool" where
  "check_balance b \<longleftrightarrow> 0 \<le> ba_available b \<and> 0 \<le> ba_reserved b"

definition has_key :: "string \<Rightarrow> string \<Rightarrow> balance \<Rightarrow> bool" where
  "has_key u cur b \<longleftrightarrow> ba_user_id b = u \<and> ba_currency b = cur"

text \<open>\<open>INSERT ... ON CONFLICT (user_id, currency) DO UPDATE\<close>, with the checks.\<close>

definition upsert_balance :: "string \<Rightarrow> string \<Rightarrow> rat \<Rightarrow> balance list \<Rightarrow> balance list option" where
  "upsert_balance u cur d bs =
     (if \<exists>b\<in>set bs. has_key u cur b
      then if \<forall>b\<in>set bs. has_key u cur b \<longrightarrow> check_balance (move_balance d b)
           then Some (update_where (has_key u cur) (move_balance d) bs) else None
      else Some (bs @ [\<lparr>ba_user_id = u, ba_currency = cur, ba_amount = d,
                        ba_available = max d 0, ba_reserved = 0\<rparr>]))"

definition wallet_owner :: "wallet list \<Rightarrow> string \<Rightarrow> ostring" where
  "wallet_owner ws w = map_option wa_user_id (find (\<lambda>x. wa_id x = w) ws)"

definition update_balance_on_ledger_entry ::
  "wallet list \<Rightarrow> ledger_entry option \<Rightarrow> ledger_entry \<Rightarrow> balance list \<Rightarrow> balance list option" where
  "update_balance_on_ledger_entry ws old new bs =
     (let v_diff = trigger_diff old new in
      if v_diff = 0 then Some bs
      else case wallet_owner ws (le_wallet_id new) of
        None \<Rightarrow> Some bs
      | Some u \<Rightarrow> upsert_balance u (le_currency new) v_diff bs)"

text \<open>The two statements on \<open>ledger_entries\<close> the services use.\<close>

definition insert_entry :: "ledger_entry \<Rightarrow> 'a ledger_db_scheme \<Rightarrow> 'a ledger_db_scheme option" where
  "insert_entry e db =
     map_option (\<lambda>bs. db\<lparr>balances := bs, ledger_entries := ledger_entries db @ [e]\<rparr>)
       (update_balance_on_ledger_entry (wallets db) None e (balances db))"

fun fire_updates ::
  "wallet list \<Rightarrow> string \<Rightarrow> ledger_entry list \<Rightarrow> balance list \<Rightarrow> balance list option" where
  "fire_updates ws st [] bs = Some bs"
| "fire_updates ws st (e # es) bs =
     Option.bind (update_balance_on_ledger_entry ws (Some e) (e\<lparr>le_status := st\<rparr>) bs)
       (fire_updates ws st es)"

definition set_status ::
  "(ledger_entry \<Rightarrow> bool) \<Rightarrow> string \<Rightarrow> 'a ledger_db_scheme \<Rightarrow> 'a ledger_db_scheme option" where
  "set_status p st db =
     map_option (\<lambda>bs. db\<lparr>balances := bs,
         ledger_entries := update_where p (\<lambda>e. e\<lparr>le_status := st\<rparr>) (ledger_entries db)\<rparr>)
       (fire_updates (wallets db) st (filter p (ledger_entries db)) (balances db))"

lemma set_status_none: "filter p (ledger_entries db) = [] \<Longrightarrow> set_status p st db = Some db"
  by (simp add: set_status_def update_where_empty)

lemma set_status_clears: "set_status p st db = Some db' \<Longrightarrow> (\<And>e. p e \<Longrightarrow> \<not> p (e\<lparr>le_status := st\<rparr>))
    \<Longrightarrow> filter p (ledger_entries db') = []"
  using update_where_clears [of p "\<lambda>e. e\<lparr>le_status := st\<rparr>" "ledger_entries db"]
  by (auto simp: set_status_def)

section \<open>The ledger service\<close>

record entry_params =
  ep_wallet_id :: string
  ep_type :: string
  ep_amount :: rat
  ep_currency :: string
  ep_status :: string
  ep_reference_type :: ostring
  ep_reference_id :: ostring
  ep_bridge_transfer_id :: ostring
  ep_description :: string

text \<open>\<open>env_ok\<close> says whether the database accepts the statement for its own reasons
  (connection, foreign keys, the check on the status).\<close>

definition createEntry ::
  "bool \<Rightarrow> string \<Rightarrow> int \<Rightarrow> entry_params \<Rightarrow> 'a ledger_db_scheme \<Rightarrow> string result \<times> 'a ledger_db_scheme" where
  "createEntry env_ok new_id now p db =
     (let e = \<lparr>le_id = new_id, le_wallet_id = ep_wallet_id p, le_type = ep_type p,
               le_amount = ep_amount p, le_currency = to_upper (ep_currency p),
               le_status = ep_status p, le_reference_type = ep_reference_type p,
               le_reference_id = ep_reference_id p,
               le_bridge_transfer_id = ep_bridge_transfer_id p,
               le_description = ep_description p, le_created_at = now\<rparr>
      in if \<not> env_ok then (Inl (BadRequestException ''''), db)
         else case insert_entry e db of
           None \<Rightarrow> (Inl (BadRequestException ''''), db)
         | Some db' \<Rightarrow> (Inr new_id, db'))"

definition settleEntry ::
  "bool \<Rightarrow> string \<Rightarrow> string \<Rightarrow> 'a ledger_db_scheme \<Rightarrow> unit result \<times> 'a ledger_db_scheme" where
  "settleEntry env_ok entryId newStatus db =
     (if \<not> env_ok then (Inl (BadRequestException ''''), db)
      else case set_status (\<lambda>e. le_id e = entryId \<and> le_status e = ''pending'') newStatus db of
        None \<Rightarrow> (Inl (BadRequestException ''''), db)
      | Some db' \<Rightarrow> (Inr (), db'))"

definition createAdjustment ::
  "bool \<Rightarrow> string \<Rightarrow> int \<Rightarrow> string \<Rightarrow> string \<Rightarrow> rat \<Rightarrow> string \<Rightarrow> string \<Rightarrow> string
    \<Rightarrow> 'a ledger_db_scheme \<Rightarrow> string result \<times> 'a ledger_db_scheme" where
  "createAdjustment env_ok new_id now walletId ty amount currency reason actorId db =
     (case createEntry env_ok new_id now
             \<lparr>ep_wallet_id = walletId, ep_type = ty, ep_amount = \<bar>amount\<bar>,
              ep_currency = currency, ep_status = ''settled'',
              ep_reference_type = Some ''manual_adjustment'', ep_reference_id = None,
              ep_bridge_transfer_id = None, ep_description = reason\<rparr> db of
        (Inl e, db') \<Rightarrow> (Inl e, db')
      | (Inr i, db') \<Rightarrow> (Inr i, db'\<lparr>audit_logs := audit_logs db'
            @ [audit (Some actorId) ''ledger_manual_adjustment'' ''ledger_entries'' i]\<rparr>))"

definition getEntry :: "string \<Rightarrow> string \<Rightarrow> 'a ledger_db_scheme \<Rightarrow> ledger_entry result" where
  "getEntry entryId userId db =
     (case maybe_single (filter (\<lambda>e. le_id e = entryId
              \<and> wallet_owner (wallets db) (le_wallet_id e) \<noteq> None) (ledger_entries db)) of
        None \<Rightarrow> Inl (NotFoundException '''')
      | Some e \<Rightarrow>
          if wallet_owner (wallets db) (le_wallet_id e) \<noteq> Some userId
          then Inl (NotFoundException '''') else Inr e)"

record history_filters =
  hf_from :: "int option"
  hf_to :: "int option"
  hf_type :: ostring
  hf_currency :: ostring
  hf_status :: ostring

record history_page =
  hp_entries :: "ledger_entry list"
  hp_page :: int
  hp_limit :: int
  hp_total :: int
  hp_totalPages :: int

definition history_matches :: "string list \<Rightarrow> history_filters \<Rightarrow> ledger_entry \<Rightarrow> bool" where
  "history_matches walletIds f e \<longleftrightarrow> le_wallet_id e \<in> set walletIds
     \<and> (case hf_from f of None \<Rightarrow> True | Some t \<Rightarrow> t \<le> le_created_at e)
     \<and> (case hf_to f of None \<Rightarrow> True | Some t \<Rightarrow> le_created_at e \<le> t)
     \<and> (truthy (hf_type f) \<longrightarrow> le_type e = the (hf_type f))
     \<and> (truthy (hf_currency f) \<longrightarrow> le_currency e = to_upper (the (hf_currency f)))
     \<and> (truthy (hf_status f) \<longrightarrow> le_status e = the (hf_status f))"

text \<open>\<open>.order(...).range(a, b)\<close>: the rows from position \<open>a\<close> to position \<open>b\<close>, both included.\<close>

definition db_range :: "int \<Rightarrow> int \<Rightarrow> 'r list \<Rightarrow> 'r list" where
  "db_range a b rs = take (nat (b + 1 - a)) (drop (nat a) rs)"

definition getHistory ::
  "string \<Rightarrow> history_filters \<Rightarrow> int \<Rightarrow> int \<Rightarrow> 'a ledger_db_scheme \<Rightarrow> history_page" where
  "getHistory userId f page limit db =
     (let offset = (page - 1) * limit;
          safeLimit = min limit 100;
          walletIds = map wa_id (filter (\<lambda>w. wa_user_id w = userId) (wallets db))
      in if walletIds = []
         then \<lparr>hp_entries = [], hp_page = page, hp_limit = safeLimit, hp_total = 0,
               hp_totalPages = 0\<rparr>
         else
           let rows = sort_key (\<lambda>e. - le_created_at e)
                 (filter (history_matches walletIds f) (ledger_entries db))
           in \<lparr>hp_entries = db_range offset (offset + safeLimit - 1) rows, hp_page = page,
               hp_limit = safeLimit, hp_total = int (length rows),
               hp_totalPages = \<lceil>of_nat (length rows) / (of_int safeLimit :: rat)\<rceil>\<rparr>)"

section \<open>Settling by reference, and reserves\<close>

definition settle_and_release_reserved ::
  "string \<Rightarrow> 'a ledger_db_scheme \<Rightarrow> 'a ledger_db_scheme option" where
  "settle_and_release_reserved p_reference_id db =
     set_status (\<lambda>e. le_reference_type e = Some ''payment_order''
       \<and> le_reference_id e = Some p_reference_id \<and> le_status e = ''pending'') ''settled'' db"

text \<open>
  \<open>releaseReservedBalance\<close> of \<open>bridge.service.ts\<close>. The database function
  \<open>release_reserved_balance\<close> is not in the repository: \<open>rpc\<close> stands for it, \<open>None\<close>
  being its error, upon which the service updates the row itself.
\<close>

definition release_row :: "rat \<Rightarrow> balance \<Rightarrow> balance" where
  "release_row a b = b\<lparr>ba_reserved := max 0 (ba_reserved b - a),
     ba_available := ba_available b + a\<rparr>"

definition releaseReservedBalance ::
  "(string \<Rightarrow> string \<Rightarrow> rat \<Rightarrow> balance list \<Rightarrow> balance list option)
     \<Rightarrow> string \<Rightarrow> string \<Rightarrow> rat \<Rightarrow> balance list \<Rightarrow> balance list" where
  "releaseReservedBalance rpc userId currency amount bs =
     (case rpc userId (to_upper currency) amount bs of
        Some bs' \<Rightarrow> bs'
      | None \<Rightarrow>
          (case maybe_single (filter (has_key userId (to_upper currency)) bs) of
             None \<Rightarrow> bs
           | Some _ \<Rightarrow> update_where (has_key userId (to_upper currency)) (release_row amount) bs))"

text \<open>What every caller relies on: the release touches the available and reserved amounts
  of one client and currency, and moves a reserve that is there from one to the other.\<close>

locale reserve_release =
  fixes release :: "string \<Rightarrow> string \<Rightarrow> rat \<Rightarrow> balance list \<Rightarrow> balance list"
  assumes release_keys: "map (\<lambda>b. (ba_user_id b, ba_currency b, ba_amount b)) (release u c a bs)
      = map (\<lambda>b. (ba_user_id b, ba_currency b, ba_amount b)) bs"
    and release_moves: "distinct (map (\<lambda>b. (ba_user_id b, ba_currency b)) bs) \<Longrightarrow> b \<in> set bs \<Longrightarrow>
      has_key u (to_upper c) b \<Longrightarrow> 0 \<le> a \<Longrightarrow> a \<le> ba_reserved b \<Longrightarrow>
      release u c a bs = update_where (has_key u (to_upper c))
        (\<lambda>b. b\<lparr>ba_reserved := ba_reserved b - a, ba_available := ba_available b + a\<rparr>) bs"
begin

definition free_funds :: "balance list \<Rightarrow> string \<Rightarrow> string \<Rightarrow> rat" where
  "free_funds bs u c = (\<Sum>b\<leftarrow>filter (has_key u c) bs. ba_available b)"

lemma release_length: "length (release u c a bs) = length bs"
  using release_keys [of u c a bs] map_eq_imp_length_eq by blast

lemma release_frees:
  assumes "distinct (map (\<lambda>b. (ba_user_id b, ba_currency b)) bs)" "b \<in> set bs"
    and "has_key u (to_upper c) b" "0 \<le> a" "a \<le> ba_reserved b"
  shows "b\<lparr>ba_reserved := ba_reserved b - a, ba_available := ba_available b + a\<rparr>
    \<in> set (release u c a bs)"
  unfolding release_moves [OF assms] set_update_where using assms(2,3) by force

text \<open>Nothing is created: available and reserved together stay what they were.\<close>

lemma release_conserves:
  assumes "distinct (map (\<lambda>b. (ba_user_id b, ba_currency b)) bs)" "b \<in> set bs"
    and "has_key u (to_upper c) b" "0 \<le> a" "a \<le> ba_reserved b"
  shows "map (\<lambda>b. ba_available b + ba_reserved b) (release u c a bs)
    = map (\<lambda>b. ba_available b + ba_reserved b) bs"
  unfolding release_moves [OF assms] update_where_def by simp

end

lemma distinct_key_filter:
  assumes "distinct (map (\<lambda>b. (ba_user_id b, ba_currency b)) bs)" "b \<in> set bs" "has_key u c b"
  shows "filter (has_key u c) bs = [b]"
  using filter_key_single [OF assms(1,2), of "(u, c)"] assms(3)
  by (simp add: has_key_def [abs_def])

interpretation fallback: reserve_release "releaseReservedBalance (\<lambda>_ _ _ _. None)"
proof
  fix u c a bs
  show "map (\<lambda>b. (ba_user_id b, ba_currency b, ba_amount b))
      (releaseReservedBalance (\<lambda>_ _ _ _. None) u c a bs)
    = map (\<lambda>b. (ba_user_id b, ba_currency b, ba_amount b)) bs"
    by (simp add: releaseReservedBalance_def map_update_where release_row_def split: option.split)
next
  fix bs :: "balance list" and b u c and a :: rat
  assume d: "distinct (map (\<lambda>b. (ba_user_id b, ba_currency b)) bs)" "b \<in> set bs"
    and k: "has_key u (to_upper c) b" and a: "0 \<le> a" "a \<le> ba_reserved b"
  have f: "filter (has_key u (to_upper c)) bs = [b]" using d k by (rule distinct_key_filter)
  have "q = b" if "q \<in> set bs" "has_key u (to_upper c) q" for q
  proof -
    have "q \<in> set (filter (has_key u (to_upper c)) bs)" using that by simp
    then show ?thesis by (simp add: f)
  qed
  with f a show "releaseReservedBalance (\<lambda>_ _ _ _. None) u c a bs = update_where (has_key u (to_upper c))
        (\<lambda>b. b\<lparr>ba_reserved := ba_reserved b - a, ba_available := ba_available b + a\<rparr>) bs"
    by (auto simp: releaseReservedBalance_def update_where_def release_row_def)
qed

end
