(* ===== verification/LedgerProperties.thy ===== *)
theory LedgerProperties imports Ledger begin

text \<open>
  What the ledger guarantees: the books (every balance is the sum of the settled entries
  of its client and currency), the split of a balance into available and reserved, the
  single transition of a pending entry, and the pagination of the history.
\<close>

section \<open>The books\<close>

definition balance_total :: "string \<Rightarrow> string \<Rightarrow> balance list \<Rightarrow> rat" where
  "balance_total u c bs = sum_list (map ba_amount (filter (has_key u c) bs))"

definition contribution :: "wallet list \<Rightarrow> string \<Rightarrow> string \<Rightarrow> ledger_entry \<Rightarrow> rat" where
  "contribution ws u c e =
     (if le_status e = ''settled'' \<and> le_currency e = c \<and> wallet_owner ws (le_wallet_id e) = Some u
      then signed_amount e else 0)"

definition settled_total :: "wallet list \<Rightarrow> string \<Rightarrow> string \<Rightarrow> ledger_entry list \<Rightarrow> rat" where
  "settled_total ws u c es = sum_list (map (contribution ws u c) es)"

definition unique_keys :: "balance list \<Rightarrow> bool" where
  "unique_keys bs \<longleftrightarrow> distinct (map (\<lambda>b. (ba_user_id b, ba_currency b)) bs)"

definition books_ok :: "'a ledger_db_scheme \<Rightarrow> bool" where
  "books_ok db \<longleftrightarrow> unique_keys (balances db) \<and> list_all check_balance (balances db)
     \<and> (\<forall>u c. balance_total u c (balances db) = settled_total (wallets db) u c (ledger_entries db))"

lemma unique_keys_update: "unique_keys (update_where p (move_balance d) bs) = unique_keys bs"
  by (simp add: unique_keys_def map_update_where move_balance_def)

lemma has_key_move [simp]: "has_key u c (move_balance d b) = has_key u c b"
  by (simp add: has_key_def move_balance_def)

lemma amount_move [simp]: "ba_amount (move_balance d b) = ba_amount b + d"
  by (simp add: move_balance_def)

lemma has_key_iff: "has_key u c b \<longleftrightarrow> (ba_user_id b, ba_currency b) = (u, c)"
  by (simp add: has_key_def)

lemma no_key_total: "(u, c) \<notin> (\<lambda>b. (ba_user_id b, ba_currency b)) ` set bs \<Longrightarrow>
    balance_total u c bs = 0"
  by (induction bs) (auto simp: balance_total_def has_key_iff)

lemma update_no_key: "(u, c) \<notin> (\<lambda>b. (ba_user_id b, ba_currency b)) ` set bs \<Longrightarrow>
    update_where (has_key u c) f bs = bs"
  by (intro update_where_none) (auto simp: has_key_iff image_iff)

lemma balance_total_move:
  "unique_keys bs \<Longrightarrow> \<exists>b\<in>set bs. has_key u c b \<Longrightarrow>
   balance_total u' c' (update_where (has_key u c) (move_balance d) bs)
     = balance_total u' c' bs + (if (u', c') = (u, c) then d else 0)"
proof (induction bs)
  case Nil
  then show ?case by simp
next
  case (Cons b bs)
  have bt: "balance_total u' c' (x # xs)
      = (if has_key u' c' x then ba_amount x else 0) + balance_total u' c' xs" for x xs
    by (simp add: balance_total_def)
  have hk: "has_key u' c' x \<longleftrightarrow> (u', c') = (u, c)" if "has_key u c x" for x
    using that by (auto simp: has_key_iff)
  show ?case
  proof (cases "has_key u c b")
    case True
    then have "update_where (has_key u c) (move_balance d) bs = bs"
      using Cons.prems(1) by (intro update_no_key) (auto simp: unique_keys_def has_key_iff)
    with True show ?thesis by (simp add: bt hk)
  next
    case False
    with Cons show ?thesis by (simp add: bt unique_keys_def)
  qed
qed

lemma upsert_effect:
  assumes "upsert_balance u c d bs = Some bs'" "unique_keys bs" "list_all check_balance bs"
  shows "unique_keys bs'" "list_all check_balance bs'"
    "balance_total u' c' bs' = balance_total u' c' bs + (if (u', c') = (u, c) then d else 0)"
proof -
  let ?nb = "\<lparr>ba_user_id = u, ba_currency = c, ba_amount = d, ba_available = max d 0, ba_reserved = 0\<rparr>"
  show "unique_keys bs'" "list_all check_balance bs'"
    "balance_total u' c' bs' = balance_total u' c' bs + (if (u', c') = (u, c) then d else 0)"
  proof (atomize(full), cases "\<exists>b\<in>set bs. has_key u c b")
    case True
    with assms(1) have b: "bs' = update_where (has_key u c) (move_balance d) bs"
      and chk: "\<forall>b\<in>set bs. has_key u c b \<longrightarrow> check_balance (move_balance d b)"
      by (auto simp: upsert_balance_def split: if_splits)
    from chk assms(3) have "list_all check_balance bs'"
      by (auto simp: b list_all_iff set_update_where)
    then show "unique_keys bs' \<and> list_all check_balance bs'
        \<and> balance_total u' c' bs' = balance_total u' c' bs + (if (u', c') = (u, c) then d else 0)"
      using assms(2) True by (simp add: b unique_keys_update balance_total_move)
  next
    case False
    with assms(1) have b: "bs' = bs @ [?nb]" by (auto simp: upsert_balance_def split: if_splits)
    from False have nk: "(u, c) \<notin> (\<lambda>b. (ba_user_id b, ba_currency b)) ` set bs"
      by (auto simp: has_key_def)
    then have "unique_keys bs'" using assms(2) by (simp add: unique_keys_def b)
    moreover have "list_all check_balance bs'" using assms(3) by (simp add: b check_balance_def)
    moreover have "balance_total u' c' bs' = balance_total u' c' bs
        + (if has_key u' c' ?nb then d else 0)"
      by (simp add: b balance_total_def)
    ultimately show "unique_keys bs' \<and> list_all check_balance bs'
        \<and> balance_total u' c' bs' = balance_total u' c' bs + (if (u', c') = (u, c) then d else 0)"
      by (auto simp: has_key_def)
  qed
qed

text \<open>The trigger moves a balance by exactly what the entry contributes more than before.\<close>

lemma trigger_effect:
  assumes "update_balance_on_ledger_entry ws old new bs = Some bs'" "unique_keys bs"
    "list_all check_balance bs"
  shows "unique_keys bs'" "list_all check_balance bs'"
    "balance_total u c bs' = balance_total u c bs
      + (if wallet_owner ws (le_wallet_id new) = Some u \<and> le_currency new = c
         then trigger_diff old new else 0)"
proof -
  consider "trigger_diff old new = 0 \<or> wallet_owner ws (le_wallet_id new) = None" "bs' = bs"
    | v where "trigger_diff old new \<noteq> 0" "wallet_owner ws (le_wallet_id new) = Some v"
      "upsert_balance v (le_currency new) (trigger_diff old new) bs = Some bs'"
    using assms(1)
    by (auto simp: update_balance_on_ledger_entry_def Let_def split: if_splits option.splits)
  then show "unique_keys bs'" "list_all check_balance bs'"
    "balance_total u c bs' = balance_total u c bs
      + (if wallet_owner ws (le_wallet_id new) = Some u \<and> le_currency new = c
         then trigger_diff old new else 0)"
    by (cases; auto simp: assms(2,3) upsert_effect [OF _ assms(2,3)])+
qed

lemma settled_total_Cons: "settled_total ws u c (e # es) = contribution ws u c e + settled_total ws u c es"
  by (simp add: settled_total_def)

lemma settled_total_append: "settled_total ws u c (es @ fs) = settled_total ws u c es + settled_total ws u c fs"
  by (simp add: settled_total_def)

lemma insert_books:
  assumes "books_ok db" "insert_entry e db = Some db'"
  shows "books_ok db'"
proof -
  from assms(2) obtain bs where t: "update_balance_on_ledger_entry (wallets db) None e (balances db) = Some bs"
    and db': "db' = db\<lparr>balances := bs, ledger_entries := ledger_entries db @ [e]\<rparr>"
    by (auto simp: insert_entry_def)
  from assms(1) have u: "unique_keys (balances db)" "list_all check_balance (balances db)"
    and s: "\<And>u c. balance_total u c (balances db) = settled_total (wallets db) u c (ledger_entries db)"
    by (simp_all add: books_ok_def)
  have "settled_total (wallets db) u c [e] = (if wallet_owner (wallets db) (le_wallet_id e) = Some u
      \<and> le_currency e = c then trigger_diff None e else 0)" for u c
    by (simp add: settled_total_def contribution_def trigger_diff_def)
  then show ?thesis
    using trigger_effect [OF t u] by (simp add: books_ok_def db' s settled_total_append)
qed

lemma trigger_status_diff:
  "(if wallet_owner ws (le_wallet_id e) = Some u \<and> le_currency e = c
      then trigger_diff (Some e) (e\<lparr>le_status := st\<rparr>) else 0)
   = contribution ws u c (e\<lparr>le_status := st\<rparr>) - contribution ws u c e"
  by (auto simp: trigger_diff_def contribution_def signed_amount_def)

lemma fire_effect:
  "fire_updates ws st es bs = Some bs' \<Longrightarrow> unique_keys bs \<Longrightarrow> list_all check_balance bs \<Longrightarrow>
   unique_keys bs' \<and> list_all check_balance bs' \<and>
   balance_total u c bs' = balance_total u c bs
     + settled_total ws u c (map (\<lambda>e. e\<lparr>le_status := st\<rparr>) es) - settled_total ws u c es"
proof (induction es arbitrary: bs)
  case Nil
  then show ?case by (simp add: settled_total_def)
next
  case (Cons e es)
  from Cons.prems(1) obtain b1 where b1:
    "update_balance_on_ledger_entry ws (Some e) (e\<lparr>le_status := st\<rparr>) bs = Some b1"
    "fire_updates ws st es b1 = Some bs'"
    by (auto simp: bind_eq_Some_conv)
  note t = trigger_effect [OF b1(1) Cons.prems(2,3)]
  show ?case
    using Cons.IH [OF b1(2) t(1,2)] t(3) [of u c] trigger_status_diff [of ws e u c st]
    by (simp add: settled_total_Cons)
qed

lemma settled_total_update:
  "settled_total ws u c (update_where p f es) = settled_total ws u c es
     + settled_total ws u c (map f (filter p es)) - settled_total ws u c (filter p es)"
  by (induction es) (auto simp: settled_total_def)

lemma set_status_books:
  assumes "books_ok db" "set_status p st db = Some db'"
  shows "books_ok db'"
proof -
  from assms(2) obtain bs where f: "fire_updates (wallets db) st (filter p (ledger_entries db)) (balances db) = Some bs"
    and db': "db' = db\<lparr>balances := bs,
       ledger_entries := update_where p (\<lambda>e. e\<lparr>le_status := st\<rparr>) (ledger_entries db)\<rparr>"
    by (auto simp: set_status_def)
  from assms(1) have u: "unique_keys (balances db)" "list_all check_balance (balances db)"
    and s: "\<And>u c. balance_total u c (balances db) = settled_total (wallets db) u c (ledger_entries db)"
    by (simp_all add: books_ok_def)
  show ?thesis using fire_effect [OF f u] by (simp add: books_ok_def db' s settled_total_update)
qed

section \<open>Reachable ledgers\<close>

inductive ledger_step :: "'a ledger_db_scheme \<Rightarrow> 'a ledger_db_scheme \<Rightarrow> bool" where
  ls_create: "createEntry ok i now p db = (res, db') \<Longrightarrow> ledger_step db db'"
| ls_settle: "settleEntry ok i st db = (ures, db') \<Longrightarrow> ledger_step db db'"
| ls_adjust: "createAdjustment ok i now w ty a cur reason actor db = (res, db') \<Longrightarrow> ledger_step db db'"
| ls_settle_ref: "settle_and_release_reserved ref db = Some db' \<Longrightarrow> ledger_step db db'"

lemma createEntry_books: "createEntry ok i now p db = (res, db') \<Longrightarrow> books_ok db \<Longrightarrow> books_ok db'"
  by (auto simp: createEntry_def Let_def split: if_splits option.splits intro: insert_books)

lemma settleEntry_books: "settleEntry ok i st db = (res, db') \<Longrightarrow> books_ok db \<Longrightarrow> books_ok db'"
  by (auto simp: settleEntry_def split: if_splits option.splits intro: set_status_books)

lemma audit_books [simp]: "books_ok (db\<lparr>audit_logs := l\<rparr>) = books_ok db"
  by (simp add: books_ok_def)

lemma ledger_step_books: "ledger_step db db' \<Longrightarrow> books_ok db \<Longrightarrow> books_ok db'"
proof (induction rule: ledger_step.induct)
  case (ls_adjust ok i now w ty a cur reason actor db res db')
  then show ?case
    by (auto simp: createAdjustment_def split: prod.splits sum.splits dest: createEntry_books)
qed (auto simp: settle_and_release_reserved_def
      intro: createEntry_books settleEntry_books set_status_books)

section \<open>Properties\<close>


definition empty_ledger :: ledger_db where
  "empty_ledger = \<lparr>wallets = [\<lparr>wa_id = ''w1'', wa_user_id = ''u1'', wa_provider_wallet_id = None, wa_network = None, wa_is_active = True\<rparr>], balances = [],
     ledger_entries = [], audit_logs = []\<rparr>"

abbreviation (input) adjust :: "string \<Rightarrow> string \<Rightarrow> rat \<Rightarrow> ledger_db \<Rightarrow> ledger_db" where
  "adjust i ty a db \<equiv> snd (createAdjustment True i 0 ''w1'' ty a ''USD'' '''' ''staff'' db)"

lemmas ledger_eval = createAdjustment_def createEntry_def insert_entry_def
  update_balance_on_ledger_entry_def upsert_balance_def trigger_diff_def signed_amount_def
  wallet_owner_def has_key_def move_balance_def check_balance_def empty_ledger_def
  to_upper_def upper_char_def Let_def


definition sample_balance :: balance where
  "sample_balance = \<lparr>ba_user_id = ''u1'', ba_currency = ''USD'', ba_amount = 100, ba_available = 60,
     ba_reserved = 40\<rparr>"


text \<open>A first entry that is a settled debit gives its amount away. The client has no
  balance row, so the insert branch of the trigger stores the negative amount with an
  available amount of 0 instead of failing the check, and the next credit of the same size
  is available in full although the client's balance is 0.\<close>

theorem debit_without_balance_gives_phantom_funds:
  assumes "0 < a" "\<not> (\<exists>b\<in>set bs. has_key u c b)"
  shows "\<exists>bs1 bs2 b. upsert_balance u c (- a) bs = Some bs1 \<and> upsert_balance u c a bs1 = Some bs2
    \<and> filter (has_key u c) bs2 = [b] \<and> ba_amount b = 0 \<and> ba_available b = a"
proof -
  let ?n = "\<lparr>ba_user_id = u, ba_currency = c, ba_amount = - a, ba_available = 0, ba_reserved = 0\<rparr>"
  have 1: "upsert_balance u c (- a) bs = Some (bs @ [?n])"
    using assms by (auto simp: upsert_balance_def)
  have f: "filter (has_key u c) bs = []" using assms(2) by (auto simp: filter_empty_conv)
  have m: "update_where (has_key u c) (move_balance a) bs = bs"
    using assms(2) by (intro update_where_none) blast
  have n: "has_key u c ?n" by (simp add: has_key_def)
  have 2: "upsert_balance u c a (bs @ [?n]) = Some (bs @ [move_balance a ?n])"
    using assms n m by (auto simp: upsert_balance_def update_where_def check_balance_def move_balance_def)
  have "filter (has_key u c) (bs @ [move_balance a ?n]) = [move_balance a ?n]" using f n by simp
  with 1 2 assms(1) show ?thesis by (auto simp: move_balance_def)
qed

theorem debit_without_balance_gives_phantom_funds_witness:
  "\<exists>bs1 bs2 b. upsert_balance ''u1'' ''USD'' (- 5) [] = Some bs1
    \<and> upsert_balance ''u1'' ''USD'' 5 bs1 = Some bs2
    \<and> filter (has_key ''u1'' ''USD'') bs2 = [b] \<and> ba_amount b = 0 \<and> ba_available b = 5"
  by (rule debit_without_balance_gives_phantom_funds) simp_all

text \<open>An entry leaves the status pending once. After a settlement of any outcome that
  the database accepted, every further call for the same entry changes nothing.\<close>

theorem settle_happens_once:
  assumes "settleEntry True i st db = (Inr (), db')" "st \<noteq> ''pending''"
  shows "settleEntry True i st' db' = (Inr (), db')"
proof -
  let ?p = "\<lambda>e. le_id e = i \<and> le_status e = ''pending''"
  from assms(1) obtain db1 where "set_status ?p st db = Some db1" "db' = db1"
    by (simp add: settleEntry_def split: option.splits)
  then have "filter ?p (ledger_entries db') = []"
    using assms(2) by (intro set_status_clears [of ?p st db]) simp_all
  then show ?thesis by (simp add: settleEntry_def set_status_none)
qed
definition pending_credit :: entry_params where
  "pending_credit = \<lparr>ep_wallet_id = ''w1'', ep_type = ''credit'', ep_amount = 7, ep_currency = ''USD'',
     ep_status = ''pending'', ep_reference_type = None, ep_reference_id = None,
     ep_bridge_transfer_id = None, ep_description = ''''\<rparr>"

theorem settle_happens_once_witness:
  "let db = snd (settleEntry True ''e1'' ''settled'' (snd (createEntry True ''e1'' 0 pending_credit empty_ledger)))
   in settleEntry True ''e1'' ''reversed'' db = (Inr (), db)"
proof -
  let ?db = "snd (createEntry True ''e1'' 0 pending_credit empty_ledger)"
  have "fst (settleEntry True ''e1'' ''settled'' ?db) = Inr ()"
    by (simp add: settleEntry_def set_status_def pending_credit_def ledger_eval)
  then have "settleEntry True ''e1'' ''settled'' ?db = (Inr (), snd (settleEntry True ''e1'' ''settled'' ?db))"
    by (simp add: prod_eq_iff)
  from settle_happens_once [OF this, of "''reversed''"] show ?thesis by (simp add: Let_def)
qed
section \<open>Pagination\<close>

lemma page_concat:
  fixes k :: int
  assumes "0 < k"
  shows "concat (map (\<lambda>i. db_range (int i * k) (int i * k + k - 1) rs) [0..<n]) = take (nat k * n) rs"
proof (induction n)
  case 0
  then show ?case by simp
next
  case (Suc n)
  have "nat (int n * k) = nat k * n" using assms by (simp add: nat_mult_distrib)
  then have "db_range (int n * k) (int n * k + k - 1) rs = take (nat k) (drop (nat k * n) rs)"
    by (simp add: db_range_def)
  with Suc show ?case by (simp add: take_add add.commute [of "nat k"])
qed

text \<open>The pages of the history tile it. With a page size of at most 100, reading the pages
  in order gives every matching entry once, newest first, when as many pages are read as the
  answer announces.\<close>

theorem history_pages_tile:
  assumes "1 \<le> limit" "limit \<le> 100" "w \<in> set (wallets db)" "wa_user_id w = userId"
  shows "concat (map (\<lambda>i. hp_entries (getHistory userId f (int i + 1) limit db))
       [0..<nat (hp_totalPages (getHistory userId f 1 limit db))])
     = sort_key (\<lambda>e. - le_created_at e) (filter (history_matches
         (map wa_id (filter (\<lambda>w. wa_user_id w = userId) (wallets db))) f) (ledger_entries db))"
    (is "_ = ?rows")
proof -
  let ?wi = "map wa_id (filter (\<lambda>w. wa_user_id w = userId) (wallets db))"
  have ne: "?wi \<noteq> []" using assms(3,4) by (auto simp: filter_empty_conv)
  have m: "min limit 100 = limit" using assms(2) by simp
  define N where "N = nat \<lceil>of_nat (length ?rows) / (of_int limit :: rat)\<rceil>"
  have p: "hp_entries (getHistory userId f (int i + 1) limit db)
      = db_range (int i * limit) (int i * limit + limit - 1) ?rows" for i
    using ne by (simp add: getHistory_def Let_def m)
  have t: "nat (hp_totalPages (getHistory userId f 1 limit db)) = N"
    using ne by (simp add: getHistory_def Let_def m N_def)
  have "(of_nat (length ?rows) :: rat) / of_int limit \<le> of_nat N"
    unfolding N_def by (metis of_nat_ceiling)
  then have "(of_nat (length ?rows) :: rat) \<le> of_nat N * of_int limit"
    using assms(1) by (simp add: pos_divide_le_eq)
  then have "(of_int (int (length ?rows)) :: rat) \<le> of_int (int N * limit)" by simp
  then have "int (length ?rows) \<le> int N * limit" by (simp only: of_int_le_iff)
  also have "\<dots> = int (nat limit * N)" using assms(1) by simp
  finally have "length ?rows \<le> nat limit * N" by (simp only: of_nat_le_iff)
  moreover have "concat (map (\<lambda>i. hp_entries (getHistory userId f (int i + 1) limit db)) [0..<N])
      = take (nat limit * N) ?rows"
    unfolding p using assms(1) by (intro page_concat) simp
  ultimately show ?thesis unfolding t by simp
qed

definition no_filters :: history_filters where
  "no_filters = \<lparr>hf_from = None, hf_to = None, hf_type = None, hf_currency = None, hf_status = None\<rparr>"

theorem history_pages_tile_witness:
  "concat (map (\<lambda>i. hp_entries (getHistory ''u1'' no_filters (int i + 1) 50 empty_ledger))
       [0..<nat (hp_totalPages (getHistory ''u1'' no_filters 1 50 empty_ledger))])
     = sort_key (\<lambda>e. - le_created_at e) (filter (history_matches
         (map wa_id (filter (\<lambda>w. wa_user_id w = ''u1'') (wallets empty_ledger))) no_filters)
         (ledger_entries empty_ledger))"
  by (rule history_pages_tile [of 50 "\<lparr>wa_id = ''w1'', wa_user_id = ''u1'', wa_provider_wallet_id = None, wa_network = None, wa_is_active = True\<rparr>"])
     (simp_all add: empty_ledger_def)

text \<open>A page size above 100 loses entries. The size is clamped to 100 but the offset is
  not, so page 2 of size 200 starts at entry 200 and the entries 100 to 199 are on no page.\<close>

theorem history_large_limit_skips:
  assumes "w \<in> set (wallets db)" "wa_user_id w = userId"
  shows "\<forall>page\<ge>1. hp_entries (getHistory userId f page 200 db)
    = take 100 (drop (nat (200 * (page - 1))) (sort_key (\<lambda>e. - le_created_at e)
        (filter (history_matches (map wa_id (filter (\<lambda>w. wa_user_id w = userId) (wallets db))) f)
          (ledger_entries db))))"
proof -
  have ne: "map wa_id (filter (\<lambda>w. wa_user_id w = userId) (wallets db)) \<noteq> []"
    using assms by (auto simp: filter_empty_conv)
  show ?thesis
    using ne by (simp add: getHistory_def Let_def db_range_def mult.commute)
qed

theorem history_large_limit_skips_witness:
  "hp_entries (getHistory ''u1'' no_filters 2 200 empty_ledger) = []"
proof -
  have "\<forall>page\<ge>1. hp_entries (getHistory ''u1'' no_filters page 200 empty_ledger)
    = take 100 (drop (nat (200 * (page - 1))) (sort_key (\<lambda>e. - le_created_at e)
        (filter (history_matches (map wa_id (filter (\<lambda>w. wa_user_id w = ''u1'') (wallets empty_ledger)))
          no_filters) (ledger_entries empty_ledger))))"
    by (rule history_large_limit_skips [of "\<lparr>wa_id = ''w1'', wa_user_id = ''u1'', wa_provider_wallet_id = None, wa_network = None, wa_is_active = True\<rparr>"])
       (simp_all add: empty_ledger_def)
  then show ?thesis by (simp add: empty_ledger_def)
qed

end
