(* ===== verification/TtlCache.thy ===== *)
theory TtlCache imports Prelude begin

text \<open>
  The contract of the in-process caches with a time to live. Two services keep one: the
  switches of the review gate (15 s) and the limits of the authentication rate limiter
  (60 s). A request at time \<open>now\<close> answers from the cache while it is live, reloads it
  otherwise, and falls back to a default when the load yields nothing usable. \<open>hist t\<close>
  is what a load at time \<open>t\<close> would return, so \<open>fresh\<close> says that the cached value was
  really loaded, and no later than now. The consequence is a bound on staleness.
\<close>

locale ttl_cache =
  fixes get :: "int \<Rightarrow> 'l \<Rightarrow> 's \<Rightarrow> 'v \<times> 's"
    and val_of :: "'l \<Rightarrow> 'v option"
    and fallback :: 'v
    and cached :: "'s \<Rightarrow> ('v \<times> int) option"
    and ttl :: int
  assumes hit: "cached s = Some (v, e) \<Longrightarrow> now < e \<Longrightarrow> get now l s = (v, s)"
    and load_fst: "(\<And>v e. cached s = Some (v, e) \<Longrightarrow> e \<le> now) \<Longrightarrow> val_of l = Some v
      \<Longrightarrow> fst (get now l s) = v"
    and load_snd: "(\<And>v e. cached s = Some (v, e) \<Longrightarrow> e \<le> now) \<Longrightarrow> val_of l = Some v
      \<Longrightarrow> cached (snd (get now l s)) = Some (v, now + ttl)"
    and load_fails: "(\<And>v e. cached s = Some (v, e) \<Longrightarrow> e \<le> now) \<Longrightarrow> val_of l = None
      \<Longrightarrow> get now l s = (fallback, s)"
    and ttl_pos: "0 < ttl"
begin

definition fresh :: "(int \<Rightarrow> 'l) \<Rightarrow> int \<Rightarrow> 's \<Rightarrow> bool" where
  "fresh hist now s \<longleftrightarrow>
     (\<forall>v e. cached s = Some (v, e) \<longrightarrow> val_of (hist (e - ttl)) = Some v \<and> e - ttl \<le> now)"

lemma fresh_empty: "cached s = None \<Longrightarrow> fresh hist now s"
  by (simp add: fresh_def)

lemma fresh_later: "fresh hist now s \<Longrightarrow> now \<le> now' \<Longrightarrow> fresh hist now' s"
  by (fastforce simp: fresh_def)

lemma live_or_not:
  obtains (live) v e where "cached s = Some (v, e)" "now < e"
  | (dead) "\<And>v e. cached s = Some (v, e) \<Longrightarrow> e \<le> now"
  by (metis linorder_not_le)

lemma get_answer:
  assumes "fresh hist now s"
  shows "(\<exists>t. now - ttl < t \<and> t \<le> now \<and> val_of (hist t) = Some (fst (get now (hist now) s)))
    \<or> (val_of (hist now) = None \<and> fst (get now (hist now) s) = fallback)"
proof (cases s now rule: live_or_not)
  case (live v e)
  with assms have "val_of (hist (e - ttl)) = Some v" "e - ttl \<le> now" by (auto simp: fresh_def)
  with live hit show ?thesis by (intro disjI1 exI [of _ "e - ttl"]) auto
next
  case dead
  show ?thesis
  proof (cases "val_of (hist now)")
    case None
    with dead load_fails show ?thesis by simp
  next
    case (Some v)
    with dead load_fst [of s now "hist now" v] ttl_pos show ?thesis
      by (intro disjI1 exI [of _ now]) auto
  qed
qed

lemma get_fresh:
  assumes "fresh hist now s"
  shows "fresh hist now (snd (get now (hist now) s))"
proof (cases s now rule: live_or_not)
  case (live v e)
  with assms hit show ?thesis by simp
next
  case dead
  show ?thesis
  proof (cases "val_of (hist now)")
    case None
    with dead load_fails assms show ?thesis by simp
  next
    case (Some v)
    with dead load_snd [of s now "hist now" v] show ?thesis by (simp add: fresh_def)
  qed
qed

text \<open>A run of requests at increasing times, and what every one of them answers.\<close>

fun answers :: "(int \<Rightarrow> 'l) \<Rightarrow> int list \<Rightarrow> 's \<Rightarrow> (int \<times> 'v) list" where
  "answers hist [] s = []"
| "answers hist (t # ts) s =
     (let (v, s') = get t (hist t) s in (t, v) # answers hist ts s')"

lemma answers_bounded:
  assumes "fresh hist t0 s" "sorted (t0 # ts)" "(t, v) \<in> set (answers hist ts s)"
  shows "(\<exists>u. t - ttl < u \<and> u \<le> t \<and> val_of (hist u) = Some v)
    \<or> (val_of (hist t) = None \<and> v = fallback)"
  using assms
proof (induction ts arbitrary: s t0)
  case Nil
  then show ?case by simp
next
  case (Cons a ts)
  have f: "fresh hist a s" using Cons.prems fresh_later by auto
  obtain w s' where g: "get a (hist a) s = (w, s')" by fastforce
  with get_fresh [OF f] have f': "fresh hist a s'" by simp
  show ?case
  proof (cases "(t, v) = (a, w)")
    case True
    with get_answer [OF f] g show ?thesis by simp
  next
    case False
    with Cons.prems g have "(t, v) \<in> set (answers hist ts s')" by auto
    with Cons.IH [OF f'] Cons.prems show ?thesis by simp
  qed
qed

end

end
