(* ===== verification/CancellationPolicy.thy ===== *)
theory CancellationPolicy imports Prelude begin

text \<open>
  The cancellation policy of payment orders,
  \<open>src/application/payment-orders/cancellation-policy.ts\<close>: the pure functions that the
  API, the serializer and the staff panel share. Flow types and statuses are strings, as
  in the code, so unknown values are part of the model. The Spanish message texts are
  left out; the reason code determines them.
\<close>

datatype cancellation_group = FiatInBo | CryptoIn | WalletRampOut

datatype cancellation_reason =
    FLOW_NOT_CANCELLABLE
  | TERMINAL_STATUS
  | STATUS_NOT_CANCELLABLE
  | FUNDS_IN_FLIGHT
  | DEPOSIT_DECLARATION_REQUIRED

record cancellation_decision =
  allowed :: bool
  reason_code :: "cancellation_reason option"

definition TERMINAL_ORDER_STATUSES :: "string list" where
  "TERMINAL_ORDER_STATUSES =
     [''completed'', ''failed'', ''cancelled'', ''refunded'', ''swept_external'']"

definition BRIDGE_CANCELLABLE_STATE :: string where
  "BRIDGE_CANCELLABLE_STATE = ''awaiting_funds''"

definition FIAT_IN_BO_FLOWS :: "string list" where
  "FIAT_IN_BO_FLOWS =
     [''bolivia_to_world'', ''bolivia_to_wallet'', ''world_to_bolivia'',
      ''fiat_bo_to_bridge_wallet'']"

definition PSAV_DEPOSIT_FLOWS :: "string list" where
  "PSAV_DEPOSIT_FLOWS = FIAT_IN_BO_FLOWS"

definition CRYPTO_IN_FLOWS :: "string list" where
  "CRYPTO_IN_FLOWS =
     [''wallet_to_wallet'', ''wallet_to_world'', ''crypto_to_bridge_wallet'']"

definition WALLET_RAMP_OUT_FLOWS :: "string list" where
  "WALLET_RAMP_OUT_FLOWS =
     [''bridge_wallet_to_fiat_bo'', ''bridge_wallet_to_crypto'',
      ''bridge_wallet_to_fiat_us'']"

fun CLIENT_CANCELLABLE_STATUSES :: "cancellation_group \<Rightarrow> string list" where
  "CLIENT_CANCELLABLE_STATUSES FiatInBo = [''created'', ''waiting_deposit'']"
| "CLIENT_CANCELLABLE_STATUSES CryptoIn = [''created'', ''pending_review'', ''waiting_deposit'']"
| "CLIENT_CANCELLABLE_STATUSES WalletRampOut = [''pending_review'']"

definition STAFF_CANCELLABLE_STATUSES :: "string list" where
  "STAFF_CANCELLABLE_STATUSES =
     [''created'', ''pending'', ''pending_review'', ''waiting_deposit'', ''deposit_received'',
      ''processing'']"

lemmas cancellation_lists =
  TERMINAL_ORDER_STATUSES_def BRIDGE_CANCELLABLE_STATE_def FIAT_IN_BO_FLOWS_def
  PSAV_DEPOSIT_FLOWS_def CRYPTO_IN_FLOWS_def WALLET_RAMP_OUT_FLOWS_def
  STAFF_CANCELLABLE_STATUSES_def

definition resolveCancellationGroup :: "ostring \<Rightarrow> cancellation_group option" where
  "resolveCancellationGroup flowType =
     (case flowType of
        None \<Rightarrow> None
      | Some f \<Rightarrow>
          if f = '''' then None
          else if f \<in> set FIAT_IN_BO_FLOWS then Some FiatInBo
          else if f \<in> set CRYPTO_IN_FLOWS then Some CryptoIn
          else if f \<in> set WALLET_RAMP_OUT_FLOWS then Some WalletRampOut
          else None)"

definition requiresNoDepositDeclaration :: "ostring \<Rightarrow> bool" where
  "requiresNoDepositDeclaration flowType \<longleftrightarrow> resolveCancellationGroup flowType = Some FiatInBo"

definition requiresBridgeStateCheck :: "ostring \<Rightarrow> bool" where
  "requiresBridgeStateCheck flowType \<longleftrightarrow> resolveCancellationGroup flowType = Some CryptoIn"

text \<open>
  \<open>bridge_state\<close> has three cases in the code: \<open>undefined\<close> (\<open>None\<close>, not asked),
  \<open>null\<close> (\<open>Some None\<close>, no transfer) and a state. \<open>confirm_no_deposit\<close> is
  \<open>undefined\<close>, \<open>false\<close> or \<open>true\<close>.
\<close>

record client_cancellation_input =
  in_flow_type :: ostring
  in_status :: string
  in_bridge_state :: "ostring option"
  in_confirm_no_deposit :: "bool option"

definition deny :: "cancellation_reason \<Rightarrow> cancellation_decision" where
  "deny r = \<lparr>allowed = False, reason_code = Some r\<rparr>"

definition permit :: cancellation_decision where
  "permit = \<lparr>allowed = True, reason_code = None\<rparr>"

lemma decision_simps [simp]:
  "allowed permit" "\<not> allowed (deny r)" "reason_code permit = None"
  "reason_code (deny r) = Some r" "permit \<noteq> deny r" "deny r \<noteq> permit"
  "deny r = deny r' \<longleftrightarrow> r = r'"
  by (simp_all add: permit_def deny_def)

definition evaluateClientCancellation :: "client_cancellation_input \<Rightarrow> cancellation_decision" where
  "evaluateClientCancellation i =
     (if in_status i \<in> set TERMINAL_ORDER_STATUSES then deny TERMINAL_STATUS
      else case resolveCancellationGroup (in_flow_type i) of
        None \<Rightarrow> deny FLOW_NOT_CANCELLABLE
      | Some g \<Rightarrow>
          if g = WalletRampOut \<and> in_status i \<noteq> ''pending_review'' then deny FLOW_NOT_CANCELLABLE
          else if in_status i \<notin> set (CLIENT_CANCELLABLE_STATUSES g)
            then deny STATUS_NOT_CANCELLABLE
          else if g = CryptoIn \<and> (case in_bridge_state i of
                  None \<Rightarrow> False
                | Some None \<Rightarrow> False
                | Some (Some b) \<Rightarrow> b \<noteq> BRIDGE_CANCELLABLE_STATE)
            then deny FUNDS_IN_FLIGHT
          else if g = FiatInBo \<and> in_confirm_no_deposit i \<noteq> None
               \<and> in_confirm_no_deposit i \<noteq> Some True
            then deny DEPOSIT_DECLARATION_REQUIRED
          else permit)"

definition evaluateStaffCancellation :: "string \<Rightarrow> cancellation_decision" where
  "evaluateStaffCancellation status =
     (if status \<in> set TERMINAL_ORDER_STATUSES then deny TERMINAL_STATUS
      else if status \<notin> set STAFF_CANCELLABLE_STATUSES then deny STATUS_NOT_CANCELLABLE
      else permit)"

definition defaultClientCancellationReason :: "ostring \<Rightarrow> string" where
  "defaultClientCancellationReason flowType =
     (case resolveCancellationGroup flowType of
        Some FiatInBo \<Rightarrow> ''Cliente declaro no haber depositado''
      | Some CryptoIn \<Rightarrow> ''Cancelado por el cliente antes de recibir fondos''
      | _ \<Rightarrow> ''Cancelado por el cliente'')"

section \<open>The policy stated by where the money is\<close>

text \<open>
  The rule the header of the source file states: an order is cancellable by the client
  only while the money provably has not moved. For each group the predicate lists the
  safe situations; it does not follow the order of the checks in the code.
\<close>

definition client_safe_to_cancel ::
  "cancellation_group \<Rightarrow> string \<Rightarrow> ostring option \<Rightarrow> bool option \<Rightarrow> bool" where
  "client_safe_to_cancel g st bs dep \<longleftrightarrow>
     (case g of
        FiatInBo \<Rightarrow> st \<in> {''created'', ''waiting_deposit''} \<and> dep \<noteq> Some False
      | CryptoIn \<Rightarrow> st \<in> {''created'', ''pending_review'', ''waiting_deposit''}
           \<and> bs \<in> {None, Some None, Some (Some ''awaiting_funds'')}
      | WalletRampOut \<Rightarrow> st = ''pending_review'')"

lemma group_flow_cases [result_simps]:
  "resolveCancellationGroup f = Some FiatInBo \<longleftrightarrow> (\<exists>x. f = Some x \<and> x \<in> set FIAT_IN_BO_FLOWS)"
  "resolveCancellationGroup f = Some CryptoIn \<longleftrightarrow> (\<exists>x. f = Some x \<and> x \<in> set CRYPTO_IN_FLOWS)"
  "resolveCancellationGroup f = Some WalletRampOut \<longleftrightarrow>
     (\<exists>x. f = Some x \<and> x \<in> set WALLET_RAMP_OUT_FLOWS)"
  by (cases f; auto simp: resolveCancellationGroup_def cancellation_lists)+

lemma terminal_not_client_cancellable:
  "st \<in> set TERMINAL_ORDER_STATUSES \<Longrightarrow> st \<notin> set (CLIENT_CANCELLABLE_STATUSES g)"
  by (cases g) (auto simp: TERMINAL_ORDER_STATUSES_def)

lemma terminal_not_staff_cancellable:
  "st \<in> set TERMINAL_ORDER_STATUSES \<Longrightarrow> st \<notin> set STAFF_CANCELLABLE_STATUSES"
  by (auto simp: TERMINAL_ORDER_STATUSES_def STAFF_CANCELLABLE_STATUSES_def)

lemma client_allowed_iff_safe:
  "allowed (evaluateClientCancellation i) \<longleftrightarrow>
     (\<exists>g. resolveCancellationGroup (in_flow_type i) = Some g
        \<and> client_safe_to_cancel g (in_status i) (in_bridge_state i) (in_confirm_no_deposit i))"
proof (cases "resolveCancellationGroup (in_flow_type i)")
  case None
  then show ?thesis by (simp add: evaluateClientCancellation_def)
next
  case (Some g)
  have "in_confirm_no_deposit i \<in> {None, Some True, Some False}"
    by (cases "in_confirm_no_deposit i") auto
  then show ?thesis
    using Some
    by (cases g)
       (auto simp: evaluateClientCancellation_def client_safe_to_cancel_def
          TERMINAL_ORDER_STATUSES_def BRIDGE_CANCELLABLE_STATE_def split: option.splits)
qed

lemma staff_allowed_iff:
  "allowed (evaluateStaffCancellation st) \<longleftrightarrow> st \<in> set STAFF_CANCELLABLE_STATUSES"
  using terminal_not_staff_cancellable by (auto simp: evaluateStaffCancellation_def)

lemma allowed_no_reason:
  "allowed (evaluateClientCancellation i) \<longleftrightarrow> reason_code (evaluateClientCancellation i) = None"
  by (simp add: evaluateClientCancellation_def split: option.splits)

section \<open>Properties\<close>

text \<open>C19: The client's cancellation is allowed exactly in the situations where the funds
  have provably not moved: a Bolivian deposit that is still open and not declared as paid,
  a crypto deposit whose transfer is absent or awaits funds, or a wallet payout still
  waiting for review.\<close>

theorem client_cancellation_policy:
  "allowed (evaluateClientCancellation
      \<lparr>in_flow_type = f, in_status = st, in_bridge_state = bs, in_confirm_no_deposit = dep\<rparr>) =
   (\<exists>x. f = Some x \<and>
     (x \<in> set FIAT_IN_BO_FLOWS
        \<and> st \<in> {''created'', ''waiting_deposit''} \<and> dep \<noteq> Some False
      \<or> x \<in> set CRYPTO_IN_FLOWS
        \<and> st \<in> {''created'', ''pending_review'', ''waiting_deposit''}
        \<and> bs \<in> {None, Some None, Some (Some ''awaiting_funds'')}
      \<or> x \<in> set WALLET_RAMP_OUT_FLOWS \<and> st = ''pending_review''))"
proof -
  have "(\<exists>g. resolveCancellationGroup f = Some g \<and> client_safe_to_cancel g st bs dep) =
     (resolveCancellationGroup f = Some FiatInBo \<and> client_safe_to_cancel FiatInBo st bs dep
      \<or> resolveCancellationGroup f = Some CryptoIn \<and> client_safe_to_cancel CryptoIn st bs dep
      \<or> resolveCancellationGroup f = Some WalletRampOut
         \<and> client_safe_to_cancel WalletRampOut st bs dep)"
    by (metis (full_types) cancellation_group.exhaust)
  then have "allowed (evaluateClientCancellation
      \<lparr>in_flow_type = f, in_status = st, in_bridge_state = bs, in_confirm_no_deposit = dep\<rparr>) =
     ((\<exists>x. f = Some x \<and> x \<in> set FIAT_IN_BO_FLOWS) \<and> client_safe_to_cancel FiatInBo st bs dep
      \<or> (\<exists>x. f = Some x \<and> x \<in> set CRYPTO_IN_FLOWS) \<and> client_safe_to_cancel CryptoIn st bs dep
      \<or> (\<exists>x. f = Some x \<and> x \<in> set WALLET_RAMP_OUT_FLOWS)
         \<and> client_safe_to_cancel WalletRampOut st bs dep)"
    unfolding client_allowed_iff_safe client_cancellation_input.simps
    by (simp only: group_flow_cases)
  also have "\<dots> = (\<exists>x. f = Some x \<and>
     (x \<in> set FIAT_IN_BO_FLOWS \<and> client_safe_to_cancel FiatInBo st bs dep
      \<or> x \<in> set CRYPTO_IN_FLOWS \<and> client_safe_to_cancel CryptoIn st bs dep
      \<or> x \<in> set WALLET_RAMP_OUT_FLOWS \<and> client_safe_to_cancel WalletRampOut st bs dep))"
    by blast
  finally show ?thesis
    by (simp only: client_safe_to_cancel_def cancellation_group.case)
qed

end
