(* ===== verification/ReviewGate.thy ===== *)
theory ReviewGate imports TtlCache CancellationPolicy begin

text \<open>
  The staff review gate: which flows support it and what an order waiting for review has
  reserved (\<open>staff-review-gate.ts\<close>), and the per-flow switches with their in-memory
  cache (\<open>flow-review-settings.service.ts\<close>), both under
  \<open>src/application/payment-orders/\<close>.
\<close>

section \<open>Flows that can wait for review, and the execution context\<close>

definition STAFF_REVIEW_GATED_FLOWS :: "string list" where
  "STAFF_REVIEW_GATED_FLOWS =
     [''bolivia_to_world'', ''bolivia_to_wallet'', ''world_to_bolivia'', ''wallet_to_wallet'',
      ''fiat_bo_to_bridge_wallet'', ''crypto_to_bridge_wallet'',
      ''bridge_wallet_to_fiat_bo'', ''bridge_wallet_to_crypto'', ''bridge_wallet_to_fiat_us'',
      ''wallet_to_world'']"

definition supportsStaffReviewGate :: "ostring \<Rightarrow> bool" where
  "supportsStaffReviewGate flowType \<longleftrightarrow> or_else flowType '''' \<in> set STAFF_REVIEW_GATED_FLOWS"

datatype bridge_leg_failure_mode = FailOrder | ReturnToReview

record bridge_leg_result =
  leg_transfer_id :: ostring
  leg_status :: string

text \<open>
  \<open>BridgeExecContext\<close>: the discriminated union, one constructor per \<open>kind\<close> with the
  fields the variant adds; the common fields are in the record. \<open>total_needed\<close> is read
  back from JSON through \<open>Number(...)\<close>, so it may be missing or not a number.
\<close>

datatype exec_kind =
    FiatBoExec (psav_account_id: string) (psav_dest_currency: string)
  | CryptoExec (destination_rail: string) (destination_currency: string)
      (destination_address: string)
  | FiatUsExec (supplier_payment_rail: string) (external_account_local_id: string)
      (fiat_destination_currency: string) (fx_mode: bool) (fx_destination_amount: "rat option")
      (client_rate: "rat option")
  | PeruExec (peru_psav_account_id: string) (peru_psav_dest_currency: string)
  | WalletToWorldExec (w2w_source_network: string) (w2w_supplier_payment_rail: string)
      (w2w_external_account_local_id: string) (w2w_destination_currency: string)
      (w2w_fee_percent: string)
  | PsavDepositExec (psav_type: string) (psav_currency: string)
  | FiatBoOnRampExec (onramp_psav_type: string) (onramp_psav_currency: string)
      (psav_source_payment_rail: string) (psav_source_currency: string)
      (onramp_wallet_network: string) (onramp_destination_currency: string)
      (developer_fee_percent: string) (bridge_amount_estimated: rat)
      (net_amount_destination: rat)
  | CryptoOnRampExec (con_source_network: string) (con_source_currency_lower: string)
      (con_wallet_network: string) (con_destination_currency: string) (con_fee_percent: string)
  | WalletToWalletExec (wtw_source_network: string) (wtw_source_currency_lower: string)
      (wtw_destination_rail: string) (wtw_destination_currency: string)
      (wtw_destination_address: string) (wtw_fee_percent: string)

record bridge_exec_context =
  ctx_kind :: "exec_kind option"
  ctx_source_currency :: ostring
  ctx_amount :: rat
  ctx_fee_amount :: rat
  ctx_net_amount :: rat
  ctx_total_needed :: "jsnum option"

record reserve =
  reserve_currency :: string
  reserve_amount :: rat

definition resolvePendingReviewReserve ::
  "ostring \<Rightarrow> ostring \<Rightarrow> bridge_exec_context option \<Rightarrow> reserve option" where
  "resolvePendingReviewReserve currency source_currency ctx =
     (let amount = or_else (Option.bind ctx ctx_total_needed) (Fin 0) in
      case amount of
        Fin a \<Rightarrow>
          if a \<le> 0 then None
          else
            let cur = to_upper (or_else (Option.bind ctx ctx_source_currency)
                        (or_else source_currency (or_else currency '''')))
            in if cur = '''' then None
               else Some \<lparr>reserve_currency = cur, reserve_amount = a\<rparr>
      | _ \<Rightarrow> None)"

lemma reserve_no_ctx [simp]: "resolvePendingReviewReserve c sc None = None"
  by (simp add: resolvePendingReviewReserve_def)

lemma reserve_positive:
  "resolvePendingReviewReserve c sc ctx = Some r \<Longrightarrow> 0 < reserve_amount r"
  by (auto simp: resolvePendingReviewReserve_def Let_def split: jsnum.splits if_splits)

lemma reserve_from_ctx:
  assumes "ctx_total_needed x = Some (Fin a)" "0 < a" "ctx_source_currency x = Some cur"
    "cur \<noteq> ''''"
  shows "resolvePendingReviewReserve c sc (Some x) =
    Some \<lparr>reserve_currency = to_upper cur, reserve_amount = a\<rparr>"
  using assms by (simp add: resolvePendingReviewReserve_def)

section \<open>The switches\<close>

record flow_review_setting =
  frs_flow_type :: string
  frs_requires :: bool
  frs_updated_by :: ostring

record flow_review_settings_service =
  cache :: "(string \<rightharpoonup> bool) option"
  cacheExpiresAt :: int

definition CACHE_TTL_MS :: int where
  "CACHE_TTL_MS = 15000"

definition settings_map :: "flow_review_setting list \<Rightarrow> (string \<rightharpoonup> bool)" where
  "settings_map rows = foldl (\<lambda>m r. m(frs_flow_type r \<mapsto> frs_requires r)) Map.empty rows"

text \<open>
  \<open>loadCache\<close>; \<open>rows\<close> is \<open>None\<close> when the query fails, which the code turns into an
  empty map without touching the cache.
\<close>

definition loadCache ::
  "int \<Rightarrow> flow_review_setting list option \<Rightarrow> flow_review_settings_service
    \<Rightarrow> (string \<rightharpoonup> bool) \<times> flow_review_settings_service" where
  "loadCache now rows s =
     (if cache s \<noteq> None \<and> now < cacheExpiresAt s then (the (cache s), s)
      else case rows of
        None \<Rightarrow> (Map.empty, s)
      | Some rs \<Rightarrow>
          let m = settings_map rs
          in (m, s\<lparr>cache := Some m, cacheExpiresAt := now + CACHE_TTL_MS\<rparr>))"

definition invalidateCache :: "flow_review_settings_service \<Rightarrow> flow_review_settings_service" where
  "invalidateCache s = s\<lparr>cache := None, cacheExpiresAt := 0\<rparr>"

definition requiresReview ::
  "int \<Rightarrow> flow_review_setting list option \<Rightarrow> ostring \<Rightarrow> flow_review_settings_service
    \<Rightarrow> bool \<times> flow_review_settings_service" where
  "requiresReview now rows flowType s =
     (if \<not> truthy flowType then (False, s)
      else if the flowType \<notin> set STAFF_REVIEW_GATED_FLOWS then (False, s)
      else let (settings, s') = loadCache now rows s
           in (or_else (settings (the flowType)) True, s'))"

text \<open>
  \<open>updateSetting\<close>: the row is updated, the cache of this process dropped and the change
  audited. \<open>audit\<close> is the list of audit rows as (actor, flow, new value).
\<close>

definition updateSetting ::
  "string \<Rightarrow> bool \<Rightarrow> string \<Rightarrow> flow_review_setting list \<times> (string \<times> string \<times> bool) list
     \<Rightarrow> flow_review_settings_service
     \<Rightarrow> flow_review_setting result
        \<times> (flow_review_setting list \<times> (string \<times> string \<times> bool) list)
        \<times> flow_review_settings_service" where
  "updateSetting flowType req actor db s =
     (let (tbl, audit) = db;
          tbl' = update_where (\<lambda>r. frs_flow_type r = flowType)
                   (\<lambda>r. r\<lparr>frs_requires := req, frs_updated_by := Some actor\<rparr>) tbl
      in case maybe_single (filter (\<lambda>r. frs_flow_type r = flowType) tbl') of
           None \<Rightarrow> (Inl (NotFoundException ''''), (tbl', audit), s)
         | Some r \<Rightarrow> (Inr r, (tbl', audit @ [(actor, flowType, req)]), invalidateCache s))"

section \<open>The cache obeys its contract\<close>

definition settings_cached ::
  "flow_review_settings_service \<Rightarrow> ((string \<rightharpoonup> bool) \<times> int) option" where
  "settings_cached s = map_option (\<lambda>m. (m, cacheExpiresAt s)) (cache s)"

interpretation settings: ttl_cache loadCache "map_option settings_map" Map.empty
  settings_cached CACHE_TTL_MS
  by unfold_locales
     (auto simp: loadCache_def settings_cached_def CACHE_TTL_MS_def Let_def linorder_not_less)

lemma settings_map_append:
  "settings_map (rs @ [r]) = (settings_map rs)(frs_flow_type r \<mapsto> frs_requires r)"
  by (simp add: settings_map_def)

lemma settings_map_in:
  "distinct (map frs_flow_type rs) \<Longrightarrow> r \<in> set rs
    \<Longrightarrow> settings_map rs (frs_flow_type r) = Some (frs_requires r)"
proof (induction rs rule: rev_induct)
  case Nil
  then show ?case by simp
next
  case (snoc x xs)
  then show ?case
    by (cases "r = x") (auto simp: settings_map_append image_iff dest: bspec)
qed

lemma settings_map_notin:
  "f \<notin> frs_flow_type ` set rs \<Longrightarrow> settings_map rs f = None"
  by (induction rs rule: rev_induct) (auto simp: settings_map_append settings_map_def)

text \<open>
  \<open>cache_loaded hist now s\<close>: the cached map, if any, is the table as \<open>hist\<close> gives it at
  the moment of the last load. It holds of an empty cache, so of a new process and after
  every \<open>updateSetting\<close>, and every request keeps it.
\<close>

definition cache_loaded ::
  "(int \<Rightarrow> flow_review_setting list option) \<Rightarrow> int \<Rightarrow> flow_review_settings_service \<Rightarrow> bool" where
  "cache_loaded hist now s \<longleftrightarrow>
     (\<forall>m. cache s = Some m \<longrightarrow>
        (let t = cacheExpiresAt s - CACHE_TTL_MS
         in t \<le> now \<and> map_option settings_map (hist t) = Some m))"

lemma cache_loaded_fresh: "cache_loaded hist now s \<longleftrightarrow> settings.fresh hist now s"
  by (auto simp: cache_loaded_def settings.fresh_def settings_cached_def Let_def)

lemma cache_loaded_invalidated [simp]: "cache_loaded hist now (invalidateCache s)"
  by (simp add: cache_loaded_def invalidateCache_def)

lemma cache_loaded_updateSetting:
  "updateSetting f req actor db s = (Inr r, db', s') \<Longrightarrow> cache_loaded hist now s'"
  by (auto simp: updateSetting_def Let_def split: prod.splits option.splits)

lemma requiresReview_loaded:
  "cache_loaded hist now s \<Longrightarrow> cache_loaded hist now (snd (requiresReview now (hist now) f s))"
  by (auto simp: requiresReview_def Let_def cache_loaded_fresh split: prod.splits
      dest: settings.get_fresh)

lemma requiresReview_gated:
  assumes "f \<in> set STAFF_REVIEW_GATED_FLOWS"
  shows "requiresReview now rows (Some f) s =
    (or_else (fst (loadCache now rows s) f) True, snd (loadCache now rows s))"
proof -
  have "f \<noteq> ''''" using assms by (auto simp: STAFF_REVIEW_GATED_FLOWS_def)
  with assms show ?thesis by (simp add: requiresReview_def case_prod_beta Let_def)
qed

section \<open>Properties\<close>

text \<open>C22: The review gate fails closed and its switches are at most 15 seconds stale. For a
  flow that supports the gate, an answer that lets an order skip review was configured in
  the table at some moment within the last 15 seconds.\<close>

theorem review_skip_was_configured:
  assumes "cache_loaded hist now s"
    and "f \<in> set STAFF_REVIEW_GATED_FLOWS"
    and "fst (requiresReview now (hist now) (Some f) s) = False"
  shows "\<exists>t rows. now - 15000 < t \<and> t \<le> now \<and> hist t = Some rows \<and> settings_map rows f = Some False"
proof -
  let ?m = "fst (loadCache now (hist now) s)"
  have m: "?m f = Some False"
    using assms(3) by (auto simp: requiresReview_gated [OF assms(2)] or_else_def split: option.splits)
  with settings.get_answer [of hist now s] assms(1)
  have "\<exists>t. now - CACHE_TTL_MS < t \<and> t \<le> now \<and> map_option settings_map (hist t) = Some ?m"
    by (auto simp: cache_loaded_fresh)
  with m show ?thesis
    by (auto simp: CACHE_TTL_MS_def)
qed

definition sample_settings :: "flow_review_setting list" where
  "sample_settings =
     [\<lparr>frs_flow_type = ''wallet_to_world'', frs_requires = False, frs_updated_by = None\<rparr>]"

theorem review_skip_was_configured_witness:
  "\<exists>t rows. (20000::int) - 15000 < t \<and> t \<le> 20000
     \<and> (if t < 12000 then Some sample_settings else None) = Some rows
     \<and> settings_map rows ''wallet_to_world'' = Some False"
  by (rule review_skip_was_configured
      [where s = "\<lparr>cache = Some (settings_map sample_settings), cacheExpiresAt = 25000\<rparr>"
         and hist = "\<lambda>t. if t < 12000 then Some sample_settings else None"])
     (auto simp: cache_loaded_def requiresReview_def loadCache_def CACHE_TTL_MS_def
        settings_map_def sample_settings_def STAFF_REVIEW_GATED_FLOWS_def Let_def)

text \<open>The gate never lets a request through because its configuration could not be read.
  With no live cache and an unreadable table, or with no row for the flow, every flow that
  supports the gate waits for review, and a flow the code cannot run in two phases never does.\<close>

theorem review_fails_closed:
  assumes "\<not> (cache s \<noteq> None \<and> now < cacheExpiresAt s)"
  shows "fst (requiresReview now None flowType s) =
      (truthy flowType \<and> supportsStaffReviewGate flowType)"
    using assms
    by (cases flowType)
       (auto simp: requiresReview_def loadCache_def supportsStaffReviewGate_def Let_def)

theorem review_fails_closed_witness:
  "fst (requiresReview 5 None (Some ''bolivia_to_world'')
      \<lparr>cache = None, cacheExpiresAt = 0\<rparr>) =
    (truthy (Some ''bolivia_to_world'') \<and> supportsStaffReviewGate (Some ''bolivia_to_world''))"
  by (rule review_fails_closed) simp

end
