(* ===== verification/Orders.thy ===== *)
theory Orders imports ReviewGate Ledger begin

text \<open>
  The tables behind a payment order and the helpers its operations share, from
  \<open>src/application/payment-orders/payment-orders.service.ts\<close>: the reads that the Bridge
  legs repeat, the bookkeeping of a transfer, the failure of a leg, the release of a
  reserve and the reversal of the ledger of an order that ends. Emails, web-socket events
  and in-app notifications are left out; the audit trail and the activity log are kept.
\<close>

section \<open>Tables\<close>

record profile =
  pr_id :: string
  pr_bridge_customer_id :: ostring
  pr_assigned_psav_id :: ostring
  pr_onboarding_status :: ostring
  pr_country_code :: ostring
  pr_role :: string
  pr_is_active :: bool

record psav_account =
  pa_id :: string
  pa_psav_id :: string
  pa_type :: string
  pa_currency :: string
  pa_crypto_address :: ostring
  pa_crypto_network :: ostring
  pa_is_active :: bool

record external_account =
  ea_id :: string
  ea_user_id :: string
  ea_bridge_external_account_id :: ostring
  ea_currency :: ostring
  ea_is_active :: bool

text \<open>Where the client or the staff send funds, as an order stores it.\<close>

record deposit_instructions =
  di_to_address :: ostring
  di_rail :: ostring
  di_currency :: ostring
  di_amount_to_deposit :: "rat option"

record bank_details =
  bd_wallet_address :: ostring
  bd_wallet_network :: ostring
  bd_wallet_currency :: ostring

record supplier =
  sp_id :: string
  sp_user_id :: string
  sp_is_active :: bool
  sp_compliance_status :: ostring
  sp_payment_rail :: ostring
  sp_external_account_id :: ostring
  sp_liquidation_address_id :: ostring
  sp_bank_details :: bank_details

record liquidation_address =
  la_id :: string
  la_bridge_id :: string
  la_user_id :: string
  la_address :: ostring
  la_chain :: ostring
  la_currency :: ostring
  la_destination_currency :: ostring
  la_developer_fee_percent :: ostring

record client_bank_account =
  cb_id :: string
  cb_user_id :: string
  cb_currency :: string
  cb_is_primary :: bool
  cb_status :: string

record bridge_transfer =
  bt_id :: string
  bt_user_id :: string
  bt_bridge_transfer_id :: ostring
  bt_source_rail :: string
  bt_source_currency :: ostring
  bt_destination_rail :: string
  bt_destination_currency :: string
  bt_amount :: rat
  bt_developer_fee_amount :: "rat option"
  bt_developer_fee_percent :: ostring
  bt_net_amount :: rat
  bt_status :: string
  bt_bridge_state :: string
  bt_payout_request_id :: ostring

record bank_trace_codes =
  tr_imad :: ostring
  tr_achTraceNumber :: ostring
  tr_paymentConcept :: ostring
  tr_senderBankRoutingNumber :: ostring

definition no_trace :: bank_trace_codes where
  "no_trace = \<lparr>tr_imad = None, tr_achTraceNumber = None, tr_paymentConcept = None,
     tr_senderBankRoutingNumber = None\<rparr>"

record payment_order =
  po_id :: string
  po_user_id :: string
  po_wallet_id :: ostring
  po_flow_type :: ostring
  po_status :: string
  po_amount :: rat
  po_currency :: ostring
  po_source_currency :: ostring
  po_notes :: ostring
  po_ctx :: "bridge_exec_context option"
  po_bridge_transfer_id :: ostring
  po_bridge_instructions :: "deposit_instructions option"
  po_psav_instructions :: ostring
  po_deposit_expires_at :: "int option"
  po_deposit_proof_url :: ostring
  po_approved_by :: ostring
  po_approved_at :: "int option"
  po_failure_reason :: ostring
  po_tx_hash :: ostring
  po_provider_reference :: ostring
  po_receipt_url :: ostring
  po_completed_at :: "int option"
  po_cancelled_at :: "int option"
  po_cancelled_by :: ostring
  po_cancelled_by_role :: ostring
  po_cancellation_reason :: ostring
  po_fee_amount :: "rat option"
  po_net_amount :: "rat option"
  po_amount_destination :: "rat option"
  po_destination_currency :: ostring
  po_destination_type :: ostring
  po_fx_mode :: ostring
  po_exchange_rate :: "rat option"
  po_deposit_id :: ostring
  po_va_deposit_status :: ostring
  po_sender_name :: ostring
  po_trace :: bank_trace_codes
  po_requires_psav :: bool
  po_source_network :: ostring
  po_destination_network :: ostring
  po_destination_address :: ostring
  po_external_account_id :: ostring
  po_supplier_id :: ostring
  po_liquidation_address_id :: ostring
  po_drain_id :: ostring
  po_developer_fee_usd :: "rat option"
  po_fx_buffer_amount :: "rat option"
  po_business_purpose :: ostring
  po_supporting_document_url :: ostring
  po_deposit_reference_code :: ostring
  po_created_at :: int

record payout_request =
  py_id :: string
  py_status :: string
  py_amount :: rat
  py_fee_amount :: "rat option"
  py_currency :: string

record virtual_account =
  va_bridge_id :: string
  va_id :: string
  va_user_id :: string
  va_destination_wallet_id :: ostring
  va_source_currency :: ostring
  va_destination_currency :: ostring
  va_developer_fee_percent :: "rat option"
  va_is_external_sweep :: bool
  va_status :: string

record notification =
  nt_user_id :: string
  nt_type :: string
  nt_reference_type :: ostring
  nt_reference_id :: ostring

record orders_db = ledger_db +
  payment_orders :: "payment_order list"
  bridge_transfers :: "bridge_transfer list"
  profiles :: "profile list"
  psav_accounts :: "psav_account list"
  external_accounts :: "external_account list"
  activity_logs :: "(string \<times> string) list"
  payout_requests :: "payout_request list"
  virtual_accounts :: "virtual_account list"
  va_events :: "(string \<times> ostring) list"
  certificates :: "(string \<times> string) list"
  notifications :: "notification list"
  suppliers :: "supplier list"
  liquidation_addresses :: "liquidation_address list"
  client_bank_accounts :: "client_bank_account list"
  currency_settings :: "(string \<times> bool) list"

text \<open>The row an insert without columns would give, and a database without rows.\<close>

abbreviation blank_order :: payment_order where
  "blank_order \<equiv> \<lparr>po_id = [], po_user_id = [], po_wallet_id = None, po_flow_type = None,
     po_status = [], po_amount = 0, po_currency = None, po_source_currency = None, po_notes = None,
     po_ctx = None, po_bridge_transfer_id = None, po_bridge_instructions = None,
     po_psav_instructions = None, po_deposit_expires_at = None, po_deposit_proof_url = None,
     po_approved_by = None, po_approved_at = None, po_failure_reason = None, po_tx_hash = None,
     po_provider_reference = None, po_receipt_url = None, po_completed_at = None,
     po_cancelled_at = None, po_cancelled_by = None, po_cancelled_by_role = None,
     po_cancellation_reason = None, po_fee_amount = None, po_net_amount = None,
     po_amount_destination = None, po_destination_currency = None, po_destination_type = None,
     po_fx_mode = None, po_exchange_rate = None, po_deposit_id = None, po_va_deposit_status = None,
     po_sender_name = None, po_trace = no_trace, po_requires_psav = False, po_source_network = None,
     po_destination_network = None, po_destination_address = None, po_external_account_id = None,
     po_supplier_id = None, po_liquidation_address_id = None, po_drain_id = None,
     po_developer_fee_usd = None, po_fx_buffer_amount = None, po_business_purpose = None,
     po_supporting_document_url = None, po_deposit_reference_code = None, po_created_at = 0\<rparr>"

abbreviation empty_tables :: orders_db where
  "empty_tables \<equiv> \<lparr>wallets = [], balances = [], ledger_entries = [], audit_logs = [],
     payment_orders = [], bridge_transfers = [], profiles = [], psav_accounts = [],
     external_accounts = [], activity_logs = [], payout_requests = [], virtual_accounts = [],
     va_events = [], certificates = [], notifications = [], suppliers = [],
     liquidation_addresses = [], client_bank_accounts = [], currency_settings = []\<rparr>"

definition select_order :: "string \<Rightarrow> orders_db \<Rightarrow> payment_order option" where
  "select_order orderId db = maybe_single (filter (\<lambda>o'. po_id o' = orderId) (payment_orders db))"

definition select_user_order :: "string \<Rightarrow> string \<Rightarrow> orders_db \<Rightarrow> payment_order option" where
  "select_user_order userId orderId db =
     maybe_single (filter (\<lambda>o'. po_id o' = orderId \<and> po_user_id o' = userId) (payment_orders db))"

definition update_orders ::
  "(payment_order \<Rightarrow> bool) \<Rightarrow> (payment_order \<Rightarrow> payment_order) \<Rightarrow> orders_db \<Rightarrow> orders_db" where
  "update_orders p f db = db\<lparr>payment_orders := update_where p f (payment_orders db)\<rparr>"

text \<open>\<open>.update(...).where(p).select().maybeSingle()\<close>: the compare-and-set of the service.\<close>

definition cas_order ::
  "(payment_order \<Rightarrow> bool) \<Rightarrow> (payment_order \<Rightarrow> payment_order) \<Rightarrow> orders_db
    \<Rightarrow> payment_order option \<times> orders_db" where
  "cas_order p f db =
     (maybe_single (map f (filter p (payment_orders db))), update_orders p f db)"

definition log_audit :: "ostring \<Rightarrow> string \<Rightarrow> string \<Rightarrow> orders_db \<Rightarrow> orders_db" where
  "log_audit who act rec db =
     db\<lparr>audit_logs := audit_logs db @ [audit who act ''payment_orders'' rec]\<rparr>"

definition log_activity :: "string \<Rightarrow> string \<Rightarrow> orders_db \<Rightarrow> orders_db" where
  "log_activity user act db = db\<lparr>activity_logs := activity_logs db @ [(user, act)]\<rparr>"

lemma update_orders_simps [simp]:
  "payment_orders (update_orders p f db) = update_where p f (payment_orders db)"
  "balances (update_orders p f db) = balances db"
  "ledger_entries (update_orders p f db) = ledger_entries db"
  "bridge_transfers (update_orders p f db) = bridge_transfers db"
  "wallets (update_orders p f db) = wallets db"
  by (simp_all add: update_orders_def)

lemma log_simps [simp]:
  "payment_orders (log_audit w a r db) = payment_orders db"
  "balances (log_audit w a r db) = balances db"
  "ledger_entries (log_audit w a r db) = ledger_entries db"
  "bridge_transfers (log_audit w a r db) = bridge_transfers db"
  "payment_orders (log_activity u a db) = payment_orders db"
  "balances (log_activity u a db) = balances db"
  "ledger_entries (log_activity u a db) = ledger_entries db"
  "bridge_transfers (log_activity u a db) = bridge_transfers db"
  by (simp_all add: log_audit_def log_activity_def)

text \<open>\<open>[old, new].trim()\<close> with the tag the code prepends to a new note.\<close>

definition append_note :: "ostring \<Rightarrow> string \<Rightarrow> string \<Rightarrow> ostring" where
  "append_note old tag note = Some (trim_ws (or_else old '''' @ [CHR 0x0A] @ tag @ note))"

section \<open>Reserves and reversals\<close>

text \<open>
  \<open>rel\<close> is the database function \<open>release_reserved_balance\<close>, whose body is not in the
  repository; its contract is the locale \<open>reserve_release\<close>.
\<close>

type_synonym release_fn = "string \<Rightarrow> string \<Rightarrow> rat \<Rightarrow> balance list \<Rightarrow> balance list"

definition call_release :: "release_fn \<Rightarrow> string \<Rightarrow> string \<Rightarrow> rat \<Rightarrow> orders_db \<Rightarrow> orders_db" where
  "call_release rel user cur amt db = db\<lparr>balances := rel user cur amt (balances db)\<rparr>"

lemma call_release_simps [simp]:
  "payment_orders (call_release rel u c a db) = payment_orders db"
  "ledger_entries (call_release rel u c a db) = ledger_entries db"
  "balances (call_release rel u c a db) = rel u c a (balances db)"
  "wallets (call_release rel u c a db) = wallets db"
  by (simp_all add: call_release_def)

definition releasePendingReviewReserve ::
  "release_fn \<Rightarrow> payment_order \<Rightarrow> orders_db \<Rightarrow> orders_db" where
  "releasePendingReviewReserve rel order db =
     (case resolvePendingReviewReserve (po_currency order) (po_source_currency order)
             (po_ctx order) of
        None \<Rightarrow> db
      | Some r \<Rightarrow> call_release rel (po_user_id order) (reserve_currency r) (reserve_amount r) db)"

definition entry_of_order :: "string \<Rightarrow> string \<Rightarrow> ledger_entry \<Rightarrow> bool" where
  "entry_of_order orderId st e \<longleftrightarrow> le_reference_type e = Some ''payment_order''
     \<and> le_reference_id e = Some orderId \<and> le_status e = st"

definition debit_sum :: "ledger_entry list \<Rightarrow> rat" where
  "debit_sum es = sum_list (map le_amount (filter (\<lambda>e. le_type e = ''debit'') es))"

text \<open>
  The reversal that \<open>cancelOrder\<close>, \<open>failOrder\<close> and \<open>cancelOrderByStaff\<close> share: pending
  entries leave their status and the reserve behind their debits is released; settled
  debits are refunded by a credit. Errors of these statements are not looked at.
\<close>

definition reverse_pending ::
  "release_fn \<Rightarrow> string \<Rightarrow> string \<Rightarrow> payment_order \<Rightarrow> orders_db \<Rightarrow> orders_db" where
  "reverse_pending rel st user order db =
     (let pendingLedgers = filter (entry_of_order (po_id order) ''pending'') (ledger_entries db);
          db1 = (case set_status (entry_of_order (po_id order) ''pending'') st db of
                   None \<Rightarrow> db | Some d \<Rightarrow> d);
          totalToRelease = debit_sum pendingLedgers
      in if totalToRelease > 0
         then call_release rel user (to_upper (or_else (po_currency order) ''USDC'')) totalToRelease db1
         else db1)"

definition refund_settled ::
  "string \<Rightarrow> int \<Rightarrow> string \<Rightarrow> payment_order \<Rightarrow> orders_db \<Rightarrow> orders_db" where
  "refund_settled new_id now descr order db =
     (let settled = filter (entry_of_order (po_id order) ''settled'') (ledger_entries db);
          totalToRefund = debit_sum settled
      in if totalToRefund > 0 \<and> truthy (po_wallet_id order) \<and> po_currency order \<noteq> None
         then (case insert_entry
                 \<lparr>le_id = new_id, le_wallet_id = the (po_wallet_id order), le_type = ''credit'',
                  le_amount = totalToRefund, le_currency = the (po_currency order),
                  le_status = ''settled'', le_reference_type = Some ''payment_order'',
                  le_reference_id = Some (po_id order), le_bridge_transfer_id = None,
                  le_description = descr, le_created_at = now\<rparr> db of
                 None \<Rightarrow> db | Some d \<Rightarrow> d)
         else db)"

section \<open>Reads and bookkeeping of the Bridge legs\<close>

definition ALLOWED_NETWORKS :: "string list" where
  "ALLOWED_NETWORKS = [''base'', ''ethereum'', ''solana'', ''tron'', ''polygon'', ''stellar'']"

definition loadBridgeIdentifiers ::
  "string \<Rightarrow> ostring \<Rightarrow> orders_db \<Rightarrow> (string \<times> ostring) result" where
  "loadBridgeIdentifiers user_id wallet_id db =
     (case Option.bind (maybe_single (filter (\<lambda>p. pr_id p = user_id) (profiles db)))
             pr_bridge_customer_id of
        None \<Rightarrow> Inl (ErrorException '''')
      | Some c \<Rightarrow>
          if c = '''' then Inl (ErrorException '''')
          else Inr (c, if truthy wallet_id
            then Option.bind (maybe_single (filter (\<lambda>w. wa_id w = the wallet_id) (wallets db)))
                   wa_provider_wallet_id
            else None))"

definition loadPsavLeg :: "string \<Rightarrow> orders_db \<Rightarrow> (psav_account \<times> string) result" where
  "loadPsavLeg psavAccountId db =
     (case maybe_single (filter (\<lambda>a. pa_id a = psavAccountId) (psav_accounts db)) of
        None \<Rightarrow> Inl (ErrorException '''')
      | Some a \<Rightarrow>
          if \<not> pa_is_active a then Inl (ErrorException '''')
          else if \<not> truthy (pa_crypto_address a) then Inl (ErrorException '''')
          else if \<not> truthy (pa_crypto_network a) \<or> trim_ws (the (pa_crypto_network a)) = ''''
            then Inl (ErrorException '''')
          else let rail = trim_ws (to_lower (the (pa_crypto_network a)))
               in if rail \<notin> set ALLOWED_NETWORKS then Inl (ErrorException '''')
                  else Inr (a, rail))"

definition loadExternalAccountLeg :: "string \<Rightarrow> orders_db \<Rightarrow> string result" where
  "loadExternalAccountLeg localId db =
     (case maybe_single (filter (\<lambda>a. ea_id a = localId) (external_accounts db)) of
        None \<Rightarrow> Inl (ErrorException '''')
      | Some a \<Rightarrow>
          if \<not> ea_is_active a then Inl (ErrorException '''')
          else if \<not> truthy (ea_bridge_external_account_id a) then Inl (ErrorException '''')
          else Inr (the (ea_bridge_external_account_id a)))"

text \<open>\<open>psav.service.ts\<close>: the deposit account of the client's agent, or of any agent.\<close>

definition getDepositAccount ::
  "string \<Rightarrow> string \<Rightarrow> ostring \<Rightarrow> orders_db \<Rightarrow> psav_account result" where
  "getDepositAccount ty currency psavId db =
     (case first_row (filter (\<lambda>a. pa_type a = ty \<and> pa_currency a = to_upper currency
              \<and> pa_is_active a \<and> (truthy psavId \<longrightarrow> pa_psav_id a = the psavId)) (psav_accounts db)) of
        None \<Rightarrow> Inl (NotFoundException '''')
      | Some a \<Rightarrow> Inr a)"

definition getDepositAccountForUser ::
  "string \<Rightarrow> string \<Rightarrow> string \<Rightarrow> orders_db \<Rightarrow> psav_account result" where
  "getDepositAccountForUser userId ty currency db =
     getDepositAccount ty currency
       (Option.bind (maybe_single (filter (\<lambda>p. pr_id p = userId) (profiles db))) pr_assigned_psav_id)
       db"

definition recordBridgeTransfer ::
  "bool \<Rightarrow> bridge_transfer \<Rightarrow> orders_db \<Rightarrow> ostring \<times> orders_db" where
  "recordBridgeTransfer db_ok row db =
     (case (if truthy (bt_bridge_transfer_id row)
            then maybe_single (filter (\<lambda>t. bt_bridge_transfer_id t = bt_bridge_transfer_id row)
                   (bridge_transfers db))
            else None) of
        Some existing \<Rightarrow> (Some (bt_id existing), db)
      | None \<Rightarrow>
          if \<not> db_ok then (None, db)
          else (Some (bt_id row), db\<lparr>bridge_transfers := bridge_transfers db @ [row]\<rparr>))"

lemma recordBridgeTransfer_frame [simp]:
  "payment_orders (snd (recordBridgeTransfer ok row db)) = payment_orders db"
  "balances (snd (recordBridgeTransfer ok row db)) = balances db"
  "ledger_entries (snd (recordBridgeTransfer ok row db)) = ledger_entries db"
  by (simp_all add: recordBridgeTransfer_def split: option.splits)

text \<open>\<open>ctx.total_needed\<close> as a number, when the stored value is one.\<close>

definition total_needed :: "bridge_exec_context \<Rightarrow> rat option" where
  "total_needed c = (case ctx_total_needed c of Some (Fin a) \<Rightarrow> Some a | _ \<Rightarrow> None)"

definition handleBridgeLegFailure ::
  "release_fn \<Rightarrow> payment_order \<Rightarrow> bridge_exec_context \<Rightarrow> bridge_leg_failure_mode \<Rightarrow> orders_db
    \<Rightarrow> bridge_leg_result result \<times> orders_db" where
  "handleBridgeLegFailure rel order ctx mode db =
     (case mode of
        ReturnToReview \<Rightarrow>
          (Inl (BadRequestException ''''),
           update_orders (\<lambda>o'. po_id o' = po_id order \<and> po_status o' = ''processing'')
             (\<lambda>o'. o'\<lparr>po_status := ''pending_review'', po_approved_by := None,
                     po_approved_at := None\<rparr>) db)
      | FailOrder \<Rightarrow>
          let db1 = (if or_else (total_needed ctx) 0 > 0
                     then call_release rel (po_user_id order) (or_else (ctx_source_currency ctx) '''')
                            (or_else (total_needed ctx) 0) db
                     else db)
          in (Inl (BadRequestException ''''),
              update_orders (\<lambda>o'. po_id o' = po_id order)
                (\<lambda>o'. o'\<lparr>po_status := ''failed'', po_failure_reason := Some ''Bridge''\<rparr>) db1))"

section \<open>The contract of a Bridge leg\<close>

text \<open>
  What the approval relies on when it runs the leg of an order it has claimed: success says
  the status the order now has; failure takes the order out of \<open>processing\<close>, so that it can
  be approved again or rejected; no other order and no balance is touched.
\<close>

definition other_orders :: "string \<Rightarrow> orders_db \<Rightarrow> payment_order list" where
  "other_orders i db = filter (\<lambda>o'. po_id o' \<noteq> i) (payment_orders db)"

lemma other_orders_update [simp]:
  "(\<And>o'. p o' \<Longrightarrow> po_id o' = i) \<Longrightarrow> (\<And>o'. po_id (f o') = po_id o') \<Longrightarrow>
   other_orders i (update_orders p f db) = other_orders i db"
proof -
  assume a: "\<And>o'. p o' \<Longrightarrow> po_id o' = i" "\<And>o'. po_id (f o') = po_id o'"
  have "filter (\<lambda>o'. po_id o' \<noteq> i) (update_where p f os) = filter (\<lambda>o'. po_id o' \<noteq> i) os" for os
    by (induction os) (auto simp: a)
  then show ?thesis by (simp add: other_orders_def)
qed

lemma other_orders_cong: "payment_orders db' = payment_orders db \<Longrightarrow> other_orders i db' = other_orders i db"
  by (simp add: other_orders_def)

locale bridge_leg =
  fixes runnable :: "payment_order \<Rightarrow> bool"
    and leg :: "payment_order \<Rightarrow> bridge_leg_failure_mode \<Rightarrow> orders_db
      \<Rightarrow> bridge_leg_result result \<times> orders_db"
  assumes leg_done: "leg o' m db = (Inr r, db') \<Longrightarrow> q \<in> set (payment_orders db') \<Longrightarrow>
      po_id q = po_id o' \<Longrightarrow> po_status q = leg_status r"
    and leg_status: "leg o' m db = (Inr r, db') \<Longrightarrow>
      leg_status r = ''processing'' \<or> leg_status r = ''waiting_deposit''"
    and leg_failed: "runnable o' \<Longrightarrow> leg o' ReturnToReview db = (Inl e, db') \<Longrightarrow>
      q \<in> set (payment_orders db') \<Longrightarrow> po_id q = po_id o' \<Longrightarrow> po_status q \<noteq> ''processing''
        \<and> (po_status q = ''pending_review'' \<or> po_status q = ''failed'' \<or> q \<in> set (payment_orders db))"
    and leg_others: "leg o' m db = (res, db') \<Longrightarrow> other_orders (po_id o') db' = other_orders (po_id o') db"
    and leg_balances: "leg o' ReturnToReview db = (res, db') \<Longrightarrow> balances db' = balances db"
begin

text \<open>A leg that ran tells the truth: after it, the order is in processing exactly when the
  leg answered that it is.\<close>

lemma processing_iff_answer:
  assumes "runnable o'" "leg o' ReturnToReview db = (res, db')" "q \<in> set (payment_orders db')"
    "po_id q = po_id o'"
  shows "po_status q = ''processing'' \<longleftrightarrow> (\<exists>r. res = Inr r \<and> leg_status r = ''processing'')"
proof (cases res)
  case (Inl e)
  with assms leg_failed show ?thesis by blast
next
  case (Inr r)
  with assms leg_done show ?thesis by auto
qed

end

end
