(* ===== verification/BridgeLegs.thy ===== *)
theory BridgeLegs imports Orders FixedOutput begin

text \<open>
  The nine executors that create the transfer of an order at the payments provider
  (Bridge), and their dispatch by the kind of the stored execution context, from
  \<open>src/application/payment-orders/payment-orders.service.ts\<close>. The provider itself is the
  function \<open>lv_post\<close>: idempotency key and payload to a response or an error. The exchange
  rate service is \<open>lv_rate\<close>. A value read from a missing field that the code then calls
  a method on throws, and the \<open>catch\<close> of the executor handles it like any error.
\<close>

section \<open>The provider and the environment of a call\<close>

record transfer_payload =
  tp_on_behalf_of :: string
  tp_source_rail :: string
  tp_source_currency :: string
  tp_source_wallet :: ostring
  tp_source_amount :: "rat option"
  tp_destination_rail :: string
  tp_destination_currency :: string
  tp_to_address :: ostring
  tp_external_account :: ostring
  tp_destination_wallet :: ostring
  tp_destination_amount :: "rat option"
  tp_rail_reference :: "(string \<times> string) option"
  tp_amount :: "rat option"
  tp_developer_fee :: "rat option"
  tp_developer_fee_percent :: ostring
  tp_flexible_amount :: bool
  tp_client_reference_id :: string

record bridge_response =
  br_id :: ostring
  br_state :: ostring
  br_to_address :: ostring
  br_address :: ostring
  br_rail :: ostring
  br_currency :: ostring
  br_source_amount :: "rat option"

record leg_env =
  lv_release :: release_fn
  lv_post :: "string \<Rightarrow> transfer_payload \<Rightarrow> bridge_response result"
  lv_rate :: "string \<Rightarrow> rat option"
  lv_deadline :: int
  lv_now :: int
  lv_transfer_row_ok :: bool
  lv_ledger_ok :: bool
  lv_new_transfer_id :: string
  lv_new_entry_id :: string

definition buildRailReference :: "string \<Rightarrow> string \<Rightarrow> (string \<times> string) option" where
  "buildRailReference paymentRail orderId =
     (let orderToken = to_upper (take 8 orderId) in
      if paymentRail = ''sepa'' then Some (''sepa_reference'', ''Guira '' @ orderToken)
      else if paymentRail = ''wire'' then Some (''wire_message'', ''Guira '' @ orderToken)
      else if paymentRail = ''ach'' then Some (''ach_reference'', ''GUIRA'')
      else if paymentRail = ''spei'' then Some (''spei_reference'', ''Guira '' @ orderToken)
      else if paymentRail = ''faster_payments'' then Some (''reference'', orderToken)
      else if paymentRail = ''pix'' then Some (''reference'', ''Guira '' @ orderToken)
      else None)"

definition developer_fee :: "rat \<Rightarrow> rat option" where
  "developer_fee fee = (if fee > 0 then Some (toFixed2 fee) else None)"

text \<open>The part all legs repeat: a new row of \<open>bridge_transfers\<close> and a ledger entry.\<close>

definition transfer_row ::
  "leg_env \<Rightarrow> payment_order \<Rightarrow> bridge_response \<Rightarrow> string \<Rightarrow> ostring \<Rightarrow> string \<Rightarrow> string \<Rightarrow> rat
    \<Rightarrow> rat option \<Rightarrow> ostring \<Rightarrow> rat \<Rightarrow> string \<Rightarrow> bridge_transfer" where
  "transfer_row v order resp srail scur drail dcur amount fee pct net default_state =
     \<lparr>bt_id = lv_new_transfer_id v, bt_user_id = po_user_id order,
      bt_bridge_transfer_id = br_id resp, bt_source_rail = srail, bt_source_currency = scur,
      bt_destination_rail = drail, bt_destination_currency = dcur, bt_amount = amount,
      bt_developer_fee_amount = fee, bt_developer_fee_percent = pct, bt_net_amount = net,
      bt_status = ''pending'', bt_bridge_state = or_else (br_state resp) default_state,
      bt_payout_request_id = None\<rparr>"

definition insert_leg_entry ::
  "leg_env \<Rightarrow> payment_order \<Rightarrow> string \<Rightarrow> rat option \<Rightarrow> string \<Rightarrow> ostring \<Rightarrow> orders_db \<Rightarrow> orders_db" where
  "insert_leg_entry v order ty amount currency transfer db =
     (case (po_wallet_id order, amount) of
        (Some w, Some a) \<Rightarrow>
          if \<not> lv_ledger_ok v then db
          else (case insert_entry
                  \<lparr>le_id = lv_new_entry_id v, le_wallet_id = w, le_type = ty, le_amount = a,
                   le_currency = currency, le_status = ''pending'',
                   le_reference_type = Some ''payment_order'', le_reference_id = Some (po_id order),
                   le_bridge_transfer_id = transfer, le_description = ty,
                   le_created_at = lv_now v\<rparr> db of
                  None \<Rightarrow> db | Some d \<Rightarrow> d)
      | _ \<Rightarrow> db)"

definition set_order :: "string \<Rightarrow> (payment_order \<Rightarrow> payment_order) \<Rightarrow> orders_db \<Rightarrow> orders_db" where
  "set_order i f db = update_orders (\<lambda>o'. po_id o' = i) f db"

section \<open>Off-ramps paid from the client's Bridge wallet\<close>

text \<open>The four legs that debit the wallet differ in the destination and the payload; what
  follows the answer of the provider is the same code in each.\<close>

definition offramp_payload ::
  "string \<Rightarrow> string \<Rightarrow> ostring \<Rightarrow> string \<Rightarrow> bridge_exec_context \<Rightarrow> transfer_payload" where
  "offramp_payload orderId customer wallet scur ctx =
     \<lparr>tp_on_behalf_of = customer, tp_source_rail = ''bridge_wallet'',
      tp_source_currency = to_lower scur, tp_source_wallet = wallet, tp_source_amount = None,
      tp_destination_rail = '''', tp_destination_currency = '''', tp_to_address = None,
      tp_external_account = None, tp_destination_wallet = None, tp_destination_amount = None,
      tp_rail_reference = None, tp_amount = Some (toFixed2 (ctx_amount ctx)),
      tp_developer_fee = developer_fee (ctx_fee_amount ctx), tp_developer_fee_percent = None,
      tp_flexible_amount = False, tp_client_reference_id = orderId\<rparr>"

definition offramp_done ::
  "leg_env \<Rightarrow> payment_order \<Rightarrow> bridge_exec_context \<Rightarrow> string \<Rightarrow> string \<Rightarrow> string \<Rightarrow> bridge_response
    \<Rightarrow> orders_db \<Rightarrow> bridge_leg_result result \<times> orders_db" where
  "offramp_done v order ctx scur drail dcur resp db =
     (let db1 = set_order (po_id order)
            (\<lambda>o'. o'\<lparr>po_status := ''processing'', po_bridge_transfer_id := br_id resp\<rparr>) db;
          (btRow, db2) = recordBridgeTransfer (lv_transfer_row_ok v)
            (transfer_row v order resp ''bridge_wallet'' (Some (to_lower scur)) drail dcur
               (ctx_amount ctx) (Some (ctx_fee_amount ctx)) None (ctx_net_amount ctx)
               ''awaiting_funds'') db1;
          db3 = insert_leg_entry v order ''debit'' (total_needed ctx) scur btRow db2
      in (Inr \<lparr>leg_transfer_id = br_id resp, leg_status = ''processing''\<rparr>, db3))"

definition executeBridgeWalletToFiatBoLeg ::
  "leg_env \<Rightarrow> payment_order \<Rightarrow> bridge_exec_context \<Rightarrow> string \<Rightarrow> string \<Rightarrow> bridge_leg_failure_mode
    \<Rightarrow> orders_db \<Rightarrow> bridge_leg_result result \<times> orders_db" where
  "executeBridgeWalletToFiatBoLeg v order ctx psavAccountId psavDestCurrency mode db =
     (case ctx_source_currency ctx of
        None \<Rightarrow> handleBridgeLegFailure (lv_release v) order ctx mode db
      | Some scur \<Rightarrow>
          (case bind_r (loadBridgeIdentifiers (po_user_id order) (po_wallet_id order) db)
             (\<lambda>(customer, wallet). bind_r (loadPsavLeg psavAccountId db)
                (\<lambda>(account, rail). bind_r (lv_post v (''po_w2fbo_'' @ po_id order)
                    ((offramp_payload (po_id order) customer wallet scur ctx)
                       \<lparr>tp_destination_rail := rail,
                        tp_destination_currency := to_lower psavDestCurrency,
                        tp_to_address := pa_crypto_address account\<rparr>))
                   (\<lambda>resp. Inr (rail, resp)))) of
             Inl e \<Rightarrow> handleBridgeLegFailure (lv_release v) order ctx mode db
           | Inr (rail, resp) \<Rightarrow>
               offramp_done v order ctx scur rail (to_lower psavDestCurrency) resp db))"

definition executeBridgeWalletToPeruPsavLeg ::
  "leg_env \<Rightarrow> payment_order \<Rightarrow> bridge_exec_context \<Rightarrow> string \<Rightarrow> string \<Rightarrow> bridge_leg_failure_mode
    \<Rightarrow> orders_db \<Rightarrow> bridge_leg_result result \<times> orders_db" where
  "executeBridgeWalletToPeruPsavLeg v order ctx psavAccountId psavDestCurrency mode db =
     (case ctx_source_currency ctx of
        None \<Rightarrow> handleBridgeLegFailure (lv_release v) order ctx mode db
      | Some scur \<Rightarrow>
          (case bind_r (loadBridgeIdentifiers (po_user_id order) (po_wallet_id order) db)
             (\<lambda>(customer, wallet). bind_r (loadPsavLeg psavAccountId db)
                (\<lambda>(account, rail). bind_r (lv_post v (''po_pe_'' @ po_id order)
                    ((offramp_payload (po_id order) customer wallet scur ctx)
                       \<lparr>tp_destination_rail := rail,
                        tp_destination_currency := to_lower psavDestCurrency,
                        tp_to_address := pa_crypto_address account\<rparr>))
                   (\<lambda>resp. Inr (rail, resp)))) of
             Inl e \<Rightarrow> handleBridgeLegFailure (lv_release v) order ctx mode db
           | Inr (rail, resp) \<Rightarrow>
               offramp_done v order ctx scur rail (to_lower psavDestCurrency) resp db))"

definition executeBridgeWalletToCryptoLeg ::
  "leg_env \<Rightarrow> payment_order \<Rightarrow> bridge_exec_context \<Rightarrow> string \<Rightarrow> string \<Rightarrow> string
    \<Rightarrow> bridge_leg_failure_mode \<Rightarrow> orders_db \<Rightarrow> bridge_leg_result result \<times> orders_db" where
  "executeBridgeWalletToCryptoLeg v order ctx drail dcur address mode db =
     (case ctx_source_currency ctx of
        None \<Rightarrow> handleBridgeLegFailure (lv_release v) order ctx mode db
      | Some scur \<Rightarrow>
          (case bind_r (loadBridgeIdentifiers (po_user_id order) (po_wallet_id order) db)
             (\<lambda>(customer, wallet). lv_post v (''po_w2c_'' @ po_id order)
                ((offramp_payload (po_id order) customer wallet scur ctx)
                   \<lparr>tp_destination_rail := drail, tp_destination_currency := dcur,
                    tp_to_address := Some address\<rparr>)) of
             Inl e \<Rightarrow> handleBridgeLegFailure (lv_release v) order ctx mode db
           | Inr resp \<Rightarrow> offramp_done v order ctx scur drail dcur resp db))"

text \<open>Fixed outputs: the live rate must still leave the amount the order reserved enough.\<close>

definition margin_usdc :: "rat \<Rightarrow> rat \<Rightarrow> rat \<Rightarrow> rat \<Rightarrow> rat" where
  "margin_usdc destinationAmount reservedAmount fee sellRate =
     js_round ((reservedAmount - bridgeMinSourceAmount destinationAmount sellRate fee) * 100) / 100"

definition assertFiatUsFixedOutputMargin ::
  "leg_env \<Rightarrow> bridge_exec_context \<Rightarrow> string \<Rightarrow> rat \<Rightarrow> unit result" where
  "assertFiatUsFixedOutputMargin v ctx dcur destinationAmount =
     (case lv_rate v dcur of
        None \<Rightarrow> Inl (ErrorException ''FixedOutputPreflightError'')
      | Some sellRate \<Rightarrow>
          if margin_usdc destinationAmount (ctx_amount ctx) (ctx_fee_amount ctx) sellRate < 0
          then Inl (ErrorException ''FixedOutputPreflightError'') else Inr ())"

definition executeBridgeWalletToFiatUsLeg ::
  "leg_env \<Rightarrow> payment_order \<Rightarrow> bridge_exec_context \<Rightarrow> string \<Rightarrow> string \<Rightarrow> string \<Rightarrow> bool \<Rightarrow> rat option
    \<Rightarrow> bridge_leg_failure_mode \<Rightarrow> orders_db \<Rightarrow> bridge_leg_result result \<times> orders_db" where
  "executeBridgeWalletToFiatUsLeg v order ctx rail externalAccount dcur fixed destinationAmount mode db =
     (case ctx_source_currency ctx of
        None \<Rightarrow> handleBridgeLegFailure (lv_release v) order ctx mode db
      | Some scur \<Rightarrow>
          let isFixedOutput = (fixed \<and> or_else destinationAmount 0 > 0);
              amountOut = or_else destinationAmount 0
          in (case bind_r (loadBridgeIdentifiers (po_user_id order) (po_wallet_id order) db)
             (\<lambda>(customer, wallet). bind_r (loadExternalAccountLeg externalAccount db)
               (\<lambda>ext. bind_r (if isFixedOutput then assertFiatUsFixedOutputMargin v ctx dcur amountOut
                             else Inr ())
                 (\<lambda>_. let base = (offramp_payload (po_id order) customer wallet scur ctx)
                        \<lparr>tp_destination_rail := rail, tp_destination_currency := dcur,
                         tp_external_account := Some ext,
                         tp_rail_reference := buildRailReference rail (po_id order)\<rparr>
                      in if isFixedOutput
                         then lv_post v (''po_w2f_fo_'' @ po_id order)
                           (base\<lparr>tp_source_amount := Some (toFixed2 (ctx_amount ctx)),
                                 tp_destination_amount := Some (toFixed2 amountOut),
                                 tp_amount := None\<rparr>)
                         else lv_post v (''po_w2f_'' @ po_id order) base))) of
             Inl e \<Rightarrow> handleBridgeLegFailure (lv_release v) order ctx mode db
           | Inr resp \<Rightarrow> offramp_done v order ctx scur rail dcur resp db))"

section \<open>Flows where the client deposits\<close>

definition executePsavDepositLeg ::
  "leg_env \<Rightarrow> payment_order \<Rightarrow> bridge_exec_context \<Rightarrow> string \<Rightarrow> string \<Rightarrow> bridge_leg_failure_mode
    \<Rightarrow> orders_db \<Rightarrow> bridge_leg_result result \<times> orders_db" where
  "executePsavDepositLeg v order ctx ty currency mode db =
     (case getDepositAccountForUser (po_user_id order) ty currency db of
        Inl e \<Rightarrow> handleBridgeLegFailure (lv_release v) order ctx mode db
      | Inr account \<Rightarrow>
          (Inr \<lparr>leg_transfer_id = None, leg_status = ''waiting_deposit''\<rparr>,
           set_order (po_id order) (\<lambda>o'. o'\<lparr>po_status := ''waiting_deposit'',
             po_psav_instructions := Some (pa_id account),
             po_deposit_expires_at := Some (lv_deadline v)\<rparr>) db))"

text \<open>The provider creates an address for any amount: \<open>flexible_amount\<close>, a fee in percent.\<close>

definition flexible_payload ::
  "string \<Rightarrow> string \<Rightarrow> string \<Rightarrow> string \<Rightarrow> string \<Rightarrow> string \<Rightarrow> string \<Rightarrow> transfer_payload" where
  "flexible_payload orderId customer srail scur drail dcur pct =
     \<lparr>tp_on_behalf_of = customer, tp_source_rail = srail, tp_source_currency = scur,
      tp_source_wallet = None, tp_source_amount = None, tp_destination_rail = drail,
      tp_destination_currency = dcur, tp_to_address = None, tp_external_account = None,
      tp_destination_wallet = None, tp_destination_amount = None, tp_rail_reference = None,
      tp_amount = None, tp_developer_fee = None, tp_developer_fee_percent = Some pct,
      tp_flexible_amount = True, tp_client_reference_id = orderId\<rparr>"

text \<open>The instructions an order stores: the object of the provider's answer, or one built from it.\<close>

definition buildFiatBoOnRampInstructions :: "bridge_response \<Rightarrow> string \<Rightarrow> string \<Rightarrow> deposit_instructions" where
  "buildFiatBoOnRampInstructions resp psavPaymentRail psavCurrency =
     \<lparr>di_to_address = Some (or_else (br_to_address resp) ''''), di_rail = Some psavPaymentRail,
      di_currency = Some psavCurrency, di_amount_to_deposit = None\<rparr>"

definition deposit_address :: "bridge_response \<Rightarrow> string" where
  "deposit_address resp = or_else (br_to_address resp) (or_else (br_address resp) '''')"

definition buildCryptoOnRampInstructions :: "bridge_response \<Rightarrow> string \<Rightarrow> deposit_instructions" where
  "buildCryptoOnRampInstructions resp sourceNetwork =
     \<lparr>di_to_address = Some (deposit_address resp), di_rail = Some (or_else (br_rail resp) sourceNetwork),
      di_currency = None, di_amount_to_deposit = None\<rparr>"

definition buildWalletToWorldDepositInstructions :: "bridge_response \<Rightarrow> string \<Rightarrow> string \<Rightarrow> deposit_instructions" where
  "buildWalletToWorldDepositInstructions resp sourceNetwork sourceCurrency =
     \<lparr>di_to_address = Some (deposit_address resp), di_rail = Some (or_else (br_rail resp) sourceNetwork),
      di_currency = Some (or_else (br_currency resp) (to_lower sourceCurrency)), di_amount_to_deposit = None\<rparr>"

definition raw_instructions :: "bridge_response \<Rightarrow> deposit_instructions option" where
  "raw_instructions resp =
     (if br_to_address resp = None \<and> br_address resp = None \<and> br_rail resp = None \<and> br_currency resp = None
      then None
      else Some \<lparr>di_to_address = br_to_address resp, di_rail = br_rail resp,
                 di_currency = br_currency resp, di_amount_to_deposit = None\<rparr>)"

definition executeFiatBoOnRampLeg ::
  "leg_env \<Rightarrow> payment_order \<Rightarrow> bridge_exec_context \<Rightarrow> string \<Rightarrow> string \<Rightarrow> string \<Rightarrow> string \<Rightarrow> string
    \<Rightarrow> string \<Rightarrow> string \<Rightarrow> rat \<Rightarrow> rat \<Rightarrow> bridge_leg_failure_mode \<Rightarrow> orders_db
    \<Rightarrow> bridge_leg_result result \<times> orders_db" where
  "executeFiatBoOnRampLeg v order ctx psavType psavCurrency srail scur network dcur pct estimated
     net mode db =
     (case bind_r (loadBridgeIdentifiers (po_user_id order) (po_wallet_id order) db)
        (\<lambda>(customer, wallet). bind_r (getDepositAccountForUser (po_user_id order) psavType psavCurrency db)
          (\<lambda>account. bind_r (lv_post v (''po_fiat_bo_'' @ po_id order)
              ((flexible_payload (po_id order) customer srail scur network dcur pct)
                 \<lparr>tp_destination_wallet := wallet\<rparr>))
            (\<lambda>resp. Inr (account, resp)))) of
        Inl e \<Rightarrow> handleBridgeLegFailure (lv_release v) order ctx mode db
      | Inr (account, resp) \<Rightarrow>
          let (_, db1) = recordBridgeTransfer (lv_transfer_row_ok v)
                (transfer_row v order resp srail None network (to_upper dcur) estimated None None
                   net ''awaiting_funds'') db;
              db2 = set_order (po_id order) (\<lambda>o'. o'\<lparr>po_status := ''waiting_deposit'',
                po_bridge_transfer_id := br_id resp,
                po_bridge_instructions := Some (buildFiatBoOnRampInstructions resp srail scur),
                po_psav_instructions := Some (pa_id account),
                po_deposit_expires_at := Some (lv_deadline v)\<rparr>) db1;
              db3 = insert_leg_entry v order ''credit'' (Some net) (to_upper dcur) (br_id resp) db2
          in (Inr \<lparr>leg_transfer_id = br_id resp, leg_status = ''waiting_deposit''\<rparr>, db3))"

definition executeCryptoOnRampLeg ::
  "leg_env \<Rightarrow> payment_order \<Rightarrow> bridge_exec_context \<Rightarrow> string \<Rightarrow> string \<Rightarrow> string \<Rightarrow> string \<Rightarrow> string
    \<Rightarrow> bridge_leg_failure_mode \<Rightarrow> orders_db \<Rightarrow> bridge_leg_result result \<times> orders_db" where
  "executeCryptoOnRampLeg v order ctx snetwork scur network dcur pct mode db =
     (case bind_r (loadBridgeIdentifiers (po_user_id order) (po_wallet_id order) db)
        (\<lambda>(customer, wallet). bind_r (lv_post v (''po_c2bw_'' @ po_id order)
              ((flexible_payload (po_id order) customer snetwork scur network dcur pct)
                 \<lparr>tp_destination_wallet := wallet\<rparr>))
           (\<lambda>resp. case ctx_source_currency ctx of
              None \<Rightarrow> Inl (ErrorException '''') | Some s \<Rightarrow> Inr (s, resp))) of
        Inl e \<Rightarrow> handleBridgeLegFailure (lv_release v) order ctx mode db
      | Inr (s, resp) \<Rightarrow>
          let (_, db1) = recordBridgeTransfer (lv_transfer_row_ok v)
                (transfer_row v order resp snetwork (Some (to_upper s)) network (to_upper dcur)
                   (ctx_amount ctx) None None (ctx_net_amount ctx) ''payment_submitted'') db;
              db2 = set_order (po_id order) (\<lambda>o'. o'\<lparr>po_status := ''waiting_deposit'',
                po_bridge_transfer_id := br_id resp,
                po_bridge_instructions := Some (buildCryptoOnRampInstructions resp snetwork)\<rparr>) db1;
              db3 = insert_leg_entry v order ''credit'' (Some (ctx_net_amount ctx)) (to_upper dcur)
                      (br_id resp) db2
          in (Inr \<lparr>leg_transfer_id = br_id resp, leg_status = ''waiting_deposit''\<rparr>, db3))"

definition executeWalletToWalletLeg ::
  "leg_env \<Rightarrow> payment_order \<Rightarrow> bridge_exec_context \<Rightarrow> string \<Rightarrow> string \<Rightarrow> string \<Rightarrow> string \<Rightarrow> string
    \<Rightarrow> string \<Rightarrow> bridge_leg_failure_mode \<Rightarrow> orders_db \<Rightarrow> bridge_leg_result result \<times> orders_db" where
  "executeWalletToWalletLeg v order ctx snetwork scur drail dcur address pct mode db =
     (case bind_r (loadBridgeIdentifiers (po_user_id order) None db)
        (\<lambda>(customer, _). lv_post v (''po_w2w_'' @ po_id order)
              ((flexible_payload (po_id order) customer snetwork scur drail dcur pct)
                 \<lparr>tp_to_address := Some address\<rparr>)) of
        Inl e \<Rightarrow> handleBridgeLegFailure (lv_release v) order ctx mode db
      | Inr resp \<Rightarrow>
          let (_, db1) = recordBridgeTransfer (lv_transfer_row_ok v)
                (transfer_row v order resp snetwork (Some scur) drail (to_upper dcur)
                   (ctx_amount ctx) None (Some pct) (ctx_net_amount ctx) ''awaiting_funds'') db;
              db2 = set_order (po_id order) (\<lambda>o'. o'\<lparr>po_status := ''waiting_deposit'',
                po_bridge_transfer_id := br_id resp,
                po_bridge_instructions := raw_instructions resp\<rparr>) db1
          in (Inr \<lparr>leg_transfer_id = br_id resp, leg_status = ''waiting_deposit''\<rparr>, db2))"

text \<open>The one leg that can fail after the provider has answered: without an address the order
  is closed, because the idempotency key is used up.\<close>

definition executeWalletToWorldLeg ::
  "leg_env \<Rightarrow> payment_order \<Rightarrow> bridge_exec_context \<Rightarrow> string \<Rightarrow> string \<Rightarrow> string \<Rightarrow> string \<Rightarrow> string
    \<Rightarrow> bridge_leg_failure_mode \<Rightarrow> orders_db \<Rightarrow> bridge_leg_result result \<times> orders_db" where
  "executeWalletToWorldLeg v order ctx snetwork rail externalAccount dcur pct mode db =
     (case ctx_source_currency ctx of
        None \<Rightarrow> handleBridgeLegFailure (lv_release v) order ctx mode db
      | Some scur \<Rightarrow>
     (case bind_r (loadBridgeIdentifiers (po_user_id order) None db)
        (\<lambda>(customer, _). bind_r (loadExternalAccountLeg externalAccount db)
           (\<lambda>ext. lv_post v (''po_w2w_'' @ po_id order)
              ((flexible_payload (po_id order) customer snetwork (to_lower scur) rail dcur pct)
                 \<lparr>tp_external_account := Some ext,
                  tp_rail_reference := buildRailReference rail (po_id order)\<rparr>))) of
        Inl e \<Rightarrow> handleBridgeLegFailure (lv_release v) order ctx mode db
      | Inr resp \<Rightarrow>
          if deposit_address resp = ''''
          then (Inl (BadRequestException ''''),
                set_order (po_id order) (\<lambda>o'. o'\<lparr>po_status := ''failed'',
                  po_failure_reason := Some ''no deposit address''\<rparr>) db)
          else
            let db1 = set_order (po_id order) (\<lambda>o'. o'\<lparr>po_status := ''waiting_deposit'',
                  po_bridge_transfer_id := br_id resp,
                  po_bridge_instructions := Some (buildWalletToWorldDepositInstructions resp snetwork scur)\<rparr>) db;
                (_, db2) = recordBridgeTransfer (lv_transfer_row_ok v)
                  (transfer_row v order resp snetwork (Some (to_lower scur)) rail dcur
                     (ctx_amount ctx) None (Some pct) (ctx_net_amount ctx) ''awaiting_funds'') db1
            in (Inr \<lparr>leg_transfer_id = br_id resp, leg_status = ''waiting_deposit''\<rparr>, db2)))"

section \<open>Dispatch\<close>

definition run_leg ::
  "leg_env \<Rightarrow> payment_order \<Rightarrow> bridge_exec_context \<Rightarrow> exec_kind \<Rightarrow> bridge_leg_failure_mode
    \<Rightarrow> orders_db \<Rightarrow> bridge_leg_result result \<times> orders_db" where
  "run_leg v order ctx k mode db =
     (case k of
        FiatBoExec a c \<Rightarrow> executeBridgeWalletToFiatBoLeg v order ctx a c mode db
      | CryptoExec r c a \<Rightarrow> executeBridgeWalletToCryptoLeg v order ctx r c a mode db
      | FiatUsExec r e c fx d _ \<Rightarrow> executeBridgeWalletToFiatUsLeg v order ctx r e c fx d mode db
      | PeruExec a c \<Rightarrow> executeBridgeWalletToPeruPsavLeg v order ctx a c mode db
      | WalletToWorldExec n r e c p \<Rightarrow> executeWalletToWorldLeg v order ctx n r e c p mode db
      | PsavDepositExec t c \<Rightarrow> executePsavDepositLeg v order ctx t c mode db
      | FiatBoOnRampExec t c sr sc n d p est net \<Rightarrow>
          executeFiatBoOnRampLeg v order ctx t c sr sc n d p est net mode db
      | CryptoOnRampExec sn sc n d p \<Rightarrow> executeCryptoOnRampLeg v order ctx sn sc n d p mode db
      | WalletToWalletExec sn sc r d a p \<Rightarrow> executeWalletToWalletLeg v order ctx sn sc r d a p mode db)"

definition executeReviewedBridgeLeg ::
  "leg_env \<Rightarrow> payment_order \<Rightarrow> bridge_leg_failure_mode \<Rightarrow> orders_db
    \<Rightarrow> bridge_leg_result result \<times> orders_db" where
  "executeReviewedBridgeLeg v order mode db =
     (case po_ctx order of
        None \<Rightarrow> (Inl (BadRequestException ''''), db)
      | Some ctx \<Rightarrow>
          (case ctx_kind ctx of
             None \<Rightarrow> (Inl (BadRequestException ''''), db)
           | Some k \<Rightarrow> run_leg v order ctx k mode db))"

definition has_exec_kind :: "payment_order \<Rightarrow> bool" where
  "has_exec_kind order \<longleftrightarrow> Option.bind (po_ctx order) ctx_kind \<noteq> None"

section \<open>The legs obey their contract\<close>

definition leg_post ::
  "payment_order \<Rightarrow> bridge_leg_failure_mode \<Rightarrow> orders_db \<Rightarrow> bridge_leg_result result \<times> orders_db \<Rightarrow> bool" where
  "leg_post order m db rd \<longleftrightarrow>
     (case fst rd of
        Inr r \<Rightarrow> (leg_status r = ''processing'' \<or> leg_status r = ''waiting_deposit'')
          \<and> (\<forall>q\<in>set (payment_orders (snd rd)). po_id q = po_id order \<longrightarrow> po_status q = leg_status r)
      | Inl _ \<Rightarrow> m = ReturnToReview \<longrightarrow>
          (\<forall>q\<in>set (payment_orders (snd rd)). po_id q = po_id order \<longrightarrow> po_status q \<noteq> ''processing''
             \<and> (po_status q = ''pending_review'' \<or> po_status q = ''failed'' \<or> q \<in> set (payment_orders db))))
     \<and> other_orders (po_id order) (snd rd) = other_orders (po_id order) db
     \<and> (m = ReturnToReview \<longrightarrow> balances (snd rd) = balances db)"

lemma set_order_status:
  assumes "q \<in> set (payment_orders (set_order i f db))" "po_id q = i" "\<And>x. po_id (f x) = po_id x"
    and "\<And>x. po_status (f x) = st"
  shows "po_status q = st"
  using assms(1) unfolding set_order_def update_orders_simps
  by (cases rule: update_whereE) (use assms(2,4) in simp_all)
lemma set_order_frame [simp]:
  "balances (set_order i f db) = balances db"
  "(\<And>x. po_id (f x) = po_id x) \<Longrightarrow> other_orders i (set_order i f db) = other_orders i db"
  by (simp_all add: set_order_def)

lemma insert_pending_balances:
  "insert_entry e db = Some db' \<Longrightarrow> le_status e = ''pending'' \<Longrightarrow>
   db' = db\<lparr>ledger_entries := ledger_entries db @ [e]\<rparr>"
  by (auto simp: insert_entry_def update_balance_on_ledger_entry_def trigger_diff_def)

lemma insert_leg_entry_frame [simp]:
  "payment_orders (insert_leg_entry v order ty a c t db) = payment_orders db"
  "balances (insert_leg_entry v order ty a c t db) = balances db"
  by (auto simp: insert_leg_entry_def dest!: insert_pending_balances split: option.split)

lemma other_orders_frame [simp]:
  "other_orders i (insert_leg_entry v order ty a c t db) = other_orders i db"
  "other_orders i (snd (recordBridgeTransfer ok row db)) = other_orders i db"
  "other_orders i (call_release rel u c amt db) = other_orders i db"
  by (simp_all add: other_orders_def)

lemma failure_post: "leg_post order m db (handleBridgeLegFailure rel order ctx m db)"
proof (cases m)
  case FailOrder
  then show ?thesis by (simp add: leg_post_def handleBridgeLegFailure_def Let_def)
next
  case ReturnToReview
  let ?p = "\<lambda>o'. po_id o' = po_id order \<and> po_status o' = ''processing''"
  let ?f = "\<lambda>o'. o'\<lparr>po_status := ''pending_review'', po_approved_by := None, po_approved_at := None\<rparr>"
  have "po_status q \<noteq> ''processing'' \<and> (po_status q = ''pending_review'' \<or> po_status q = ''failed''
      \<or> q \<in> set (payment_orders db))"
    if "q \<in> set (update_where ?p ?f (payment_orders db))" "po_id q = po_id order" for q
    using that(1) by (cases rule: update_whereE) (use that(2) in simp_all)
  moreover have "other_orders (po_id order) (update_orders ?p ?f db) = other_orders (po_id order) db"
    by (rule other_orders_update) simp_all
  ultimately show ?thesis
    using ReturnToReview by (simp add: leg_post_def handleBridgeLegFailure_def)
qed

lemma done_post:
  assumes "\<And>x. po_id (f x) = po_id x" "\<And>x. po_status (f x) = st"
    and "st = ''processing'' \<or> st = ''waiting_deposit''" "leg_status r = st"
    and "payment_orders db' = payment_orders (set_order (po_id order) f db)"
    and "balances db' = balances db"
  shows "leg_post order m db (Inr r, db')"
proof -
  have "other_orders (po_id order) db' = other_orders (po_id order) db"
    unfolding other_orders_cong [OF assms(5)] using assms(1) by simp
  moreover have "po_status q = st" if "q \<in> set (payment_orders db')" "po_id q = po_id order" for q
    using that(1) unfolding assms(5) by (rule set_order_status [OF _ that(2) assms(1,2)])
  ultimately show ?thesis using assms(3,4,6) by (simp add: leg_post_def)
qed

lemma offramp_done_post: "leg_post order m db (offramp_done v order ctx scur drail dcur resp db)"
  unfolding offramp_done_def Let_def case_prod_beta
  by (rule done_post [where st = "''processing''"
        and f = "\<lambda>o'. o'\<lparr>po_status := ''processing'', po_bridge_transfer_id := br_id resp\<rparr>"]) simp_all

lemmas leg_posts = failure_post offramp_done_post

lemma leg_result_cases:
  "(\<And>e. x = Inl e \<Longrightarrow> leg_post order m db (f e)) \<Longrightarrow> (\<And>y. x = Inr y \<Longrightarrow> leg_post order m db (g y)) \<Longrightarrow>
   leg_post order m db (case x of Inl e \<Rightarrow> f e | Inr y \<Rightarrow> g y)"
  by (cases x) simp_all

lemma leg_option_cases:
  "(x = None \<Longrightarrow> leg_post order m db f) \<Longrightarrow> (\<And>y. x = Some y \<Longrightarrow> leg_post order m db (g y)) \<Longrightarrow>
   leg_post order m db (case x of None \<Rightarrow> f | Some y \<Rightarrow> g y)"
  by (cases x) simp_all

lemma fiat_bo_post: "leg_post order m db (executeBridgeWalletToFiatBoLeg v order ctx a c m db)"
  unfolding executeBridgeWalletToFiatBoLeg_def case_prod_beta
  by (intro leg_option_cases leg_result_cases leg_posts)

lemma peru_post: "leg_post order m db (executeBridgeWalletToPeruPsavLeg v order ctx a c m db)"
  unfolding executeBridgeWalletToPeruPsavLeg_def case_prod_beta
  by (intro leg_option_cases leg_result_cases leg_posts)

lemma crypto_post: "leg_post order m db (executeBridgeWalletToCryptoLeg v order ctx r c a m db)"
  unfolding executeBridgeWalletToCryptoLeg_def case_prod_beta
  by (intro leg_option_cases leg_result_cases leg_posts)

lemma fiat_us_post: "leg_post order m db (executeBridgeWalletToFiatUsLeg v order ctx r e c fx d m db)"
  unfolding executeBridgeWalletToFiatUsLeg_def Let_def case_prod_beta
  by (intro leg_option_cases leg_result_cases leg_posts)

lemma psav_deposit_post: "leg_post order m db (executePsavDepositLeg v order ctx t c m db)"
  unfolding executePsavDepositLeg_def
  by (intro leg_result_cases leg_posts done_post [where st = "''waiting_deposit''", OF _ _ _ _ refl])
     simp_all

lemma fiat_bo_onramp_post:
  "leg_post order m db (executeFiatBoOnRampLeg v order ctx t c sr sc n d p est net m db)"
  unfolding executeFiatBoOnRampLeg_def Let_def case_prod_beta
  by (intro leg_result_cases leg_posts done_post [where st = "''waiting_deposit''"
        and f = "\<lambda>o'. o'\<lparr>po_status := ''waiting_deposit'', po_bridge_transfer_id := br_id (snd y),
          po_bridge_instructions := Some (buildFiatBoOnRampInstructions (snd y) sr sc),
          po_psav_instructions := Some (pa_id (fst y)),
          po_deposit_expires_at := Some (lv_deadline v)\<rparr>" for y])
     (simp_all add: set_order_def)

lemma crypto_onramp_post:
  "leg_post order m db (executeCryptoOnRampLeg v order ctx sn sc n d p m db)"
  unfolding executeCryptoOnRampLeg_def Let_def case_prod_beta
  by (intro leg_result_cases leg_posts done_post [where st = "''waiting_deposit''"
        and f = "\<lambda>o'. o'\<lparr>po_status := ''waiting_deposit'', po_bridge_transfer_id := br_id (snd y),
          po_bridge_instructions := Some (buildCryptoOnRampInstructions (snd y) sn)\<rparr>" for y])
     (simp_all add: set_order_def)

lemma wallet_to_wallet_post:
  "leg_post order m db (executeWalletToWalletLeg v order ctx sn sc r d a p m db)"
  unfolding executeWalletToWalletLeg_def Let_def case_prod_beta
  by (intro leg_result_cases leg_posts done_post [where st = "''waiting_deposit''"
        and f = "\<lambda>o'. o'\<lparr>po_status := ''waiting_deposit'', po_bridge_transfer_id := br_id y,
          po_bridge_instructions := raw_instructions y\<rparr>" for y])
     (simp_all add: set_order_def)

lemma no_address_post:
  "leg_post order m db (Inl e, set_order (po_id order) (\<lambda>o'. o'\<lparr>po_status := ''failed'',
     po_failure_reason := x\<rparr>) db)"
proof -
  let ?f = "\<lambda>o'. o'\<lparr>po_status := ''failed'', po_failure_reason := x\<rparr>"
  have "po_status q = ''failed''"
    if "q \<in> set (payment_orders (set_order (po_id order) ?f db))" "po_id q = po_id order" for q
    using that by (rule set_order_status) simp_all
  then show ?thesis by (simp add: leg_post_def)
qed

lemma wallet_to_world_post:
  "leg_post order m db (executeWalletToWorldLeg v order ctx sn r ea d p m db)"
proof -
  have "leg_post order m db (Inr \<lparr>leg_transfer_id = br_id y, leg_status = ''waiting_deposit''\<rparr>,
      snd (recordBridgeTransfer ok row (set_order (po_id order) (\<lambda>o'. o'\<lparr>po_status := ''waiting_deposit'',
          po_bridge_transfer_id := br_id y, po_bridge_instructions := Some (buildWalletToWorldDepositInstructions y sn sc)\<rparr>) db)))"
    for y ok row sc
    by (rule done_post [where st = "''waiting_deposit''" and f = "\<lambda>o'. o'\<lparr>po_status := ''waiting_deposit'',
          po_bridge_transfer_id := br_id y, po_bridge_instructions := Some (buildWalletToWorldDepositInstructions y sn sc)\<rparr>"])
       simp_all
  then show ?thesis
    unfolding executeWalletToWorldLeg_def Let_def case_prod_beta
    by (intro leg_option_cases leg_result_cases leg_posts) (simp add: no_address_post)
qed

lemma run_leg_post: "leg_post order m db (run_leg v order ctx k m db)"
  by (cases k)
     (simp_all add: run_leg_def fiat_bo_post peru_post crypto_post fiat_us_post psav_deposit_post
        fiat_bo_onramp_post crypto_onramp_post wallet_to_wallet_post wallet_to_world_post)

lemma reviewed_leg_post:
  "has_exec_kind order \<Longrightarrow> leg_post order m db (executeReviewedBridgeLeg v order m db)"
  by (auto simp: has_exec_kind_def executeReviewedBridgeLeg_def bind_eq_Some_conv run_leg_post
      split: option.split)

lemma no_kind_leg:
  "\<not> has_exec_kind order \<Longrightarrow> executeReviewedBridgeLeg v order m db = (Inl (BadRequestException ''''), db)"
  by (auto simp: has_exec_kind_def executeReviewedBridgeLeg_def split: option.split)

interpretation legs: bridge_leg has_exec_kind "executeReviewedBridgeLeg v" for v
proof
  fix order m db r db' q
  assume l: "executeReviewedBridgeLeg v order m db = (Inr r, db')"
  then have "has_exec_kind order" using no_kind_leg [of order v m db] by auto
  then have p: "leg_post order m db (Inr r, db')" using reviewed_leg_post [of order m db v] l by simp
  then show "leg_status r = ''processing'' \<or> leg_status r = ''waiting_deposit''" by (simp add: leg_post_def)
  show "q \<in> set (payment_orders db') \<Longrightarrow> po_id q = po_id order \<Longrightarrow> po_status q = leg_status r"
    using p by (simp add: leg_post_def)
next
  fix order db e db' q
  assume "has_exec_kind order" "executeReviewedBridgeLeg v order ReturnToReview db = (Inl e, db')"
    "q \<in> set (payment_orders db')" "po_id q = po_id order"
  then show "po_status q \<noteq> ''processing''
      \<and> (po_status q = ''pending_review'' \<or> po_status q = ''failed'' \<or> q \<in> set (payment_orders db))"
    using reviewed_leg_post [of order ReturnToReview db v] by (simp add: leg_post_def)
next
  fix order m db res db'
  assume "executeReviewedBridgeLeg v order m db = (res, db')"
  then show "other_orders (po_id order) db' = other_orders (po_id order) db"
    using reviewed_leg_post [of order m db v] no_kind_leg [of order v m db]
    by (cases "has_exec_kind order") (auto simp: leg_post_def)
next
  fix order db res db'
  assume "executeReviewedBridgeLeg v order ReturnToReview db = (res, db')"
  then show "balances db' = balances db"
    using reviewed_leg_post [of order ReturnToReview db v] no_kind_leg [of order v ReturnToReview db]
    by (cases "has_exec_kind order") (auto simp: leg_post_def)
qed

end
