(* ===== verification/OrderLifecycle.thy ===== *)
theory OrderLifecycle imports BridgeLegs begin

text \<open>
  The operations that move a payment order after its creation, from
  \<open>src/application/payment-orders/payment-orders.service.ts\<close>: deposit confirmation,
  client and staff cancellation, expiry, the staff review, and the marks sent, completed
  and failed. An operation reads the order, decides, and writes later; what other requests
  do in between is the function \<open>oe_env\<close>, so a lost race is a value of the model. After
  the write that decides, the rest of an operation runs on its own.
\<close>

section \<open>Environment of an operation\<close>

record op_env =
  oe_env :: "orders_db \<Rightarrow> orders_db"
  oe_now :: int
  oe_db_ok :: bool
  oe_release :: release_fn
  oe_new_entry_id :: string

text \<open>The provider: \<open>GET\<close> of the state of a transfer (an error or its state) and \<open>DELETE\<close>.\<close>

record bridge_api =
  api_get :: "string \<Rightarrow> ostring result"
  api_delete :: "string \<Rightarrow> bool"

definition mark_transfer_cancelled :: "string \<Rightarrow> orders_db \<Rightarrow> orders_db" where
  "mark_transfer_cancelled tid db = db\<lparr>bridge_transfers :=
     update_where (\<lambda>t. bt_bridge_transfer_id t = Some tid)
       (\<lambda>t. t\<lparr>bt_status := ''cancelled'', bt_bridge_state := ''canceled''\<rparr>) (bridge_transfers db)\<rparr>"

section \<open>The client confirms the deposit\<close>

definition confirmDeposit ::
  "op_env \<Rightarrow> string \<Rightarrow> string \<Rightarrow> string \<Rightarrow> ostring \<Rightarrow> orders_db \<Rightarrow> payment_order result \<times> orders_db" where
  "confirmDeposit v userId orderId deposit_proof_url notes db =
     (case select_user_order userId orderId db of
        None \<Rightarrow> (Inl (NotFoundException ''''), db)
      | Some order \<Rightarrow>
          if po_status order \<noteq> ''waiting_deposit'' then (Inl (BadRequestException ''''), db)
          else if (case po_deposit_expires_at order of None \<Rightarrow> False | Some t \<Rightarrow> t \<le> oe_now v)
            then (Inl (BadRequestException ''DEPOSIT_EXPIRED''), db)
          else if \<not> oe_db_ok v then (Inl (DbException ''''), oe_env v db)
          else
            let (updated, db') = cas_order
                  (\<lambda>o'. po_id o' = orderId \<and> po_user_id o' = userId
                        \<and> po_status o' = ''waiting_deposit'')
                  (\<lambda>o'. o'\<lparr>po_status := ''deposit_received'',
                          po_deposit_proof_url := Some deposit_proof_url,
                          po_notes := (if truthy notes
                            then append_note (po_notes order) ''[USER] '' (the notes)
                            else po_notes o')\<rparr>) (oe_env v db)
            in case updated of
                 None \<Rightarrow> (Inl (ConflictException ''ORDER_STATE_CHANGED''), db')
               | Some o' \<Rightarrow> (Inr o', db'))"

section \<open>The client cancels\<close>

definition reason_text :: "cancellation_reason \<Rightarrow> string" where
  "reason_text r =
     (case r of
        FLOW_NOT_CANCELLABLE \<Rightarrow> ''FLOW_NOT_CANCELLABLE''
      | TERMINAL_STATUS \<Rightarrow> ''TERMINAL_STATUS''
      | STATUS_NOT_CANCELLABLE \<Rightarrow> ''STATUS_NOT_CANCELLABLE''
      | FUNDS_IN_FLIGHT \<Rightarrow> ''FUNDS_IN_FLIGHT''
      | DEPOSIT_DECLARATION_REQUIRED \<Rightarrow> ''DEPOSIT_DECLARATION_REQUIRED'')"

definition buildCancellationError :: "cancellation_decision \<Rightarrow> exn" where
  "buildCancellationError d =
     (case reason_code d of
        Some FUNDS_IN_FLIGHT \<Rightarrow> ConflictException (reason_text FUNDS_IN_FLIGHT)
      | Some FLOW_NOT_CANCELLABLE \<Rightarrow> ForbiddenException (reason_text FLOW_NOT_CANCELLABLE)
      | Some r \<Rightarrow> BadRequestException (reason_text r)
      | None \<Rightarrow> BadRequestException '''')"

text \<open>Steps 1 and 2 of the cancellation: the policy, the fresh state at the provider and the
  blocking deletion of the transfer. \<open>None\<close> means go on.\<close>

definition client_cancel_refusal ::
  "bridge_api \<Rightarrow> bool option \<Rightarrow> payment_order \<Rightarrow> exn option" where
  "client_cancel_refusal api confirm_no_deposit order =
     (let localDecision = evaluateClientCancellation
            \<lparr>in_flow_type = po_flow_type order, in_status = po_status order,
             in_bridge_state = None,
             in_confirm_no_deposit = Some (or_else confirm_no_deposit False)\<rparr>
      in if \<not> allowed localDecision then Some (buildCancellationError localDecision)
         else if \<not> truthy (po_bridge_transfer_id order) then None
         else
           let tid = the (po_bridge_transfer_id order);
               stateRefusal =
                 (if \<not> requiresBridgeStateCheck (po_flow_type order) then None
                  else case api_get api tid of
                    Inl e \<Rightarrow> Some (ServiceUnavailableException ''BRIDGE_UNAVAILABLE'')
                  | Inr freshState \<Rightarrow>
                      let freshDecision = evaluateClientCancellation
                            \<lparr>in_flow_type = po_flow_type order, in_status = po_status order,
                             in_bridge_state = Some freshState,
                             in_confirm_no_deposit = Some (or_else confirm_no_deposit False)\<rparr>
                      in if \<not> allowed freshDecision then Some (buildCancellationError freshDecision)
                         else None)
           in case stateRefusal of
                Some e \<Rightarrow> Some e
              | None \<Rightarrow> if api_delete api tid then None
                        else Some (ConflictException ''BRIDGE_DELETE_FAILED''))"

text \<open>The columns \<open>cancelOrder\<close> selects: the execution context and the source currency are
  not among them, so they are undefined in the row the rest of the function uses.\<close>

definition cancel_columns :: "payment_order \<Rightarrow> payment_order" where
  "cancel_columns order = order\<lparr>po_ctx := None, po_source_currency := None\<rparr>"

definition client_reason :: "ostring \<Rightarrow> ostring \<Rightarrow> string" where
  "client_reason flowType reason =
     (case reason of
        Some r \<Rightarrow> if trim_ws r = '''' then defaultClientCancellationReason flowType
                  else defaultClientCancellationReason flowType @ '' - '' @ trim_ws r
      | None \<Rightarrow> defaultClientCancellationReason flowType)"

definition cancelOrder ::
  "op_env \<Rightarrow> bridge_api \<Rightarrow> string \<Rightarrow> string \<Rightarrow> bool option \<Rightarrow> ostring \<Rightarrow> orders_db
    \<Rightarrow> payment_order result \<times> orders_db" where
  "cancelOrder v api userId orderId confirm_no_deposit reason db =
     (case map_option cancel_columns (select_user_order userId orderId db) of
        None \<Rightarrow> (Inl (NotFoundException ''''), db)
      | Some order \<Rightarrow>
          (case client_cancel_refusal api confirm_no_deposit order of
             Some e \<Rightarrow> (Inl e, db)
           | None \<Rightarrow>
               let db1 = (if truthy (po_bridge_transfer_id order)
                          then mark_transfer_cancelled (the (po_bridge_transfer_id order)) db else db);
                   (updated, db2) = cas_order
                     (\<lambda>o'. po_id o' = orderId \<and> po_user_id o' = userId \<and> po_status o' = po_status order)
                     (\<lambda>o'. o'\<lparr>po_status := ''cancelled'', po_cancelled_at := Some (oe_now v),
                             po_cancelled_by := Some userId, po_cancelled_by_role := Some ''client'',
                             po_cancellation_reason := Some (client_reason (po_flow_type order) reason)\<rparr>)
                     (oe_env v db1)
               in if \<not> oe_db_ok v then (Inl (DbException ''''), oe_env v db1)
                  else case updated of
                    None \<Rightarrow> (Inl (ConflictException ''ORDER_STATE_CHANGED''), db2)
                  | Some o' \<Rightarrow>
                      let db3 = (if po_status order = ''pending_review''
                                 then releasePendingReviewReserve (oe_release v) order db2 else db2);
                          db4 = reverse_pending (oe_release v) ''reversed'' userId order db3;
                          db5 = refund_settled (oe_new_entry_id v) (oe_now v) ''cancelled'' order db4
                      in (Inr o', log_activity (po_user_id order) ''PAYMENT_ORDER_CANCELLED''
                            (log_audit (Some userId) ''CANCEL_PAYMENT_ORDER'' orderId db5))))"

section \<open>The deposit expires\<close>

definition expireDepositOrder ::
  "op_env \<Rightarrow> bridge_api \<Rightarrow> payment_order \<Rightarrow> orders_db \<Rightarrow> unit result \<times> orders_db" where
  "expireDepositOrder v api order db =
     (if truthy (po_bridge_transfer_id order) \<and> \<not> api_delete api (the (po_bridge_transfer_id order))
      then (Inr (), update_orders
              (\<lambda>o'. po_id o' = po_id order \<and> po_status o' = ''waiting_deposit'')
              (\<lambda>o'. o'\<lparr>po_deposit_expires_at := None\<rparr>) db)
      else
        let db1 = (if truthy (po_bridge_transfer_id order)
                   then mark_transfer_cancelled (the (po_bridge_transfer_id order)) db else db);
            (cancelled, db2) = cas_order
              (\<lambda>o'. po_id o' = po_id order \<and> po_status o' = ''waiting_deposit'')
              (\<lambda>o'. o'\<lparr>po_status := ''cancelled'', po_cancelled_at := Some (oe_now v),
                      po_cancelled_by := None, po_cancelled_by_role := Some ''system'',
                      po_cancellation_reason := Some ''Plazo de deposito vencido''\<rparr>)
              (oe_env v db1)
        in if \<not> oe_db_ok v then (Inl (DbException ''''), oe_env v db1)
           else case cancelled of
             None \<Rightarrow> (Inr (), db2)
           | Some _ \<Rightarrow>
               let db3 = (case set_status (entry_of_order (po_id order) ''pending'') ''reversed'' db2 of
                            None \<Rightarrow> db2 | Some d \<Rightarrow> d)
               in (Inr (), log_activity (po_user_id order) ''PAYMENT_ORDER_DEPOSIT_EXPIRED''
                     (log_audit None ''EXPIRE_DEPOSIT_ORDER'' (po_id order) db3)))"

definition DEPOSIT_EXPIRY_BATCH_SIZE :: nat where
  "DEPOSIT_EXPIRY_BATCH_SIZE = 50"

definition overdue :: "int \<Rightarrow> payment_order \<Rightarrow> bool" where
  "overdue now o' \<longleftrightarrow> po_status o' = ''waiting_deposit''
     \<and> (\<exists>f\<in>set PSAV_DEPOSIT_FLOWS. po_flow_type o' = Some f)
     \<and> (case po_deposit_expires_at o' of None \<Rightarrow> False | Some t \<Rightarrow> t < now)"

text \<open>The cron job: the batch is read once, then each order is expired; an exception of one is
  logged and the next one follows.\<close>

definition expireOverdueDepositOrders ::
  "op_env \<Rightarrow> bridge_api \<Rightarrow> orders_db \<Rightarrow> orders_db" where
  "expireOverdueDepositOrders v api db =
     foldl (\<lambda>d order. snd (expireDepositOrder v api order d)) db
       (take DEPOSIT_EXPIRY_BATCH_SIZE
          (sort_key (\<lambda>o'. the (po_deposit_expires_at o')) (filter (overdue (oe_now v)) (payment_orders db))))"

section \<open>Staff review\<close>

definition claim_fields :: "op_env \<Rightarrow> string \<Rightarrow> ostring \<Rightarrow> payment_order \<Rightarrow> payment_order \<Rightarrow> payment_order" where
  "claim_fields v actorId notes order o' = o'\<lparr>po_status := ''processing'',
     po_approved_by := Some actorId, po_approved_at := Some (oe_now v),
     po_notes := (if truthy notes then append_note (po_notes order) ''[REVISION] '' (the notes)
                  else po_notes order)\<rparr>"

definition approveOrderReviewStep ::
  "op_env \<Rightarrow> leg_env \<Rightarrow> string \<Rightarrow> string \<Rightarrow> ostring \<Rightarrow> orders_db
    \<Rightarrow> payment_order result \<times> orders_db" where
  "approveOrderReviewStep v lv orderId actorId notes db =
     (case select_order orderId db of
        None \<Rightarrow> (Inl (NotFoundException ''''), db)
      | Some order \<Rightarrow>
          if po_status order \<noteq> ''pending_review''
          then if po_status order \<in> {''processing'', ''waiting_deposit''}
               then (Inl (ConflictException ''ORDER_STATE_CHANGED''), db)
               else (Inl (BadRequestException ''''), db)
          else if \<not> supportsStaffReviewGate (po_flow_type order)
            then (Inl (BadRequestException ''''), db)
          else
            let (claimed, db1) = cas_order
                  (\<lambda>o'. po_id o' = orderId \<and> po_status o' = ''pending_review'')
                  (claim_fields v actorId notes order) (oe_env v db)
            in case claimed of
                 None \<Rightarrow> (Inl (ConflictException ''ORDER_STATE_CHANGED''), db1)
               | Some o' \<Rightarrow>
                   (case executeReviewedBridgeLeg lv o' ReturnToReview db1 of
                      (Inl e, db2) \<Rightarrow> (Inl e, db2)
                    | (Inr r, db2) \<Rightarrow>
                        (Inr (or_else (select_order orderId db2) o'),
                         log_activity (po_user_id order) ''PAYMENT_ORDER_REVIEW_APPROVED''
                           (log_audit (Some actorId) ''APPROVE_ORDER_REVIEW'' orderId db2))))"

definition rejectOrderReviewStep ::
  "op_env \<Rightarrow> string \<Rightarrow> string \<Rightarrow> string \<Rightarrow> orders_db \<Rightarrow> payment_order result \<times> orders_db" where
  "rejectOrderReviewStep v orderId actorId reason db =
     (case select_order orderId db of
        None \<Rightarrow> (Inl (NotFoundException ''''), db)
      | Some order \<Rightarrow>
          if po_status order \<noteq> ''pending_review'' then (Inl (BadRequestException ''''), db)
          else
            let (rejected, db1) = cas_order
                  (\<lambda>o'. po_id o' = orderId \<and> po_status o' = ''pending_review'')
                  (\<lambda>o'. o'\<lparr>po_status := ''failed'',
                          po_failure_reason := Some (''Rechazado en revision por el equipo: '' @ reason),
                          po_approved_by := Some actorId, po_approved_at := Some (oe_now v)\<rparr>)
                  (oe_env v db)
            in case rejected of
                 None \<Rightarrow> (Inl (ConflictException ''ORDER_STATE_CHANGED''), db1)
               | Some o' \<Rightarrow>
                   (Inr o', log_activity (po_user_id order) ''PAYMENT_ORDER_REVIEW_REJECTED''
                      (log_audit (Some actorId) ''REJECT_ORDER_REVIEW'' orderId
                        (releasePendingReviewReserve (oe_release v) order db1))))"

section \<open>Marks of the staff\<close>

text \<open>An update by id alone, \<open>.update(...).eq('id', orderId).select().single()\<close>: it does not
  look at the status the row has by then.\<close>

definition blind_update ::
  "op_env \<Rightarrow> string \<Rightarrow> (payment_order \<Rightarrow> payment_order) \<Rightarrow> orders_db
    \<Rightarrow> payment_order result \<times> orders_db" where
  "blind_update v orderId f db =
     (if \<not> oe_db_ok v then (Inl (DbException ''''), oe_env v db)
      else let (updated, db') = cas_order (\<lambda>o'. po_id o' = orderId) f (oe_env v db)
           in case updated of None \<Rightarrow> (Inl (DbException ''''), db') | Some o' \<Rightarrow> (Inr o', db'))"

definition markSent ::
  "op_env \<Rightarrow> string \<Rightarrow> string \<Rightarrow> string \<Rightarrow> ostring \<Rightarrow> ostring \<Rightarrow> orders_db
    \<Rightarrow> payment_order result \<times> orders_db" where
  "markSent v orderId actorId tx_hash provider_reference notes db =
     (case select_order orderId db of
        None \<Rightarrow> (Inl (NotFoundException ''''), db)
      | Some order \<Rightarrow>
          if or_else (po_flow_type order) '''' \<in> {''fiat_bo_to_bridge_wallet'',
               ''crypto_to_bridge_wallet'', ''bolivia_to_world'', ''bolivia_to_wallet''}
          then (Inl (BadRequestException ''''), db)
          else if po_status order \<noteq> ''processing'' then (Inl (BadRequestException ''''), db)
          else
            (case blind_update v orderId
               (\<lambda>o'. o'\<lparr>po_status := ''sent'', po_tx_hash := Some tx_hash,
                       po_provider_reference := patch_opt provider_reference (po_provider_reference o'),
                       po_notes := (if truthy notes
                         then append_note (po_notes order) ''[ADMIN] '' (the notes)
                         else po_notes order)\<rparr>) db of
               (Inl e, db') \<Rightarrow> (Inl e, db')
             | (Inr o', db') \<Rightarrow>
                 (Inr o', log_activity (po_user_id order) ''PAYMENT_ORDER_SENT''
                    (log_audit (Some actorId) ''MARK_SENT_PAYMENT_ORDER'' orderId db'))))"

definition completeOrder ::
  "op_env \<Rightarrow> string \<Rightarrow> string \<Rightarrow> ostring \<Rightarrow> ostring \<Rightarrow> orders_db \<Rightarrow> payment_order result \<times> orders_db" where
  "completeOrder v orderId actorId receipt_url notes db =
     (case select_order orderId db of
        None \<Rightarrow> (Inl (NotFoundException ''''), db)
      | Some order \<Rightarrow>
          if po_status order \<noteq> ''sent'' then (Inl (BadRequestException ''''), db)
          else
            (case blind_update v orderId
               (\<lambda>o'. o'\<lparr>po_status := ''completed'', po_completed_at := Some (oe_now v),
                       po_receipt_url := patch_opt receipt_url (po_receipt_url o'),
                       po_notes := (if truthy notes
                         then append_note (po_notes order) ''[ADMIN] '' (the notes)
                         else po_notes order)\<rparr>) db of
               (Inl e, db') \<Rightarrow> (Inl e, db')
             | (Inr o', db') \<Rightarrow>
                 (Inr o', log_activity (po_user_id order) ''PAYMENT_ORDER_COMPLETED''
                    (log_audit (Some actorId) ''COMPLETE_PAYMENT_ORDER'' orderId db'))))"

definition failOrder ::
  "op_env \<Rightarrow> string \<Rightarrow> string \<Rightarrow> string \<Rightarrow> orders_db \<Rightarrow> payment_order result \<times> orders_db" where
  "failOrder v orderId actorId reason db =
     (case select_order orderId db of
        None \<Rightarrow> (Inl (NotFoundException ''''), db)
      | Some order \<Rightarrow>
          if po_status order \<in> set TERMINAL_ORDER_STATUSES then (Inl (BadRequestException ''''), db)
          else
            (case blind_update v orderId
               (\<lambda>o'. o'\<lparr>po_status := ''failed'', po_failure_reason := Some reason\<rparr>) db of
               (Inl e, db') \<Rightarrow> (Inl e, db')
             | (Inr o', db1) \<Rightarrow>
                 let db2 = (if po_status order = ''pending_review''
                            then releasePendingReviewReserve (oe_release v) order db1 else db1);
                     db3 = reverse_pending (oe_release v) ''failed'' (po_user_id order) order db2;
                     db4 = refund_settled (oe_new_entry_id v) (oe_now v) ''failed'' order db3
                 in (Inr o', log_activity (po_user_id order) ''PAYMENT_ORDER_FAILED''
                      (log_audit (Some actorId) ''FAIL_PAYMENT_ORDER'' orderId db4))))"

definition cancelOrderByStaff ::
  "op_env \<Rightarrow> bridge_api \<Rightarrow> string \<Rightarrow> string \<Rightarrow> string \<Rightarrow> bool option \<Rightarrow> orders_db
    \<Rightarrow> payment_order result \<times> orders_db" where
  "cancelOrderByStaff v api orderId actorId reason refund db =
     (case select_order orderId db of
        None \<Rightarrow> (Inl (NotFoundException ''''), db)
      | Some order \<Rightarrow>
          let decision = evaluateStaffCancellation (po_status order);
              deletes = (truthy (po_bridge_transfer_id order)
                         \<and> or_else (po_flow_type order) '''' \<in> set PSAV_DEPOSIT_FLOWS)
          in if \<not> allowed decision then (Inl (buildCancellationError decision), db)
             else if deletes \<and> \<not> api_delete api (the (po_bridge_transfer_id order))
               then (Inl (ConflictException ''BRIDGE_DELETE_FAILED''), db)
             else
               let db1 = (if deletes
                          then mark_transfer_cancelled (the (po_bridge_transfer_id order)) db else db);
                   (updated, db2) = cas_order
                     (\<lambda>o'. po_id o' = orderId \<and> po_status o' = po_status order)
                     (\<lambda>o'. o'\<lparr>po_status := ''cancelled'', po_cancelled_at := Some (oe_now v),
                             po_cancelled_by := Some actorId, po_cancelled_by_role := Some ''staff'',
                             po_cancellation_reason := Some reason\<rparr>) (oe_env v db1)
               in if \<not> oe_db_ok v then (Inl (DbException ''''), oe_env v db1)
                  else case updated of
                    None \<Rightarrow> (Inl (ConflictException ''ORDER_STATE_CHANGED''), db2)
                  | Some o' \<Rightarrow>
                      let db3 = (if refund = Some False then db2
                            else
                              let d1 = (if po_status order = ''pending_review''
                                        then releasePendingReviewReserve (oe_release v) order db2 else db2);
                                  d2 = reverse_pending (oe_release v) ''reversed'' (po_user_id order) order d1
                              in refund_settled (oe_new_entry_id v) (oe_now v) ''staff'' order d2)
                      in (Inr o', log_activity (po_user_id order) ''PAYMENT_ORDER_CANCELLED''
                           (log_audit (Some actorId) ''CANCEL_PAYMENT_ORDER'' orderId db3)))"

end
