(* ===== verification/OrderStates.thy ===== *)
theory OrderStates imports OrderLifecycle begin

text \<open>
  The state machine of a payment order: which statuses the operations of
  \<open>OrderLifecycle\<close> can lead to, and the invariants of every run in which each operation
  completes before the next begins.
\<close>

section \<open>Effects on the table of orders\<close>

definition can_move :: "string \<Rightarrow> string \<Rightarrow> bool" where
  "can_move s t \<longleftrightarrow>
     s = ''waiting_deposit'' \<and> t = ''deposit_received''
     \<or> s \<in> set STAFF_CANCELLABLE_STATUSES \<and> t = ''cancelled''
     \<or> s = ''pending_review'' \<and> (t = ''processing'' \<or> t = ''waiting_deposit'')
     \<or> s \<notin> set TERMINAL_ORDER_STATUSES \<and> t = ''failed''
     \<or> s = ''processing'' \<and> t = ''sent''
     \<or> s = ''sent'' \<and> t = ''completed''"

definition moved :: "orders_db \<Rightarrow> orders_db \<Rightarrow> bool" where
  "moved db db' \<longleftrightarrow> (\<forall>q\<in>set (payment_orders db'). \<exists>p\<in>set (payment_orders db).
     po_id p = po_id q \<and> (po_status q = po_status p \<or> can_move (po_status p) (po_status q)))"

lemma moved_refl: "payment_orders db' = payment_orders db \<Longrightarrow> moved db db'"
  by (auto simp: moved_def)

lemma moved_cong: "payment_orders db1 = payment_orders db1' \<Longrightarrow> payment_orders db2 = payment_orders db2'
    \<Longrightarrow> moved db1 db2 \<longleftrightarrow> moved db1' db2'"
  by (simp add: moved_def)

lemma moved_update:
  assumes "\<And>x. x \<in> set (payment_orders db) \<Longrightarrow> p x \<Longrightarrow> po_id (f x) = po_id x"
    and "\<And>x. x \<in> set (payment_orders db) \<Longrightarrow> p x \<Longrightarrow>
      po_status (f x) = po_status x \<or> can_move (po_status x) (po_status (f x))"
    and "payment_orders db' = update_where p f (payment_orders db)"
  shows "moved db db'"
  unfolding moved_def assms(3)
proof
  fix q assume "q \<in> set (update_where p f (payment_orders db))"
  then show "\<exists>r\<in>set (payment_orders db). po_id r = po_id q
      \<and> (po_status q = po_status r \<or> can_move (po_status r) (po_status q))"
    by (cases rule: update_whereE) (use assms(1,2) in force)+
qed

lemma set_status_frame:
  "set_status p st db = Some db' \<Longrightarrow> payment_orders db' = payment_orders (db :: orders_db)"
  by (auto simp: set_status_def)

lemma insert_entry_frame:
  "insert_entry e db = Some db' \<Longrightarrow> payment_orders db' = payment_orders (db :: orders_db)"
  by (auto simp: insert_entry_def)

lemma reversal_frame [simp]:
  "payment_orders (releasePendingReviewReserve rel order db) = payment_orders db"
  "payment_orders (reverse_pending rel st u order db) = payment_orders db"
  "payment_orders (refund_settled i now d order db) = payment_orders db"
  "payment_orders (mark_transfer_cancelled t db) = payment_orders db"
  by (auto simp: releasePendingReviewReserve_def reverse_pending_def refund_settled_def Let_def
      mark_transfer_cancelled_def dest: set_status_frame insert_entry_frame split: option.split)

lemma cas_order_snd [simp]: "snd (cas_order p f db) = update_orders p f db"
  by (simp add: cas_order_def)

lemma select_order_single:
  "select_order i db = Some o' \<Longrightarrow> x \<in> set (payment_orders db) \<Longrightarrow> po_id x = i \<Longrightarrow> x = o'"
proof -
  assume s: "select_order i db = Some o'" and x: "x \<in> set (payment_orders db)" "po_id x = i"
  from s have f: "filter (\<lambda>o'. po_id o' = i) (payment_orders db) = [o']"
    by (simp add: select_order_def maybe_single_Some)
  from x have "x \<in> set (filter (\<lambda>o'. po_id o' = i) (payment_orders db))" by simp
  then have "x \<in> set [o']" unfolding f .
  then show ?thesis by simp
qed

lemma select_order_in: "select_order i db = Some o' \<Longrightarrow> o' \<in> set (payment_orders db) \<and> po_id o' = i"
  unfolding select_order_def by (rule maybe_single_in)

lemma select_user_order_in:
  "select_user_order u i db = Some o' \<Longrightarrow> o' \<in> set (payment_orders db) \<and> po_id o' = i \<and> po_user_id o' = u"
  unfolding select_user_order_def by (rule maybe_single_in)

text \<open>Every operation either leaves the table of orders alone or is one update of it; what
  the predicate and the new status of that update are is all the state machine needs.\<close>

definition one_update :: "op_env \<Rightarrow> orders_db \<Rightarrow> orders_db \<Rightarrow> (payment_order \<Rightarrow> bool) \<Rightarrow> string \<Rightarrow> bool" where
  "one_update v db db' p st \<longleftrightarrow> payment_orders db' = payment_orders db
     \<or> payment_orders db' = payment_orders (oe_env v db)
     \<or> (\<exists>f. payment_orders db' = update_where p f (payment_orders (oe_env v db))
          \<and> (\<forall>x. po_id (f x) = po_id x \<and> po_status (f x) = st))"

lemma moved_one_update:
  assumes "one_update v db db' p st" "oe_env v = (\<lambda>d. d)"
    and "\<And>x. x \<in> set (payment_orders db) \<Longrightarrow> p x \<Longrightarrow> can_move (po_status x) st"
  shows "moved db db'"
proof -
  consider "payment_orders db' = payment_orders db"
    | f where "payment_orders db' = update_where p f (payment_orders db)"
      "\<forall>x. po_id (f x) = po_id x \<and> po_status (f x) = st"
    using assms(1,2) by (auto simp: one_update_def)
  then show ?thesis
  proof cases
    case 1
    then show ?thesis by (rule moved_refl)
  next
    case 2
    then show ?thesis by (intro moved_update [OF _ _ 2(1)]) (simp_all add: assms(3))
  qed
qed

lemma one_update_same: "payment_orders db' = payment_orders db \<Longrightarrow> one_update v db db' p st"
  "payment_orders db' = payment_orders (oe_env v db) \<Longrightarrow> one_update v db db' p st"
  by (simp_all add: one_update_def)

lemma one_updateI:
  "payment_orders db' = update_where p f (payment_orders (oe_env v db)) \<Longrightarrow>
   (\<And>x. po_id (f x) = po_id x) \<Longrightarrow> (\<And>x. po_status (f x) = st) \<Longrightarrow> one_update v db db' p st"
  unfolding one_update_def by blast

lemma confirm_update:
  "one_update v db (snd (confirmDeposit v u i url n db))
     (\<lambda>x. po_id x = i \<and> po_user_id x = u \<and> po_status x = ''waiting_deposit'') ''deposit_received''"
proof (cases "select_user_order u i db")
  case None
  then show ?thesis by (simp add: confirmDeposit_def one_update_same)
next
  case (Some o1)
  let ?f = "\<lambda>x. x\<lparr>po_status := ''deposit_received'', po_deposit_proof_url := Some url,
      po_notes := (if truthy n then append_note (po_notes o1) ''[USER] '' (the n) else po_notes x)\<rparr>"
  let ?p = "\<lambda>x. po_id x = i \<and> po_user_id x = u \<and> po_status x = ''waiting_deposit''"
  have "one_update v db (update_orders ?p ?f (oe_env v db)) ?p ''deposit_received''"
    by (rule one_updateI [where f = ?f]) simp_all
  with Some show ?thesis
    by (simp add: confirmDeposit_def Let_def case_prod_beta one_update_same split: option.split)
qed

lemma mark_env_update:
  assumes "payment_orders db1 = payment_orders db" "oe_env v = (\<lambda>d. d)" "one_update v db1 db' p st"
  shows "one_update v db db' p st"
  using assms by (simp add: one_update_def)

lemma client_cancel_update:
  assumes "select_user_order u i db = Some o1" "oe_env v = (\<lambda>d. d)"
  shows "one_update v db (snd (cancelOrder v api u i c r db))
     (\<lambda>x. po_id x = i \<and> po_user_id x = u \<and> po_status x = po_status o1) ''cancelled''
   \<and> (payment_orders (snd (cancelOrder v api u i c r db)) = payment_orders db
      \<or> client_cancel_refusal api c (cancel_columns o1) = None)"
proof (cases "client_cancel_refusal api c (cancel_columns o1)")
  case (Some e)
  with assms show ?thesis by (simp add: cancelOrder_def one_update_same)
next
  case None
  let ?o = "cancel_columns o1"
  let ?p = "\<lambda>x. po_id x = i \<and> po_user_id x = u \<and> po_status x = po_status o1"
  let ?f = "\<lambda>x. x\<lparr>po_status := ''cancelled'', po_cancelled_at := Some (oe_now v),
      po_cancelled_by := Some u, po_cancelled_by_role := Some ''client'',
      po_cancellation_reason := Some (client_reason (po_flow_type ?o) r)\<rparr>"
  let ?db1 = "if truthy (po_bridge_transfer_id ?o)
      then mark_transfer_cancelled (the (po_bridge_transfer_id ?o)) db else db"
  have st: "po_status ?o = po_status o1" by (simp add: cancel_columns_def)
  have p1: "payment_orders ?db1 = payment_orders db" by simp
  have "one_update v db d ?p ''cancelled''"
    if "payment_orders d = payment_orders db \<or> payment_orders d = update_where ?p ?f (payment_orders db)" for d
    using that assms(2) unfolding one_update_def by (auto intro!: exI [of _ ?f])
  moreover have "payment_orders (snd (cancelOrder v api u i c r db)) = payment_orders db
      \<or> payment_orders (snd (cancelOrder v api u i c r db)) = update_where ?p ?f (payment_orders db)"
    using None assms p1
    by (simp add: cancelOrder_def Let_def case_prod_beta st split: option.split)
  ultimately show ?thesis using None by blast
qed

lemma client_cancel_moves:
  assumes "oe_env v = (\<lambda>d. d)"
  shows "moved db (snd (cancelOrder v api u i c r db))"
proof (cases "select_user_order u i db")
  case None
  then show ?thesis by (simp add: cancelOrder_def moved_refl)
next
  case (Some o1)
  note up = client_cancel_update [OF Some assms, of api c r]
  show ?thesis
  proof (cases "client_cancel_refusal api c (cancel_columns o1) = None")
    case False
    with up show ?thesis by (blast intro: moved_refl)
  next
    case True
    then have "allowed (evaluateClientCancellation \<lparr>in_flow_type = po_flow_type (cancel_columns o1),
        in_status = po_status (cancel_columns o1), in_bridge_state = None,
        in_confirm_no_deposit = Some (or_else c False)\<rparr>)"
      by (simp add: client_cancel_refusal_def Let_def split: if_splits)
    then have "po_status o1 \<in> set STAFF_CANCELLABLE_STATUSES"
      unfolding client_allowed_iff_safe client_cancellation_input.simps
      by (elim exE conjE, rename_tac g, case_tac g)
         (auto simp: client_safe_to_cancel_def STAFF_CANCELLABLE_STATUSES_def cancel_columns_def)
    then show ?thesis
      by (intro moved_one_update [OF conjunct1 [OF up] assms]) (simp add: can_move_def)
  qed
qed

lemma expire_moves:
  assumes "oe_env v = (\<lambda>d. d)"
  shows "moved db (snd (expireDepositOrder v api order db))"
proof -
  let ?p = "\<lambda>x. po_id x = po_id order \<and> po_status x = ''waiting_deposit''"
  let ?f = "\<lambda>x. x\<lparr>po_status := ''cancelled'', po_cancelled_at := Some (oe_now v),
      po_cancelled_by := None, po_cancelled_by_role := Some ''system'',
      po_cancellation_reason := Some ''Plazo de deposito vencido''\<rparr>"
  let ?r = "snd (expireDepositOrder v api order db)"
  have fr: "payment_orders (case set_status q st d of None \<Rightarrow> d | Some e \<Rightarrow> e) = payment_orders d"
    for q st and d :: orders_db
    by (simp add: set_status_frame split: option.split)
  have "payment_orders ?r = payment_orders db \<or> payment_orders ?r = update_where ?p ?f (payment_orders db)
    \<or> payment_orders ?r = update_where ?p (\<lambda>o'. o'\<lparr>po_deposit_expires_at := None\<rparr>) (payment_orders db)"
    using assms
    by (simp add: expireDepositOrder_def Let_def case_prod_beta fr split: option.split)
  moreover have "can_move ''waiting_deposit'' ''cancelled''"
    by (simp add: can_move_def STAFF_CANCELLABLE_STATUSES_def)
  moreover have "moved db ?r" if "payment_orders ?r = update_where ?p ?f (payment_orders db)"
    by (rule moved_update [OF _ _ that]) (simp_all add: calculation(2))
  moreover have "moved db ?r"
    if "payment_orders ?r = update_where ?p (\<lambda>o'. o'\<lparr>po_deposit_expires_at := None\<rparr>) (payment_orders db)"
    by (rule moved_update [OF _ _ that]) simp_all
  ultimately show ?thesis using moved_refl [of ?r db] by argo
qed

lemma blind_update_moves:
  assumes "oe_env v = (\<lambda>d. d)" "select_order i db = Some o1"
    and "\<And>x. po_id (f x) = po_id x" "\<And>x. po_status (f x) = st"
    and "payment_orders db' = payment_orders db
      \<or> can_move (po_status o1) st \<and> payment_orders db' = payment_orders (snd (blind_update v i f db))"
  shows "moved db db'"
proof -
  have "payment_orders (snd (blind_update v i f db)) = payment_orders db
      \<or> payment_orders (snd (blind_update v i f db)) = update_where (\<lambda>x. po_id x = i) f (payment_orders db)"
    using assms(1) by (simp add: blind_update_def Let_def case_prod_beta split: option.splits)
  with assms(5) consider "payment_orders db' = payment_orders db"
    | "can_move (po_status o1) st" "payment_orders db' = update_where (\<lambda>x. po_id x = i) f (payment_orders db)"
    by metis
  then show ?thesis
  proof cases
    case 1
    then show ?thesis by (rule moved_refl)
  next
    case 2
    show ?thesis
      by (rule moved_update [OF _ _ 2(2)])
         (use 2(1) select_order_single [OF assms(2)] assms(3,4) in auto)
  qed
qed

lemma mark_sent_moves:
  assumes "oe_env v = (\<lambda>d. d)"
  shows "moved db (snd (markSent v i a tx pr n db))"
proof (cases "select_order i db")
  case None
  then show ?thesis by (simp add: markSent_def moved_refl)
next
  case (Some o1)
  let ?f = "\<lambda>x. x\<lparr>po_status := ''sent'', po_tx_hash := Some tx,
      po_provider_reference := patch_opt pr (po_provider_reference x),
      po_notes := (if truthy n then append_note (po_notes o1) ''[ADMIN] '' (the n) else po_notes o1)\<rparr>"
  let ?r = "snd (markSent v i a tx pr n db)"
  have "payment_orders ?r = payment_orders db
      \<or> can_move (po_status o1) ''sent'' \<and> payment_orders ?r = payment_orders (snd (blind_update v i ?f db))"
    using Some by (simp add: markSent_def can_move_def split: prod.split sum.split)
  then show ?thesis by (rule blind_update_moves [OF assms Some, rotated 2]) simp_all
qed

lemma complete_moves:
  assumes "oe_env v = (\<lambda>d. d)"
  shows "moved db (snd (completeOrder v i a rc n db))"
proof (cases "select_order i db")
  case None
  then show ?thesis by (simp add: completeOrder_def moved_refl)
next
  case (Some o1)
  let ?f = "\<lambda>x. x\<lparr>po_status := ''completed'', po_completed_at := Some (oe_now v),
      po_receipt_url := patch_opt rc (po_receipt_url x),
      po_notes := (if truthy n then append_note (po_notes o1) ''[ADMIN] '' (the n) else po_notes o1)\<rparr>"
  let ?r = "snd (completeOrder v i a rc n db)"
  have "payment_orders ?r = payment_orders db
      \<or> can_move (po_status o1) ''completed'' \<and> payment_orders ?r = payment_orders (snd (blind_update v i ?f db))"
    using Some by (simp add: completeOrder_def can_move_def split: prod.split sum.split)
  then show ?thesis by (rule blind_update_moves [OF assms Some, rotated 2]) simp_all
qed

lemma fail_moves:
  assumes "oe_env v = (\<lambda>d. d)"
  shows "moved db (snd (failOrder v i a reason db))"
proof (cases "select_order i db")
  case None
  then show ?thesis by (simp add: failOrder_def moved_refl)
next
  case (Some o1)
  let ?f = "\<lambda>x. x\<lparr>po_status := ''failed'', po_failure_reason := Some reason\<rparr>"
  let ?r = "snd (failOrder v i a reason db)"
  have "payment_orders ?r = payment_orders db
      \<or> can_move (po_status o1) ''failed'' \<and> payment_orders ?r = payment_orders (snd (blind_update v i ?f db))"
    using Some by (simp add: failOrder_def can_move_def Let_def split: prod.split sum.split)
  then show ?thesis by (rule blind_update_moves [OF assms Some, rotated 2]) simp_all
qed

lemma staff_cancel_moves:
  assumes "oe_env v = (\<lambda>d. d)"
  shows "moved db (snd (cancelOrderByStaff v api i a reason refund db))"
proof (cases "select_order i db")
  case None
  then show ?thesis by (simp add: cancelOrderByStaff_def moved_refl)
next
  case (Some o1)
  let ?p = "\<lambda>x. po_id x = i \<and> po_status x = po_status o1"
  let ?f = "\<lambda>x. x\<lparr>po_status := ''cancelled'', po_cancelled_at := Some (oe_now v),
      po_cancelled_by := Some a, po_cancelled_by_role := Some ''staff'',
      po_cancellation_reason := Some reason\<rparr>"
  let ?r = "snd (cancelOrderByStaff v api i a reason refund db)"
  have "payment_orders ?r = payment_orders db
      \<or> po_status o1 \<in> set STAFF_CANCELLABLE_STATUSES
        \<and> payment_orders ?r = update_where ?p ?f (payment_orders db)"
    using Some assms
    by (simp add: cancelOrderByStaff_def Let_def case_prod_beta staff_allowed_iff split: option.split)
  moreover have "moved db ?r" if "po_status o1 \<in> set STAFF_CANCELLABLE_STATUSES"
    "payment_orders ?r = update_where ?p ?f (payment_orders db)"
    by (rule moved_update [OF _ _ that(2)]) (use that(1) in \<open>simp_all add: can_move_def\<close>)
  ultimately show ?thesis using moved_refl [of ?r db] by argo
qed

lemma reject_moves:
  assumes "oe_env v = (\<lambda>d. d)"
  shows "moved db (snd (rejectOrderReviewStep v i a reason db))"
proof (cases "select_order i db")
  case None
  then show ?thesis by (simp add: rejectOrderReviewStep_def moved_refl)
next
  case (Some o1)
  let ?p = "\<lambda>x. po_id x = i \<and> po_status x = ''pending_review''"
  let ?f = "\<lambda>x. x\<lparr>po_status := ''failed'',
      po_failure_reason := Some (''Rechazado en revision por el equipo: '' @ reason),
      po_approved_by := Some a, po_approved_at := Some (oe_now v)\<rparr>"
  let ?r = "snd (rejectOrderReviewStep v i a reason db)"
  have "payment_orders ?r = payment_orders db
      \<or> payment_orders ?r = update_where ?p ?f (payment_orders db)"
    using Some assms
    by (simp add: rejectOrderReviewStep_def Let_def case_prod_beta split: option.split)
  moreover have "moved db ?r" if "payment_orders ?r = update_where ?p ?f (payment_orders db)"
    by (rule moved_update [OF _ _ that]) (simp_all add: can_move_def TERMINAL_ORDER_STATUSES_def)
  ultimately show ?thesis using moved_refl [of ?r db] by argo
qed

text \<open>The claim of an approval, and what the leg makes of it.\<close>

lemma claim_fields_simps [simp]:
  "po_id (claim_fields v a n o1 x) = po_id x" "po_status (claim_fields v a n o1 x) = ''processing''"
  "po_ctx (claim_fields v a n o1 x) = po_ctx x"
  by (simp_all add: claim_fields_def)

definition claimed_db :: "op_env \<Rightarrow> string \<Rightarrow> ostring \<Rightarrow> string \<Rightarrow> payment_order \<Rightarrow> orders_db \<Rightarrow> orders_db" where
  "claimed_db v a n i o1 db =
     update_orders (\<lambda>x. po_id x = i \<and> po_status x = ''pending_review'') (claim_fields v a n o1) db"

lemma approve_unfold:
  assumes "select_order i db = Some o1" "po_status o1 = ''pending_review''"
    and "supportsStaffReviewGate (po_flow_type o1)" "oe_env v = (\<lambda>d. d)"
  shows "approveOrderReviewStep v lv i a n db =
     (case executeReviewedBridgeLeg lv (claim_fields v a n o1 o1) ReturnToReview (claimed_db v a n i o1 db) of
        (Inl e, db2) \<Rightarrow> (Inl e, db2)
      | (Inr r, db2) \<Rightarrow> (Inr (or_else (select_order i db2) (claim_fields v a n o1 o1)),
          log_activity (po_user_id o1) ''PAYMENT_ORDER_REVIEW_APPROVED''
            (log_audit (Some a) ''APPROVE_ORDER_REVIEW'' i db2)))"
proof -
  from assms(1) have f: "filter (\<lambda>x. po_id x = i) (payment_orders db) = [o1]"
    by (simp add: select_order_def maybe_single_Some)
  have "filter (\<lambda>x. po_id x = i \<and> po_status x = ''pending_review'') (payment_orders db)
      = filter (\<lambda>x. po_status x = ''pending_review'') (filter (\<lambda>x. po_id x = i) (payment_orders db))"
    by (simp add: conj_commute)
  also have "\<dots> = [o1]" by (simp add: f assms(2))
  finally have c: "filter (\<lambda>x. po_id x = i \<and> po_status x = ''pending_review'') (payment_orders db) = [o1]" .
  show ?thesis
    using assms by (simp add: approveOrderReviewStep_def cas_order_def c claimed_db_def)
qed

lemma claimed_status:
  assumes "select_order i db = Some o1" "po_status o1 = ''pending_review''"
    and "q \<in> set (payment_orders (claimed_db v a n i o1 db))" "po_id q = i"
  shows "po_status q = ''processing''"
  using assms(3) unfolding claimed_db_def update_orders_simps
proof (cases rule: update_whereE)
  case (changed r)
  then show ?thesis by simp
next
  case kept
  with assms show ?thesis using select_order_single [OF assms(1) kept(1) assms(4)] by simp
qed

lemma claimed_others: "other_orders i (claimed_db v a n i o1 db) = other_orders i db"
  unfolding claimed_db_def by (rule other_orders_update) simp_all

lemma approve_moves:
  assumes "oe_env v = (\<lambda>d. d)"
  shows "moved db (snd (approveOrderReviewStep v lv i a n db))"
proof (cases "select_order i db")
  case None
  then show ?thesis by (simp add: approveOrderReviewStep_def moved_refl)
next
  case (Some o1)
  note sel = select_order_in [OF Some]
  show ?thesis
  proof (cases "po_status o1 = ''pending_review'' \<and> supportsStaffReviewGate (po_flow_type o1)")
    case False
    with Some show ?thesis
      by (cases "po_status o1 = ''pending_review''")
         (simp_all add: approveOrderReviewStep_def moved_refl)
  next
    case True
    let ?c = "claim_fields v a n o1 o1" and ?d = "claimed_db v a n i o1 db"
    obtain res d2 where l: "executeReviewedBridgeLeg lv ?c ReturnToReview ?d = (res, d2)" by fastforce
    have id: "po_id ?c = i" using sel by simp
    have po: "payment_orders (snd (approveOrderReviewStep v lv i a n db)) = payment_orders d2"
      using approve_unfold [OF Some _ _ assms, of lv a n] True l by (simp split: sum.split)
    have oth: "other_orders i d2 = other_orders i db"
      using legs.leg_others [OF l] sel by (simp add: claimed_others)
    have "po_status q = ''pending_review'' \<or> can_move ''pending_review'' (po_status q)"
      if q: "q \<in> set (payment_orders d2)" "po_id q = i" for q
    proof (cases res)
      case (Inr r)
      with l legs.leg_done [of lv ?c ReturnToReview ?d r d2 q] legs.leg_status [of lv ?c ReturnToReview ?d r d2] q id
      show ?thesis by (auto simp: can_move_def)
    next
      case (Inl e)
      show ?thesis
      proof (cases "has_exec_kind ?c")
        case False
        with l have "d2 = ?d" by (simp add: no_kind_leg)
        with q claimed_status [OF Some] True have "po_status q = ''processing''" by blast
        then show ?thesis by (simp add: can_move_def)
      next
        case kind: True
        from legs.leg_failed [OF kind l [unfolded Inl] q(1)] q(2) id
        have "po_status q \<noteq> ''processing''"
          "po_status q = ''pending_review'' \<or> po_status q = ''failed'' \<or> q \<in> set (payment_orders ?d)"
          by simp_all
        moreover have "q \<notin> set (payment_orders ?d)"
          using claimed_status [OF Some _ _ q(2)] True calculation(1) by blast
        ultimately show ?thesis by (auto simp: can_move_def TERMINAL_ORDER_STATUSES_def)
      qed
    qed
    moreover have "q \<in> set (payment_orders db)" if "q \<in> set (payment_orders d2)" "po_id q \<noteq> i" for q
    proof -
      have "q \<in> set (other_orders i d2)" using that by (simp add: other_orders_def)
      then show ?thesis unfolding oth by (simp add: other_orders_def)
    qed
    ultimately have "moved db d2"
      unfolding moved_def using sel True by metis
    then show ?thesis using moved_cong [OF refl po] by blast
  qed
qed

section \<open>Runs\<close>

text \<open>One complete operation; the parameters of each are arbitrary.\<close>

inductive order_step :: "orders_db \<Rightarrow> orders_db \<Rightarrow> bool" where
  os_confirm: "oe_env v = (\<lambda>d. d) \<Longrightarrow> order_step db (snd (confirmDeposit v u i url n db))"
| os_cancel: "oe_env v = (\<lambda>d. d) \<Longrightarrow> order_step db (snd (cancelOrder v api u i c r db))"
| os_expire: "oe_env v = (\<lambda>d. d) \<Longrightarrow> order_step db (snd (expireDepositOrder v api order db))"
| os_approve: "oe_env v = (\<lambda>d. d) \<Longrightarrow> order_step db (snd (approveOrderReviewStep v lv i a n db))"
| os_reject: "oe_env v = (\<lambda>d. d) \<Longrightarrow> order_step db (snd (rejectOrderReviewStep v i a reason db))"
| os_sent: "oe_env v = (\<lambda>d. d) \<Longrightarrow> order_step db (snd (markSent v i a tx pr n db))"
| os_complete: "oe_env v = (\<lambda>d. d) \<Longrightarrow> order_step db (snd (completeOrder v i a rc n db))"
| os_fail: "oe_env v = (\<lambda>d. d) \<Longrightarrow> order_step db (snd (failOrder v i a reason db))"
| os_staff: "oe_env v = (\<lambda>d. d) \<Longrightarrow> order_step db (snd (cancelOrderByStaff v api i a reason refund db))"

lemma confirm_moves: "oe_env v = (\<lambda>d. d) \<Longrightarrow> moved db (snd (confirmDeposit v u i url n db))"
  by (rule moved_one_update [OF confirm_update]) (simp_all add: can_move_def)

lemmas operation_moves = confirm_moves client_cancel_moves expire_moves approve_moves reject_moves
  mark_sent_moves complete_moves fail_moves staff_cancel_moves

lemma order_step_moved: "order_step db db' \<Longrightarrow> moved db db'"
  by (induction rule: order_step.induct) (simp_all add: operation_moves)

lemma order_steps_moved:
  "order_step\<^sup>*\<^sup>* db db' \<Longrightarrow> q \<in> set (payment_orders db') \<Longrightarrow>
   \<exists>p\<in>set (payment_orders db). po_id p = po_id q \<and> can_move\<^sup>*\<^sup>* (po_status p) (po_status q)"
proof (induction arbitrary: q rule: rtranclp_induct)
  case base
  then show ?case by blast
next
  case (step d1 d2)
  from order_step_moved [OF step.hyps(2)] step.prems obtain p where
    p: "p \<in> set (payment_orders d1)" "po_id p = po_id q"
      "po_status q = po_status p \<or> can_move (po_status p) (po_status q)"
    by (auto simp: moved_def)
  from step.IH [OF p(1)] p(2,3) show ?case
    by (metis rtranclp.rtrancl_into_rtrancl)
qed

lemma terminal_stays: "can_move\<^sup>*\<^sup>* s t \<Longrightarrow> s \<in> set TERMINAL_ORDER_STATUSES \<Longrightarrow> t = s"
proof (induction rule: rtranclp_induct)
  case (step y z)
  then have "y \<in> set TERMINAL_ORDER_STATUSES" "can_move y z" by auto
  then have False by (auto simp: can_move_def TERMINAL_ORDER_STATUSES_def STAFF_CANCELLABLE_STATUSES_def)
  then show ?case ..
qed simp

end
