(* ===== verification/OrderProperties.thy ===== *)
theory OrderProperties imports OrderStates LedgerProperties begin

text \<open>
  What the operations on a payment order guarantee, alone and when they interleave, and
  where they do not: the state machine, the claim of an approval, the release of reserves,
  the reversal of the ledger, and the races the code leaves open.
\<close>

section \<open>Samples\<close>

definition sample_ctx :: bridge_exec_context where
  "sample_ctx = \<lparr>ctx_kind = Some (CryptoExec ''polygon'' ''usdc'' ''0xabc''),
     ctx_source_currency = Some ''USDC'', ctx_amount = 100, ctx_fee_amount = 1,
     ctx_net_amount = 99, ctx_total_needed = Some (Fin 100)\<rparr>"

definition sample_order :: payment_order where
  "sample_order = blank_order\<lparr>po_id := ''o1'', po_user_id := ''u1'', po_wallet_id := Some ''w1'',
     po_flow_type := Some ''bridge_wallet_to_crypto'', po_status := ''pending_review'',
     po_amount := 100, po_currency := Some ''USDC'', po_source_currency := Some ''USDC'',
     po_ctx := Some sample_ctx\<rparr>"

definition sample_db :: "payment_order list \<Rightarrow> orders_db" where
  "sample_db os = empty_tables\<lparr>wallets := [\<lparr>wa_id = ''w1'', wa_user_id = ''u1'',
       wa_provider_wallet_id = Some ''bw'', wa_network = None, wa_is_active = True\<rparr>],
     balances := [\<lparr>ba_user_id = ''u1'', ba_currency = ''USDC'', ba_amount = 200, ba_available = 100,
       ba_reserved = 100\<rparr>],
     payment_orders := os,
     profiles := [\<lparr>pr_id = ''u1'', pr_bridge_customer_id = Some ''cust'', pr_assigned_psav_id = None,
       pr_onboarding_status = Some ''approved'', pr_country_code = Some ''BO'', pr_role = ''client'',
       pr_is_active = True\<rparr>]\<rparr>"

definition own_release :: release_fn where
  "own_release = releaseReservedBalance (\<lambda>_ _ _ _. None)"

definition alone :: op_env where
  "alone = \<lparr>oe_env = (\<lambda>d. d), oe_now = 10, oe_db_ok = True, oe_release = own_release,
     oe_new_entry_id = ''e9''\<rparr>"

definition provider_down :: leg_env where
  "provider_down = \<lparr>lv_release = own_release, lv_post = (\<lambda>_ _. Inl (ErrorException '''')),
     lv_rate = (\<lambda>_. None), lv_deadline = 0, lv_now = 10, lv_transfer_row_ok = True,
     lv_ledger_ok = True, lv_new_transfer_id = ''t9'', lv_new_entry_id = ''e8''\<rparr>"

definition provider_ok :: bridge_api where
  "provider_ok = \<lparr>api_get = (\<lambda>_. Inr (Some ''awaiting_funds'')), api_delete = (\<lambda>_. True)\<rparr>"

lemma alone_simps [simp]:
  "oe_env alone = (\<lambda>d. d)" "oe_db_ok alone" "oe_release alone = own_release"
  by (simp_all add: alone_def)

lemma sample_order_simps [simp]:
  "po_id sample_order = ''o1''" "po_user_id sample_order = ''u1''"
  "po_status sample_order = ''pending_review''" "po_ctx sample_order = Some sample_ctx"
  "po_flow_type sample_order = Some ''bridge_wallet_to_crypto''"
  "po_bridge_transfer_id sample_order = None" "po_currency sample_order = Some ''USDC''"
  "po_source_currency sample_order = Some ''USDC''"
  by (simp_all add: sample_order_def)

lemma sample_db_simps [simp]:
  "payment_orders (sample_db os) = os" "ledger_entries (sample_db os) = []"
  by (simp_all add: sample_db_def)

lemma sample_select [simp]:
  "select_order ''o1'' (sample_db [sample_order]) = Some sample_order"
  "select_user_order ''u1'' ''o1'' (sample_db [sample_order]) = Some sample_order"
  by (simp_all add: select_order_def select_user_order_def)

lemma sample_kind [simp]: "has_exec_kind sample_order"
  by (simp add: has_exec_kind_def sample_ctx_def)

lemma sample_gate [simp]: "supportsStaffReviewGate (Some ''bridge_wallet_to_crypto'')"
  by (simp add: supportsStaffReviewGate_def STAFF_REVIEW_GATED_FLOWS_def)

lemma sample_reserve [simp]:
  "resolvePendingReviewReserve c sc (Some sample_ctx) =
     Some \<lparr>reserve_currency = ''USDC'', reserve_amount = 100\<rparr>"
  by (simp add: resolvePendingReviewReserve_def sample_ctx_def to_upper_def upper_char_def)

section \<open>The state machine\<close>



section \<open>Approval\<close>
section \<open>Approval\<close>

text \<open>C17: A failed approval can be retried. When the order has an execution context and the
  leg fails, for whatever reason and in any of the nine flows, the order is back in review
  (or closed as failed), never left in processing, and no balance has moved.\<close>

theorem failed_approval_recoverable:
  assumes "select_order i db = Some o1" "po_status o1 = ''pending_review''"
    and "supportsStaffReviewGate (po_flow_type o1)" "has_exec_kind o1" "oe_env v = (\<lambda>d. d)"
    and "approveOrderReviewStep v lv i a n db = (Inl e, db')"
  shows "(\<forall>q\<in>set (payment_orders db'). po_id q = i \<longrightarrow>
       po_status q = ''pending_review'' \<or> po_status q = ''failed'')
     \<and> balances db' = balances db"
proof -
  let ?c = "claim_fields v a n o1 o1" and ?d = "claimed_db v a n i o1 db"
  note u = approve_unfold [OF assms(1-3,5)]
  from assms(6) have l: "executeReviewedBridgeLeg lv ?c ReturnToReview ?d = (Inl e, db')"
    unfolding u by (auto split: prod.splits sum.splits)
  have k: "has_exec_kind ?c" using assms(4) by (simp add: has_exec_kind_def)
  have "po_status q = ''pending_review'' \<or> po_status q = ''failed''"
    if "q \<in> set (payment_orders db')" "po_id q = i" for q
    using legs.leg_failed [OF k l that(1)] that(2) select_order_in [OF assms(1)]
      claimed_status [OF assms(1,2) _ that(2)] by auto
  moreover have "balances db' = balances db"
    using legs.leg_balances [OF l] by (simp add: claimed_db_def)
  ultimately show ?thesis by blast
qed

lemma provider_down_fails:
  "\<exists>db'. approveOrderReviewStep alone provider_down ''o1'' ''s'' None (sample_db [sample_order])
     = (Inl (BadRequestException ''''), db')"
proof -
  note u = approve_unfold [OF sample_select(1), of alone provider_down "''s''" None]
  have "fst (executeReviewedBridgeLeg provider_down (claim_fields alone ''s'' None sample_order sample_order)
      ReturnToReview db) = Inl (BadRequestException '''')" for db
    by (simp add: executeReviewedBridgeLeg_def sample_ctx_def run_leg_def
        executeBridgeWalletToCryptoLeg_def provider_down_def handleBridgeLegFailure_def
        bind_r_def split: sum.split)
  note down = this
  let ?c = "claim_fields alone ''s'' None sample_order sample_order"
  let ?d = "claimed_db alone ''s'' None ''o1'' sample_order (sample_db [sample_order])"
  obtain r d2 where l: "executeReviewedBridgeLeg provider_down ?c ReturnToReview ?d = (r, d2)" by fastforce
  with down [of ?d] have "r = Inl (BadRequestException '''')" by simp
  with l show ?thesis by (subst u) simp_all
qed

theorem failed_approval_recoverable_witness:
  "\<exists>db'. approveOrderReviewStep alone provider_down ''o1'' ''s'' None (sample_db [sample_order])
       = (Inl (BadRequestException ''''), db')
     \<and> balances db' = balances (sample_db [sample_order])"
proof -
  obtain db' where a: "approveOrderReviewStep alone provider_down ''o1'' ''s'' None
      (sample_db [sample_order]) = (Inl (BadRequestException ''''), db')"
    using provider_down_fails by blast
  from failed_approval_recoverable [OF sample_select(1) _ _ _ _ a] a show ?thesis by simp
qed

text \<open>C21: An approval happens once. If by the time of its write the order is no longer in
  review, because another member of the staff approved it, a webhook moved it or the client
  cancelled, the second approval is refused with a conflict, calls no provider and changes
  nothing.\<close>

theorem approval_claims_once:
  assumes "select_order i db = Some o1" "po_status o1 = ''pending_review''"
    and "supportsStaffReviewGate (po_flow_type o1)"
    and "\<forall>q\<in>set (payment_orders (oe_env v db)). po_id q = i \<longrightarrow> po_status q \<noteq> ''pending_review''"
  shows "approveOrderReviewStep v lv i a n db =
     (Inl (ConflictException ''ORDER_STATE_CHANGED''), oe_env v db)"
proof -
  have f: "filter (\<lambda>x. po_id x = i \<and> po_status x = ''pending_review'') (payment_orders (oe_env v db)) = []"
    using assms(4) by (auto simp: filter_empty_conv)
  then show ?thesis
    using assms(1-3)
    by (simp add: approveOrderReviewStep_def cas_order_def update_orders_def update_where_empty)
qed

theorem approval_claims_once_witness:
  "\<exists>d. approveOrderReviewStep (alone\<lparr>oe_env := (\<lambda>_. sample_db [sample_order\<lparr>po_status := ''processing''\<rparr>])\<rparr>)
     provider_down ''o1'' ''s2'' None (sample_db [sample_order])
   = (Inl (ConflictException ''ORDER_STATE_CHANGED''), d)"
  by (intro exI, rule approval_claims_once [OF sample_select(1)]) simp_all

text \<open>An order in review without an execution context gets stuck. Its approval claims it,
  then fails with a message that says to reject it; but the order stays in processing, and
  the rejection only accepts an order in review.\<close>

theorem approval_without_context_sticks:
  assumes "select_order i db = Some o1" "po_status o1 = ''pending_review''"
    and "supportsStaffReviewGate (po_flow_type o1)" "\<not> has_exec_kind o1" "oe_env v = (\<lambda>d. d)"
  shows "\<exists>e db'. approveOrderReviewStep v lv i a n db = (Inl e, db')
     \<and> (\<forall>q\<in>set (payment_orders db'). po_id q = i \<longrightarrow> po_status q = ''processing'')
     \<and> (\<exists>e'. rejectOrderReviewStep v' i a' reason db' = (Inl e', db'))"
proof -
  let ?c = "claim_fields v a n o1 o1" and ?d = "claimed_db v a n i o1 db"
  have "\<not> has_exec_kind ?c" using assms(4) by (simp add: has_exec_kind_def)
  then have a: "approveOrderReviewStep v lv i a n db = (Inl (BadRequestException ''''), ?d)"
    unfolding approve_unfold [OF assms(1-3,5)] by (simp add: no_kind_leg)
  have p: "po_status q = ''processing''" if "q \<in> set (payment_orders ?d)" "po_id q = i" for q
    using claimed_status [OF assms(1,2) that] .
  have "\<exists>e'. rejectOrderReviewStep v' i a' reason ?d = (Inl e', ?d)"
  proof (cases "select_order i ?d")
    case None
    then show ?thesis by (simp add: rejectOrderReviewStep_def)
  next
    case (Some q)
    with p select_order_in [OF Some] have "po_status q = ''processing''" by blast
    with Some show ?thesis by (simp add: rejectOrderReviewStep_def)
  qed
  with a p show ?thesis by blast
qed

theorem approval_without_context_sticks_witness:
  "\<exists>e db'. approveOrderReviewStep alone provider_down ''o1'' ''s'' None
       (sample_db [sample_order\<lparr>po_ctx := None\<rparr>]) = (Inl e, db')
     \<and> (\<forall>q\<in>set (payment_orders db'). po_id q = ''o1'' \<longrightarrow> po_status q = ''processing'')
     \<and> (\<exists>e'. rejectOrderReviewStep alone ''o1'' ''s'' ''no'' db' = (Inl e', db'))"
  by (rule approval_without_context_sticks [where ?o1.0 = "sample_order\<lparr>po_ctx := None\<rparr>"])
     (simp_all add: select_order_def has_exec_kind_def)

section \<open>Lemmas on reserves and reversals\<close>

definition no_entries :: "string \<Rightarrow> orders_db \<Rightarrow> bool" where
  "no_entries i db \<longleftrightarrow> (\<forall>e\<in>set (ledger_entries db). le_reference_id e \<noteq> Some i)"

lemma no_entries_filter: "no_entries i db \<Longrightarrow> filter (entry_of_order i st) (ledger_entries db) = []"
  by (auto simp: no_entries_def entry_of_order_def filter_empty_conv)

lemma no_entries_cong: "ledger_entries db' = ledger_entries db \<Longrightarrow> no_entries i db' = no_entries i db"
  by (simp add: no_entries_def)

lemma no_entries_reversal:
  assumes "no_entries (po_id order) db"
  shows "reverse_pending rel st u order db = db" "refund_settled k now d order db = db"
  by (simp_all add: reverse_pending_def refund_settled_def no_entries_filter [OF assms]
      set_status_none debit_sum_def)

lemma release_reserve_Some:
  assumes "resolvePendingReviewReserve (po_currency order) (po_source_currency order) (po_ctx order) = Some r"
  shows "releasePendingReviewReserve rel order db
    = call_release rel (po_user_id order) (reserve_currency r) (reserve_amount r) db"
  by (simp add: releasePendingReviewReserve_def assms)

lemma release_reserve_ledger [simp]:
  "ledger_entries (releasePendingReviewReserve rel order db) = ledger_entries db"
  by (simp add: releasePendingReviewReserve_def split: option.split)

lemma select_cas:
  assumes "select_order i db = Some o1" "po_status o1 = st"
  shows "cas_order (\<lambda>x. po_id x = i \<and> po_status x = st) f db
    = (Some (f o1), update_orders (\<lambda>x. po_id x = i \<and> po_status x = st) f db)"
proof -
  from assms(1) have f: "filter (\<lambda>x. po_id x = i) (payment_orders db) = [o1]"
    by (simp add: select_order_def maybe_single_Some)
  have "filter (\<lambda>x. po_id x = i \<and> po_status x = st) (payment_orders db)
      = filter (\<lambda>x. po_status x = st) (filter (\<lambda>x. po_id x = i) (payment_orders db))"
    by (simp add: conj_commute)
  then show ?thesis by (simp add: f assms(2) cas_order_def)
qed

lemma select_user_cas:
  assumes "select_user_order u i db = Some o1"
  shows "cas_order (\<lambda>x. po_id x = i \<and> po_user_id x = u \<and> po_status x = po_status o1) f db
    = (Some (f o1), update_orders (\<lambda>x. po_id x = i \<and> po_user_id x = u \<and> po_status x = po_status o1) f db)"
proof -
  from assms(1) have f: "filter (\<lambda>x. po_id x = i \<and> po_user_id x = u) (payment_orders db) = [o1]"
    by (simp add: select_user_order_def maybe_single_Some)
  have "filter (\<lambda>x. po_id x = i \<and> po_user_id x = u \<and> po_status x = po_status o1) (payment_orders db)
      = filter (\<lambda>x. po_status x = po_status o1) (filter (\<lambda>x. po_id x = i \<and> po_user_id x = u) (payment_orders db))"
    by (simp add: conj_ac)
  then show ?thesis by (simp add: f cas_order_def)
qed

lemma select_blind:
  assumes "select_order i (oe_env v db) = Some o1" "oe_db_ok v"
  shows "blind_update v i f db = (Inr (f o1), update_orders (\<lambda>x. po_id x = i) f (oe_env v db))"
proof -
  from assms(1) have f: "filter (\<lambda>x. po_id x = i) (payment_orders (oe_env v db)) = [o1]"
    by (simp add: select_order_def maybe_single_Some)
  then show ?thesis using assms(2) by (simp add: blind_update_def cas_order_def)
qed

lemma pending_review_open: "''pending_review'' \<notin> set TERMINAL_ORDER_STATUSES"
    "''pending_review'' \<in> set STAFF_CANCELLABLE_STATUSES"
  by (simp_all add: TERMINAL_ORDER_STATUSES_def STAFF_CANCELLABLE_STATUSES_def)

section \<open>Reserves of orders in review\<close>

text \<open>C27: The staff's ways to close an order in review give its reserve back. Rejection, the mark
  failed and a cancellation with refund all call the release once, with the client, the
  currency and the amount the order reserved; a cancellation without refund releases nothing.\<close>

theorem review_closures_release_reserve:
  assumes "select_order i db = Some o1" "po_status o1 = ''pending_review''" "no_entries i db"
    and "resolvePendingReviewReserve (po_currency o1) (po_source_currency o1) (po_ctx o1) = Some r"
    and "oe_env v = (\<lambda>d. d)" "oe_db_ok v" "po_bridge_transfer_id o1 = None"
  shows "let freed = oe_release v (po_user_id o1) (reserve_currency r) (reserve_amount r) (balances db) in
     balances (snd (rejectOrderReviewStep v i a reason db)) = freed
     \<and> balances (snd (failOrder v i a reason db)) = freed
     \<and> balances (snd (cancelOrderByStaff v api i a reason refund db))
         = (if refund = Some False then balances db else freed)"
proof -
  have id: "po_id o1 = i" using select_order_in [OF assms(1)] by simp
  have ne: "no_entries (po_id o1) (call_release rel u c x (update_orders p f db))" for rel u c x p f
    using assms(3) by (simp add: no_entries_def id)
  note cas = select_cas [OF assms(1) assms(2)]
  have bl: "blind_update v i f db = (Inr (f o1), update_orders (\<lambda>x. po_id x = i) f db)" for f
    using select_blind [of i v db o1 f] assms(1,5,6) by simp
  note rel = release_reserve_Some [OF assms(4)]
  have "balances (snd (rejectOrderReviewStep v i a reason db))
      = oe_release v (po_user_id o1) (reserve_currency r) (reserve_amount r) (balances db)"
    using assms by (simp add: rejectOrderReviewStep_def cas rel)
  moreover have "balances (snd (failOrder v i a reason db))
      = oe_release v (po_user_id o1) (reserve_currency r) (reserve_amount r) (balances db)"
    using assms by (simp add: failOrder_def bl pending_review_open rel no_entries_reversal [OF ne])
  moreover have "balances (snd (cancelOrderByStaff v api i a reason refund db))
      = (if refund = Some False then balances db
         else oe_release v (po_user_id o1) (reserve_currency r) (reserve_amount r) (balances db))"
    using assms
    by (simp add: cancelOrderByStaff_def cas staff_allowed_iff pending_review_open rel
        no_entries_reversal [OF ne])
  ultimately show ?thesis by (simp add: Let_def)
qed

theorem review_closures_release_reserve_witness:
  "balances (snd (rejectOrderReviewStep alone ''o1'' ''s'' ''no'' (sample_db [sample_order])))
     = own_release ''u1'' ''USDC'' 100 (balances (sample_db [sample_order]))"
  using review_closures_release_reserve [OF sample_select(1), where v = alone and a = "''s''" and reason = "''no''"]
  by (simp add: no_entries_def Let_def)

text \<open>C30: The client's own cancellation of an order in review leaks the reserve. It succeeds and
  calls the release, but on a row that was read without the execution context, so for an order
  that has reserved an amount no balance changes: the money stays reserved with no open order
  behind it.\<close>

theorem client_cancellation_leaks_reserve:
  assumes "select_user_order u i db = Some o1" "po_status o1 = ''pending_review''"
    and "po_flow_type o1 = Some f" "f \<in> set WALLET_RAMP_OUT_FLOWS"
    and "po_bridge_transfer_id o1 = None" "no_entries i db"
    and "resolvePendingReviewReserve (po_currency o1) (po_source_currency o1) (po_ctx o1) = Some r"
    and "oe_env v = (\<lambda>d. d)" "oe_db_ok v"
  shows "\<exists>q db'. cancelOrder v api u i c reason db = (Inr q, db') \<and> po_status q = ''cancelled''
     \<and> balances db' = balances db"
proof -
  have id: "po_id (cancel_columns o1) = i"
    using select_user_order_in [OF assms(1)] by (simp add: cancel_columns_def)
  have "allowed (evaluateClientCancellation \<lparr>in_flow_type = Some f, in_status = ''pending_review'',
      in_bridge_state = None, in_confirm_no_deposit = d\<rparr>)" for d
    unfolding client_cancellation_policy using assms(4) by blast
  then have ref: "client_cancel_refusal api c (cancel_columns o1) = None"
    by (simp add: client_cancel_refusal_def cancel_columns_def assms(2,3,5))
  have none: "releasePendingReviewReserve rel (cancel_columns o1) d = d" for rel d
    by (simp add: releasePendingReviewReserve_def cancel_columns_def)
  have cs: "po_status (cancel_columns o1) = po_status o1" "po_bridge_transfer_id (cancel_columns o1) = None"
    by (simp_all add: cancel_columns_def assms(5))
  have ne: "no_entries (po_id (cancel_columns o1)) (update_orders p g db)" for p g
    using assms(6) by (simp add: no_entries_def id)
  show ?thesis
    using assms(8,9)
    by (simp add: cancelOrder_def assms(1) ref cs select_user_cas [OF assms(1), unfolded assms(2)] none
        no_entries_reversal [OF ne] assms(2))
qed

theorem client_cancellation_leaks_reserve_witness:
  "\<exists>q db'. cancelOrder alone provider_ok ''u1'' ''o1'' None None (sample_db [sample_order]) = (Inr q, db')
     \<and> po_status q = ''cancelled'' \<and> balances db' = balances (sample_db [sample_order])"
  by (rule client_cancellation_leaks_reserve [where ?o1.0 = sample_order and f = "''bridge_wallet_to_crypto''"
        and r = "\<lparr>reserve_currency = ''USDC'', reserve_amount = 100\<rparr>"])
     (simp_all add: WALLET_RAMP_OUT_FLOWS_def no_entries_def)

text \<open>C31: \<open>failOrder\<close> writes without looking at the status, so a race releases a reserve twice.
  When a colleague rejects the order between its read and its write, the rejection and the
  failure both release the same reserve, the second time out of nothing.\<close>

theorem fail_race_releases_twice:
  assumes "select_order i db = Some o1" "po_status o1 = ''pending_review''" "no_entries i db"
    and "resolvePendingReviewReserve (po_currency o1) (po_source_currency o1) (po_ctx o1) = Some r"
    and "oe_env w = (\<lambda>d. d)" "oe_release w = oe_release v" "oe_db_ok v"
    and "oe_env v = (\<lambda>d. snd (rejectOrderReviewStep w i a reason d))"
  shows "let rel = oe_release v (po_user_id o1) (reserve_currency r) (reserve_amount r) in
     balances (snd (failOrder v i a' reason' db)) = rel (rel (balances db))"
proof -
  have id: "po_id o1 = i" using select_order_in [OF assms(1)] by simp
  let ?p = "\<lambda>x. po_id x = i \<and> po_status x = ''pending_review''"
  define g :: "payment_order \<Rightarrow> payment_order" where "g = (\<lambda>x. x\<lparr>po_status := ''failed'',
      po_failure_reason := Some (''Rechazado en revision por el equipo: '' @ reason),
      po_approved_by := Some a, po_approved_at := Some (oe_now w)\<rparr>)"
  have g [simp]: "po_id (g x) = po_id x" for x by (simp add: g_def)
  let ?d1 = "snd (rejectOrderReviewStep w i a reason db)"
  note rel = release_reserve_Some [OF assms(4)]
  have d1: "payment_orders ?d1 = update_where ?p g (payment_orders db)"
    "ledger_entries ?d1 = ledger_entries db"
    "balances ?d1 = oe_release v (po_user_id o1) (reserve_currency r) (reserve_amount r) (balances db)"
    using assms(1,2,5,6)
    by (simp_all add: rejectOrderReviewStep_def select_cas [OF assms(1,2)] rel g_def)
  have fid: "filter (\<lambda>x. po_id x = i) (update_where ?p g os) = update_where ?p g (filter (\<lambda>x. po_id x = i) os)" for os
    by (induction os) auto
  have "filter (\<lambda>x. po_id x = i) (payment_orders db) = [o1]"
    using assms(1) by (simp add: select_order_def maybe_single_Some)
  then have "select_order i (oe_env v db) = Some (g o1)"
    by (simp add: select_order_def d1 fid id assms(2,8))
  note bl = select_blind [OF this assms(7)]
  have ne: "no_entries (po_id o1) (call_release rel u c x (update_orders p f ?d1))" for rel u c x p f
    using assms(3) by (simp add: no_entries_def id d1)
  show ?thesis
    unfolding Let_def
    using assms(1,2) by (simp add: failOrder_def bl pending_review_open rel no_entries_reversal [OF ne] d1 assms(8))
qed

theorem fail_race_releases_twice_witness:
  "map ba_available (balances (snd (failOrder
      (alone\<lparr>oe_env := (\<lambda>d. snd (rejectOrderReviewStep alone ''o1'' ''s'' ''no'' d))\<rparr>) ''o1'' ''s2'' ''no''
      (sample_db [sample_order])))) = [300]"
proof -
  let ?v = "alone\<lparr>oe_env := (\<lambda>d. snd (rejectOrderReviewStep alone ''o1'' ''s'' ''no'' d))\<rparr>"
  have "let rel = oe_release ?v ''u1'' ''USDC'' 100 in
     balances (snd (failOrder ?v ''o1'' ''s2'' ''no'' (sample_db [sample_order])))
       = rel (rel (balances (sample_db [sample_order])))"
    using fail_race_releases_twice [OF sample_select(1), of "\<lparr>reserve_currency = ''USDC'', reserve_amount = 100\<rparr>"
        alone ?v "''s''" "''no''" "''s2''" "''no''"]
    by (simp add: no_entries_def)
  then have b: "balances (snd (failOrder ?v ''o1'' ''s2'' ''no'' (sample_db [sample_order])))
      = own_release ''u1'' ''USDC'' 100 (own_release ''u1'' ''USDC'' 100 (balances (sample_db [sample_order])))"
    by (simp add: Let_def)
  show ?thesis
    unfolding b by (simp add: own_release_def releaseReservedBalance_def sample_db_def has_key_def
        release_row_def to_upper_def upper_char_def)
qed

section \<open>Lost races and reversals\<close>



lemma fire_pending:
  "(\<And>e. e \<in> set es \<Longrightarrow> le_status e = ''pending'') \<Longrightarrow> st \<noteq> ''settled'' \<Longrightarrow> fire_updates ws st es bs = Some bs"
  by (induction es) (simp_all add: update_balance_on_ledger_entry_def trigger_diff_def)

lemma set_status_pending:
  "st \<noteq> ''settled'' \<Longrightarrow> set_status (entry_of_order i ''pending'') st db =
   Some (db\<lparr>ledger_entries := update_where (entry_of_order i ''pending'') (\<lambda>e. e\<lparr>le_status := st\<rparr>) (ledger_entries db)\<rparr>)"
proof -
  assume s: "st \<noteq> ''settled''"
  have "fire_updates (wallets db) st (filter (entry_of_order i ''pending'') (ledger_entries db)) (balances db)
      = Some (balances db)"
    by (rule fire_pending) (simp_all add: entry_of_order_def s)
  then show ?thesis by (simp add: set_status_def)
qed

lemma check_credit: "check_balance b \<Longrightarrow> 0 < d \<Longrightarrow> check_balance (move_balance d b)"
  by (simp add: check_balance_def move_balance_def)

lemma insert_credit:
  assumes "list_all check_balance (balances db)" "le_type e = ''credit''" "le_status e = ''settled''"
    and "0 < le_amount e"
  shows "\<exists>d. insert_entry e db = Some d \<and> ledger_entries d = ledger_entries db @ [e]"
proof -
  have d: "trigger_diff None e = le_amount e" using assms(2,3) by (simp add: trigger_diff_def signed_amount_def)
  have "\<forall>b\<in>set (balances db). check_balance (move_balance (le_amount e) b)"
    using assms(1,4) check_credit by (simp add: list_all_iff)
  then show ?thesis
    using assms(4) by (auto simp: insert_entry_def update_balance_on_ledger_entry_def d Let_def
        upsert_balance_def split: option.split)
qed

lemma settled_after_reversal:
  "st \<noteq> ''settled'' \<Longrightarrow> filter (entry_of_order i ''settled'')
     (update_where (entry_of_order i ''pending'') (\<lambda>e. e\<lparr>le_status := st\<rparr>) es)
   = filter (entry_of_order i ''settled'') es"
  by (induction es) (auto simp: entry_of_order_def)


lemma own_release_check:
  "list_all check_balance bs \<Longrightarrow> 0 < x \<Longrightarrow> list_all check_balance (own_release u c x bs)"
  by (auto simp: own_release_def releaseReservedBalance_def list_all_iff set_update_where
      check_balance_def release_row_def split: option.split)

definition settled_debit :: ledger_entry where
  "settled_debit = \<lparr>le_id = ''e1'', le_wallet_id = ''w1'', le_type = ''debit'', le_amount = 100,
     le_currency = ''USDC'', le_status = ''settled'', le_reference_type = Some ''payment_order'',
     le_reference_id = Some ''o1'', le_bridge_transfer_id = None, le_description = '''',
     le_created_at = 1\<rparr>"


text \<open>The expiry deletes the transfer of an order that survives it. The transfer is deleted
  at the provider before the compare-and-set; if the client's confirmation wins the race, the
  order goes on as deposited while its transfer is cancelled.\<close>

theorem expiry_deletes_live_transfer:
  assumes "select_user_order u i db = Some o1" "select_order i db = Some o1"
    and "po_status o1 = ''waiting_deposit''" "truthy (po_bridge_transfer_id o1)"
    and "api_delete api (the (po_bridge_transfer_id o1))" "oe_db_ok v" "oe_db_ok w"
    and "oe_env w = (\<lambda>d. d)" "po_deposit_expires_at o1 = Some t" "oe_now w < t"
    and "oe_env v = (\<lambda>d. snd (confirmDeposit w u i url n d))"
  shows "let db' = snd (expireDepositOrder v api o1 db) in
     (\<forall>q\<in>set (payment_orders db'). po_id q = i \<longrightarrow> po_status q = ''deposit_received'')
     \<and> (\<forall>x\<in>set (bridge_transfers db'). bt_bridge_transfer_id x = po_bridge_transfer_id o1
          \<longrightarrow> bt_status x = ''cancelled'')"
proof -
  let ?tid = "the (po_bridge_transfer_id o1)"
  let ?d1 = "mark_transfer_cancelled ?tid db"
  let ?d2 = "snd (confirmDeposit w u i url n ?d1)"
  let ?p = "\<lambda>x. po_id x = i \<and> po_user_id x = u \<and> po_status x = ''waiting_deposit''"
  have id: "po_id o1 = i" "po_user_id o1 = u" using select_user_order_in [OF assms(1)] by simp_all
  have same: "payment_orders ?d1 = payment_orders db" by simp
  have sel: "select_user_order u i ?d1 = Some o1" using assms(1) by (simp add: select_user_order_def)
  obtain f where f: "payment_orders ?d2 = update_where ?p f (payment_orders db)"
      "\<And>x. po_id (f x) = po_id x" "\<And>x. po_status (f x) = ''deposit_received''"
    and bt: "bridge_transfers ?d2 = bridge_transfers ?d1"
  proof
    let ?f = "\<lambda>x. x\<lparr>po_status := ''deposit_received'', po_deposit_proof_url := Some url,
        po_notes := (if truthy n then append_note (po_notes o1) ''[USER] '' (the n) else po_notes x)\<rparr>"
    show "payment_orders ?d2 = update_where ?p ?f (payment_orders db)"
      using assms(3,7-10)
      by (simp add: confirmDeposit_def sel case_prod_beta split: option.split)
    show "po_id (?f x) = po_id x" "po_status (?f x) = ''deposit_received''" for x by simp_all
    show "bridge_transfers ?d2 = bridge_transfers ?d1"
      using assms(3,7-10)
      by (simp add: confirmDeposit_def sel case_prod_beta split: option.split)
  qed
  have st: "po_status q = ''deposit_received''" if "q \<in> set (payment_orders ?d2)" "po_id q = i" for q
    using that(1) unfolding f(1)
  proof (cases rule: update_whereE)
    case (changed r)
    then show ?thesis by (simp add: f(3))
  next
    case kept
    with select_order_single [OF assms(2) kept(1) that(2)] id assms(3) show ?thesis by simp
  qed
  have none: "filter (\<lambda>x. po_id x = i \<and> po_status x = ''waiting_deposit'') (payment_orders ?d2) = []"
    using st by (auto simp: filter_empty_conv)
  have "snd (expireDepositOrder v api o1 db) = ?d2"
    using assms(4-6,11) none
    by (simp add: expireDepositOrder_def id cas_order_def update_orders_def update_where_empty)
  moreover have "bt_status x = ''cancelled''"
    if "x \<in> set (bridge_transfers ?d2)" "bt_bridge_transfer_id x = po_bridge_transfer_id o1" for x
  proof -
    from assms(4) have tid: "Some ?tid = po_bridge_transfer_id o1" by (cases "po_bridge_transfer_id o1") simp_all
    have "x \<in> set (bridge_transfers ?d1)" using that(1) by (simp only: bt)
    then have "x \<in> set (update_where (\<lambda>t. bt_bridge_transfer_id t = Some ?tid)
        (\<lambda>t. t\<lparr>bt_status := ''cancelled'', bt_bridge_state := ''canceled''\<rparr>) (bridge_transfers db))"
      by (simp add: mark_transfer_cancelled_def)
    then show ?thesis by (cases rule: update_whereE) (use that(2) tid in simp_all)
  qed
  ultimately show ?thesis using st by (simp add: Let_def)
qed

definition waiting_order :: payment_order where
  "waiting_order = sample_order\<lparr>po_status := ''waiting_deposit'', po_bridge_transfer_id := Some ''t1'',
     po_deposit_expires_at := Some 20\<rparr>"

theorem expiry_deletes_live_transfer_witness:
  "map po_status (payment_orders (snd (expireDepositOrder
       (alone\<lparr>oe_env := (\<lambda>d. snd (confirmDeposit alone ''u1'' ''o1'' ''proof'' None d))\<rparr>) provider_ok
       waiting_order (sample_db [waiting_order])))) = [''deposit_received'']"
proof -
  let ?v = "alone\<lparr>oe_env := (\<lambda>d. snd (confirmDeposit alone ''u1'' ''o1'' ''proof'' None d))\<rparr>"
  have "let db' = snd (expireDepositOrder ?v provider_ok waiting_order (sample_db [waiting_order])) in
     (\<forall>q\<in>set (payment_orders db'). po_id q = ''o1'' \<longrightarrow> po_status q = ''deposit_received'')
     \<and> (\<forall>x\<in>set (bridge_transfers db'). bt_bridge_transfer_id x = po_bridge_transfer_id waiting_order
          \<longrightarrow> bt_status x = ''cancelled'')"
    by (rule expiry_deletes_live_transfer [where w = alone and u = "''u1''" and t = 20
          and url = "''proof''" and n = None])
       (simp_all add: waiting_order_def select_user_order_def select_order_def provider_ok_def alone_def)
  moreover have "map po_id (payment_orders (snd (expireDepositOrder ?v provider_ok waiting_order
      (sample_db [waiting_order])))) = [''o1'']"
    by (simp add: expireDepositOrder_def waiting_order_def provider_ok_def alone_def cas_order_def
        confirmDeposit_def select_user_order_def mark_transfer_cancelled_def update_where_def Let_def)
  ultimately show ?thesis by (auto simp: Let_def map_eq_Cons_conv)
qed

end
