(* ===== verification/OrderLimits.thy ===== *)
theory OrderLimits imports Overrides begin

text \<open>
  Limits on what a client may order, from
  \<open>src/application/payment-orders/payment-orders.service.ts\<close>: the number of orders per hour,
  the deadline of a deposit, the minimum and maximum amount of a flow with the per-client
  overrides of \<open>customer_limit_overrides\<close>, and the check of an amount in dollars. Settings
  are texts of the table \<open>app_settings\<close>, so a number may fail to parse. Exchange rates come
  from the rates service, the function \<open>getRate\<close>.
\<close>

section \<open>Settings\<close>

type_synonym app_settings = "(string \<times> string) list"

definition setting :: "app_settings \<Rightarrow> string \<Rightarrow> ostring" where
  "setting s key = map_option snd (maybe_single (filter (\<lambda>r. fst r = key) s))"

definition DEFAULT_PSAV_DEPOSIT_EXPIRY_MINUTES :: rat where
  "DEFAULT_PSAV_DEPOSIT_EXPIRY_MINUTES = 10"

text \<open>Times are milliseconds.\<close>

definition resolveDepositDeadline :: "rat \<Rightarrow> app_settings \<Rightarrow> rat" where
  "resolveDepositDeadline now s =
     (let minutes = (case parse_int (or_else (setting s ''PSAV_DEPOSIT_EXPIRY_MINUTES'') '''') of
            Fin p \<Rightarrow> if 0 < p then p else DEFAULT_PSAV_DEPOSIT_EXPIRY_MINUTES
          | _ \<Rightarrow> DEFAULT_PSAV_DEPOSIT_EXPIRY_MINUTES)
      in now + minutes * 60 * 1000)"

text \<open>\<open>orders\<close> lists the owner and the creation time of every order.\<close>

definition validateRateLimit ::
  "int \<Rightarrow> app_settings \<Rightarrow> (string \<times> int) list \<Rightarrow> string \<Rightarrow> unit result" where
  "validateRateLimit now s orders userId =
     (let maxPerHour = parse_int (or_else (setting s ''MAX_PAYMENT_ORDERS_PER_HOUR'') ''5'');
          count = length (filter (\<lambda>r. fst r = userId \<and> now - 60 * 60 * 1000 \<le> snd r) orders)
      in if js_leq maxPerHour (Fin (of_nat count)) then Inl (BadRequestException '''') else Inr ())"

section \<open>Limits of a flow\<close>

record limit_override =
  lov_id :: string
  lov_user_id :: string
  lov_flow_type :: string
  lov_min_usd :: "rat option"
  lov_max_usd :: "rat option"
  lov_is_active :: bool
  lov_valid_from :: "int option"
  lov_valid_until :: "int option"
  lov_created_by :: string

record limits_db =
  customer_limit_overrides :: "limit_override list"
  limits_audit :: "audit_row list"

record limits =
  min_usd :: jsnum
  max_usd :: jsnum

definition getGlobalLimits :: "app_settings \<Rightarrow> string \<Rightarrow> limits" where
  "getGlobalLimits s flowType =
     (let serviceKey = to_upper flowType;
          minKey = ''MIN_'' @ serviceKey @ ''_USD''; maxKey = ''MAX_'' @ serviceKey @ ''_USD'';
          rows = filter (\<lambda>r. fst r = minKey \<or> fst r = maxKey) s;
          m = map_of (rev rows)
      in \<lparr>min_usd = parse_float (or_else (m minKey) ''0''),
          max_usd = parse_float (or_else (m maxKey) ''999999'')\<rparr>)"

definition limit_override_valid :: "int \<Rightarrow> string \<Rightarrow> string \<Rightarrow> limit_override \<Rightarrow> bool" where
  "limit_override_valid today userId flowType r \<longleftrightarrow> lov_user_id r = userId
     \<and> lov_flow_type r = flowType \<and> lov_is_active r
     \<and> (case lov_valid_from r of None \<Rightarrow> False | Some d \<Rightarrow> d \<le> today)
     \<and> (case lov_valid_until r of None \<Rightarrow> True | Some d \<Rightarrow> today \<le> d)"

definition getActiveLimitOverride ::
  "int \<Rightarrow> string \<Rightarrow> string \<Rightarrow> limits_db \<Rightarrow> limit_override option" where
  "getActiveLimitOverride today userId flowType db =
     maybe_single (filter (limit_override_valid today userId flowType) (customer_limit_overrides db))"

definition getPaymentLimits ::
  "int \<Rightarrow> app_settings \<Rightarrow> string \<Rightarrow> ostring \<Rightarrow> limits_db \<Rightarrow> limits" where
  "getPaymentLimits today s flowType userId db =
     (let global = getGlobalLimits s flowType in
      if truthy userId then
        (case getActiveLimitOverride today (the userId) flowType db of
           Some r \<Rightarrow> \<lparr>min_usd = (case lov_min_usd r of Some m \<Rightarrow> Fin m | None \<Rightarrow> min_usd global),
                      max_usd = (case lov_max_usd r of Some m \<Rightarrow> Fin m | None \<Rightarrow> max_usd global)\<rparr>
         | None \<Rightarrow> global)
      else global)"

record rate_data =
  effective_rate :: rat
  bridge_sell_rate :: "rat option"

record limit_check =
  lc_amountUsd :: jsnum
  lc_min :: jsnum
  lc_max :: jsnum
  lc_exceeded :: bool

definition amount_in_usd :: "(string \<Rightarrow> rate_data result) \<Rightarrow> rat \<Rightarrow> ostring \<Rightarrow> jsnum result" where
  "amount_in_usd getRate amount currency =
     (let upperCurrency = to_upper (or_else currency ''USD'') in
      if upperCurrency = ''BOB''
      then bind_r (getRate ''BOB_USD'') (\<lambda>d. Inr (fixed2 (js_div amount (effective_rate d))))
      else if upperCurrency = ''EURC''
      then bind_r (getRate ''BOB_EUR'')
             (\<lambda>d. case bridge_sell_rate d of
                None \<Rightarrow> Inl (BadRequestException '''')
              | Some r \<Rightarrow> if r = 0 then Inl (BadRequestException '''')
                          else Inr (fixed2 (js_div amount r)))
      else Inr (Fin amount))"

definition checkAmountLimits ::
  "int \<Rightarrow> app_settings \<Rightarrow> (string \<Rightarrow> rate_data result) \<Rightarrow> rat \<Rightarrow> string \<Rightarrow> ostring \<Rightarrow> ostring
    \<Rightarrow> limits_db \<Rightarrow> limit_check result" where
  "checkAmountLimits today s getRate amount flowType currency userId db =
     (let l = getPaymentLimits today s flowType userId db in
      bind_r (amount_in_usd getRate amount currency)
        (\<lambda>amountUsd.
           if js_less amountUsd (min_usd l) then Inl (BadRequestException '''')
           else Inr \<lparr>lc_amountUsd = amountUsd, lc_min = min_usd l, lc_max = max_usd l,
                     lc_exceeded = js_less (max_usd l) amountUsd\<rparr>))"

section \<open>Overrides of a client\<close>

record create_limit_dto =
  cl_user_id :: string
  cl_flow_type :: string
  cl_min_usd :: "rat option"
  cl_max_usd :: "rat option"
  cl_valid_from :: "int option"
  cl_valid_until :: "int option"

text \<open>An optional field of the update; \<open>Some None\<close> sets the column to \<open>null\<close>.\<close>

record update_limit_dto =
  ul_min_usd :: "rat option option"
  ul_max_usd :: "rat option option"
  ul_is_active :: "bool option"
  ul_valid_until :: "int option"

definition limit_key :: "limit_override \<Rightarrow> string \<times> string" where
  "limit_key r = (lov_user_id r, lov_flow_type r)"

definition getLimitOverrides :: "string \<Rightarrow> limits_db \<Rightarrow> limit_override list" where
  "getLimitOverrides userId db = filter (\<lambda>r. lov_user_id r = userId) (customer_limit_overrides db)"

definition createLimitOverride ::
  "bool \<Rightarrow> int \<Rightarrow> string \<Rightarrow> create_limit_dto \<Rightarrow> string \<Rightarrow> limits_db
    \<Rightarrow> limit_override result \<times> limits_db" where
  "createLimitOverride db_ok today new_id dto actorId db =
     (let conflict = maybe_single (filter (\<lambda>r. lov_is_active r
            \<and> limit_key r = (cl_user_id dto, cl_flow_type dto)) (customer_limit_overrides db));
          row = \<lparr>lov_id = new_id, lov_user_id = cl_user_id dto, lov_flow_type = cl_flow_type dto,
            lov_min_usd = cl_min_usd dto, lov_max_usd = cl_max_usd dto, lov_is_active = True,
            lov_valid_from = Some (or_else (cl_valid_from dto) today),
            lov_valid_until = cl_valid_until dto, lov_created_by = actorId\<rparr>
      in if conflict \<noteq> None then (Inl (BadRequestException ''''), db)
         else if \<not> db_ok then (Inl (DbException ''''), db)
         else (Inr row, db\<lparr>customer_limit_overrides := customer_limit_overrides db @ [row],
            limits_audit := limits_audit db
              @ [audit (Some actorId) ''limit_override_created'' ''customer_limit_overrides'' new_id]\<rparr>))"

definition patch_limit :: "update_limit_dto \<Rightarrow> limit_override \<Rightarrow> limit_override" where
  "patch_limit d r = r\<lparr>lov_min_usd := patch (ul_min_usd d) (lov_min_usd r),
     lov_max_usd := patch (ul_max_usd d) (lov_max_usd r),
     lov_is_active := patch (ul_is_active d) (lov_is_active r),
     lov_valid_until := patch_opt (ul_valid_until d) (lov_valid_until r)\<rparr>"

definition updateLimitOverride ::
  "bool \<Rightarrow> string \<Rightarrow> update_limit_dto \<Rightarrow> string \<Rightarrow> limits_db \<Rightarrow> limit_override result \<times> limits_db" where
  "updateLimitOverride db_ok overrideId dto actorId db =
     (case maybe_single (filter (\<lambda>r. lov_id r = overrideId) (customer_limit_overrides db)) of
        None \<Rightarrow> (Inl (NotFoundException ''''), db)
      | Some current \<Rightarrow>
          let conflict = maybe_single (filter (\<lambda>r. lov_is_active r
                \<and> limit_key r = limit_key current \<and> lov_id r \<noteq> overrideId)
                (customer_limit_overrides db))
          in if ul_is_active dto = Some True \<and> \<not> lov_is_active current \<and> conflict \<noteq> None
             then (Inl (BadRequestException ''''), db)
             else if \<not> db_ok then (Inl (BadRequestException ''''), db)
             else (Inr (patch_limit dto current),
               db\<lparr>customer_limit_overrides := update_where (\<lambda>r. lov_id r = overrideId)
                    (patch_limit dto) (customer_limit_overrides db),
                  limits_audit := limits_audit db @ [audit (Some actorId) ''limit_override_updated''
                    ''customer_limit_overrides'' overrideId]\<rparr>))"

definition deleteLimitOverride :: "bool \<Rightarrow> string \<Rightarrow> string \<Rightarrow> limits_db \<Rightarrow> unit result \<times> limits_db" where
  "deleteLimitOverride db_ok overrideId actorId db =
     (case maybe_single (filter (\<lambda>r. lov_id r = overrideId) (customer_limit_overrides db)) of
        None \<Rightarrow> (Inl (NotFoundException ''''), db)
      | Some _ \<Rightarrow>
          if \<not> db_ok then (Inl (BadRequestException ''''), db)
          else (Inr (), db\<lparr>customer_limit_overrides :=
                  filter (\<lambda>r. lov_id r \<noteq> overrideId) (customer_limit_overrides db),
                limits_audit := limits_audit db @ [audit (Some actorId) ''limit_override_deleted''
                  ''customer_limit_overrides'' overrideId]\<rparr>))"

lemma limit_create_law:
  assumes "unique_active lov_is_active limit_key (customer_limit_overrides s)"
    and "createLimitOverride ok today i dto actor s = (Inr r, s')"
  shows "customer_limit_overrides s' = customer_limit_overrides s @ [r] \<and> lov_id r = i
    \<and> filter (\<lambda>q. lov_is_active q \<and> limit_key q = limit_key r) (customer_limit_overrides s) = []"
  using assms(2) by (intro created_row [OF assms(1)])
    (auto simp: createLimitOverride_def Let_def limit_key_def split: if_splits)

lemma limit_update_law:
  assumes "unique_active lov_is_active limit_key (customer_limit_overrides s)"
    and "updateLimitOverride ok i dto actor s = (Inr r, s')"
  shows "\<exists>f. customer_limit_overrides s' = update_where (\<lambda>q. lov_id q = i) f (customer_limit_overrides s)
    \<and> (\<forall>q. lov_id (f q) = lov_id q) \<and> (\<forall>q. limit_key (f q) = limit_key q)
    \<and> (\<forall>q\<in>set (customer_limit_overrides s). lov_id q = i \<longrightarrow> lov_is_active (f q) \<longrightarrow>
         lov_is_active q \<or> (\<forall>q'\<in>set (customer_limit_overrides s).
           lov_is_active q' \<and> limit_key q' = limit_key q \<longrightarrow> lov_id q' = i))"
proof -
  from assms(2) obtain cur where
    c: "maybe_single (filter (\<lambda>r. lov_id r = i) (customer_limit_overrides s)) = Some cur"
    by (cases "maybe_single (filter (\<lambda>r. lov_id r = i) (customer_limit_overrides s))")
       (auto simp: updateLimitOverride_def)
  have on: "ul_is_active dto = Some True"
    if "lov_is_active (patch_limit dto cur)" "\<not> lov_is_active cur"
    using that by (cases "ul_is_active dto") (auto simp: patch_limit_def)
  show ?thesis
    by (rule updated_row [OF assms(1) c, where f = "patch_limit dto"])
       (use assms(2) c on in \<open>auto simp: updateLimitOverride_def Let_def patch_limit_def limit_key_def
          split: if_splits\<close>)
qed

interpretation limit_ov: override_table lov_id limit_key lov_is_active customer_limit_overrides
  "\<lambda>i (ok, today, dto, actor) s. createLimitOverride ok today i dto actor s"
  "\<lambda>i (ok, dto, actor) s. updateLimitOverride ok i dto actor s"
  "\<lambda>i s. deleteLimitOverride ok i actor s" for ok actor
proof (unfold_locales, goal_cases)
  case (1 s i c r s')
  then show ?case using limit_create_law by (cases c) auto
next
  case (2 i c s e s')
  then show ?case by (auto simp: createLimitOverride_def Let_def split: if_splits prod.splits)
next
  case (3 s i u r s')
  then show ?case using limit_update_law by (cases u) auto
next
  case (4 i u s e s')
  then show ?case
    by (auto simp: updateLimitOverride_def Let_def split: if_splits prod.splits option.splits)
next
  case (5 i s res s')
  then show ?case by (auto simp: deleteLimitOverride_def split: option.splits if_splits)
qed

section \<open>Properties\<close>

lemma valid_limit_override_found:
  assumes "limit_ov.ok db" "r \<in> set (customer_limit_overrides db)"
    and "limit_override_valid today (lov_user_id r) (lov_flow_type r) r"
  shows "getActiveLimitOverride today (lov_user_id r) (lov_flow_type r) db = Some r"
proof -
  let ?m = "limit_override_valid today (lov_user_id r) (lov_flow_type r)"
  let ?t = "customer_limit_overrides db"
  have "length (filter ?m ?t) \<le> length (filter (\<lambda>q. lov_is_active q \<and> limit_key q = limit_key r) ?t)"
    by (rule length_filter_mono) (simp add: limit_override_valid_def limit_key_def)
  also have "\<dots> \<le> 1" using assms(1) unfolding limit_ov.ok_def unique_active_def by blast
  finally have "length (filter ?m ?t) \<le> 1" .
  moreover have "r \<in> set (filter ?m ?t)" using assms(2,3) by simp
  ultimately have "filter ?m ?t = [r]" by (cases "filter ?m ?t") auto
  then show ?thesis by (simp add: getActiveLimitOverride_def)
qed


definition vip_limit :: create_limit_dto where
  "vip_limit = \<lparr>cl_user_id = ''u'', cl_flow_type = ''wallet_to_world'', cl_min_usd = Some 10,
     cl_max_usd = Some 500, cl_valid_from = None, cl_valid_until = None\<rparr>"

definition no_limits :: limits_db where
  "no_limits = \<lparr>customer_limit_overrides = [], limits_audit = []\<rparr>"


text \<open>A setting that does not parse switches its limit off. With a text that is no number as
  the maximum and the minimum of a flow, every amount is accepted without review, and with one
  as the hourly maximum a client may create any number of orders.\<close>

theorem unparsable_settings_fail_open:
  assumes "min_usd (getGlobalLimits s flow) = NaN" "max_usd (getGlobalLimits s flow) = NaN"
    and "parse_int (or_else (setting s ''MAX_PAYMENT_ORDERS_PER_HOUR'') ''5'') = NaN"
  shows "(\<exists>c. checkAmountLimits today s getRate amount flow (Some ''USDC'') None db = Inr c \<and> \<not> lc_exceeded c)
     \<and> validateRateLimit now s orders userId = Inr ()"
proof -
  have "amount_in_usd getRate amount (Some ''USDC'') = Inr (Fin amount)"
    by (simp add: amount_in_usd_def to_upper_def upper_char_def)
  then show ?thesis
    by (simp add: checkAmountLimits_def getPaymentLimits_def assms validateRateLimit_def Let_def)
qed

definition broken_settings :: app_settings where
  "broken_settings = [(''MIN_X_USD'', ''USD 10''), (''MAX_X_USD'', ''none''),
     (''MAX_PAYMENT_ORDERS_PER_HOUR'', ''five'')]"

theorem unparsable_settings_fail_open_witness:
  "(\<exists>c. checkAmountLimits 0 broken_settings (\<lambda>_. Inl (DbException '''')) 1000000 ''x'' (Some ''USDC'') None no_limits
       = Inr c \<and> \<not> lc_exceeded c)
   \<and> validateRateLimit 0 broken_settings [(''u'', 0), (''u'', 0), (''u'', 0), (''u'', 0), (''u'', 0)] ''u'' = Inr ()"
  by (rule unparsable_settings_fail_open)
     (simp_all add: getGlobalLimits_def broken_settings_def setting_def parse_float_def parse_int_def
        split_sign_def is_digit_def is_space_def to_upper_def upper_char_def Let_def char_of_def bit_0)

end
