(* ===== verification/FlowAccess.thy ===== *)
theory FlowAccess imports Overrides begin

text \<open>
  Which flows a client sees and may use: the default by country
  (\<open>src/common/constants/flow-access.constants.ts\<close>) and the per-client overrides of
  \<open>customer_flow_overrides\<close> with the barriers that use them
  (\<open>src/application/payment-orders/payment-orders.service.ts\<close>). \<open>None\<close> as the country is
  \<open>null\<close>; a set of flows is a list of names without order.
\<close>

section \<open>Defaults by country\<close>

definition BOLIVIA_COUNTRY_CODES :: "string list" where
  "BOLIVIA_COUNTRY_CODES = [''BOL'', ''BO'']"

definition COUNTRY_GOVERNED_FLOWS :: "string list" where
  "COUNTRY_GOVERNED_FLOWS =
     [''bolivia_to_world'', ''bolivia_to_wallet'', ''wallet_to_wallet'', ''world_to_bolivia'',
      ''fiat_bo_to_bridge_wallet'', ''crypto_to_bridge_wallet'', ''bridge_wallet_to_fiat_bo'',
      ''bridge_wallet_to_crypto'', ''bridge_wallet_to_fiat_us'', ''wallet_to_world'']"

definition ALWAYS_ON_FLOWS :: "string list" where
  "ALWAYS_ON_FLOWS = [''virtual_account'']"

definition ALWAYS_OFF_FLOWS :: "string list" where
  "ALWAYS_OFF_FLOWS = [''virtual_account_external'']"

definition GOVERNED_FLOWS :: "string list" where
  "GOVERNED_FLOWS = COUNTRY_GOVERNED_FLOWS @ ALWAYS_ON_FLOWS @ ALWAYS_OFF_FLOWS"

definition NON_BOLIVIA_DEFAULT_FLOWS :: "string list" where
  "NON_BOLIVIA_DEFAULT_FLOWS =
     [''wallet_to_wallet'', ''crypto_to_bridge_wallet'', ''bridge_wallet_to_crypto'',
      ''bridge_wallet_to_fiat_us'', ''wallet_to_world'']"

lemmas flow_lists = COUNTRY_GOVERNED_FLOWS_def ALWAYS_ON_FLOWS_def ALWAYS_OFF_FLOWS_def
  GOVERNED_FLOWS_def NON_BOLIVIA_DEFAULT_FLOWS_def

definition isGovernedFlow :: "string \<Rightarrow> bool" where
  "isGovernedFlow flowType \<longleftrightarrow> flowType \<in> set GOVERNED_FLOWS"

definition isBoliviaCountry :: "ostring \<Rightarrow> bool" where
  "isBoliviaCountry countryCode \<longleftrightarrow>
     (if \<not> truthy countryCode then True
      else to_upper (the countryCode) \<in> set BOLIVIA_COUNTRY_CODES)"

definition resolveDefaultFlows :: "ostring \<Rightarrow> string list" where
  "resolveDefaultFlows countryCode =
     (if isBoliviaCountry countryCode then COUNTRY_GOVERNED_FLOWS else NON_BOLIVIA_DEFAULT_FLOWS)
       @ ALWAYS_ON_FLOWS"

section \<open>Overrides\<close>

record flow_override =
  fo_id :: string
  fo_user_id :: string
  fo_flow_type :: string
  fo_is_enabled :: bool
  fo_is_active :: bool
  fo_notes :: ostring
  fo_created_by :: string

record client_profile =
  cp_id :: string
  cp_country_code :: ostring
  cp_onboarding_status :: ostring

record flows_db =
  client_profiles :: "client_profile list"
  customer_flow_overrides :: "flow_override list"
  flows_audit :: "audit_row list"

definition getProfileCountry :: "string \<Rightarrow> flows_db \<Rightarrow> ostring" where
  "getProfileCountry userId db =
     Option.bind (maybe_single (filter (\<lambda>p. cp_id p = userId) (client_profiles db))) cp_country_code"

definition note_override :: "(string \<rightharpoonup> bool) \<Rightarrow> flow_override \<Rightarrow> (string \<rightharpoonup> bool)" where
  "note_override m r = m(fo_flow_type r \<mapsto> fo_is_enabled r)"

definition getActiveFlowOverrides :: "string \<Rightarrow> flows_db \<Rightarrow> (string \<rightharpoonup> bool)" where
  "getActiveFlowOverrides userId db =
     foldl note_override Map.empty
       (filter (\<lambda>r. fo_user_id r = userId \<and> fo_is_active r) (customer_flow_overrides db))"

fun apply_overrides :: "(string \<rightharpoonup> bool) \<Rightarrow> string list \<Rightarrow> string list \<Rightarrow> string list" where
  "apply_overrides overrides [] enabled = enabled"
| "apply_overrides overrides (flow # flows) enabled =
     apply_overrides overrides flows
       (case overrides flow of
          None \<Rightarrow> enabled
        | Some True \<Rightarrow> if flow \<in> set enabled then enabled else enabled @ [flow]
        | Some False \<Rightarrow> filter (\<lambda>f. f \<noteq> flow) enabled)"

definition resolveEnabledFlows :: "string \<Rightarrow> flows_db \<Rightarrow> string list" where
  "resolveEnabledFlows userId db =
     apply_overrides (getActiveFlowOverrides userId db) GOVERNED_FLOWS
       (resolveDefaultFlows (getProfileCountry userId db))"

definition assertOnboardingApproved :: "string \<Rightarrow> flows_db \<Rightarrow> unit result" where
  "assertOnboardingApproved userId db =
     (case maybe_single (filter (\<lambda>p. cp_id p = userId) (client_profiles db)) of
        None \<Rightarrow> Inl (ForbiddenException '''')
      | Some p \<Rightarrow> if cp_onboarding_status p \<noteq> Some ''approved'' then Inl (ForbiddenException '''')
                  else Inr ())"

definition assertFlowEnabled :: "string \<Rightarrow> string \<Rightarrow> flows_db \<Rightarrow> unit result" where
  "assertFlowEnabled userId flowType db =
     (if \<not> isGovernedFlow flowType then Inr ()
      else if flowType \<notin> set (resolveEnabledFlows userId db) then Inl (ForbiddenException '''')
      else Inr ())"

record flow_view =
  fv_flow :: string
  fv_default :: bool
  fv_override :: "bool option"
  fv_effective :: bool

record available_flows =
  af_country_code :: ostring
  af_enabled :: "string list"
  af_by_flow :: "flow_view list"

definition getAvailableFlows :: "string \<Rightarrow> flows_db \<Rightarrow> available_flows" where
  "getAvailableFlows userId db =
     (let country = getProfileCountry userId db;
          overrides = getActiveFlowOverrides userId db;
          defaults = resolveDefaultFlows country;
          view = (\<lambda>flow. let def = (flow \<in> set defaults); ov = overrides flow
                    in \<lparr>fv_flow = flow, fv_default = def, fv_override = ov,
                        fv_effective = (case ov of None \<Rightarrow> def | Some b \<Rightarrow> b)\<rparr>)
      in \<lparr>af_country_code = country,
          af_enabled = map fv_flow (filter fv_effective (map view GOVERNED_FLOWS)),
          af_by_flow = map view GOVERNED_FLOWS\<rparr>)"

section \<open>Overrides: create, update, delete\<close>

record update_flow_dto =
  uw_is_enabled :: "bool option"
  uw_is_active :: "bool option"
  uw_notes :: ostring

definition flow_key :: "flow_override \<Rightarrow> string \<times> string" where
  "flow_key r = (fo_user_id r, fo_flow_type r)"

definition getFlowOverrides :: "string \<Rightarrow> flows_db \<Rightarrow> flow_override list" where
  "getFlowOverrides userId db = filter (\<lambda>r. fo_user_id r = userId) (customer_flow_overrides db)"

definition createFlowOverride ::
  "bool \<Rightarrow> string \<Rightarrow> string \<Rightarrow> string \<Rightarrow> bool \<Rightarrow> ostring \<Rightarrow> string \<Rightarrow> flows_db
    \<Rightarrow> flow_override result \<times> flows_db" where
  "createFlowOverride db_ok new_id userId flowType isEnabled notes actorId db =
     (let conflict = maybe_single (filter (\<lambda>r. fo_is_active r \<and> flow_key r = (userId, flowType))
            (customer_flow_overrides db));
          row = \<lparr>fo_id = new_id, fo_user_id = userId, fo_flow_type = flowType,
            fo_is_enabled = isEnabled, fo_is_active = True, fo_notes = notes,
            fo_created_by = actorId\<rparr>
      in if conflict \<noteq> None then (Inl (BadRequestException ''''), db)
         else if \<not> db_ok then (Inl (DbException ''''), db)
         else (Inr row, db\<lparr>customer_flow_overrides := customer_flow_overrides db @ [row],
            flows_audit := flows_audit db
              @ [audit (Some actorId) ''flow_override_created'' ''customer_flow_overrides'' new_id]\<rparr>))"

definition patch_flow :: "update_flow_dto \<Rightarrow> flow_override \<Rightarrow> flow_override" where
  "patch_flow d r = r\<lparr>fo_is_enabled := patch (uw_is_enabled d) (fo_is_enabled r),
     fo_is_active := patch (uw_is_active d) (fo_is_active r),
     fo_notes := patch_opt (uw_notes d) (fo_notes r)\<rparr>"

definition updateFlowOverride ::
  "bool \<Rightarrow> string \<Rightarrow> update_flow_dto \<Rightarrow> string \<Rightarrow> flows_db \<Rightarrow> flow_override result \<times> flows_db" where
  "updateFlowOverride db_ok overrideId dto actorId db =
     (case maybe_single (filter (\<lambda>r. fo_id r = overrideId) (customer_flow_overrides db)) of
        None \<Rightarrow> (Inl (NotFoundException ''''), db)
      | Some current \<Rightarrow>
          let conflict = maybe_single (filter (\<lambda>r. fo_is_active r
                \<and> flow_key r = flow_key current \<and> fo_id r \<noteq> overrideId) (customer_flow_overrides db))
          in if uw_is_active dto = Some True \<and> \<not> fo_is_active current \<and> conflict \<noteq> None
             then (Inl (BadRequestException ''''), db)
             else if \<not> db_ok then (Inl (BadRequestException ''''), db)
             else (Inr (patch_flow dto current),
               db\<lparr>customer_flow_overrides := update_where (\<lambda>r. fo_id r = overrideId)
                    (patch_flow dto) (customer_flow_overrides db),
                  flows_audit := flows_audit db @ [audit (Some actorId) ''flow_override_updated''
                    ''customer_flow_overrides'' overrideId]\<rparr>))"

definition deleteFlowOverride :: "bool \<Rightarrow> string \<Rightarrow> string \<Rightarrow> flows_db \<Rightarrow> unit result \<times> flows_db" where
  "deleteFlowOverride db_ok overrideId actorId db =
     (case maybe_single (filter (\<lambda>r. fo_id r = overrideId) (customer_flow_overrides db)) of
        None \<Rightarrow> (Inl (NotFoundException ''''), db)
      | Some _ \<Rightarrow>
          if \<not> db_ok then (Inl (BadRequestException ''''), db)
          else (Inr (), db\<lparr>customer_flow_overrides :=
                  filter (\<lambda>r. fo_id r \<noteq> overrideId) (customer_flow_overrides db),
                flows_audit := flows_audit db @ [audit (Some actorId) ''flow_override_deleted''
                  ''customer_flow_overrides'' overrideId]\<rparr>))"

lemma flow_create_law:
  assumes "unique_active fo_is_active flow_key (customer_flow_overrides s)"
    and "createFlowOverride ok i u f en n actor s = (Inr r, s')"
  shows "customer_flow_overrides s' = customer_flow_overrides s @ [r] \<and> fo_id r = i
    \<and> filter (\<lambda>q. fo_is_active q \<and> flow_key q = flow_key r) (customer_flow_overrides s) = []"
  using assms(2) by (intro created_row [OF assms(1)])
    (auto simp: createFlowOverride_def Let_def flow_key_def split: if_splits)

lemma flow_update_law:
  assumes "unique_active fo_is_active flow_key (customer_flow_overrides s)"
    and "updateFlowOverride ok i dto actor s = (Inr r, s')"
  shows "\<exists>f. customer_flow_overrides s' = update_where (\<lambda>q. fo_id q = i) f (customer_flow_overrides s)
    \<and> (\<forall>q. fo_id (f q) = fo_id q) \<and> (\<forall>q. flow_key (f q) = flow_key q)
    \<and> (\<forall>q\<in>set (customer_flow_overrides s). fo_id q = i \<longrightarrow> fo_is_active (f q) \<longrightarrow>
         fo_is_active q \<or> (\<forall>q'\<in>set (customer_flow_overrides s).
           fo_is_active q' \<and> flow_key q' = flow_key q \<longrightarrow> fo_id q' = i))"
proof -
  from assms(2) obtain cur where
    c: "maybe_single (filter (\<lambda>r. fo_id r = i) (customer_flow_overrides s)) = Some cur"
    by (cases "maybe_single (filter (\<lambda>r. fo_id r = i) (customer_flow_overrides s))")
       (auto simp: updateFlowOverride_def)
  have on: "uw_is_active dto = Some True"
    if "fo_is_active (patch_flow dto cur)" "\<not> fo_is_active cur"
    using that by (cases "uw_is_active dto") (auto simp: patch_flow_def)
  show ?thesis
    by (rule updated_row [OF assms(1) c, where f = "patch_flow dto"])
       (use assms(2) c on in \<open>auto simp: updateFlowOverride_def Let_def patch_flow_def flow_key_def
          split: if_splits\<close>)
qed

interpretation flow_ov: override_table fo_id flow_key fo_is_active customer_flow_overrides
  "\<lambda>i (ok, u, f, en, n, actor) s. createFlowOverride ok i u f en n actor s"
  "\<lambda>i (ok, dto, actor) s. updateFlowOverride ok i dto actor s"
  "\<lambda>i s. deleteFlowOverride ok i actor s" for ok actor
proof (unfold_locales, goal_cases)
  case (1 s i c r s')
  then show ?case using flow_create_law by (cases c) auto
next
  case (2 i c s e s')
  then show ?case by (auto simp: createFlowOverride_def Let_def split: if_splits prod.splits)
next
  case (3 s i u r s')
  then show ?case using flow_update_law by (cases u) auto
next
  case (4 i u s e s')
  then show ?case
    by (auto simp: updateFlowOverride_def Let_def split: if_splits prod.splits option.splits)
next
  case (5 i s res s')
  then show ?case by (auto simp: deleteFlowOverride_def split: option.splits if_splits)
qed

section \<open>Lemmas\<close>

lemma apply_overrides_mem:
  "f \<in> set (apply_overrides ov flows enabled) \<longleftrightarrow>
     (if f \<in> set flows \<and> ov f \<noteq> None then ov f = Some True else f \<in> set enabled)"
proof (induction flows arbitrary: enabled)
  case Nil
  then show ?case by simp
next
  case (Cons g flows)
  show ?case
  proof (cases "ov g")
    case None
    with Cons show ?thesis by auto
  next
    case (Some b)
    with Cons show ?thesis by (cases b; cases "f = g") (auto split: if_splits)
  qed
qed

lemma foldl_override_map:
  assumes "\<And>q. q \<in> set rs \<Longrightarrow> fo_flow_type q = f \<Longrightarrow> fo_is_enabled q = b"
  shows "foldl note_override m rs f =
     (if f \<in> fo_flow_type ` set rs then Some b else m f)"
  using assms
proof (induction rs arbitrary: m)
  case (Cons q rs)
  have "fo_is_enabled q = b" if "fo_flow_type q = f" using Cons.prems that by simp
  moreover have "foldl note_override m' rs f =
     (if f \<in> fo_flow_type ` set rs then Some b else m' f)" for m'
    by (rule Cons.IH) (simp add: Cons.prems)
  moreover have "note_override m q f = (if fo_flow_type q = f then Some (fo_is_enabled q) else m f)"
    by (simp add: note_override_def)
  ultimately show ?case by (cases "fo_flow_type q = f") simp_all
qed simp

lemma active_override_map:
  assumes "flow_ov.ok db" "r \<in> set (customer_flow_overrides db)" "fo_is_active r"
  shows "getActiveFlowOverrides (fo_user_id r) db (fo_flow_type r) = Some (fo_is_enabled r)"
proof -
  let ?rs = "filter (\<lambda>q. fo_user_id q = fo_user_id r \<and> fo_is_active q) (customer_flow_overrides db)"
  have "unique_active fo_is_active flow_key (customer_flow_overrides db)"
    using assms(1) by (simp add: flow_ov.ok_def)
  from unique_active_single [OF this assms(2,3)]
  have u: "set (filter (\<lambda>q. fo_is_active q \<and> flow_key q = flow_key r) (customer_flow_overrides db)) = {r}"
    by simp
  have single: "q = r" if "q \<in> set ?rs" "fo_flow_type q = fo_flow_type r" for q
  proof -
    have "q \<in> set (filter (\<lambda>q. fo_is_active q \<and> flow_key q = flow_key r) (customer_flow_overrides db))"
      using that by (simp add: flow_key_def)
    with u show ?thesis by simp
  qed
  have "r \<in> set ?rs" using assms by simp
  then have "fo_flow_type r \<in> fo_flow_type ` set ?rs" by (rule imageI)
  moreover have "foldl note_override Map.empty ?rs (fo_flow_type r) =
     (if fo_flow_type r \<in> fo_flow_type ` set ?rs then Some (fo_is_enabled r) else None)"
    by (rule foldl_override_map) (use single in metis)
  ultimately show ?thesis by (simp only: getActiveFlowOverrides_def if_True)
qed

section \<open>Properties\<close>
section \<open>Properties\<close>

text \<open>C23: A staff override of a flow has the last word. In every table reachable from one without
  overrides, an active override of a governed flow decides whether the client may use it, for
  any country, in the barrier and in what the client is shown.\<close>

theorem flow_override_wins:
  assumes "(flow_ov.step ok actor)\<^sup>*\<^sup>* db0 db" "customer_flow_overrides db0 = []"
    and "r \<in> set (customer_flow_overrides db)" "fo_is_active r" "isGovernedFlow (fo_flow_type r)"
  shows "is_ok (assertFlowEnabled (fo_user_id r) (fo_flow_type r) db) = fo_is_enabled r
    \<and> (fo_flow_type r \<in> set (af_enabled (getAvailableFlows (fo_user_id r) db))) = fo_is_enabled r"
proof -
  have "flow_ov.ok db0" using assms(2) by (simp add: flow_ov.ok_def distinct_ids_def)
  with assms(1) have "flow_ov.ok db" by (rule flow_ov.steps_keep)
  then have m: "getActiveFlowOverrides (fo_user_id r) db (fo_flow_type r) = Some (fo_is_enabled r)"
    using assms(3,4) by (rule active_override_map)
  have g: "fo_flow_type r \<in> set GOVERNED_FLOWS" using assms(5) by (simp add: isGovernedFlow_def)
  then have "fo_flow_type r \<in> set (resolveEnabledFlows (fo_user_id r) db) \<longleftrightarrow> fo_is_enabled r"
    unfolding resolveEnabledFlows_def apply_overrides_mem by (simp add: m)
  then have "is_ok (assertFlowEnabled (fo_user_id r) (fo_flow_type r) db) = fo_is_enabled r"
    using assms(5) by (simp add: assertFlowEnabled_def)
  moreover have "(fo_flow_type r \<in> set (af_enabled (getAvailableFlows (fo_user_id r) db))) = fo_is_enabled r"
    using g m by (force simp: getAvailableFlows_def Let_def)
  ultimately show ?thesis ..
qed

definition sample_flows :: flows_db where
  "sample_flows = \<lparr>client_profiles = [\<lparr>cp_id = ''u'', cp_country_code = Some ''BO'',
     cp_onboarding_status = Some ''approved''\<rparr>], customer_flow_overrides = [], flows_audit = []\<rparr>"

theorem flow_override_wins_witness:
  "\<not> is_ok (assertFlowEnabled ''u'' ''wallet_to_world''
      (snd (createFlowOverride True ''i'' ''u'' ''wallet_to_world'' False None ''s'' sample_flows)))"
proof -
  let ?r = "\<lparr>fo_id = ''i'', fo_user_id = ''u'', fo_flow_type = ''wallet_to_world'', fo_is_enabled = False,
    fo_is_active = True, fo_notes = None, fo_created_by = ''s''\<rparr>"
  have nf: "customer_flow_overrides sample_flows = []" by (simp add: sample_flows_def)
  obtain db where c:
    "createFlowOverride True ''i'' ''u'' ''wallet_to_world'' False None ''s'' sample_flows = (Inr ?r, db)"
    "customer_flow_overrides db = [?r]"
    by (simp add: createFlowOverride_def nf Let_def)
  have "flow_ov.step True ''s'' sample_flows db"
    by (rule flow_ov.step_create [of "''i''" sample_flows
          "(True, ''u'', ''wallet_to_world'', False, None, ''s'')" "Inr ?r"])
       (use c nf in simp_all)
  then have st: "(flow_ov.step True ''s'')\<^sup>*\<^sup>* sample_flows db" by blast
  show ?thesis
    using flow_override_wins [OF st nf, of ?r]
    by (simp only: c) (simp add: c(2) isGovernedFlow_def flow_lists)
qed

text \<open>The barrier and the screen agree. For a governed flow the server accepts exactly the
  flows it lists as enabled, whatever the country and the overrides; a flow outside the
  governed ones is never blocked.\<close>

theorem flow_barrier_matches_screen:
  "is_ok (assertFlowEnabled userId flow db) =
     (if isGovernedFlow flow then flow \<in> set (af_enabled (getAvailableFlows userId db)) else True)"
proof (cases "isGovernedFlow flow")
  case False
  then show ?thesis by (simp add: assertFlowEnabled_def)
next
  case True
  then have g: "flow \<in> set GOVERNED_FLOWS" by (simp add: isGovernedFlow_def)
  have "flow \<in> set (resolveEnabledFlows userId db) \<longleftrightarrow>
      flow \<in> set (af_enabled (getAvailableFlows userId db))"
    unfolding resolveEnabledFlows_def apply_overrides_mem
    using g by (cases "getActiveFlowOverrides userId db flow") (force simp: getAvailableFlows_def Let_def)+
  with True show ?thesis by (simp add: assertFlowEnabled_def)
qed

end
