(* ===== verification/WebhookQueue.thy ===== *)
theory WebhookQueue imports Orders begin

text \<open>
  The queue of provider events, from \<open>src/application/webhooks/webhooks.service.ts\<close>: the
  sink with the check of the signature, and the worker that runs every 30 seconds. What an
  event does is the parameter \<open>dispatch\<close>; the database function \<open>claim_pending_webhooks\<close>,
  whose body is not in the repository, is the parameter \<open>claim\<close>: the batch size and the
  table to the rows it hands out and the table it leaves. The check on the column \<open>status\<close> and the unique index on
  \<open>provider_event_id\<close> are those of \<open>migrations/\<close>.
\<close>

section \<open>The table\<close>

record 'p webhook_event =
  we_id :: string
  we_event_type :: string
  we_provider_event_id :: ostring
  we_payload :: 'p
  we_signature_verified :: bool
  we_status :: string
  we_retry_count :: nat
  we_started_at :: "int option"

text \<open>\<open>webhook_events_status_check\<close>.\<close>

definition webhook_status_check :: "string \<Rightarrow> bool" where
  "webhook_status_check st \<longleftrightarrow>
     st \<in> set [''pending'', ''processing'', ''processed'', ''failed'', ''skipped'']"

text \<open>An \<open>UPDATE\<close> by id whose error is not looked at: the check rejects it as a whole.\<close>

definition update_event ::
  "string \<Rightarrow> ('p webhook_event \<Rightarrow> 'p webhook_event) \<Rightarrow> 'p webhook_event list \<Rightarrow> 'p webhook_event list" where
  "update_event i f evs =
     (if \<forall>e\<in>set evs. we_id e = i \<longrightarrow> webhook_status_check (we_status (f e))
      then update_where (\<lambda>e. we_id e = i) f evs else evs)"

section \<open>The sink\<close>

fun split_at_char :: "char \<Rightarrow> string \<Rightarrow> string list" where
  "split_at_char c [] = [[]]"
| "split_at_char c (x # xs) =
     (if x = c then [] # split_at_char c xs
      else case split_at_char c xs of (y # ys) \<Rightarrow> (x # y) # ys | [] \<Rightarrow> [[x]])"

text \<open>The parts \<open>key=value\<close> of the signature header; a later part of the same key wins.\<close>

definition header_parts :: "string \<Rightarrow> (string \<rightharpoonup> string)" where
  "header_parts h = map_of (rev (map
     (\<lambda>part. (trim_ws (takeWhile (\<lambda>c. c \<noteq> CHR ''='') part),
              trim_ws (drop 1 (dropWhile (\<lambda>c. c \<noteq> CHR ''='') part))))
     (split_at_char CHR '','' h)))"

text \<open>\<open>verify\<close> is the RSA check of the library on the message and the signature; \<open>now\<close> is in
  milliseconds. A timestamp that is no number is \<open>NaN\<close>, and \<open>NaN > 600\<close> is false.\<close>

definition verifyBridgeSignature ::
  "ostring \<Rightarrow> (string \<Rightarrow> string \<Rightarrow> bool) \<Rightarrow> int \<Rightarrow> string \<Rightarrow> ostring \<Rightarrow> bool" where
  "verifyBridgeSignature publicKey verify now rawBody signatureHeader =
     (if \<not> truthy publicKey \<or> \<not> truthy signatureHeader then False
      else
        let parts = header_parts (the signatureHeader);
            timestamp = parts ''t''; signatureB64 = parts ''v0''
        in if \<not> truthy timestamp \<or> \<not> truthy signatureB64 then False
           else if (case parse_int (the timestamp) of
                      Fin t \<Rightarrow> of_int now / 1000 - t > 600 | _ \<Rightarrow> False)
             then False
           else verify (the timestamp @ ''.'' @ rawBody) (the signatureB64))"

definition sinkEvent ::
  "bool \<Rightarrow> bool \<Rightarrow> string \<Rightarrow> string \<Rightarrow> ostring \<Rightarrow> 'p \<Rightarrow> 'p webhook_event list \<Rightarrow> 'p webhook_event list" where
  "sinkEvent db_ok signatureVerified new_id event_type provider_event_id payload evs =
     (if \<not> db_ok \<or> provider_event_id \<noteq> None
           \<and> (\<exists>e\<in>set evs. we_provider_event_id e = provider_event_id)
      then evs
      else evs @ [\<lparr>we_id = new_id, we_event_type = event_type,
             we_provider_event_id = provider_event_id, we_payload = payload,
             we_signature_verified = signatureVerified, we_status = ''pending'',
             we_retry_count = 0, we_started_at = None\<rparr>])"

section \<open>The worker\<close>

type_synonym 'p claim_fn =
  "nat \<Rightarrow> 'p webhook_event list \<Rightarrow> ('p webhook_event list \<times> 'p webhook_event list) option"

definition admins_of :: "string list \<Rightarrow> orders_db \<Rightarrow> profile list" where
  "admins_of roles db = take 5 (filter (\<lambda>p. pr_role p \<in> set roles \<and> pr_is_active p) (profiles db))"

definition notify_all ::
  "profile list \<Rightarrow> string \<Rightarrow> string \<Rightarrow> string \<Rightarrow> orders_db \<Rightarrow> orders_db" where
  "notify_all ps ty rty ref db = db\<lparr>notifications := notifications db
     @ map (\<lambda>p. \<lparr>nt_user_id = pr_id p, nt_type = ty, nt_reference_type = Some rty,
                  nt_reference_id = Some ref\<rparr>) ps\<rparr>"

definition notifyAdminWebhookFailed :: "string \<Rightarrow> orders_db \<Rightarrow> orders_db" where
  "notifyAdminWebhookFailed webhookId db =
     notify_all (admins_of [''admin'', ''super_admin''] db) ''system'' ''webhook_event'' webhookId db"

type_synonym 'p handler = "'p webhook_event \<Rightarrow> orders_db \<Rightarrow> unit result \<times> orders_db"

definition MAX_ATTEMPTS :: nat where
  "MAX_ATTEMPTS = 5"

text \<open>\<open>protected\<close> is \<open>shouldRejectUnverifiedWebhook(appEnv)\<close>.\<close>

definition processOne ::
  "'p handler \<Rightarrow> bool \<Rightarrow> int \<Rightarrow> 'p webhook_event \<Rightarrow> 'p webhook_event list \<times> orders_db
    \<Rightarrow> 'p webhook_event list \<times> orders_db" where
  "processOne dispatch protected now event s =
     (let i = we_id event;
          evs = update_event i (\<lambda>e. e\<lparr>we_status := ''processing'', we_started_at := Some now\<rparr>) (fst s);
          db = snd s
      in if \<not> we_signature_verified event \<and> protected
         then (update_event i (\<lambda>e. e\<lparr>we_status := ''ignored''\<rparr>) evs,
               db\<lparr>audit_logs := audit_logs db
                 @ [audit None ''WEBHOOK_SIGNATURE_INVALID'' ''webhook_events'' i]\<rparr>)
         else case dispatch event db of
           (Inr _, db') \<Rightarrow> (update_event i (\<lambda>e. e\<lparr>we_status := ''processed''\<rparr>) evs, db')
         | (Inl _, db') \<Rightarrow>
             let retryCount = we_retry_count event + 1;
                 newStatus = (if retryCount \<ge> MAX_ATTEMPTS then ''failed'' else ''pending'')
             in (update_event i
                   (\<lambda>e. e\<lparr>we_status := newStatus, we_retry_count := retryCount\<rparr>) evs,
                 if retryCount \<ge> MAX_ATTEMPTS then notifyAdminWebhookFailed i db' else db'))"

definition STUCK_MS :: int where
  "STUCK_MS = 2 * 60 * 1000"

definition stuck :: "int \<Rightarrow> 'p webhook_event \<Rightarrow> bool" where
  "stuck now e \<longleftrightarrow> we_status e = ''processing''
     \<and> (case we_started_at e of None \<Rightarrow> False | Some t \<Rightarrow> t < now - STUCK_MS)
     \<and> we_retry_count e < MAX_ATTEMPTS"

definition rescue_stuck :: "int \<Rightarrow> 'p webhook_event list \<Rightarrow> 'p webhook_event list" where
  "rescue_stuck now evs =
     (let ids = map we_id (take 10 (filter (stuck now) evs))
      in update_where (\<lambda>e. we_id e \<in> set ids) (\<lambda>e. e\<lparr>we_status := ''pending''\<rparr>) evs)"

definition BATCH_SIZE :: nat where
  "BATCH_SIZE = 50"

definition processWebhooks ::
  "'p claim_fn \<Rightarrow> 'p handler \<Rightarrow> bool \<Rightarrow> int
    \<Rightarrow> 'p webhook_event list \<times> orders_db \<Rightarrow> 'p webhook_event list \<times> orders_db" where
  "processWebhooks claim dispatch protected now s =
     (let evs = rescue_stuck now (fst s) in
      case claim BATCH_SIZE evs of
        None \<Rightarrow> (evs, snd s)
      | Some (events, evs') \<Rightarrow>
          foldl (\<lambda>s' event. processOne dispatch protected now event s') (evs', snd s) events)"

text \<open>What the service relies on from \<open>claim_pending_webhooks\<close>: it hands out the pending rows
  in the order of the table, at most the batch size, and touches only their status and start.\<close>

definition touch :: "string \<Rightarrow> int option \<Rightarrow> 'p webhook_event \<Rightarrow> 'p webhook_event" where
  "touch st t e = e\<lparr>we_status := st, we_started_at := t\<rparr>"

definition pending_batch :: "'p webhook_event list \<Rightarrow> 'p webhook_event list" where
  "pending_batch evs = take BATCH_SIZE (filter (\<lambda>e. we_status e = ''pending'') evs)"

definition claims_pending :: "'p claim_fn \<Rightarrow> bool" where
  "claims_pending claim \<longleftrightarrow> (\<forall>evs. \<exists>st t. claim BATCH_SIZE evs =
     Some (map (touch st t) (pending_batch evs),
           update_where (\<lambda>e. we_id e \<in> we_id ` set (pending_batch evs)) (touch st t) evs))"

section \<open>Lemmas\<close>

abbreviation rows_of :: "string \<Rightarrow> 'p webhook_event list \<Rightarrow> 'p webhook_event list" where
  "rows_of i evs \<equiv> filter (\<lambda>e. we_id e = i) evs"

lemma touch_simps [simp]: "we_id (touch st t e) = we_id e" "we_retry_count (touch st t e) = we_retry_count e"
  "we_signature_verified (touch st t e) = we_signature_verified e"
  by (simp_all add: touch_def)

lemma rows_of_update:
  "(\<And>e. we_id (f e) = we_id e) \<Longrightarrow> rows_of i (update_where p f evs) = update_where p f (rows_of i evs)"
  by (induction evs) auto

lemma rows_of_update_event_other:
  "(\<And>e. we_id (f e) = we_id e) \<Longrightarrow> j \<noteq> i \<Longrightarrow> rows_of i (update_event j f evs) = rows_of i evs"
  unfolding update_event_def by (auto simp: rows_of_update intro: update_where_none)

lemma rows_of_update_event:
  assumes "\<And>e. we_id (f e) = we_id e" "rows_of i evs = [e]"
  shows "rows_of i (update_event i f evs) = [if webhook_status_check (we_status (f e)) then f e else e]"
proof -
  have "we_id e = i" using assms(2) by (metis (mono_tags, lifting) filter_eq_ConsD)
  moreover have "(\<forall>q\<in>set evs. we_id q = i \<longrightarrow> webhook_status_check (we_status (f q)))
      \<longleftrightarrow> (\<forall>q\<in>set (rows_of i evs). webhook_status_check (we_status (f q)))" by auto
  ultimately show ?thesis by (simp add: update_event_def rows_of_update assms)
qed

lemma length_update_event [simp]: "length (update_event i f evs) = length evs"
  by (simp add: update_event_def)

lemma processOne_other:
  "we_id ev \<noteq> i \<Longrightarrow> rows_of i (fst (processOne dispatch protected now ev s)) = rows_of i (fst s)"
  by (simp add: processOne_def Let_def rows_of_update_event_other split: sum.split prod.split)

lemma processOne_length [simp]:
  "length (fst (processOne dispatch protected now ev s)) = length (fst s)"
  by (simp add: processOne_def Let_def split: sum.split prod.split)

lemma batch_others:
  "i \<notin> we_id ` set evs \<Longrightarrow>
   rows_of i (fst (foldl (\<lambda>s' ev. processOne dispatch protected now ev s') s evs)) = rows_of i (fst s)"
  by (induction evs arbitrary: s) (auto simp: processOne_other)

lemma batch_length [simp]:
  "length (fst (foldl (\<lambda>s' ev. processOne dispatch protected now ev s') s evs)) = length (fst s)"
  by (induction evs arbitrary: s) auto

lemma batch_self:
  assumes "rows_of i evs = [e]"
  obtains s1 where "rows_of i (fst s1) = rows_of i (fst s)"
    and "rows_of i (fst (foldl (\<lambda>s' ev. processOne dispatch protected now ev s') s evs))
      = rows_of i (fst (processOne dispatch protected now e s1))"
proof -
  from filter_eq_ConsD [OF assms] obtain us vs where
    u: "evs = us @ e # vs" "\<forall>u\<in>set us. we_id u \<noteq> i" "rows_of i vs = []" by auto
  then have "i \<notin> we_id ` set us" "i \<notin> we_id ` set vs" by (auto simp: filter_empty_conv)
  with u(1) show ?thesis
    by (intro that [of "foldl (\<lambda>s' ev. processOne dispatch protected now ev s') s us"])
       (simp_all add: batch_others)
qed

lemma rows_of_rescue_stuck:
  assumes "rows_of i evs = [e]" "length evs \<le> 10" "stuck now e"
  shows "rows_of i (rescue_stuck now evs) = [e\<lparr>we_status := ''pending''\<rparr>]"
proof -
  have e: "e \<in> set evs" "we_id e = i" using assms(1) by (auto simp: filter_eq_Cons_iff)
  have "length (filter (stuck now) evs) \<le> 10" using assms(2) length_filter_le order_trans by blast
  then have "i \<in> we_id ` set (take 10 (filter (stuck now) evs))" using e assms(3) by force
  then show ?thesis
    by (simp add: rescue_stuck_def Let_def rows_of_update assms(1) e(2))
qed

lemma rows_of_rescue_other:
  assumes "rows_of i evs = [e]" "\<not> stuck now e"
  shows "rows_of i (rescue_stuck now evs) = [e]"
proof -
  have i: "we_id e = i" using assms(1) by (auto simp: filter_eq_Cons_iff)
  have "q = e" if "q \<in> set evs" "we_id q = i" for q
  proof -
    have "q \<in> set (rows_of i evs)" using that by simp
    then show ?thesis by (simp add: assms(1))
  qed
  then have "i \<notin> we_id ` set (take 10 (filter (stuck now) evs))"
    using assms(2) by (auto dest!: in_set_takeD)
  then show ?thesis by (simp add: rescue_stuck_def Let_def rows_of_update assms(1) i)
qed

lemma length_rescue [simp]: "length (rescue_stuck now evs) = length evs"
  by (simp add: rescue_stuck_def Let_def)

lemma rows_of_batch:
  assumes "rows_of i evs = [e]" "length evs \<le> BATCH_SIZE"
  shows "rows_of i (pending_batch evs) = (if we_status e = ''pending'' then [e] else [])"
proof -
  have "length (filter (\<lambda>e. we_status e = ''pending'') evs) \<le> BATCH_SIZE"
    using assms(2) length_filter_le order_trans by blast
  then have "rows_of i (pending_batch evs) = filter (\<lambda>e. we_status e = ''pending'') (rows_of i evs)"
    by (simp add: pending_batch_def conj_commute)
  then show ?thesis by (simp add: assms(1))
qed

text \<open>One tick, seen from one event: a row that is pending after the rescue runs once.\<close>

lemma tick_runs:
  assumes "claims_pending claim" "rows_of i (rescue_stuck now evs) = [e]"
    and "we_status e = ''pending''" "length evs \<le> BATCH_SIZE"
  obtains evs1 db1 st t where "rows_of i evs1 = [touch st t e]"
    and "rows_of i (fst (processWebhooks claim dispatch protected now (evs, db)))
      = rows_of i (fst (processOne dispatch protected now (touch st t e) (evs1, db1)))"
proof -
  let ?r = "rescue_stuck now evs"
  obtain st t where c: "claim BATCH_SIZE ?r = Some (map (touch st t) (pending_batch ?r),
      update_where (\<lambda>e. we_id e \<in> we_id ` set (pending_batch ?r)) (touch st t) ?r)"
    using assms(1) unfolding claims_pending_def by metis
  let ?t = "update_where (\<lambda>e. we_id e \<in> we_id ` set (pending_batch ?r)) (touch st t) ?r"
  have b: "rows_of i (pending_batch ?r) = [e]"
    using rows_of_batch [OF assms(2)] assms(3,4) by simp
  have e: "we_id e = i" "e \<in> set (pending_batch ?r)" using b by (auto simp: filter_eq_Cons_iff)
  have m: "rows_of i (map (touch st t) (pending_batch ?r)) = [touch st t e]"
    by (simp add: filter_map comp_def b)
  have u: "rows_of i ?t = [touch st t e]"
    using e by (simp add: rows_of_update assms(2)) (metis imageI)
  obtain s1 where "rows_of i (fst s1) = rows_of i (fst (?t, db))"
    and "rows_of i (fst (foldl (\<lambda>s' ev. processOne dispatch protected now ev s') (?t, db)
          (map (touch st t) (pending_batch ?r))))
      = rows_of i (fst (processOne dispatch protected now (touch st t e) s1))"
    by (rule batch_self [OF m])
  with u show ?thesis
    by (intro that [of "fst s1" st t "snd s1"]) (simp_all add: processWebhooks_def Let_def c)
qed

section \<open>Properties\<close>

definition ticks ::
  "'p claim_fn \<Rightarrow> 'p handler \<Rightarrow> bool \<Rightarrow> int list \<Rightarrow> 'p webhook_event list \<times> orders_db
    \<Rightarrow> 'p webhook_event list \<times> orders_db" where
  "ticks claim dispatch protected nows s =
     foldl (\<lambda>s' now. processWebhooks claim dispatch protected now s') s nows"

fun spaced :: "int \<Rightarrow> int list \<Rightarrow> bool" where
  "spaced t [] = True"
| "spaced t (n # ns) \<longleftrightarrow> t + STUCK_MS < n \<and> spaced n ns"

lemma ticks_simps [simp]:
  "ticks claim dispatch protected [] s = s"
  "ticks claim dispatch protected (n # ns) s =
     ticks claim dispatch protected ns (processWebhooks claim dispatch protected n s)"
  by (simp_all add: ticks_def)

lemma length_tick:
  assumes "claims_pending claim"
  shows "length (fst (processWebhooks claim dispatch protected now s)) = length (fst s)"
proof -
  obtain rows evs' where "claim BATCH_SIZE (rescue_stuck now (fst s)) = Some (rows, evs')"
    "length evs' = length (fst s)"
    using assms unfolding claims_pending_def by (metis length_update_where length_rescue)
  then show ?thesis by (simp add: processWebhooks_def Let_def)
qed

text \<open>An event with a bad signature, run once: the status \<open>ignored\<close> is not allowed.\<close>

lemma processOne_bad_signature:
  assumes "rows_of i evs = [e]" "we_id ev = i" "\<not> we_signature_verified ev"
  shows "rows_of i (fst (processOne dispatch True now ev (evs, db)))
    = [e\<lparr>we_status := ''processing'', we_started_at := Some now\<rparr>]"
proof -
  let ?f = "\<lambda>e. e\<lparr>we_status := ''processing'', we_started_at := Some now\<rparr>"
  have 1: "rows_of i (update_event i ?f evs) = [?f e]"
    using rows_of_update_event [of ?f i evs e] assms(1) by (simp add: webhook_status_check_def)
  have "rows_of i (update_event i (\<lambda>e. e\<lparr>we_status := ''ignored''\<rparr>) (update_event i ?f evs)) = [?f e]"
    using rows_of_update_event [of "\<lambda>e. e\<lparr>we_status := ''ignored''\<rparr>" i _ "?f e"] 1
    by (simp add: webhook_status_check_def)
  then show ?thesis using assms(2,3) by (simp add: processOne_def Let_def)
qed

lemma bad_signature_tick:
  assumes "claims_pending claim" "rows_of i (rescue_stuck now evs) = [e]" "we_status e = ''pending''"
    and "length evs \<le> 10" "\<not> we_signature_verified e"
  obtains q where "rows_of i (fst (processWebhooks claim dispatch True now (evs, db))) = [q]"
    and "we_status q = ''processing''" "we_started_at q = Some now"
    and "we_retry_count q = we_retry_count e" "\<not> we_signature_verified q"
proof -
  have l: "length evs \<le> BATCH_SIZE" using assms(4) by (simp add: BATCH_SIZE_def)
  obtain evs1 db1 st t where r: "rows_of i evs1 = [touch st t e]"
    "rows_of i (fst (processWebhooks claim dispatch True now (evs, db)))
      = rows_of i (fst (processOne dispatch True now (touch st t e) (evs1, db1)))"
    by (rule tick_runs [OF assms(1-3) l])
  have "we_id (touch st t e) = i" using r(1) by (auto simp: filter_eq_Cons_iff)
  with r processOne_bad_signature [OF r(1)] assms(5) show ?thesis
    by (intro that [of "(touch st t e)\<lparr>we_status := ''processing'', we_started_at := Some now\<rparr>"]) simp_all
qed

lemma bad_signature_loop:
  assumes "claims_pending claim" "length evs \<le> 10" "spaced t nows"
    and "rows_of i evs = [e]" "we_status e = ''processing''" "we_started_at e = Some t"
    and "we_retry_count e < MAX_ATTEMPTS" "\<not> we_signature_verified e"
  shows "\<exists>q. rows_of i (fst (ticks claim dispatch True nows (evs, db))) = [q]
     \<and> we_status q = ''processing'' \<and> we_started_at q = Some (last (t # nows))
     \<and> we_retry_count q = we_retry_count e"
  using assms(2-)
proof (induction nows arbitrary: evs e t db)
  case (Cons n ns)
  have "stuck n e" using Cons.prems by (simp add: stuck_def STUCK_MS_def)
  then have r: "rows_of i (rescue_stuck n evs) = [e\<lparr>we_status := ''pending''\<rparr>]"
    using Cons.prems by (intro rows_of_rescue_stuck) simp_all
  obtain q where q: "rows_of i (fst (processWebhooks claim dispatch True n (evs, db))) = [q]"
      "we_status q = ''processing''" "we_started_at q = Some n"
      "we_retry_count q = we_retry_count e" "\<not> we_signature_verified q"
    by (rule bad_signature_tick [OF assms(1) r _ Cons.prems(1)]) (use Cons.prems in simp_all)
  obtain evs' db' where s: "processWebhooks claim dispatch True n (evs, db) = (evs', db')" by fastforce
  have "length evs' \<le> 10" using length_tick [OF assms(1), of dispatch True n "(evs, db)"] Cons.prems(1) s by simp
  then have "\<exists>q'. rows_of i (fst (ticks claim dispatch True ns (evs', db'))) = [q']
     \<and> we_status q' = ''processing'' \<and> we_started_at q' = Some (last (n # ns))
     \<and> we_retry_count q' = we_retry_count q"
    using q Cons.prems s by (intro Cons.IH) simp_all
  then show ?case using s q(4) by simp
qed simp


definition sample_claim :: "'p claim_fn" where
  "sample_claim n evs =
     (let rows = take n (filter (\<lambda>e. we_status e = ''pending'') evs)
      in Some (map (touch ''processing'' (Some 0)) rows,
           update_where (\<lambda>e. we_id e \<in> we_id ` set rows) (touch ''processing'' (Some 0)) evs))"

lemma sample_claims: "claims_pending sample_claim"
  unfolding claims_pending_def sample_claim_def pending_batch_def Let_def by blast

definition forged_event :: "unit webhook_event" where
  "forged_event = \<lparr>we_id = ''e1'', we_event_type = ''transfer.complete'', we_provider_event_id = None,
     we_payload = (), we_signature_verified = False, we_status = ''pending'', we_retry_count = 0,
     we_started_at = None\<rparr>"

definition no_rows :: orders_db where
  "no_rows = empty_tables"


lemma processOne_cong:
  assumes "\<And>ev d. we_id ev \<noteq> i \<Longrightarrow> dispatch ev d = dispatch' ev d" "i \<notin> we_id ` set evs"
  shows "foldl (\<lambda>s' ev. processOne dispatch protected now ev s') s evs
    = foldl (\<lambda>s' ev. processOne dispatch' protected now ev s') s evs"
  using assms(2)
proof (induction evs arbitrary: s)
  case (Cons ev evs)
  then have "dispatch ev d = dispatch' ev d" for d using assms(1) by auto
  then have "processOne dispatch protected now ev s = processOne dispatch' protected now ev s"
    by (simp add: processOne_def Let_def)
  with Cons show ?case by simp
qed simp



end
