(* ===== verification/VaDeposits.thy ===== *)
theory VaDeposits imports WebhookQueue LedgerProperties begin

text \<open>
  Deposits into a client's virtual bank account, from the handlers
  \<open>virtual_account.activity.*\<close> of \<open>src/application/webhooks/webhooks.service.ts\<close>. The first
  event of a deposit creates a pending order, the confirmation credits the client, a refund
  takes the credit back; an account that sweeps to an external wallet books a credit and a
  debit at once. The provider may send the events in any order and more than once.
\<close>

section \<open>Payloads\<close>

record va_source =
  vs_payment_rail :: ostring
  vs_originator_name :: ostring
  vs_sender_name :: ostring
  vs_imad :: ostring
  vs_trace_number :: ostring
  vs_wire_message :: ostring
  vs_description :: ostring
  vs_bank_routing_number :: ostring
  vs_sender_bank_routing_number :: ostring

text \<open>The object of an event with the fields the handlers read; an amount that is no number is
  \<open>None\<close>. \<open>vp_final_amount\<close>, \<open>vp_developer_fee\<close> and \<open>vp_exchange_rate\<close> come from the receipt. The
  columns for the networks and the raw payload are left out.\<close>

record va_payload =
  vp_id :: ostring
  vp_account_id :: ostring
  vp_deposit_id :: ostring
  vp_amount :: "rat option"
  vp_currency :: ostring
  vp_source :: "va_source option"
  vp_final_amount :: "rat option"
  vp_developer_fee :: "rat option"
  vp_developer_fee_amount :: "rat option"
  vp_exchange_rate :: "rat option"
  vp_tx_hash :: ostring
  vp_receipt_url :: ostring
  vp_status :: ostring

definition extractVaSenderName :: "va_source option \<Rightarrow> string" where
  "extractVaSenderName source =
     (case source of
        None \<Rightarrow> ''Desconocido''
      | Some s \<Rightarrow>
          if vs_payment_rail s = Some ''wire'' then or_else (vs_originator_name s) ''Desconocido''
          else or_else (vs_sender_name s) ''Desconocido'')"

definition extractVaTraceCodes :: "va_source option \<Rightarrow> bank_trace_codes" where
  "extractVaTraceCodes source =
     (case source of
        None \<Rightarrow> no_trace
      | Some s \<Rightarrow>
          \<lparr>tr_imad = vs_imad s, tr_achTraceNumber = vs_trace_number s,
           tr_paymentConcept = nullish (vs_wire_message s) (vs_description s),
           tr_senderBankRoutingNumber =
             nullish (vs_bank_routing_number s) (vs_sender_bank_routing_number s)\<rparr>)"

definition patch_truthy :: "ostring \<Rightarrow> ostring \<Rightarrow> ostring" where
  "patch_truthy new old = (if truthy new then new else old)"

text \<open>The update of an order with the codes an event carries: a code that is absent is kept.\<close>

definition traceCodesToPatch :: "bank_trace_codes \<Rightarrow> payment_order \<Rightarrow> payment_order" where
  "traceCodesToPatch codes o' = o'\<lparr>po_trace :=
     \<lparr>tr_imad = patch_truthy (tr_imad codes) (tr_imad (po_trace o')),
      tr_achTraceNumber = patch_truthy (tr_achTraceNumber codes) (tr_achTraceNumber (po_trace o')),
      tr_paymentConcept = patch_truthy (tr_paymentConcept codes) (tr_paymentConcept (po_trace o')),
      tr_senderBankRoutingNumber =
        patch_truthy (tr_senderBankRoutingNumber codes) (tr_senderBankRoutingNumber (po_trace o'))\<rparr>\<rparr>"

section \<open>Statements\<close>

text \<open>Ids of new rows, the time, and whether the insert of an order is accepted.\<close>

record va_env =
  vn_order_id :: string
  vn_entry_id :: string
  vn_entry_id2 :: string
  vn_now :: int
  vn_order_ok :: bool

definition record_va_event :: "string \<Rightarrow> va_payload \<Rightarrow> orders_db \<Rightarrow> orders_db" where
  "record_va_event ty p db = db\<lparr>va_events := va_events db @ [(ty, vp_deposit_id p)]\<rparr>"

definition notify :: "string \<Rightarrow> string \<Rightarrow> ostring \<Rightarrow> ostring \<Rightarrow> orders_db \<Rightarrow> orders_db" where
  "notify user ty rty ref db = db\<lparr>notifications := notifications db
     @ [\<lparr>nt_user_id = user, nt_type = ty, nt_reference_type = rty, nt_reference_id = ref\<rparr>]\<rparr>"

text \<open>An insert into the ledger whose error is not looked at.\<close>

definition try_insert :: "ledger_entry \<Rightarrow> orders_db \<Rightarrow> orders_db" where
  "try_insert e db = (case insert_entry e db of None \<Rightarrow> db | Some d \<Rightarrow> d)"

definition order_entry ::
  "string \<Rightarrow> int \<Rightarrow> string \<Rightarrow> string \<Rightarrow> rat \<Rightarrow> string \<Rightarrow> ostring \<Rightarrow> ledger_entry" where
  "order_entry new_id now wallet ty amount currency orderId =
     \<lparr>le_id = new_id, le_wallet_id = wallet, le_type = ty, le_amount = amount,
      le_currency = currency, le_status = ''settled'', le_reference_type = Some ''payment_order'',
      le_reference_id = orderId, le_bridge_transfer_id = None, le_description = ty,
      le_created_at = now\<rparr>"

text \<open>The row of \<open>payment_orders\<close> the handlers insert: the columns they leave out are null.\<close>

definition va_order :: "string \<Rightarrow> string \<Rightarrow> string \<Rightarrow> rat \<Rightarrow> rat \<Rightarrow> rat \<Rightarrow> string \<Rightarrow> string \<Rightarrow> payment_order" where
  "va_order i user wallet amount fee net currency status =
     blank_order\<lparr>po_id := i, po_user_id := user, po_wallet_id := Some wallet,
      po_flow_type := Some ''va_deposit'', po_status := status, po_amount := amount,
      po_currency := Some currency, po_fee_amount := Some fee, po_net_amount := Some net,
      po_exchange_rate := Some 1\<rparr>"

definition insert_order :: "bool \<Rightarrow> payment_order \<Rightarrow> orders_db \<Rightarrow> ostring \<times> orders_db" where
  "insert_order ok o' db =
     (if ok then (Some (po_id o'), db\<lparr>payment_orders := payment_orders db @ [o']\<rparr>) else (None, db))"

definition active_wallet :: "string \<Rightarrow> orders_db \<Rightarrow> ostring" where
  "active_wallet userId db =
     map_option wa_id (first_row (filter (\<lambda>w. wa_user_id w = userId \<and> wa_is_active w) (wallets db)))"

section \<open>Funds received\<close>

definition handleInternalDepositPending ::
  "va_env \<Rightarrow> virtual_account \<Rightarrow> rat \<Rightarrow> rat \<Rightarrow> rat \<Rightarrow> string \<Rightarrow> va_payload \<Rightarrow> orders_db
    \<Rightarrow> unit result \<times> orders_db" where
  "handleInternalDepositPending v va amount feeAmount netAmount currency p db =
     (let userId = va_user_id va;
          walletId = (if truthy (va_destination_wallet_id va) then va_destination_wallet_id va
                      else active_wallet userId db)
      in case walletId of
           None \<Rightarrow> (Inl (ErrorException ''Wallet no encontrada''), db)
         | Some w \<Rightarrow>
             let row = (va_order (vn_order_id v) userId w amount feeAmount netAmount
                   (to_upper (or_else (va_destination_currency va) ''USDC'')) ''pending'')
                   \<lparr>po_source_currency := Some (to_upper (or_else (va_source_currency va) currency)),
                    po_sender_name := Some (extractVaSenderName (vp_source p)),
                    po_trace := extractVaTraceCodes (vp_source p), po_deposit_id := vp_deposit_id p,
                    po_va_deposit_status := Some ''funds_received''\<rparr>;
                 (orderId, db1) = insert_order (vn_order_ok v) row db
             in (Inr (), log_activity userId ''VA_DEPOSIT_PENDING''
                   (notify userId ''financial'' (Some ''payment_order'') orderId db1)))"

definition handleExternalSweepDeposit ::
  "va_env \<Rightarrow> virtual_account \<Rightarrow> rat \<Rightarrow> rat \<Rightarrow> rat \<Rightarrow> string \<Rightarrow> va_payload \<Rightarrow> orders_db
    \<Rightarrow> unit result \<times> orders_db" where
  "handleExternalSweepDeposit v va amount feeAmount netAmount currency p db =
     (let userId = va_user_id va; cur = or_else (va_source_currency va) currency in
      case active_wallet userId db of
        None \<Rightarrow> (Inl (ErrorException ''Wallet de referencia no encontrada''), db)
      | Some w \<Rightarrow>
          let row = (va_order (vn_order_id v) userId w amount feeAmount netAmount (to_upper cur)
                ''swept_external'')
                \<lparr>po_sender_name := Some (extractVaSenderName (vp_source p)),
                 po_trace := extractVaTraceCodes (vp_source p), po_deposit_id := vp_deposit_id p,
                 po_va_deposit_status := Some ''payment_processed''\<rparr>;
              (orderId, db1) = insert_order (vn_order_ok v) row db;
              db2 = try_insert (order_entry (vn_entry_id v) (vn_now v) w ''credit'' netAmount cur orderId) db1;
              db3 = try_insert (order_entry (vn_entry_id2 v) (vn_now v) w ''debit'' netAmount cur orderId) db2
          in (Inr (), log_activity userId ''DEPOSIT_EXTERNAL_SWEEP''
                (notify userId ''financial'' (Some ''payment_order'') orderId db3)))"

definition handleVaFundsReceived ::
  "va_env \<Rightarrow> va_payload \<Rightarrow> orders_db \<Rightarrow> unit result \<times> orders_db" where
  "handleVaFundsReceived v p db =
     (case (vp_account_id p, vp_amount p) of
        (Some vaId, Some amount) \<Rightarrow>
          if vaId = '''' then (Inl (ErrorException ''payload invalido''), db)
          else
          (case maybe_single (filter (\<lambda>a. va_bridge_id a = vaId) (virtual_accounts db)) of
             None \<Rightarrow> (Inl (ErrorException ''VA no encontrada''), db)
           | Some va \<Rightarrow>
               if truthy (vp_deposit_id p)
                  \<and> maybe_single (filter (\<lambda>o'. po_deposit_id o' = vp_deposit_id p) (payment_orders db)) \<noteq> None
               then (Inr (), db)
               else
                 let currency = to_upper (or_else (vp_currency p) ''usd'');
                     db1 = record_va_event ''virtual_account.activity.funds_received'' p db;
                     devFeePercent = or_else (va_developer_fee_percent va) 0;
                     feeAmount = toFixed2 (amount * devFeePercent / 100);
                     netAmount = toFixed2 (amount - feeAmount)
                 in if va_is_external_sweep va
                    then handleExternalSweepDeposit v va amount feeAmount netAmount currency p db1
                    else handleInternalDepositPending v va amount feeAmount netAmount currency p db1)
      | _ \<Rightarrow> (Inl (ErrorException ''payload invalido''), db))"

section \<open>Confirmation and refund\<close>

definition deposit_orders :: "ostring \<Rightarrow> orders_db \<Rightarrow> payment_order list" where
  "deposit_orders depositId db =
     filter (\<lambda>o'. po_deposit_id o' = Some (or_else depositId '''')) (payment_orders db)"

definition set_va_status :: "ostring \<Rightarrow> string \<Rightarrow> orders_db \<Rightarrow> orders_db" where
  "set_va_status depositId st db =
     (if truthy depositId
      then update_orders (\<lambda>o'. po_deposit_id o' = depositId) (\<lambda>o'. o'\<lparr>po_va_deposit_status := Some st\<rparr>) db
      else db)"

definition handleVaPaymentSubmitted :: "va_payload \<Rightarrow> orders_db \<Rightarrow> unit result \<times> orders_db" where
  "handleVaPaymentSubmitted p db =
     (let db1 = record_va_event ''virtual_account.activity.payment_submitted'' p db in
      (Inr (),
       if truthy (vp_deposit_id p)
       then update_orders
              (\<lambda>o'. po_deposit_id o' = vp_deposit_id p \<and> po_status o'
                 \<notin> set [''completed'', ''refunded'', ''cancelled'', ''swept_external''])
              (\<lambda>o'. traceCodesToPatch (extractVaTraceCodes (vp_source p))
                 (o'\<lparr>po_va_deposit_status := Some ''payment_submitted''\<rparr>)) db1
       else db1))"

text \<open>The two writes of the confirmation, in their order: the credit, then the order.\<close>

definition credit_deposit :: "va_env \<Rightarrow> payment_order \<Rightarrow> rat option \<Rightarrow> orders_db \<Rightarrow> orders_db" where
  "credit_deposit v order creditAmount db =
     (case (po_wallet_id order, creditAmount, po_currency order) of
        (Some w, Some a, Some c) \<Rightarrow>
          try_insert (order_entry (vn_entry_id v) (vn_now v) w ''credit'' a c (Some (po_id order))) db
      | _ \<Rightarrow> db)"

definition complete_deposit ::
  "va_env \<Rightarrow> va_payload \<Rightarrow> payment_order \<Rightarrow> rat option \<Rightarrow> orders_db \<Rightarrow> orders_db" where
  "complete_deposit v p order creditAmount db =
     update_orders (\<lambda>o'. po_id o' = po_id order)
       (\<lambda>o'. traceCodesToPatch (extractVaTraceCodes (vp_source p))
          (o'\<lparr>po_status := ''completed'', po_va_deposit_status := Some ''payment_processed'',
             po_completed_at := Some (vn_now v),
             po_fee_amount := patch_opt (nullish (vp_developer_fee p) (vp_developer_fee_amount p)) (po_fee_amount o'),
             po_net_amount := creditAmount, po_amount_destination := creditAmount,
             po_exchange_rate := Some (or_else (vp_exchange_rate p) 1),
             po_destination_currency := map_option to_upper (vp_currency p),
             po_tx_hash := vp_tx_hash p, po_receipt_url := vp_receipt_url p\<rparr>)) db"

definition handleVaPaymentProcessed ::
  "va_env \<Rightarrow> va_payload \<Rightarrow> orders_db \<Rightarrow> unit result \<times> orders_db" where
  "handleVaPaymentProcessed v p db =
     (let db1 = record_va_event ''virtual_account.activity.payment_processed'' p db in
      case maybe_single (filter (\<lambda>o'. po_status o' = ''pending'') (deposit_orders (vp_deposit_id p) db1)) of
        None \<Rightarrow>
          (Inr (),
           case maybe_single (filter (\<lambda>o'. po_status o' = ''completed'')
                  (deposit_orders (vp_deposit_id p) db1)) of
             None \<Rightarrow> db1
           | Some o' \<Rightarrow>
               if po_va_deposit_status o' \<noteq> Some ''payment_processed''
               then update_orders (\<lambda>q. po_id q = po_id o')
                      (\<lambda>q. q\<lparr>po_va_deposit_status := Some ''payment_processed''\<rparr>) db1
               else db1)
      | Some order \<Rightarrow>
          if po_va_deposit_status order = Some ''refunded'' then (Inr (), db1)
          else
            let creditAmount = nullish (vp_final_amount p) (po_net_amount order);
                db2 = credit_deposit v order creditAmount db1;
                db3 = complete_deposit v p order creditAmount db2
            in (Inr (), log_activity (po_user_id order) ''VA_DEPOSIT_CONFIRMED''
                  (notify (po_user_id order) ''financial'' (Some ''payment_order'') (Some (po_id order)) db3)))"

definition reverse_deposit :: "va_env \<Rightarrow> payment_order \<Rightarrow> orders_db \<Rightarrow> orders_db" where
  "reverse_deposit v order db =
     (case (po_wallet_id order, po_net_amount order, po_currency order) of
        (Some w, Some a, Some c) \<Rightarrow>
          if po_status order = ''completed''
          then try_insert (order_entry (vn_entry_id v) (vn_now v) w ''debit'' a c (Some (po_id order))) db
          else db
      | _ \<Rightarrow> db)"

definition handleVaRefunded :: "va_env \<Rightarrow> va_payload \<Rightarrow> orders_db \<Rightarrow> unit result \<times> orders_db" where
  "handleVaRefunded v p db =
     (let db1 = record_va_event ''virtual_account.activity.refunded'' p db in
      case maybe_single (deposit_orders (vp_deposit_id p) db1) of
        None \<Rightarrow> (Inr (), db1)
      | Some order \<Rightarrow>
          let db2 = reverse_deposit v order db1;
              db3 = update_orders (\<lambda>o'. po_id o' = po_id order)
                (\<lambda>o'. o'\<lparr>po_status := ''refunded'', po_va_deposit_status := Some ''refunded''\<rparr>) db2
          in (Inr (), log_activity (po_user_id order) ''VA_DEPOSIT_REFUNDED''
                (notify (po_user_id order) ''financial'' (Some ''payment_order'') (Some (po_id order)) db3)))"

section \<open>Other activity\<close>

definition va_owner :: "ostring \<Rightarrow> orders_db \<Rightarrow> ostring" where
  "va_owner vaId db =
     map_option va_user_id (maybe_single (filter (\<lambda>a. Some (va_bridge_id a) = vaId) (virtual_accounts db)))"

definition notify_va_owner :: "ostring \<Rightarrow> string \<Rightarrow> orders_db \<Rightarrow> orders_db" where
  "notify_va_owner vaId ty db =
     (if truthy (va_owner vaId db) then notify (the (va_owner vaId db)) ty None None db else db)"

definition handleVaFundsScheduled :: "va_payload \<Rightarrow> orders_db \<Rightarrow> unit result \<times> orders_db" where
  "handleVaFundsScheduled p db =
     (Inr (), notify_va_owner (vp_account_id p) ''financial''
        (record_va_event ''virtual_account.activity.funds_scheduled'' p db))"

definition handleVaInReview :: "va_payload \<Rightarrow> orders_db \<Rightarrow> unit result \<times> orders_db" where
  "handleVaInReview p db =
     (Inr (), notify_va_owner (vp_account_id p) ''compliance'' (set_va_status (vp_deposit_id p) ''in_review''
        (record_va_event ''virtual_account.activity.in_review'' p db)))"

definition handleVaRefundInFlight :: "va_payload \<Rightarrow> orders_db \<Rightarrow> unit result \<times> orders_db" where
  "handleVaRefundInFlight p db =
     (Inr (), notify_va_owner (vp_account_id p) ''financial''
        (set_va_status (vp_deposit_id p) ''refund_in_flight''
          (record_va_event ''virtual_account.activity.refund_in_flight'' p db)))"

definition handleVaRefundFailed :: "va_payload \<Rightarrow> orders_db \<Rightarrow> unit result \<times> orders_db" where
  "handleVaRefundFailed p db =
     (let db1 = set_va_status (vp_deposit_id p) ''refund_failed''
            (record_va_event ''virtual_account.activity.refund_failed'' p db)
      in (Inr (), db1\<lparr>audit_logs := audit_logs db1
            @ [audit None ''VA_REFUND_FAILED'' ''bridge_virtual_account_events'' '''']\<rparr>))"

definition handleVaMicrodeposit :: "va_payload \<Rightarrow> orders_db \<Rightarrow> unit result \<times> orders_db" where
  "handleVaMicrodeposit p db =
     (Inr (), record_va_event ''virtual_account.activity.microdeposit'' (p\<lparr>vp_deposit_id := None\<rparr>) db)"

text \<open>The event names the account in \<open>id\<close>, or else in \<open>virtual_account_id\<close>.\<close>

definition handleVaAccountUpdate :: "va_payload \<Rightarrow> orders_db \<Rightarrow> unit result \<times> orders_db" where
  "handleVaAccountUpdate p db =
     (let vaId = nullish (vp_id p) (vp_account_id p);
          db1 = (if truthy vaId \<and> truthy (vp_status p)
                 then db\<lparr>virtual_accounts := update_where (\<lambda>a. Some (va_bridge_id a) = vaId)
                        (\<lambda>a. a\<lparr>va_status := the (vp_status p)\<rparr>) (virtual_accounts db)\<rparr>
                 else db)
      in (Inr (), db1\<lparr>audit_logs := audit_logs db1
            @ [audit None ''VA_ACCOUNT_UPDATE'' ''bridge_virtual_accounts'' '''']\<rparr>))"

text \<open>The branch of \<open>dispatchEvent\<close> for an activity; any other kind is only logged.\<close>

definition va_activity :: "va_env \<Rightarrow> string \<Rightarrow> va_payload \<Rightarrow> orders_db \<Rightarrow> unit result \<times> orders_db" where
  "va_activity v kind p db =
     (if kind = ''funds_received'' then handleVaFundsReceived v p db
      else if kind = ''payment_submitted'' then handleVaPaymentSubmitted p db
      else if kind = ''payment_processed'' then handleVaPaymentProcessed v p db
      else if kind = ''funds_scheduled'' then handleVaFundsScheduled p db
      else if kind = ''in_review'' then handleVaInReview p db
      else if kind = ''refund_in_flight'' then handleVaRefundInFlight p db
      else if kind = ''refunded'' then handleVaRefunded v p db
      else if kind = ''refund_failed'' then handleVaRefundFailed p db
      else if kind = ''microdeposit'' then handleVaMicrodeposit p db
      else if kind = ''account_update'' then handleVaAccountUpdate p db
      else (Inr (), db))"

end
