(* ===== verification/VaProperties.thy ===== *)
theory VaProperties imports VaDeposits begin

text \<open>
  What the deposits into virtual accounts keep: every deposit is booked exactly once, whatever
  the order and number of its events; and two places where a reversal goes wrong.
\<close>

section \<open>Lemmas on the statements\<close>

definition entries_of :: "string \<Rightarrow> ledger_entry list \<Rightarrow> (string \<times> rat) list" where
  "entries_of i es = map (\<lambda>e. (le_type e, le_amount e))
     (filter (\<lambda>e. le_reference_type e = Some ''payment_order'' \<and> le_reference_id e = Some i) es)"

definition is_va :: "payment_order \<Rightarrow> bool" where
  "is_va o' \<longleftrightarrow> po_flow_type o' = Some ''va_deposit''"

text \<open>The entries of a deposit by the status of its order.\<close>

definition deposit_booked :: "payment_order \<Rightarrow> (string \<times> rat) list \<Rightarrow> bool" where
  "deposit_booked o' es \<longleftrightarrow>
     (let net = or_else (po_net_amount o') 0 in
      if po_status o' = ''pending'' then es = []
      else if po_status o' = ''completed'' then es = [(''credit'', net)]
      else if po_status o' = ''swept_external'' then es = [(''credit'', net), (''debit'', net)]
      else if po_status o' = ''refunded''
        then es = [] \<or> es = [(''credit'', net)] \<or> es = [(''credit'', net), (''debit'', net)]
      else False)"

definition va_inv :: "orders_db \<Rightarrow> bool" where
  "va_inv db \<longleftrightarrow> list_all check_balance (balances db)
     \<and> distinct (map po_id (payment_orders db))
     \<and> (\<forall>o'\<in>set (payment_orders db). po_deposit_id o' \<noteq> None \<longrightarrow> is_va o')
     \<and> (\<forall>o'\<in>set (payment_orders db). is_va o' \<longrightarrow>
          0 \<le> or_else (po_net_amount o') 0 \<and> po_net_amount o' \<noteq> None \<and> po_wallet_id o' \<noteq> None
          \<and> po_currency o' \<noteq> None \<and> deposit_booked o' (entries_of (po_id o') (ledger_entries db)))"

lemma va_frames [simp]:
  "payment_orders (record_va_event ty p db) = payment_orders db"
  "ledger_entries (record_va_event ty p db) = ledger_entries db"
  "balances (record_va_event ty p db) = balances db"
  "wallets (record_va_event ty p db) = wallets db"
  "virtual_accounts (record_va_event ty p db) = virtual_accounts db"
  "payment_orders (notify u t r i db) = payment_orders db"
  "ledger_entries (notify u t r i db) = ledger_entries db"
  "balances (notify u t r i db) = balances db"
  "payment_orders (notify_va_owner w t db) = payment_orders db"
  "ledger_entries (notify_va_owner w t db) = ledger_entries db"
  "balances (notify_va_owner w t db) = balances db"
  by (simp_all add: record_va_event_def notify_def notify_va_owner_def)

lemma va_inv_cong:
  "payment_orders db' = payment_orders db \<Longrightarrow> ledger_entries db' = ledger_entries db \<Longrightarrow>
   balances db' = balances db \<Longrightarrow> va_inv db' = va_inv db"
  by (simp add: va_inv_def)

lemma deposit_orders_cong: "payment_orders db' = payment_orders db \<Longrightarrow> deposit_orders d db' = deposit_orders d db"
  by (simp add: deposit_orders_def)

lemma trigger_check:
  assumes "update_balance_on_ledger_entry ws old new bs = Some bs'" "list_all check_balance bs"
  shows "list_all check_balance bs'"
proof -
  consider "bs' = bs"
    | u where "wallet_owner ws (le_wallet_id new) = Some u"
      "upsert_balance u (le_currency new) (trigger_diff old new) bs = Some bs'"
    using assms(1)
    by (auto simp: update_balance_on_ledger_entry_def Let_def split: if_splits option.splits)
  then show ?thesis
  proof cases
    case 2
    show ?thesis
    proof (cases "\<exists>b\<in>set bs. has_key u (le_currency new) b")
      case True
      with 2 have b: "bs' = update_where (has_key u (le_currency new)) (move_balance (trigger_diff old new)) bs"
        and chk: "\<forall>b\<in>set bs. has_key u (le_currency new) b \<longrightarrow> check_balance (move_balance (trigger_diff old new) b)"
        by (auto simp: upsert_balance_def split: if_splits)
      from chk assms(2) show ?thesis by (auto simp: b list_all_iff set_update_where)
    next
      case False
      with 2 have "bs' = bs @ [\<lparr>ba_user_id = u, ba_currency = le_currency new, ba_amount = trigger_diff old new,
          ba_available = max (trigger_diff old new) 0, ba_reserved = 0\<rparr>]"
        by (auto simp: upsert_balance_def split: if_splits)
      with assms(2) show ?thesis by (simp add: check_balance_def)
    qed
  qed (use assms(2) in simp)
qed

lemma credit_accepted:
  assumes "list_all check_balance bs" "0 \<le> a"
  shows "upsert_balance u c a bs \<noteq> None"
proof -
  have "check_balance (move_balance a b)" if "b \<in> set bs" for b
    using that assms by (auto simp: list_all_iff check_balance_def move_balance_def)
  then show ?thesis by (simp add: upsert_balance_def)
qed

lemma credit_inserted:
  assumes "list_all check_balance (balances db)" "0 \<le> a"
  shows "insert_entry (order_entry i now w ''credit'' a c r) db \<noteq> None"
  using credit_accepted [OF assms]
  by (auto simp: insert_entry_def update_balance_on_ledger_entry_def Let_def trigger_diff_def
      signed_amount_def order_entry_def split: option.splits)

lemma try_insert_frames [simp]:
  "payment_orders (try_insert e db) = payment_orders db"
  "wallets (try_insert e db) = wallets db"
  by (auto simp: try_insert_def insert_entry_def split: option.splits)

lemma try_insert_entries:
  "ledger_entries (try_insert e db) = ledger_entries db @ (if insert_entry e db = None then [] else [e])"
  by (auto simp: try_insert_def insert_entry_def split: option.splits)

lemma try_insert_check:
  "list_all check_balance (balances db) \<Longrightarrow> list_all check_balance (balances (try_insert e db))"
  by (auto simp: try_insert_def insert_entry_def dest: trigger_check split: option.splits)

lemma entries_of_append: "entries_of i (es @ fs) = entries_of i es @ entries_of i fs"
  by (simp add: entries_of_def)

lemma entries_of_single [simp]:
  "entries_of i [] = []"
  "entries_of i [order_entry n now w ty a c r] = (if r = Some i then [(ty, a)] else [])"
  by (simp_all add: entries_of_def order_entry_def)

lemma insert_order_simps [simp]:
  "payment_orders (snd (insert_order ok o' db)) = payment_orders db @ (if ok then [o'] else [])"
  "ledger_entries (snd (insert_order ok o' db)) = ledger_entries db"
  "balances (snd (insert_order ok o' db)) = balances db"
  "fst (insert_order ok o' db) = (if ok then Some (po_id o') else None)"
  by (simp_all add: insert_order_def)

section \<open>The debit of a sweep is always covered\<close>

lemma debit_after_credit:
  assumes "upsert_balance u c a bs = Some bs1" "list_all check_balance bs" "0 < a"
  shows "upsert_balance u c (- a) bs1 \<noteq> None"
proof (cases "\<exists>b\<in>set bs. has_key u c b")
  case True
  with assms(1) have b: "bs1 = update_where (has_key u c) (move_balance a) bs"
    by (auto simp: upsert_balance_def split: if_splits)
  have "check_balance (move_balance (- a) q)" if q: "q \<in> set bs1" "has_key u c q" for q
  proof -
    from q(1) b have "q \<in> set (update_where (has_key u c) (move_balance a) bs)" by simp
    then obtain r where "r \<in> set bs" "q = move_balance a r"
      by (cases rule: update_whereE) (use q(2) in auto)
    then show ?thesis using assms(2,3)
      by (auto simp: list_all_iff check_balance_def move_balance_def)
  qed
  then show ?thesis by (auto simp: upsert_balance_def)
next
  case False
  with assms(1) have b: "bs1 = bs @ [\<lparr>ba_user_id = u, ba_currency = c, ba_amount = a,
      ba_available = max a 0, ba_reserved = 0\<rparr>]"
    by (auto simp: upsert_balance_def split: if_splits)
  have "check_balance (move_balance (- a) q)" if "q \<in> set bs1" "has_key u c q" for q
    using that False assms(3) by (auto simp: b check_balance_def move_balance_def)
  then show ?thesis by (auto simp: upsert_balance_def)
qed

lemma insert_debit_after_credit:
  assumes "list_all check_balance (balances db)" "0 \<le> a"
  shows "insert_entry (order_entry j now w ''debit'' a c r)
    (try_insert (order_entry i now w ''credit'' a c r) db) \<noteq> None"
proof -
  let ?e = "order_entry i now w ''credit'' a c r"
  obtain bs1 where bs1: "update_balance_on_ledger_entry (wallets db) None ?e (balances db) = Some bs1"
    using credit_inserted [OF assms, of i now w c r]
    by (cases "update_balance_on_ledger_entry (wallets db) None ?e (balances db)") (simp_all add: insert_entry_def)
  then have t: "balances (try_insert ?e db) = bs1" by (simp add: try_insert_def insert_entry_def)
  show ?thesis
  proof (cases "a = 0 \<or> wallet_owner (wallets db) w = None")
    case True
    then show ?thesis
      by (auto simp: insert_entry_def update_balance_on_ledger_entry_def Let_def trigger_diff_def
          signed_amount_def order_entry_def)
  next
    case False
    then obtain u where u: "wallet_owner (wallets db) w = Some u" "0 < a" using assms(2) by auto
    with bs1 have "upsert_balance u c a (balances db) = Some bs1"
      by (simp add: update_balance_on_ledger_entry_def Let_def trigger_diff_def signed_amount_def order_entry_def)
    from debit_after_credit [OF this assms(1) u(2)] show ?thesis
      using u by (auto simp: insert_entry_def update_balance_on_ledger_entry_def Let_def trigger_diff_def
          signed_amount_def order_entry_def t [unfolded order_entry_def])
  qed
qed

section \<open>The invariant under the three kinds of change\<close>

definition va_ok :: "payment_order \<Rightarrow> ledger_entry list \<Rightarrow> bool" where
  "va_ok o' es \<longleftrightarrow> (is_va o' \<longrightarrow> 0 \<le> or_else (po_net_amount o') 0 \<and> po_net_amount o' \<noteq> None
     \<and> po_wallet_id o' \<noteq> None \<and> po_currency o' \<noteq> None \<and> deposit_booked o' (entries_of (po_id o') es))
   \<and> (po_deposit_id o' \<noteq> None \<longrightarrow> is_va o')"

lemma va_inv_alt:
  "va_inv db \<longleftrightarrow> list_all check_balance (balances db) \<and> distinct (map po_id (payment_orders db))
     \<and> (\<forall>o'\<in>set (payment_orders db). va_ok o' (ledger_entries db))"
  unfolding va_inv_def va_ok_def by blast

definition va_key :: "payment_order \<Rightarrow> string \<times> ostring \<times> ostring \<times> string \<times> rat option \<times> ostring \<times> ostring" where
  "va_key o' = (po_id o', po_flow_type o', po_deposit_id o', po_status o', po_net_amount o',
     po_wallet_id o', po_currency o')"

lemma va_ok_key: "va_key q = va_key r \<Longrightarrow> va_ok q es = va_ok r es"
  by (simp add: va_key_def va_ok_def is_va_def deposit_booked_def)

lemma va_inv_touch:
  assumes "va_inv db" "payment_orders db' = update_where p f (payment_orders db)"
    and "ledger_entries db' = ledger_entries db" "balances db' = balances db"
    and "\<And>r. va_key (f r) = va_key r"
  shows "va_inv db'"
  unfolding va_inv_alt
proof (intro conjI ballI)
  show "list_all check_balance (balances db')" using assms(1,4) by (simp add: va_inv_alt)
  have "map po_id (payment_orders db') = map po_id (payment_orders db)"
    using assms(5) by (simp add: assms(2) map_update_where va_key_def)
  then show "distinct (map po_id (payment_orders db'))" using assms(1) by (simp add: va_inv_alt)
  fix q assume "q \<in> set (payment_orders db')"
  then have "q \<in> set (update_where p f (payment_orders db))" by (simp add: assms(2))
  then show "va_ok q (ledger_entries db')"
  proof (cases rule: update_whereE)
    case (changed r)
    then show ?thesis using assms(1,3) va_ok_key [OF assms(5)] by (simp add: va_inv_alt)
  next
    case kept
    then show ?thesis using assms(1,3) by (simp add: va_inv_alt)
  qed
qed

lemma va_ok_entries:
  "entries_of (po_id q) new = [] \<Longrightarrow> va_ok q (es @ new) = va_ok q es"
  by (simp add: va_ok_def entries_of_append)

lemma va_inv_change:
  assumes "va_inv db" "order \<in> set (payment_orders db)"
    and "payment_orders db' = update_where (\<lambda>o'. po_id o' = po_id order) f (payment_orders db)"
    and "ledger_entries db' = ledger_entries db @ new"
    and "\<And>i. i \<noteq> po_id order \<Longrightarrow> entries_of i new = []"
    and "\<And>r. po_id (f r) = po_id r" "va_ok (f order) (ledger_entries db @ new)"
    and "list_all check_balance (balances db')"
  shows "va_inv db'"
  unfolding va_inv_alt
proof (intro conjI ballI)
  show "list_all check_balance (balances db')" by fact
  have d: "distinct (map po_id (payment_orders db))" using assms(1) by (simp add: va_inv_alt)
  then show "distinct (map po_id (payment_orders db'))"
    using assms(6) by (simp add: assms(3) map_update_where)
  fix q assume "q \<in> set (payment_orders db')"
  then have "q \<in> set (update_where (\<lambda>o'. po_id o' = po_id order) f (payment_orders db))" by (simp add: assms(3))
  then show "va_ok q (ledger_entries db')"
  proof (cases rule: update_whereE)
    case (changed r)
    then have "r \<in> set (filter (\<lambda>o'. po_id o' = po_id order) (payment_orders db))" by simp
    then have "r = order" using filter_key_single [OF d assms(2) refl] by simp
    then show ?thesis using changed assms(7) by (simp add: assms(4))
  next
    case kept
    then show ?thesis using assms(1,5) by (simp add: va_inv_alt assms(4) va_ok_entries)
  qed
qed

lemma va_inv_insert:
  assumes "va_inv db" "payment_orders db' = payment_orders db @ (if ok then [o'] else [])"
    and "po_id o' \<notin> po_id ` set (payment_orders db)"
    and "ledger_entries db' = ledger_entries db @ new"
    and "\<And>i. i \<noteq> po_id o' \<Longrightarrow> entries_of i new = []"
    and "ok \<Longrightarrow> va_ok o' (ledger_entries db @ new)"
    and "list_all check_balance (balances db')"
  shows "va_inv db'"
proof -
  have "va_ok q (ledger_entries db @ new)" if "q \<in> set (payment_orders db)" for q
  proof -
    have "po_id q \<noteq> po_id o'" using that assms(3) by (metis imageI)
    then show ?thesis using that assms(1,5) by (simp add: va_inv_alt va_ok_entries)
  qed
  then show ?thesis using assms by (auto simp: va_inv_alt)
qed

section \<open>The handlers keep the invariant\<close>

text \<open>Amounts in payloads are not negative, fees of accounts are percentages, ids are new.\<close>

definition sane_payload :: "va_payload \<Rightarrow> bool" where
  "sane_payload p \<longleftrightarrow> 0 \<le> or_else (vp_amount p) 0 \<and> 0 \<le> or_else (vp_final_amount p) 0"

definition sane_accounts :: "orders_db \<Rightarrow> bool" where
  "sane_accounts db \<longleftrightarrow> (\<forall>a\<in>set (virtual_accounts db).
     0 \<le> or_else (va_developer_fee_percent a) 0 \<and> or_else (va_developer_fee_percent a) 0 < 100)"

definition new_order_id :: "string \<Rightarrow> orders_db \<Rightarrow> bool" where
  "new_order_id i db \<longleftrightarrow> i \<notin> po_id ` set (payment_orders db) \<and> entries_of i (ledger_entries db) = []"

lemma net_not_negative:
  fixes a p :: rat
  assumes "0 \<le> a" "0 \<le> p" "p < 100"
  shows "0 \<le> toFixed2 (a - toFixed2 (a * p / 100))"
proof -
  define f where "f = a * p / 100"
  have f: "0 \<le> f" using assms by (simp add: f_def)
  have le: "a = 0 \<and> f = 0 \<or> f < a"
  proof (cases "a = 0")
    case False
    then have "a * p < a * 100" using assms by (intro mult_strict_left_mono) simp_all
    then show ?thesis by (simp add: f_def)
  qed (simp add: f_def)
  have "toFixed2 f * 100 \<le> f * 100 + 1 / 2"
    unfolding toFixed2_def js_round_def using f by simp
  then have gt: "- (a - toFixed2 f) * 100 + 1 / 2 < 1" if "f < a" using that by simp
  show ?thesis
  proof (cases "a - toFixed2 f < 0")
    case True
    then have "f < a" using le by (auto simp: toFixed2_def js_round_def)
    from gt [OF this] True have "\<lfloor>- (a - toFixed2 f) * 100 + 1 / 2\<rfloor> = 0" by (simp add: floor_eq_iff)
    then have "js_round (- (a - toFixed2 f) * 100) = 0" by (simp add: js_round_def)
    with True show ?thesis by (simp add: f_def [symmetric] toFixed2_def [of "a - toFixed2 f"])
  next
    case False
    then have "0 \<le> \<lfloor>(a - toFixed2 f) * 100 + 1 / 2\<rfloor>" by simp
    then have "0 \<le> js_round ((a - toFixed2 f) * 100)" by (simp add: js_round_def)
    with False show ?thesis by (simp add: f_def [symmetric] toFixed2_def [of "a - toFixed2 f"])
  qed
qed
lemma va_inv_same:
  assumes "va_inv db" "payment_orders db' = payment_orders db" "ledger_entries db' = ledger_entries db"
    "balances db' = balances db"
  shows "va_inv db'"
  using assms by (simp add: va_inv_alt)

lemma va_key_trace [simp]: "va_key (traceCodesToPatch c q) = va_key q"
  by (simp add: va_key_def traceCodesToPatch_def)

lemma va_key_status [simp]: "va_key (q\<lparr>po_va_deposit_status := s\<rparr>) = va_key q"
  by (simp add: va_key_def)

lemma set_va_status_inv: "va_inv db \<Longrightarrow> va_inv (set_va_status d st db)"
  unfolding set_va_status_def
  by (auto intro: va_inv_touch [where f = "\<lambda>o'. o'\<lparr>po_va_deposit_status := Some st\<rparr>"])

lemma log_activity_inv [simp]: "va_inv (log_activity u a db) = va_inv db"
  by (rule va_inv_cong) simp_all

lemma record_event_inv [simp]: "va_inv (record_va_event t p db) = va_inv db"
  by (rule va_inv_cong) simp_all

lemma notify_inv [simp]: "va_inv (notify u t r i db) = va_inv db" "va_inv (notify_va_owner w t db) = va_inv db"
  by (rule va_inv_cong; simp)+

lemma internal_inv:
  assumes "va_inv db" "new_order_id (vn_order_id v) db" "0 \<le> net"
  shows "va_inv (snd (handleInternalDepositPending v va amount fee net cur p db))"
proof (cases "if truthy (va_destination_wallet_id va) then va_destination_wallet_id va
    else active_wallet (va_user_id va) db")
  case None
  then show ?thesis using assms(1) by (simp add: handleInternalDepositPending_def Let_def)
next
  case (Some w)
  let ?row = "(va_order (vn_order_id v) (va_user_id va) w amount fee net
      (to_upper (or_else (va_destination_currency va) ''USDC'')) ''pending'')
      \<lparr>po_source_currency := Some (to_upper (or_else (va_source_currency va) cur)),
       po_sender_name := Some (extractVaSenderName (vp_source p)),
       po_trace := extractVaTraceCodes (vp_source p), po_deposit_id := vp_deposit_id p,
       po_va_deposit_status := Some ''funds_received''\<rparr>"
  have "va_inv (snd (insert_order (vn_order_ok v) ?row db))"
  proof (rule va_inv_insert [where o' = ?row and new = "[]" and ok = "vn_order_ok v"])
    show "po_id ?row \<notin> po_id ` set (payment_orders db)"
      using assms(2) by (simp add: new_order_id_def va_order_def)
    show "va_ok ?row (ledger_entries db @ [])"
      using assms(2,3) by (simp add: va_ok_def va_order_def is_va_def deposit_booked_def new_order_id_def)
    show "list_all check_balance (balances (snd (insert_order (vn_order_ok v) ?row db)))"
      using assms(1) by (simp add: va_inv_alt)
  qed (use assms(1) in simp_all)
  with Some show ?thesis by (simp add: handleInternalDepositPending_def Let_def case_prod_beta)
qed

lemma sweep_inv:
  assumes "va_inv db" "new_order_id (vn_order_id v) db" "0 \<le> net"
  shows "va_inv (snd (handleExternalSweepDeposit v va amount fee net cur p db))"
proof (cases "active_wallet (va_user_id va) db")
  case None
  then show ?thesis using assms(1) by (simp add: handleExternalSweepDeposit_def Let_def)
next
  case (Some w)
  let ?cur = "or_else (va_source_currency va) cur"
  let ?row = "(va_order (vn_order_id v) (va_user_id va) w amount fee net (to_upper ?cur) ''swept_external'')
      \<lparr>po_sender_name := Some (extractVaSenderName (vp_source p)),
       po_trace := extractVaTraceCodes (vp_source p), po_deposit_id := vp_deposit_id p,
       po_va_deposit_status := Some ''payment_processed''\<rparr>"
  define d1 where "d1 = snd (insert_order (vn_order_ok v) ?row db)"
  define r where "r = fst (insert_order (vn_order_ok v) ?row db)"
  let ?c = "order_entry (vn_entry_id v) (vn_now v) w ''credit'' net ?cur r"
  let ?d = "order_entry (vn_entry_id2 v) (vn_now v) w ''debit'' net ?cur r"
  have chk: "list_all check_balance (balances d1)" using assms(1) by (simp add: d1_def va_inv_alt)
  have e: "ledger_entries (try_insert ?d (try_insert ?c d1)) = ledger_entries db @ [?c, ?d]"
    using credit_inserted [OF chk assms(3)] insert_debit_after_credit [OF chk assms(3)]
    by (simp add: try_insert_entries) (simp add: d1_def)
  have r: "r = (if vn_order_ok v then Some (vn_order_id v) else None)" by (simp add: r_def va_order_def)
  have two: "entries_of i [?c, ?d] = (if r = Some i then [(''credit'', net), (''debit'', net)] else [])" for i
    by (simp add: entries_of_def order_entry_def)
  have "va_inv (try_insert ?d (try_insert ?c d1))"
  proof (rule va_inv_insert [where o' = ?row and new = "[?c, ?d]" and ok = "vn_order_ok v"])
    show "payment_orders (try_insert ?d (try_insert ?c d1)) = payment_orders db @ (if vn_order_ok v then [?row] else [])"
      by (simp add: d1_def)
    show "list_all check_balance (balances (try_insert ?d (try_insert ?c d1)))"
      using chk by (intro try_insert_check)
    show "po_id ?row \<notin> po_id ` set (payment_orders db)"
      using assms(2) by (simp add: new_order_id_def va_order_def)
    show "entries_of i [?c, ?d] = []" if "i \<noteq> po_id ?row" for i
      unfolding two using that by (simp add: r va_order_def)
    show "va_ok ?row (ledger_entries db @ [?c, ?d])" if "vn_order_ok v"
      unfolding va_ok_def entries_of_append two
      using assms(2,3) that by (simp add: va_order_def is_va_def deposit_booked_def new_order_id_def r)
  qed (use assms(1) e in simp_all)
  with Some show ?thesis
    by (simp add: handleExternalSweepDeposit_def Let_def d1_def r_def case_prod_beta)
qed

lemma new_order_event [simp]: "new_order_id i (record_va_event t p db) = new_order_id i db"
  by (simp add: new_order_id_def)

lemma funds_received_inv:
  assumes "va_inv db" "new_order_id (vn_order_id v) db" "sane_payload p" "sane_accounts db"
  shows "va_inv (snd (handleVaFundsReceived v p db))"
proof (cases "vp_account_id p = None \<or> vp_amount p = None \<or> vp_account_id p = Some ''''
    \<or> maybe_single (filter (\<lambda>a. Some (va_bridge_id a) = vp_account_id p) (virtual_accounts db)) = None
    \<or> truthy (vp_deposit_id p) \<and> maybe_single (filter (\<lambda>o'. po_deposit_id o' = vp_deposit_id p) (payment_orders db)) \<noteq> None")
  case True
  then show ?thesis using assms(1)
    by (auto simp: handleVaFundsReceived_def split: option.splits)
next
  case False
  then obtain vaId amount va where c: "vp_account_id p = Some vaId" "vp_amount p = Some amount" "vaId \<noteq> ''''"
    "maybe_single (filter (\<lambda>a. va_bridge_id a = vaId) (virtual_accounts db)) = Some va" by auto
  let ?fee = "toFixed2 (amount * or_else (va_developer_fee_percent va) 0 / 100)"
  have "va \<in> set (virtual_accounts db)" using maybe_single_in [OF c(4)] by simp
  then have "0 \<le> toFixed2 (amount - ?fee)"
    using assms(3,4) c(2) by (intro net_not_negative) (auto simp: sane_payload_def sane_accounts_def)
  with False c assms(1,2) show ?thesis
    by (simp add: handleVaFundsReceived_def Let_def internal_inv sweep_inv)
qed

lemma credit_deposit_entries:
  assumes "list_all check_balance (balances db)" "po_wallet_id order = Some w" "po_currency order = Some c"
    and "0 \<le> a"
  shows "ledger_entries (credit_deposit v order (Some a) db)
      = ledger_entries db @ [order_entry (vn_entry_id v) (vn_now v) w ''credit'' a c (Some (po_id order))]"
    "list_all check_balance (balances (credit_deposit v order (Some a) db))"
    "payment_orders (credit_deposit v order (Some a) db) = payment_orders db"
  using assms credit_inserted [OF assms(1,4)] try_insert_check [OF assms(1)]
  by (simp_all add: credit_deposit_def try_insert_entries)

lemma confirm_inv:
  assumes "va_inv db" "order \<in> set (payment_orders db)" "is_va order" "po_status order = ''pending''"
    and "0 \<le> or_else (vp_final_amount p) 0"
  shows "va_inv (complete_deposit v p order (nullish (vp_final_amount p) (po_net_amount order))
    (credit_deposit v order (nullish (vp_final_amount p) (po_net_amount order)) db))"
proof -
  have ok: "va_ok order (ledger_entries db)" using assms(1,2) by (simp add: va_inv_alt)
  then obtain w c net where o: "po_wallet_id order = Some w" "po_currency order = Some c"
    "po_net_amount order = Some net" "0 \<le> net" "entries_of (po_id order) (ledger_entries db) = []"
    using assms(3,4) by (auto simp: va_ok_def deposit_booked_def)
  then obtain a where a: "nullish (vp_final_amount p) (po_net_amount order) = Some a" "0 \<le> a"
    using assms(5) by (cases "vp_final_amount p") (auto simp: nullish_def)
  have chk: "list_all check_balance (balances db)" using assms(1) by (simp add: va_inv_alt)
  note cd = credit_deposit_entries [OF chk o(1,2) a(2), of v]
  show ?thesis unfolding a(1)
  proof (rule va_inv_change [OF assms(1,2), where new = "[order_entry (vn_entry_id v) (vn_now v) w ''credit'' a c (Some (po_id order))]"])
    show "list_all check_balance (balances (complete_deposit v p order (Some a) (credit_deposit v order (Some a) db)))"
      using cd(2) by (simp add: complete_deposit_def)
    show "ledger_entries (complete_deposit v p order (Some a) (credit_deposit v order (Some a) db))
        = ledger_entries db @ [order_entry (vn_entry_id v) (vn_now v) w ''credit'' a c (Some (po_id order))]"
      using cd(1) by (simp add: complete_deposit_def)
    show "payment_orders (complete_deposit v p order (Some a) (credit_deposit v order (Some a) db))
        = update_where (\<lambda>o'. po_id o' = po_id order)
            (\<lambda>o'. traceCodesToPatch (extractVaTraceCodes (vp_source p))
              (o'\<lparr>po_status := ''completed'', po_va_deposit_status := Some ''payment_processed'',
                 po_completed_at := Some (vn_now v),
                 po_fee_amount := patch_opt (nullish (vp_developer_fee p) (vp_developer_fee_amount p)) (po_fee_amount o'),
                 po_net_amount := Some a, po_amount_destination := Some a,
                 po_exchange_rate := Some (or_else (vp_exchange_rate p) 1),
                 po_destination_currency := map_option to_upper (vp_currency p),
                 po_tx_hash := vp_tx_hash p, po_receipt_url := vp_receipt_url p\<rparr>)) (payment_orders db)"
      using cd(3) by (simp add: complete_deposit_def)
  qed (use o a assms(3) in \<open>simp_all add: traceCodesToPatch_def va_ok_def is_va_def deposit_booked_def entries_of_append\<close>)
qed

lemma deposit_order_va:
  assumes "va_inv db" "maybe_single (filter p (deposit_orders d db)) = Some order"
  shows "order \<in> set (payment_orders db)" "is_va order" "p order"
  using maybe_single_in [OF assms(2)] assms(1)
  by (auto simp: deposit_orders_def va_inv_def)

lemma processed_inv:
  assumes "va_inv db" "sane_payload p"
  shows "va_inv (snd (handleVaPaymentProcessed v p db))"
proof -
  define d1 where "d1 = record_va_event ''virtual_account.activity.payment_processed'' p db"
  have i1: "va_inv d1" using assms(1) by (simp add: d1_def)
  show ?thesis
  proof (cases "maybe_single (filter (\<lambda>o'. po_status o' = ''pending'') (deposit_orders (vp_deposit_id p) d1))")
    case None
    have "va_inv (update_orders (\<lambda>q. po_id q = i) (\<lambda>q. q\<lparr>po_va_deposit_status := s\<rparr>) d1)" for i s
      by (rule va_inv_touch [OF i1, where f = "\<lambda>q. q\<lparr>po_va_deposit_status := s\<rparr>"]) simp_all
    with None i1 show ?thesis
      by (simp add: handleVaPaymentProcessed_def Let_def d1_def [symmetric] split: option.split)
  next
    case (Some order)
    note o = deposit_order_va [OF i1 Some]
    have "va_inv (complete_deposit v p order (nullish (vp_final_amount p) (po_net_amount order))
        (credit_deposit v order (nullish (vp_final_amount p) (po_net_amount order)) d1))"
      using assms(2) by (intro confirm_inv [OF i1 o]) (simp add: sane_payload_def)
    with Some i1 show ?thesis
      by (simp add: handleVaPaymentProcessed_def Let_def d1_def [symmetric])
  qed
qed

lemma reverse_deposit_cases:
  obtains (refused) "reverse_deposit v order db = db"
  | (booked) w a c where "po_wallet_id order = Some w" "po_net_amount order = Some a"
      "po_status order = ''completed''"
      "ledger_entries (reverse_deposit v order db)
        = ledger_entries db @ [order_entry (vn_entry_id v) (vn_now v) w ''debit'' a c (Some (po_id order))]"
proof (cases "reverse_deposit v order db = db")
  case False
  then obtain w a c where o: "po_wallet_id order = Some w" "po_net_amount order = Some a"
      "po_currency order = Some c" "po_status order = ''completed''"
    and t: "reverse_deposit v order db
      = try_insert (order_entry (vn_entry_id v) (vn_now v) w ''debit'' a c (Some (po_id order))) db"
    by (auto simp: reverse_deposit_def split: option.splits if_splits)
  with False have "insert_entry (order_entry (vn_entry_id v) (vn_now v) w ''debit'' a c (Some (po_id order))) db \<noteq> None"
    by (auto simp: try_insert_def split: option.splits)
  then show ?thesis using booked [of w a c] o t by (simp add: try_insert_entries)
qed (rule refused)

lemma reverse_deposit_frames [simp]:
  "payment_orders (reverse_deposit v order db) = payment_orders db"
  by (simp add: reverse_deposit_def split: option.split)

lemma reverse_deposit_check:
  "list_all check_balance (balances db) \<Longrightarrow> list_all check_balance (balances (reverse_deposit v order db))"
  by (simp add: reverse_deposit_def try_insert_check split: option.split)

lemma refunded_inv:
  assumes "va_inv db"
  shows "va_inv (snd (handleVaRefunded v p db))"
proof -
  define d1 where "d1 = record_va_event ''virtual_account.activity.refunded'' p db"
  have i1: "va_inv d1" using assms(1) by (simp add: d1_def)
  show ?thesis
  proof (cases "maybe_single (deposit_orders (vp_deposit_id p) d1)")
    case None
    with i1 show ?thesis by (simp add: handleVaRefunded_def Let_def d1_def [symmetric])
  next
    case (Some order)
    then have m: "maybe_single (filter (\<lambda>_. True) (deposit_orders (vp_deposit_id p) d1)) = Some order" by simp
    note o = deposit_order_va [OF i1 m]
    let ?f = "\<lambda>o'. o'\<lparr>po_status := ''refunded'', po_va_deposit_status := Some ''refunded''\<rparr>"
    let ?d2 = "reverse_deposit v order d1"
    have ok: "va_ok order (ledger_entries d1)" using i1 o(1) by (simp add: va_inv_alt)
    have chk: "list_all check_balance (balances ?d2)"
      using i1 by (intro reverse_deposit_check) (simp add: va_inv_alt)
    have id: "po_id (?f r) = po_id r" for r by simp
    have "va_inv (update_orders (\<lambda>o'. po_id o' = po_id order) ?f ?d2)"
    proof (cases rule: reverse_deposit_cases [of v order d1])
      case refused
      have "va_ok (?f order) (ledger_entries d1 @ [])"
        using ok o(2) unfolding va_ok_def deposit_booked_def is_va_def
        by (simp add: Let_def split: if_splits)
      then show ?thesis
        by (intro va_inv_change [OF i1 o(1), where f = ?f and new = "[]"]) (use refused chk in simp_all)
    next
      case (booked w a c)
      let ?n = "[order_entry (vn_entry_id v) (vn_now v) w ''debit'' a c (Some (po_id order))]"
      have "entries_of (po_id order) (ledger_entries d1) = [(''credit'', a)]"
        using ok o(2) booked by (simp add: va_ok_def deposit_booked_def)
      then have "va_ok (?f order) (ledger_entries d1 @ ?n)"
        using ok o(2) booked(2) by (simp add: va_ok_def deposit_booked_def is_va_def entries_of_append)
      then show ?thesis
        by (intro va_inv_change [OF i1 o(1), where f = ?f and new = ?n]) (use booked chk in simp_all)
    qed
    with Some show ?thesis by (simp add: handleVaRefunded_def Let_def d1_def [symmetric])
  qed
qed

lemma submitted_inv:
  assumes "va_inv db"
  shows "va_inv (snd (handleVaPaymentSubmitted p db))"
proof -
  let ?d = "record_va_event ''virtual_account.activity.payment_submitted'' p db"
  let ?f = "\<lambda>o'. traceCodesToPatch (extractVaTraceCodes (vp_source p))
    (o'\<lparr>po_va_deposit_status := Some ''payment_submitted''\<rparr>)"
  have i: "va_inv ?d" using assms by simp
  have "va_inv (update_orders P ?f ?d)" for P
    by (rule va_inv_touch [OF i, where f = ?f and p = P]) simp_all
  with i show ?thesis by (simp add: handleVaPaymentSubmitted_def Let_def)
qed

lemma quiet_inv:
  assumes "va_inv db"
  shows "va_inv (snd (handleVaFundsScheduled p db))" "va_inv (snd (handleVaInReview p db))"
    "va_inv (snd (handleVaRefundInFlight p db))" "va_inv (snd (handleVaRefundFailed p db))"
    "va_inv (snd (handleVaMicrodeposit p db))" "va_inv (snd (handleVaAccountUpdate p db))"
proof -
  have audit: "va_inv (d\<lparr>audit_logs := l\<rparr>) = va_inv d" for d l by (rule va_inv_cong) simp_all
  have accounts: "va_inv (d\<lparr>virtual_accounts := l\<rparr>) = va_inv d" for d l by (rule va_inv_cong) simp_all
  show "va_inv (snd (handleVaFundsScheduled p db))" "va_inv (snd (handleVaInReview p db))"
    "va_inv (snd (handleVaRefundInFlight p db))" "va_inv (snd (handleVaRefundFailed p db))"
    "va_inv (snd (handleVaMicrodeposit p db))" "va_inv (snd (handleVaAccountUpdate p db))"
    using assms by (simp_all add: handleVaFundsScheduled_def handleVaInReview_def handleVaRefundInFlight_def
        handleVaRefundFailed_def handleVaMicrodeposit_def handleVaAccountUpdate_def Let_def audit accounts
        set_va_status_inv)
qed

section \<open>Runs\<close>

text \<open>A step is an event of the provider, of any kind and content, or anything the rest of the
  program does that leaves the deposit orders and their entries alone.\<close>

definition leaves_deposits :: "orders_db \<Rightarrow> orders_db \<Rightarrow> bool" where
  "leaves_deposits db db' \<longleftrightarrow>
     filter is_va (payment_orders db') = filter is_va (payment_orders db)
     \<and> distinct (map po_id (payment_orders db'))
     \<and> (\<forall>o'\<in>set (payment_orders db'). po_deposit_id o' \<noteq> None \<longrightarrow> is_va o')
     \<and> (\<forall>o'\<in>set (payment_orders db). is_va o' \<longrightarrow>
          entries_of (po_id o') (ledger_entries db') = entries_of (po_id o') (ledger_entries db))
     \<and> list_all check_balance (balances db')"

inductive va_step :: "orders_db \<Rightarrow> orders_db \<Rightarrow> bool" where
  vs_event: "new_order_id (vn_order_id v) db \<Longrightarrow> sane_payload p \<Longrightarrow> sane_accounts db \<Longrightarrow>
    va_step db (snd (va_activity v kind p db))"
| vs_other: "leaves_deposits db db' \<Longrightarrow> va_step db db'"

lemma leaves_deposits_inv:
  assumes "leaves_deposits db db'" "va_inv db"
  shows "va_inv db'"
proof -
  have "va_ok q (ledger_entries db')" if "q \<in> set (payment_orders db')" for q
  proof (cases "is_va q")
    case True
    with that have "q \<in> set (filter is_va (payment_orders db'))" by simp
    moreover have "filter is_va (payment_orders db') = filter is_va (payment_orders db)"
      using assms(1) by (simp add: leaves_deposits_def)
    ultimately have "q \<in> set (payment_orders db)" by simp
    then show ?thesis using assms True by (simp add: va_inv_alt va_ok_def leaves_deposits_def)
  next
    case False
    have "\<forall>o'\<in>set (payment_orders db'). po_deposit_id o' \<noteq> None \<longrightarrow> is_va o'"
      using assms(1) unfolding leaves_deposits_def by blast
    with False that show ?thesis by (auto simp: va_ok_def)
  qed
  then show ?thesis using assms(1) by (simp add: va_inv_alt leaves_deposits_def)
qed

lemma activity_inv:
  assumes "va_inv db" "new_order_id (vn_order_id v) db" "sane_payload p" "sane_accounts db"
  shows "va_inv (snd (va_activity v kind p db))"
  unfolding va_activity_def
  using funds_received_inv [OF assms] processed_inv [OF assms(1,3)] refunded_inv [OF assms(1)]
    submitted_inv [OF assms(1)] quiet_inv [OF assms(1)] assms(1)
  by simp

lemma va_steps_inv: "va_step\<^sup>*\<^sup>* db0 db \<Longrightarrow> va_inv db0 \<Longrightarrow> va_inv db"
proof (induction rule: rtranclp_induct)
  case (step db db')
  from step.hyps(2) step.IH [OF step.prems] show ?case
    by cases (simp_all add: activity_inv leaves_deposits_inv)
qed simp

section \<open>Properties\<close>


definition va_sample :: orders_db where
  "va_sample = no_rows\<lparr>wallets := [\<lparr>wa_id = ''w1'', wa_user_id = ''u1'', wa_provider_wallet_id = None, wa_network = None, wa_is_active = True\<rparr>],
     virtual_accounts := [\<lparr>va_bridge_id = ''va1'', va_id = ''v1'', va_user_id = ''u1'',
       va_destination_wallet_id = None, va_source_currency = Some ''usd'',
       va_destination_currency = Some ''usdc'', va_developer_fee_percent = Some 1,
       va_is_external_sweep = False, va_status = ''activated''\<rparr>]\<rparr>"

definition va_sample_env :: va_env where
  "va_sample_env = \<lparr>vn_order_id = ''o1'', vn_entry_id = ''e1'', vn_entry_id2 = ''e2'', vn_now = 0,
     vn_order_ok = True\<rparr>"

definition va_sample_event :: va_payload where
  "va_sample_event = \<lparr>vp_id = Some ''ev1'', vp_account_id = Some ''va1'', vp_deposit_id = Some ''d1'',
     vp_amount = Some 100, vp_currency = Some ''usd'', vp_source = None, vp_final_amount = Some 99,
     vp_developer_fee = None, vp_developer_fee_amount = None, vp_exchange_rate = None, vp_tx_hash = None, vp_receipt_url = None,
     vp_status = None\<rparr>"

definition va_received :: orders_db where
  "va_received = snd (va_activity va_sample_env ''funds_received'' va_sample_event va_sample)"

definition va_confirmed :: orders_db where
  "va_confirmed = snd (va_activity (va_sample_env\<lparr>vn_order_id := ''o2''\<rparr>) ''payment_processed''
     va_sample_event va_received)"

lemma va_received_rows:
  "map (\<lambda>o'. (po_id o', po_status o', po_net_amount o', po_deposit_id o', po_flow_type o', po_va_deposit_status o'))
     (payment_orders va_received)
   = [(''o1'', ''pending'', Some 99, Some ''d1'', Some ''va_deposit'', Some ''funds_received'')]"
  "ledger_entries va_received = []" "virtual_accounts va_received = virtual_accounts va_sample"
  using js_round_of_int [of 100] js_round_of_int [of 9900]
  by (simp_all add: va_received_def va_activity_def handleVaFundsReceived_def va_sample_def
    va_sample_event_def no_rows_def va_sample_env_def handleInternalDepositPending_def active_wallet_def
    insert_order_def va_order_def toFixed2_def Let_def notify_def log_activity_def record_va_event_def)

lemma va_confirmed_rows:
  "map (\<lambda>o'. (po_id o', po_status o', po_net_amount o', po_flow_type o')) (payment_orders va_confirmed)
     = [(''o1'', ''completed'', Some 99, Some ''va_deposit'')]"
proof -
  obtain o1 where o1: "payment_orders va_received = [o1]" "po_id o1 = ''o1''" "po_status o1 = ''pending''"
    "po_net_amount o1 = Some 99" "po_deposit_id o1 = Some ''d1''" "po_flow_type o1 = Some ''va_deposit''"
    "po_va_deposit_status o1 = Some ''funds_received''"
    using va_received_rows(1) by (auto simp: map_eq_Cons_conv)
  have d: "deposit_orders (Some ''d1'') va_received = [o1]" by (simp add: deposit_orders_def o1)
  have "payment_orders (credit_deposit v o1 a db) = payment_orders db" for v a db
    by (simp add: credit_deposit_def split: option.split)
  then show ?thesis unfolding va_confirmed_def va_activity_def
    by (simp add: handleVaPaymentProcessed_def va_sample_event_def deposit_orders_cong [of _ va_received] d o1
        complete_deposit_def traceCodesToPatch_def nullish_def Let_def)
qed


text \<open>A refund that the client's balance does not cover is lost. The insert of the reversal fails
  on the check of the balance, nobody looks at the error, and the order is marked refunded while
  the client keeps the credit.\<close>

theorem uncovered_refund_keeps_credit:
  assumes "maybe_single (deposit_orders (vp_deposit_id p) db) = Some o1" "po_status o1 = ''completed''"
    and "po_wallet_id o1 = Some w" "po_currency o1 = Some c" "po_net_amount o1 = Some a" "0 < a"
    and "wallet_owner (wallets db) w = Some u" "b \<in> set (balances db)" "has_key u c b"
    and "ba_available b + ba_reserved b < a" "0 \<le> ba_available b"
  shows "let db' = snd (handleVaRefunded v p db) in
     balances db' = balances db \<and> ledger_entries db' = ledger_entries db
     \<and> (\<forall>q\<in>set (payment_orders db'). po_id q = po_id o1 \<longrightarrow> po_status q = ''refunded'')"
proof -
  define d1 where "d1 = record_va_event ''virtual_account.activity.refunded'' p db"
  let ?e = "order_entry (vn_entry_id v) (vn_now v) w ''debit'' a c (Some (po_id o1))"
  have m: "maybe_single (deposit_orders (vp_deposit_id p) d1) = Some o1"
    using assms(1) by (simp add: deposit_orders_def d1_def)
  have "\<not> check_balance (move_balance (- a) b)"
    using assms(6,10,11) by (auto simp: check_balance_def move_balance_def)
  then have "upsert_balance u c (- a) (balances db) = None"
    using assms(8,9) by (auto simp: upsert_balance_def)
  then have "insert_entry ?e d1 = None"
    using assms(6,7) by (simp add: insert_entry_def update_balance_on_ledger_entry_def Let_def
        trigger_diff_def signed_amount_def order_entry_def d1_def)
  then have r: "reverse_deposit v o1 d1 = d1"
    by (simp add: reverse_deposit_def assms(2-5) try_insert_def)
  let ?d3 = "update_orders (\<lambda>o'. po_id o' = po_id o1)
    (\<lambda>o'. o'\<lparr>po_status := ''refunded'', po_va_deposit_status := Some ''refunded''\<rparr>) d1"
  have "snd (handleVaRefunded v p db) = log_activity (po_user_id o1) ''VA_DEPOSIT_REFUNDED''
      (notify (po_user_id o1) ''financial'' (Some ''payment_order'') (Some (po_id o1)) ?d3)"
    using m r by (simp add: handleVaRefunded_def d1_def [symmetric] Let_def)
  moreover have "\<forall>q\<in>set (payment_orders ?d3). po_id q = po_id o1 \<longrightarrow> po_status q = ''refunded''"
    by (auto elim!: update_whereE)
  ultimately show ?thesis by (simp add: Let_def d1_def)
qed

definition spent_deposit :: orders_db where
  "spent_deposit = va_sample
     \<lparr>payment_orders := [(va_order ''o1'' ''u1'' ''w1'' 100 1 99 ''USDC'' ''completed'')\<lparr>po_deposit_id := Some ''d1''\<rparr>],
      balances := [\<lparr>ba_user_id = ''u1'', ba_currency = ''USDC'', ba_amount = 9, ba_available = 9, ba_reserved = 0\<rparr>]\<rparr>"

theorem uncovered_refund_keeps_credit_witness:
  "map ba_available (balances (snd (handleVaRefunded va_sample_env va_sample_event spent_deposit))) = [9]"
proof -
  let ?o = "(va_order ''o1'' ''u1'' ''w1'' 100 1 99 ''USDC'' ''completed'')\<lparr>po_deposit_id := Some ''d1''\<rparr>"
  have "maybe_single (deposit_orders (vp_deposit_id va_sample_event) spent_deposit) = Some ?o"
    by (simp add: deposit_orders_def spent_deposit_def va_sample_event_def)
  from uncovered_refund_keeps_credit [OF this, of "''w1''" "''USDC''" 99 "''u1''"
      "\<lparr>ba_user_id = ''u1'', ba_currency = ''USDC'', ba_amount = 9, ba_available = 9, ba_reserved = 0\<rparr>" va_sample_env]
  show ?thesis by (simp add: va_order_def spent_deposit_def va_sample_def no_rows_def wallet_owner_def has_key_def Let_def)
qed

text \<open>Sweeping a deposit to an external wallet frees reserves. The credit and the debit cancel
  in the balance, but the credit goes to the available part and the debit is taken from the
  reserve first, so up to the swept amount the funds reserved for other orders of the client in
  that currency become available again.\<close>

theorem sweep_frees_reserve:
  assumes "active_wallet (va_user_id va) db = Some w" "wallet_owner (wallets db) w = Some u"
    and "list_all check_balance (balances db)" "0 < net"
    and "\<exists>b\<in>set (balances db). has_key u (or_else (va_source_currency va) cur) b"
  shows "balances (snd (handleExternalSweepDeposit v va amount fee net cur p db))
    = update_where (has_key u (or_else (va_source_currency va) cur))
        (\<lambda>b. b\<lparr>ba_available := ba_available b + min net (ba_reserved b),
                ba_reserved := ba_reserved b - min net (ba_reserved b)\<rparr>) (balances db)"
proof -
  let ?c = "or_else (va_source_currency va) cur"
  let ?k = "has_key u ?c"
  let ?bs = "balances db"
  let ?b1 = "update_where ?k (move_balance net) ?bs"
  let ?b2 = "update_where ?k (move_balance (- net)) ?b1"
  have ok1: "\<forall>b\<in>set ?bs. check_balance (move_balance net b)"
    using assms(3,4) by (auto simp: list_all_iff check_balance_def move_balance_def)
  have up1: "upsert_balance u ?c net ?bs = Some ?b1" using ok1 assms(5) by (auto simp: upsert_balance_def)
  have up2: "upsert_balance u ?c (- net) ?b1 = Some ?b2"
    using debit_after_credit [OF up1 assms(3,4)] assms(5)
    by (auto simp: upsert_balance_def set_update_where split: if_splits)
  have e1: "balances (try_insert (order_entry i n w ''credit'' net ?c r) d) = ?b1"
    if "balances d = ?bs" "wallets d = wallets db" for i n r d
    using that up1 assms(2,4) by (simp add: try_insert_def insert_entry_def update_balance_on_ledger_entry_def
        Let_def trigger_diff_def signed_amount_def order_entry_def)
  have e2: "balances (try_insert (order_entry i n w ''debit'' net ?c r) d) = ?b2"
    if "balances d = ?b1" "wallets d = wallets db" for i n r d
    using that up2 assms(2,4) by (simp add: try_insert_def insert_entry_def update_balance_on_ledger_entry_def
        Let_def trigger_diff_def signed_amount_def order_entry_def)
  have "?b2 = update_where ?k (\<lambda>b. b\<lparr>ba_available := ba_available b + min net (ba_reserved b),
                ba_reserved := ba_reserved b - min net (ba_reserved b)\<rparr>) ?bs"
    using assms(3,4) unfolding update_where_def
    by (auto simp: move_balance_def list_all_iff check_balance_def has_key_def min_def max_def)
  moreover have "wallets (snd (insert_order ok o' db)) = wallets db" for ok o'
    by (simp add: insert_order_def)
  ultimately show ?thesis
    by (simp add: handleExternalSweepDeposit_def Let_def assms(1) case_prod_beta e1 e2)
qed

theorem sweep_frees_reserve_witness:
  "map ba_reserved (balances (snd (handleExternalSweepDeposit va_sample_env (hd (virtual_accounts va_sample))
      100 1 60 ''USD'' va_sample_event (va_sample\<lparr>balances := [\<lparr>ba_user_id = ''u1'', ba_currency = ''usd'',
        ba_amount = 80, ba_available = 30, ba_reserved = 50\<rparr>]\<rparr>)))) = [0]"
proof -
  let ?db = "va_sample\<lparr>balances := [\<lparr>ba_user_id = ''u1'', ba_currency = ''usd'',
        ba_amount = 80, ba_available = 30, ba_reserved = 50\<rparr>]\<rparr>"
  let ?va = "hd (virtual_accounts va_sample)"
  have va: "va_user_id ?va = ''u1''" "va_source_currency ?va = Some ''usd''"
    by (simp_all add: va_sample_def)
  have w: "active_wallet (va_user_id ?va) ?db = Some ''w1''" by (simp add: va active_wallet_def va_sample_def)
  have o': "wallet_owner (wallets ?db) ''w1'' = Some ''u1''" by (simp add: wallet_owner_def va_sample_def)
  show ?thesis
    using sweep_frees_reserve [OF w o', of 60 "''USD''"]
    by (simp add: va has_key_def check_balance_def)
qed

end
