(* ===== verification/TransferEvents.thy ===== *)
theory TransferEvents imports VaDeposits OrderLifecycle begin

text \<open>
  The events of a transfer at the provider, from the handlers \<open>transfer.*\<close> of
  \<open>src/application/webhooks/webhooks.service.ts\<close>: completion, failure, refund and the states
  in between. A transfer belongs to at most one order; the rows of \<open>bridge_transfers\<close> and
  \<open>payment_orders\<close> are found by the provider's id. Emails, web-socket events, the receipt as a
  document and columns that are only displayed are left out.
\<close>

section \<open>Payload and environment\<close>

record transfer_event =
  te_id :: ostring
  te_state :: ostring
  te_initial_amount :: "rat option"
  te_final_amount :: "rat option"
  te_receipt_fee :: "rat option"
  te_exchange_rate :: "rat option"
  te_tx_hash :: ostring
  te_imad :: ostring
  te_trace_number :: ostring
  te_destination_currency :: ostring
  te_return_reason :: ostring
  te_add_funding :: "deposit_instructions option \<Rightarrow> deposit_instructions option"

text \<open>\<open>te_add_funding\<close> merges the funding the provider asks for into the deposit instructions of an
  order, an object no handler reads. In the environment: the maximum of \<open>getPaymentLimits\<close> for \<open>wallet_to_world\<close> (\<open>None\<close>: the call throws), the
  release of reserves, new ids, the time, and the id of the event.\<close>

record transfer_env =
  tv_max_usd :: "string \<Rightarrow> jsnum option"
  tv_release :: release_fn
  tv_entry_id :: string
  tv_now :: int
  tv_event_id :: ostring

definition and_then ::
  "unit result \<times> orders_db \<Rightarrow> (orders_db \<Rightarrow> unit result \<times> orders_db) \<Rightarrow> unit result \<times> orders_db" where
  "and_then r k = (case r of (Inl e, db) \<Rightarrow> (Inl e, db) | (Inr _, db) \<Rightarrow> k db)"

text \<open>An \<open>UPDATE\<close> of ledger entries: the trigger fires for each row, and fails the whole.\<close>

fun fire_rows ::
  "wallet list \<Rightarrow> (ledger_entry \<Rightarrow> ledger_entry) \<Rightarrow> ledger_entry list \<Rightarrow> balance list \<Rightarrow> balance list option" where
  "fire_rows ws f [] bs = Some bs"
| "fire_rows ws f (e # es) bs =
     Option.bind (update_balance_on_ledger_entry ws (Some e) (f e) bs) (fire_rows ws f es)"

definition update_entries ::
  "(ledger_entry \<Rightarrow> bool) \<Rightarrow> (ledger_entry \<Rightarrow> ledger_entry) \<Rightarrow> orders_db \<Rightarrow> orders_db option" where
  "update_entries p f db =
     map_option (\<lambda>bs. db\<lparr>balances := bs, ledger_entries := update_where p f (ledger_entries db)\<rparr>)
       (fire_rows (wallets db) f (filter p (ledger_entries db)) (balances db))"

lemma update_entries_status: "update_entries p (\<lambda>e. e\<lparr>le_status := st\<rparr>) db = set_status p st db"
proof -
  have "fire_rows ws (\<lambda>e. e\<lparr>le_status := st\<rparr>) es bs = fire_updates ws st es bs" for ws es bs
    by (induction es arbitrary: bs) (simp_all cong: Option.bind_cong)
  then show ?thesis by (simp add: update_entries_def set_status_def)
qed

definition or_throw :: "string \<Rightarrow> orders_db option \<Rightarrow> orders_db \<Rightarrow> unit result \<times> orders_db" where
  "or_throw msg r db = (case r of None \<Rightarrow> (Inl (ErrorException msg), db) | Some d \<Rightarrow> (Inr (), d))"

definition transfer_rows :: "string \<Rightarrow> orders_db \<Rightarrow> bridge_transfer list" where
  "transfer_rows tid db = filter (\<lambda>t. bt_bridge_transfer_id t = Some tid) (bridge_transfers db)"

definition set_transfer :: "string \<Rightarrow> (bridge_transfer \<Rightarrow> bridge_transfer) \<Rightarrow> orders_db \<Rightarrow> orders_db" where
  "set_transfer tid f db = db\<lparr>bridge_transfers :=
     update_where (\<lambda>t. bt_bridge_transfer_id t = Some tid) f (bridge_transfers db)\<rparr>"

definition transfer_orders :: "string \<Rightarrow> string list \<Rightarrow> orders_db \<Rightarrow> payment_order list" where
  "transfer_orders tid sts db =
     filter (\<lambda>o'. po_bridge_transfer_id o' = Some tid \<and> po_status o' \<in> set sts) (payment_orders db)"

definition STAFF_ROLES :: "string list" where
  "STAFF_ROLES = [''staff'', ''admin'', ''super_admin'']"

definition notifyAdminStaff :: "string \<Rightarrow> string \<Rightarrow> orders_db \<Rightarrow> orders_db" where
  "notifyAdminStaff ty ref db = notify_all (admins_of STAFF_ROLES db) ty ''payment_order'' ref db"

definition transferTraceCodesToPatch :: "transfer_event \<Rightarrow> payment_order \<Rightarrow> payment_order" where
  "transferTraceCodesToPatch ev = traceCodesToPatch
     \<lparr>tr_imad = te_imad ev, tr_achTraceNumber = te_trace_number ev, tr_paymentConcept = None,
      tr_senderBankRoutingNumber = None\<rparr>"

section \<open>Intermediate states\<close>

definition markOrderDepositReceived :: "string \<Rightarrow> string \<Rightarrow> orders_db \<Rightarrow> orders_db" where
  "markOrderDepositReceived tid bridgeState db =
     (if bridgeState \<notin> set [''funds_received'', ''payment_submitted'', ''in_review''] then db
      else update_orders
        (\<lambda>o'. po_bridge_transfer_id o' = Some tid \<and> po_status o' = ''waiting_deposit''
           \<and> (\<exists>f\<in>set CRYPTO_IN_FLOWS. po_flow_type o' = Some f))
        (\<lambda>o'. o'\<lparr>po_status := ''deposit_received''\<rparr>) db)"

definition handleTransferRefundInFlight :: "transfer_event \<Rightarrow> orders_db \<Rightarrow> unit result \<times> orders_db" where
  "handleTransferRefundInFlight ev db =
     (if \<not> truthy (te_id ev) then (Inl (ErrorException ''sin transfer ID''), db)
      else
        let tid = the (te_id ev);
            db1 = set_transfer tid (\<lambda>t. t\<lparr>bt_bridge_state := ''refund_in_flight''\<rparr>) db
        in (Inr (),
            case maybe_single (filter (\<lambda>o'. po_bridge_transfer_id o' = Some tid) (payment_orders db1)) of
              None \<Rightarrow> db1
            | Some o' \<Rightarrow> notify (po_user_id o') ''financial'' (Some ''payment_order'') (Some (po_id o')) db1))"

definition handleTransferUnderfunded :: "transfer_event \<Rightarrow> orders_db \<Rightarrow> unit result \<times> orders_db" where
  "handleTransferUnderfunded ev db =
     (if \<not> truthy (te_id ev) then (Inr (), db)
      else
        let tid = the (te_id ev);
            db1 = set_transfer tid (\<lambda>t. t\<lparr>bt_bridge_state := ''underfunded''\<rparr>) db
        in (Inr (),
            case maybe_single (filter (\<lambda>o'. po_bridge_transfer_id o' = Some tid) (payment_orders db1)) of
              None \<Rightarrow> db1
            | Some o' \<Rightarrow> notifyAdminStaff ''alert'' (po_id o')
                (update_orders (\<lambda>q. po_id q = po_id o')
                  (\<lambda>q. q\<lparr>po_bridge_instructions := te_add_funding ev (po_bridge_instructions o')\<rparr>) db1)))"

section \<open>Completion\<close>

definition flagCompletedTransferOnCancelledOrder :: "string \<Rightarrow> orders_db \<Rightarrow> orders_db" where
  "flagCompletedTransferOnCancelledOrder tid db =
     (case maybe_single (transfer_orders tid [''cancelled'', ''failed''] db) of
        None \<Rightarrow> db
      | Some o' \<Rightarrow> notifyAdminStaff ''alert'' (po_id o')
          (log_audit None ''RECONCILIATION_REQUIRED'' (po_id o') db))"

definition auditWalletToWorldLimitBreach ::
  "transfer_env \<Rightarrow> payment_order \<Rightarrow> rat option \<Rightarrow> orders_db \<Rightarrow> orders_db" where
  "auditWalletToWorldLimitBreach v order deposited db =
     (case deposited of
        None \<Rightarrow> db
      | Some a \<Rightarrow>
          if a \<le> 0 then db
          else case tv_max_usd v (po_user_id order) of
            None \<Rightarrow> db
          | Some m \<Rightarrow>
              if m = Fin 0 \<or> m = NaN \<or> js_leq (Fin a) m then db
              else notifyAdminStaff ''system'' (po_id order)
                     (log_audit (Some (po_user_id order)) ''WALLET_TO_WORLD_LIMIT_EXCEEDED'' (po_id order) db))"

definition LIVE_FOR_COMPLETION :: "string list" where
  "LIVE_FOR_COMPLETION = [''pending'', ''pending_review'', ''waiting_deposit'', ''processing'', ''deposit_received'']"

definition isDualLegFlow :: "payment_order \<Rightarrow> bool" where
  "isDualLegFlow o' \<longleftrightarrow> po_flow_type o' = Some ''bridge_wallet_to_fiat_bo''
     \<or> po_destination_type o' = Some ''manual_pe_bank''"

text \<open>First leg of two: the money has reached the intermediary, the order stays open.\<close>

definition complete_first_leg :: "payment_order \<Rightarrow> orders_db \<Rightarrow> unit result \<times> orders_db" where
  "complete_first_leg order db =
     and_then (or_throw ''settle_and_release_reserved failed'' (settle_and_release_reserved (po_id order) db) db)
       (\<lambda>d. (Inr (), notify (po_user_id order) ''financial'' (Some ''payment_order'') (Some (po_id order))
                (notifyAdminStaff ''system'' (po_id order) d)))"

definition completed_order :: "transfer_env \<Rightarrow> transfer_event \<Rightarrow> payment_order \<Rightarrow> payment_order \<Rightarrow> payment_order" where
  "completed_order v ev order o' =
     (let fixed = (po_fx_mode order = Some ''fixed_output'');
          flexible = (po_amount order = 0)
      in transferTraceCodesToPatch ev
        (o'\<lparr>po_status := ''completed'', po_completed_at := Some (tv_now v), po_tx_hash := te_tx_hash ev,

           po_provider_reference := nullish (te_trace_number ev) (nullish (te_tx_hash ev) (tv_event_id v)),
           po_amount_destination := patch_opt (te_final_amount ev) (po_amount_destination o'),
           po_exchange_rate := (if \<not> fixed \<and> po_flow_type order \<in> {Some ''bridge_wallet_to_fiat_us'', Some ''wallet_to_world''}
               \<and> to_upper (or_else (po_destination_currency order) '''') \<noteq> ''USD''
             then patch_opt (te_exchange_rate ev) (po_exchange_rate o') else po_exchange_rate o'),
           po_amount := (if flexible then or_else (te_initial_amount ev) (po_amount o') else po_amount o'),
           po_fee_amount := (if flexible then patch_opt (te_receipt_fee ev) (po_fee_amount o') else po_fee_amount o'),
           po_net_amount := (if flexible then patch_opt (te_final_amount ev) (po_net_amount o') else po_net_amount o')\<rparr>))"

definition pending_of :: "string \<Rightarrow> string \<Rightarrow> ledger_entry \<Rightarrow> bool" where
  "pending_of orderId ty e \<longleftrightarrow> le_reference_type e = Some ''payment_order''
     \<and> le_reference_id e = Some orderId \<and> le_status e = ''pending'' \<and> le_type e = ty"

definition settle_credits :: "string \<Rightarrow> rat option \<Rightarrow> orders_db \<Rightarrow> orders_db option" where
  "settle_credits orderId final db = update_entries (pending_of orderId ''credit'')
     (\<lambda>e. e\<lparr>le_status := ''settled'', le_amount := or_else final (le_amount e)\<rparr>) db"

definition settle_debits :: "string \<Rightarrow> orders_db \<Rightarrow> orders_db option" where
  "settle_debits orderId db = set_status (pending_of orderId ''debit'') ''settled'' db"

text \<open>The safety net: an on-ramp without a pending entry gets a settled credit, once.\<close>

definition safety_net ::
  "transfer_env \<Rightarrow> transfer_event \<Rightarrow> payment_order \<Rightarrow> nat \<Rightarrow> orders_db \<Rightarrow> unit result \<times> orders_db" where
  "safety_net v ev order settledCount db =
     (if settledCount = 0 \<and> truthy (po_wallet_id order)
         \<and> po_flow_type order \<in> {Some ''crypto_to_bridge_wallet'', Some ''fiat_bo_to_bridge_wallet''}
         \<and> filter (\<lambda>e. entry_of_order (po_id order) ''settled'' e \<and> le_type e = ''credit'') (ledger_entries db) = []
      then
        let fallback = (if po_flow_type order = Some ''fiat_bo_to_bridge_wallet''
              then or_else (po_amount_destination order) 0
              else po_amount order - or_else (po_fee_amount order) 0)
        in case nullish (po_destination_currency order) (po_currency order) of
             None \<Rightarrow> (Inl (ErrorException ''TypeError''), db)
           | Some c \<Rightarrow> (Inr (), try_insert (order_entry (tv_entry_id v) (tv_now v) (the (po_wallet_id order))
                ''credit'' (or_else (te_final_amount ev) fallback) (to_upper c) (Some (po_id order))) db)
      else (Inr (), db))"
definition mark_completed :: "transfer_env \<Rightarrow> transfer_event \<Rightarrow> payment_order \<Rightarrow> orders_db \<Rightarrow> orders_db" where
  "mark_completed v ev order db =
     (let mismatch = (po_fx_mode order = Some ''fixed_output'' \<and> te_final_amount ev \<noteq> None
            \<and> \<bar>the (te_final_amount ev) - or_else (po_amount_destination order) 0\<bar> > 1 / 100);
          db1 = (if mismatch then notifyAdminStaff ''alert'' (po_id order) db else db);
          db2 = update_orders (\<lambda>o'. po_id o' = po_id order) (completed_order v ev order) db1
      in if po_flow_type order = Some ''wallet_to_world''
         then auditWalletToWorldLimitBreach v order (nullish (te_initial_amount ev) (te_final_amount ev)) db2
         else db2)"

definition settle_order :: "transfer_env \<Rightarrow> transfer_event \<Rightarrow> payment_order \<Rightarrow> orders_db \<Rightarrow> unit result \<times> orders_db" where
  "settle_order v ev order db =
     (let credits = length (filter (pending_of (po_id order) ''credit'') (ledger_entries db))
      in and_then (or_throw ''Ledger settle (credit) failed'' (settle_credits (po_id order) (te_final_amount ev) db) db)
           (\<lambda>db1.
              let debits = length (filter (pending_of (po_id order) ''debit'') (ledger_entries db1))
              in and_then (or_throw ''Ledger settle (debit) failed'' (settle_debits (po_id order) db1) db1)
                   (\<lambda>db2. and_then (safety_net v ev order (credits + debits) db2)
                      (\<lambda>db3. (Inr (), if po_flow_type order = Some ''fiat_bo_to_bridge_wallet''
                            then notify (po_user_id order) ''financial'' (Some ''payment_order'') (Some (po_id order)) db3
                            else db3)))))"

definition complete_order :: "transfer_env \<Rightarrow> transfer_event \<Rightarrow> payment_order \<Rightarrow> orders_db \<Rightarrow> unit result \<times> orders_db" where
  "complete_order v ev order db = settle_order v ev order (mark_completed v ev order db)"
definition of_transfer :: "string \<Rightarrow> ledger_entry \<Rightarrow> bool" where
  "of_transfer i e \<longleftrightarrow> le_bridge_transfer_id e = Some i \<and> le_status e = ''pending''"

definition certify_transfer :: "bool \<Rightarrow> bridge_transfer \<Rightarrow> orders_db \<Rightarrow> orders_db" where
  "certify_transfer skip_note t db =
     (let db1 = (if \<exists>c\<in>set (certificates db). snd c = bt_id t then db
                 else db\<lparr>certificates := certificates db @ [(bt_user_id t, bt_id t)]\<rparr>);
          noted = (\<exists>n\<in>set (notifications db1). nt_reference_type n = Some ''bridge_transfer''
             \<and> nt_reference_id n = Some (bt_id t) \<and> nt_type n = ''financial'');
          db2 = (if skip_note \<or> noted then db1
                 else notify (bt_user_id t) ''financial'' (Some ''bridge_transfer'') (Some (bt_id t)) db1)
      in log_activity (bt_user_id t) ''TRANSFER_COMPLETED'' db2)"

definition close_transfer :: "bridge_transfer option \<Rightarrow> payment_order option \<Rightarrow> orders_db \<Rightarrow> unit result \<times> orders_db" where
  "close_transfer transfer order db =
     (case transfer of
        None \<Rightarrow> (Inr (), db)
      | Some t \<Rightarrow>
          and_then (or_throw ''Ledger settle (transfer path) failed'' (set_status (of_transfer (bt_id t)) ''settled'' db) db)
            (\<lambda>d. (Inr (), certify_transfer
               (case order of None \<Rightarrow> False | Some o' \<Rightarrow> po_flow_type o' = Some ''fiat_bo_to_bridge_wallet'') t d)))"

definition set_payout :: "ostring \<Rightarrow> string \<Rightarrow> orders_db \<Rightarrow> orders_db" where
  "set_payout i st db = (if truthy i
     then db\<lparr>payout_requests := update_where (\<lambda>r. Some (py_id r) = i) (\<lambda>r. r\<lparr>py_status := st\<rparr>) (payout_requests db)\<rparr>
     else db)"

definition handleTransferComplete ::
  "transfer_env \<Rightarrow> string \<Rightarrow> transfer_event \<Rightarrow> orders_db \<Rightarrow> unit result \<times> orders_db" where
  "handleTransferComplete v bridgeState ev db =
     (if \<not> truthy (te_id ev) then (Inl (ErrorException ''transfer.complete sin transfer ID''), db)
      else
        let tid = the (te_id ev);
            db1 = set_transfer tid (\<lambda>t. t\<lparr>bt_bridge_state := bridgeState, bt_status := ''completed''\<rparr>) db;
            transfer = maybe_single (transfer_rows tid db1);
            db2 = set_payout (Option.bind transfer bt_payout_request_id) ''completed'' db1;
            order = maybe_single (transfer_orders tid LIVE_FOR_COMPLETION db2)
        in and_then
             (case order of
                None \<Rightarrow> (Inr (), flagCompletedTransferOnCancelledOrder tid db2)
              | Some o' \<Rightarrow> if isDualLegFlow o' then complete_first_leg o' db2 else complete_order v ev o' db2)
             (close_transfer transfer order))"

definition handleTransferPaymentProcessed ::
  "transfer_env \<Rightarrow> transfer_event \<Rightarrow> orders_db \<Rightarrow> unit result \<times> orders_db" where
  "handleTransferPaymentProcessed v ev db = handleTransferComplete v ''payment_processed'' ev db"

section \<open>Failure\<close>

definition LIVE_FOR_FAILURE :: "string list" where
  "LIVE_FOR_FAILURE = [''pending'', ''pending_review'', ''processing'', ''created'', ''waiting_deposit'']"

definition offRampWalletFlows :: "string list" where
  "offRampWalletFlows = [''bridge_wallet_to_crypto'', ''bridge_wallet_to_fiat_us'']"

definition psavDepositFlows :: "string list" where
  "psavDepositFlows = [''bolivia_to_world'', ''fiat_bo_to_bridge_wallet'']"

definition noReservationFlows :: "string list" where
  "noReservationFlows = ''wallet_to_world'' # psavDepositFlows"

definition in_flows :: "string list \<Rightarrow> payment_order option \<Rightarrow> bool" where
  "in_flows fs order = (case order of None \<Rightarrow> False
     | Some o' \<Rightarrow> (\<exists>f\<in>set fs. po_flow_type o' = Some f))"

text \<open>What the generic release gives back: the amount of the payout request when there is one.\<close>

definition failed_payout :: "bridge_transfer \<Rightarrow> orders_db \<Rightarrow> rat \<times> string" where
  "failed_payout t db =
     (case (if truthy (bt_payout_request_id t)
            then maybe_single (filter (\<lambda>r. Some (py_id r) = bt_payout_request_id t) (payout_requests db))
            else None) of
        None \<Rightarrow> (bt_amount t, bt_destination_currency t)
      | Some r \<Rightarrow> (py_amount r + or_else (py_fee_amount r) 0, py_currency r))"

text \<open>An \<open>UPDATE\<close> of the ledger whose error is not looked at.\<close>

definition try_status :: "(ledger_entry \<Rightarrow> bool) \<Rightarrow> string \<Rightarrow> orders_db \<Rightarrow> orders_db" where
  "try_status p st db = (case set_status p st db of None \<Rightarrow> db | Some d \<Rightarrow> d)"

definition fail_transfer_order :: "release_fn \<Rightarrow> string \<Rightarrow> payment_order \<Rightarrow> orders_db \<Rightarrow> orders_db" where
  "fail_transfer_order rel tid order db =
     (let db1 = update_orders (\<lambda>o'. po_id o' = po_id order)
            (\<lambda>o'. o'\<lparr>po_status := ''failed'', po_failure_reason := Some (''Bridge transfer '' @ tid)\<rparr>) db;
          db2 = (if po_amount order > 0 \<and> in_flows offRampWalletFlows (Some order)
                 then call_release rel (po_user_id order) (to_upper (or_else (po_currency order) ''USDC''))
                        (po_amount order) db1
                 else db1)
      in try_status (entry_of_order (po_id order) ''pending'') ''failed'' db2)"

definition handleTransferFailed ::
  "transfer_env \<Rightarrow> transfer_event \<Rightarrow> orders_db \<Rightarrow> unit result \<times> orders_db" where
  "handleTransferFailed v ev db =
     (if \<not> truthy (te_id ev) then (Inl (ErrorException ''transfer.failed sin transfer ID''), db)
      else
        let tid = the (te_id ev) in
        if \<exists>t. maybe_single (transfer_rows tid db) = Some t \<and> bt_status t = ''completed''
        then (Inr (), set_transfer tid (\<lambda>t. t\<lparr>bt_bridge_state := ''failed''\<rparr>) db)
        else
          let db1 = set_transfer tid (\<lambda>t. t\<lparr>bt_bridge_state := ''failed'', bt_status := ''failed''\<rparr>) db;
              transfer = maybe_single (transfer_rows tid db1);
              db2 = set_payout (Option.bind transfer bt_payout_request_id) ''failed'' db1;
              db3 = (case transfer of None \<Rightarrow> db2
                     | Some t \<Rightarrow> try_status (of_transfer (bt_id t)) ''failed'' db2);
              failedOrder = maybe_single (transfer_orders tid LIVE_FOR_FAILURE db3);
              db4 = (case transfer of None \<Rightarrow> db3
                     | Some t \<Rightarrow>
                         if in_flows offRampWalletFlows failedOrder \<or> in_flows noReservationFlows failedOrder
                         then db3
                         else call_release (tv_release v) (bt_user_id t)
                                (to_upper (snd (failed_payout t db2))) (fst (failed_payout t db2)) db3);
              db5 = (case failedOrder of None \<Rightarrow> db4
                     | Some o' \<Rightarrow> fail_transfer_order (tv_release v) tid o' db4)
          in (Inr (),
              case transfer of None \<Rightarrow> db5
              | Some t \<Rightarrow>
                  let db6 = (if in_flows psavDepositFlows failedOrder
                             then notifyAdminStaff ''alert'' (po_id (the failedOrder)) db5 else db5)
                  in log_activity (bt_user_id t) ''TRANSFER_FAILED''
                       (notify (bt_user_id t) ''alert'' (Some ''bridge_transfer'') (Some (bt_id t)) db6)))"

section \<open>Refund\<close>

definition handleTransferRefunded ::
  "transfer_env \<Rightarrow> transfer_event \<Rightarrow> orders_db \<Rightarrow> unit result \<times> orders_db" where
  "handleTransferRefunded v ev db =
     (if \<not> truthy (te_id ev) then (Inl (ErrorException ''transfer refunded sin transfer ID''), db)
      else
        let tid = the (te_id ev);
            db1 = set_transfer tid (\<lambda>t. t\<lparr>bt_bridge_state := ''refunded'', bt_status := ''refunded''\<rparr>) db
        in (Inr (),
            case maybe_single (filter (\<lambda>o'. po_bridge_transfer_id o' = Some tid) (payment_orders db1)) of
              None \<Rightarrow> db1
            | Some order \<Rightarrow>
                if po_status order = ''refunded'' then db1
                else
                  let db2 = (case (po_wallet_id order, po_currency order) of
                        (Some w, Some c) \<Rightarrow>
                          if po_status order = ''completed'' \<and> in_flows offRampWalletFlows (Some order)
                          then try_insert (order_entry (tv_entry_id v) (tv_now v) w ''credit''
                                 (po_amount order) c (Some (po_id order))) db1
                          else db1
                      | _ \<Rightarrow> db1);
                      db3 = update_orders (\<lambda>o'. po_id o' = po_id order)
                        (\<lambda>o'. o'\<lparr>po_status := ''refunded'',
                           po_failure_reason := Some (''Bridge: '' @ or_else (te_return_reason ev) ''Sin motivo'')\<rparr>) db2;
                      db4 = notify (po_user_id order) ''alert'' (Some ''payment_order'') (Some (po_id order)) db3;
                      db5 = (if po_flow_type order = Some ''wallet_to_world''
                             then notifyAdminStaff ''system'' (po_id order) db4 else db4)
                  in log_activity (po_user_id order) ''TRANSFER_REFUNDED'' db5))"

section \<open>The dispatch of transfer events\<close>

definition other_transfer_state :: "transfer_event \<Rightarrow> orders_db \<Rightarrow> orders_db" where
  "other_transfer_state ev db =
     (if truthy (te_state ev) \<and> truthy (te_id ev)
      then markOrderDepositReceived (the (te_id ev)) (the (te_state ev))
             (set_transfer (the (te_id ev)) (\<lambda>t. t\<lparr>bt_bridge_state := the (te_state ev)\<rparr>) db)
      else db)"

definition transfer_status_transitioned ::
  "transfer_env \<Rightarrow> transfer_event \<Rightarrow> orders_db \<Rightarrow> unit result \<times> orders_db" where
  "transfer_status_transitioned v ev db =
     (let state = te_state ev in
      if state = Some ''payment_processed'' then handleTransferPaymentProcessed v ev db
      else if state = Some ''complete'' \<or> state = Some ''completed''
        then handleTransferComplete v ''complete'' ev db
      else if state = Some ''failed'' \<or> state = Some ''returned'' then handleTransferFailed v ev db
      else if state = Some ''refund_in_flight'' then handleTransferRefundInFlight ev db
      else if state = Some ''refunded'' then handleTransferRefunded v ev db
      else if state = Some ''underfunded'' then handleTransferUnderfunded ev db
      else (Inr (), other_transfer_state ev db))"

text \<open>The cases of \<open>dispatchEvent\<close> for transfers; \<open>None\<close> when the event is of another category.\<close>

definition dispatch_transfer ::
  "transfer_env \<Rightarrow> string \<Rightarrow> transfer_event \<Rightarrow> orders_db \<Rightarrow> (unit result \<times> orders_db) option" where
  "dispatch_transfer v ty ev db =
     (if ty = ''transfer.created'' then Some (Inr (), db)
      else if ty = ''transfer.updated.status_transitioned'' \<or> ty = ''transfer.updated''
        then Some (transfer_status_transitioned v ev db)
      else if ty = ''transfer.payment_processed'' then Some (handleTransferPaymentProcessed v ev db)
      else if ty = ''transfer.complete'' then Some (handleTransferComplete v ''complete'' ev db)
      else if ty = ''transfer.failed'' then Some (handleTransferFailed v ev db)
      else None)"

end
