(* ===== verification/DrainEvents.thy ===== *)
theory DrainEvents imports TransferEvents begin

text \<open>
  The events of liquidation addresses, from \<open>src/application/webhooks/webhooks.service.ts\<close>. The
  staff deposit crypto at an address of the provider, which pays it out (a drain). A drain is
  linked to an order when it is created, or when it is paid, by the address, by the external
  account and the amount, or by the destination address and the amount.
\<close>

section \<open>Payload\<close>

text \<open>\<open>dn_final_amount\<close> is \<open>final_amount ?? outgoing_amount\<close> of the receipt. An amount that is absent
  is 0; one that is no number is \<open>None\<close>.\<close>

record drain_event =
  dn_id :: ostring
  dn_state :: ostring
  dn_amount :: "rat option"
  dn_external_account :: ostring
  dn_to_address :: ostring
  dn_liquidation_address :: ostring
  dn_final_amount :: "rat option"
  dn_failure_reason :: ostring
  dn_return_reason :: ostring
  dn_cancellation_reason :: ostring
  dn_reason :: ostring

section \<open>Linking a drain to an order\<close>

definition waiting_orders :: "(payment_order \<Rightarrow> bool) \<Rightarrow> orders_db \<Rightarrow> payment_order list" where
  "waiting_orders p db = sort_key po_created_at
     (filter (\<lambda>o'. po_status o' = ''processing'' \<and> p o' \<and> po_drain_id o' = None) (payment_orders db))"

definition match_by_liquidation_address :: "ostring \<Rightarrow> orders_db \<Rightarrow> payment_order option" where
  "match_by_liquidation_address la db =
     (if truthy la then first_row (waiting_orders (\<lambda>o'. po_liquidation_address_id o' = la) db) else None)"

text \<open>The expected amount of USDC: the deposit in the instructions, or the amount at the rate of the
  order. A rate of zero makes it infinite, which is near no amount.\<close>

definition gross_amount :: "payment_order \<Rightarrow> rat option" where
  "gross_amount o' = (let rate = or_else (po_exchange_rate o') 1 in
     if rate = 0 then None else Some (po_amount o' / rate))"

definition reference_amount :: "payment_order \<Rightarrow> rat option" where
  "reference_amount o' =
     (let expected = or_else (Option.bind (po_bridge_instructions o') di_amount_to_deposit) 0
      in if expected > 0 then Some expected else gross_amount o')"

definition near :: "rat \<Rightarrow> rat \<Rightarrow> rat option \<Rightarrow> bool" where
  "near tolerance amount r = (case r of None \<Rightarrow> False | Some x \<Rightarrow> \<bar>x - amount\<bar> \<le> tolerance)"

definition match_by_external_account :: "ostring \<Rightarrow> rat \<Rightarrow> orders_db \<Rightarrow> payment_order option" where
  "match_by_external_account acct amount db =
     (if \<not> truthy acct then None
      else case maybe_single (filter (\<lambda>a. ea_bridge_external_account_id a = acct) (external_accounts db)) of
        None \<Rightarrow> None
      | Some a \<Rightarrow> find (\<lambda>o'. near (5 / 100) amount (reference_amount o'))
          (take 10 (waiting_orders (\<lambda>o'. po_flow_type o' = Some ''bolivia_to_world''
             \<and> po_external_account_id o' = Some (ea_id a)) db)))"

definition match_by_to_address :: "ostring \<Rightarrow> rat \<Rightarrow> orders_db \<Rightarrow> payment_order option" where
  "match_by_to_address addr amount db =
     (if \<not> truthy addr then None
      else find (\<lambda>o'. near (2 / 100) amount (gross_amount o'))
        (take 10 (waiting_orders (\<lambda>o'. po_flow_type o' = Some ''bolivia_to_wallet''
           \<and> po_destination_address o' = addr) db)))"

definition match_drain :: "drain_event \<Rightarrow> rat \<Rightarrow> bool \<Rightarrow> orders_db \<Rightarrow> (payment_order \<times> string) option" where
  "match_drain ev amount by_amount db =
     (case match_by_liquidation_address (dn_liquidation_address ev) db of
        Some o' \<Rightarrow> Some (o', ''liquidation_address_id'')
      | None \<Rightarrow>
          if \<not> by_amount then None
          else case match_by_external_account (dn_external_account ev) amount db of
            Some o' \<Rightarrow> Some (o', ''external_account_id + amount'')
          | None \<Rightarrow> map_option (\<lambda>o'. (o', ''to_address + amount''))
              (match_by_to_address (dn_to_address ev) amount db))"

definition handleDrainCreated :: "drain_event \<Rightarrow> orders_db \<Rightarrow> orders_db" where
  "handleDrainCreated ev db =
     (let amount = or_else (dn_amount ev) 0 in
      if \<not> truthy (dn_id ev) \<or> amount = 0 then db
      else case match_drain ev amount True db of
        None \<Rightarrow> db
      | Some (o', _) \<Rightarrow>
          log_audit None ''DRAIN_MATCHED_TO_ORDER'' (po_id o')
            (update_orders (\<lambda>q. po_id q = po_id o') (\<lambda>q. q\<lparr>po_drain_id := dn_id ev\<rparr>) db))"

section \<open>Completion\<close>

definition completeDrainOrder ::
  "int \<Rightarrow> drain_event \<Rightarrow> string \<Rightarrow> payment_order \<Rightarrow> orders_db \<Rightarrow> orders_db" where
  "completeDrainOrder now ev drainId order db =
     log_activity (po_user_id order) ''PAYMENT_ORDER_COMPLETED_VIA_DRAIN''
       (notify (po_user_id order) ''financial'' (Some ''payment_order'') (Some (po_id order))
         (log_audit None ''COMPLETE_PAYMENT_ORDER_VIA_DRAIN'' (po_id order)
           (update_orders (\<lambda>q. po_id q = po_id order)
             (\<lambda>q. q\<lparr>po_status := ''completed'', po_completed_at := Some now, po_drain_id := Some drainId,
                po_amount_destination := patch_opt (dn_final_amount ev) (po_amount_destination q)\<rparr>) db)))"

definition drain_payment_processed :: "int \<Rightarrow> drain_event \<Rightarrow> string \<Rightarrow> orders_db \<Rightarrow> orders_db" where
  "drain_payment_processed now ev drainId db =
     (case maybe_single (filter (\<lambda>o'. po_drain_id o' = Some drainId \<and> po_status o' = ''processing'')
             (payment_orders db)) of
        Some order \<Rightarrow> completeDrainOrder now ev drainId order db
      | None \<Rightarrow>
          let amount = or_else (dn_amount ev) 0 in
          case match_drain ev amount (amount > 0) db of
            None \<Rightarrow> db
          | Some (order, _) \<Rightarrow> completeDrainOrder now ev drainId order db)"

section \<open>The other states\<close>

definition findOrderByDrainId :: "string \<Rightarrow> orders_db \<Rightarrow> payment_order option" where
  "findOrderByDrainId drainId db =
     maybe_single (filter (\<lambda>o'. po_drain_id o' = Some drainId) (payment_orders db))"

definition CLOSED_FOR_DRAIN :: "string list" where
  "CLOSED_FOR_DRAIN = [''completed'', ''failed'', ''cancelled'']"

definition failed_by_drain :: "string \<Rightarrow> string \<Rightarrow> payment_order \<Rightarrow> payment_order" where
  "failed_by_drain drainId reason q = q\<lparr>po_status := ''failed'', po_failure_reason := Some reason,
     po_drain_id := Some drainId\<rparr>"

definition failDrainOrder ::
  "payment_order \<Rightarrow> string \<Rightarrow> string \<Rightarrow> string \<Rightarrow> bool \<Rightarrow> orders_db \<Rightarrow> orders_db" where
  "failDrainOrder order drainId bridgeState failureReason notifyUser db =
     (if po_status order \<in> set CLOSED_FOR_DRAIN then db
      else
        let db1 = log_audit None (''DRAIN_'' @ to_upper bridgeState @ ''_ORDER_FAILED'') (po_id order)
              (update_orders (\<lambda>q. po_id q = po_id order) (failed_by_drain drainId failureReason) db);
            db2 = (if notifyUser
                   then notify (po_user_id order) ''alert'' (Some ''payment_order'') (Some (po_id order)) db1
                   else db1)
        in log_activity (po_user_id order) ''PAYMENT_ORDER_DRAIN_FAILED'' db2)"

definition drain_failed :: "string \<Rightarrow> string \<Rightarrow> string \<Rightarrow> orders_db \<Rightarrow> orders_db" where
  "drain_failed drainId bridgeState failureReason db =
     (case findOrderByDrainId drainId db of
        None \<Rightarrow> db
      | Some order \<Rightarrow> notifyAdminStaff ''alert'' (po_id order)
          (failDrainOrder order drainId bridgeState failureReason True db))"

definition handleDrainUndeliverable :: "string \<Rightarrow> drain_event \<Rightarrow> orders_db \<Rightarrow> orders_db" where
  "handleDrainUndeliverable drainId ev =
     drain_failed drainId ''undeliverable''
       (''bridge_undeliverable: '' @ or_else (dn_failure_reason ev) ''routing/account'')"

definition handleDrainReturned :: "string \<Rightarrow> drain_event \<Rightarrow> orders_db \<Rightarrow> orders_db" where
  "handleDrainReturned drainId ev =
     drain_failed drainId ''returned''
       (''bridge_returned: '' @ or_else (nullish (dn_return_reason ev) (dn_reason ev)) ''banco destino'')"

definition handleDrainCanceled :: "string \<Rightarrow> drain_event \<Rightarrow> orders_db \<Rightarrow> orders_db" where
  "handleDrainCanceled drainId ev =
     drain_failed drainId ''canceled''
       (''bridge_canceled: '' @ or_else (nullish (dn_cancellation_reason ev) (dn_reason ev)) ''compliance'')"

definition handleDrainError :: "string \<Rightarrow> orders_db \<Rightarrow> orders_db" where
  "handleDrainError drainId = drain_failed drainId ''error'' ''bridge_error''"

definition handleDrainMissingReturnPolicy :: "string \<Rightarrow> orders_db \<Rightarrow> orders_db" where
  "handleDrainMissingReturnPolicy drainId db =
     (case findOrderByDrainId drainId db of
        None \<Rightarrow> db
      | Some order \<Rightarrow>
          notifyAdminStaff ''alert'' (po_id order)
            (if po_status order \<in> set CLOSED_FOR_DRAIN then db
             else log_audit None ''DRAIN_MISSING_RETURN_POLICY'' (po_id order)
               (update_orders (\<lambda>q. po_id q = po_id order)
                  (failed_by_drain drainId ''bridge_missing_return_policy'') db)))"

definition handleDrainPaymentSubmitted :: "string \<Rightarrow> orders_db \<Rightarrow> orders_db" where
  "handleDrainPaymentSubmitted drainId db =
     (case findOrderByDrainId drainId db of
        None \<Rightarrow> db
      | Some order \<Rightarrow> notify (po_user_id order) ''financial'' (Some ''payment_order'') (Some (po_id order)) db)"

definition drain_alert :: "string \<Rightarrow> string \<Rightarrow> orders_db \<Rightarrow> orders_db" where
  "drain_alert ty drainId db =
     (case findOrderByDrainId drainId db of
        None \<Rightarrow> db
      | Some order \<Rightarrow> notifyAdminStaff ty (po_id order) db)"

definition handleDrainInReview :: "string \<Rightarrow> orders_db \<Rightarrow> orders_db" where
  "handleDrainInReview = drain_alert ''system''"

definition handleDrainRefundInFlight :: "string \<Rightarrow> orders_db \<Rightarrow> orders_db" where
  "handleDrainRefundInFlight = drain_alert ''system''"

definition handleDrainRefundFailed :: "string \<Rightarrow> orders_db \<Rightarrow> orders_db" where
  "handleDrainRefundFailed = drain_alert ''alert''"

definition handleDrainRefunded :: "string \<Rightarrow> orders_db \<Rightarrow> orders_db" where
  "handleDrainRefunded drainId db =
     (case findOrderByDrainId drainId db of
        None \<Rightarrow> db
      | Some order \<Rightarrow>
          log_activity (po_user_id order) ''PAYMENT_ORDER_DRAIN_REFUNDED''
            (notify (po_user_id order) ''financial'' (Some ''payment_order'') (Some (po_id order))
              (notifyAdminStaff ''alert'' (po_id order)
                (update_orders (\<lambda>q. po_id q = po_id order)
                  (\<lambda>q. q\<lparr>po_failure_reason := Some (or_else (po_failure_reason order) ''bridge_refunded''
                     @ '' | USDT devuelto'')\<rparr>) db))))"

definition handleDrainUpdated :: "int \<Rightarrow> drain_event \<Rightarrow> orders_db \<Rightarrow> orders_db" where
  "handleDrainUpdated now ev db =
     (if \<not> truthy (dn_id ev) then db
      else
        let drainId = the (dn_id ev); state = dn_state ev in
        if state = Some ''payment_processed'' then drain_payment_processed now ev drainId db
        else if state = Some ''payment_submitted'' then handleDrainPaymentSubmitted drainId db
        else if state = Some ''in_review'' then handleDrainInReview drainId db
        else if state = Some ''undeliverable'' then handleDrainUndeliverable drainId ev db
        else if state = Some ''returned'' then handleDrainReturned drainId ev db
        else if state = Some ''canceled'' then handleDrainCanceled drainId ev db
        else if state = Some ''error'' then handleDrainError drainId db
        else if state = Some ''missing_return_policy'' then handleDrainMissingReturnPolicy drainId db
        else if state = Some ''refund_in_flight'' then handleDrainRefundInFlight drainId db
        else if state = Some ''refund_failed'' then handleDrainRefundFailed drainId db
        else if state = Some ''refunded'' then handleDrainRefunded drainId db
        else db)"

section \<open>A payment into a liquidation address\<close>

definition handleLiquidationPayment ::
  "string \<Rightarrow> int \<Rightarrow> drain_event \<Rightarrow> orders_db \<Rightarrow> unit result \<times> orders_db" where
  "handleLiquidationPayment new_id now ev db =
     (let amount = or_else (dn_amount ev) 0 in
      if \<not> truthy (dn_liquidation_address ev) \<or> amount = 0
      then (Inl (ErrorException ''liquidation payment sin datos''), db)
      else case maybe_single (filter (\<lambda>a. Some (la_bridge_id a) = dn_liquidation_address ev)
                  (liquidation_addresses db)) of
        None \<Rightarrow> (Inl (ErrorException ''Liquidation address no encontrada''), db)
      | Some addr \<Rightarrow>
          (case active_wallet (la_user_id addr) db of
             None \<Rightarrow> (Inl (ErrorException ''Wallet no encontrada''), db)
           | Some w \<Rightarrow>
               (Inr (), notify (la_user_id addr) ''financial'' (Some ''liquidation_address'') (Some (la_id addr))
                  (try_insert ((order_entry new_id now w ''credit'' amount
                       (or_else (la_destination_currency addr) ''usd'') (Some (la_id addr)))
                     \<lparr>le_reference_type := Some ''liquidation_address''\<rparr>) db))))"

definition dispatch_liquidation ::
  "string \<Rightarrow> int \<Rightarrow> string \<Rightarrow> drain_event \<Rightarrow> orders_db \<Rightarrow> (unit result \<times> orders_db) option" where
  "dispatch_liquidation new_id now ty ev db =
     (if ty = ''liquidation_address.payment_completed'' then Some (handleLiquidationPayment new_id now ev db)
      else if ty = ''liquidation_address.drain.created'' then Some (Inr (), handleDrainCreated ev db)
      else if ty = ''liquidation_address.drain.updated.status_transitioned''
        then Some (Inr (), handleDrainUpdated now ev db)
      else if ty = ''bridge_wallet.activity.created'' then Some (Inr (), db)
      else None)"

end
