(* ===== verification/TransferProperties.thy ===== *)
theory TransferProperties imports TransferEvents OrderProperties begin

text \<open>
  Properties of the transfer events: the completion of a transfer can be delivered any number of
  times, and three ways in which a failure or a refund leaves the balances wrong.
\<close>

section \<open>Frames\<close>

text \<open>The part of the database the money depends on.\<close>

definition core :: "orders_db \<Rightarrow> wallet list \<times> balance list \<times> ledger_entry list \<times> payment_order list" where
  "core db = (wallets db, balances db, ledger_entries db, payment_orders db)"

lemma core_frames [simp]:
  "core (notify u ty rt r db) = core db" "core (notify_all ps ty rt' r' db) = core db"
  "core (notifyAdminStaff ty ref db) = core db" "core (log_audit who act rec db) = core db"
  "core (log_activity usr act db) = core db" "core (set_transfer tid f db) = core db"
  "core (set_payout i st db) = core db" "core (certify_transfer b t db) = core db"
  by (simp_all add: core_def notify_def notify_all_def notifyAdminStaff_def log_audit_def
        log_activity_def set_transfer_def set_payout_def certify_transfer_def Let_def)

lemma flag_core [simp]: "core (flagCompletedTransferOnCancelledOrder tid db) = core db"
  by (simp add: flagCompletedTransferOnCancelledOrder_def split: option.splits)

lemma audit_core [simp]: "core (auditWalletToWorldLimitBreach v o' a db) = core db"
  by (simp add: auditWalletToWorldLimitBreach_def split: option.splits)

lemma core_eqD:
  assumes "core db = core d"
  shows "wallets db = wallets d" "balances db = balances d" "ledger_entries db = ledger_entries d"
    "payment_orders db = payment_orders d"
  using assms by (simp_all add: core_def)

lemma transfers_frames [simp]:
  "bridge_transfers (notify u ty rt r db) = bridge_transfers db"
  "bridge_transfers (notify_all ps ty rt' r' db) = bridge_transfers db"
  "bridge_transfers (notifyAdminStaff ty ref db) = bridge_transfers db"
  "bridge_transfers (log_audit who act rec db) = bridge_transfers db"
  "bridge_transfers (log_activity usr act db) = bridge_transfers db"
  "bridge_transfers (update_orders p f db) = bridge_transfers db"
  "bridge_transfers (set_payout i st db) = bridge_transfers db"
  "bridge_transfers (certify_transfer b t db) = bridge_transfers db"
  "bridge_transfers (call_release rel u c a db) = bridge_transfers db"
  "bridge_transfers (set_transfer tid g db)
    = update_where (\<lambda>t. bt_bridge_transfer_id t = Some tid) g (bridge_transfers db)"
  by (simp_all add: notify_def notify_all_def notifyAdminStaff_def log_audit_def call_release_def
        log_activity_def set_transfer_def set_payout_def certify_transfer_def Let_def update_orders_def)

lemma flag_transfers [simp]:
  "bridge_transfers (flagCompletedTransferOnCancelledOrder tid db) = bridge_transfers db"
  by (simp add: flagCompletedTransferOnCancelledOrder_def split: option.splits)

lemma audit_transfers [simp]: "bridge_transfers (auditWalletToWorldLimitBreach v o' a db) = bridge_transfers db"
  by (simp add: auditWalletToWorldLimitBreach_def split: option.splits)

lemma insert_transfers [simp]: "bridge_transfers (try_insert e db) = bridge_transfers db"
  by (auto simp: try_insert_def insert_entry_def split: option.splits)

lemma status_frames:
  assumes "set_status p st db = Some d"
  shows "bridge_transfers d = bridge_transfers db" "payment_orders d = payment_orders db"
    "ledger_entries d = update_where p (\<lambda>e. e\<lparr>le_status := st\<rparr>) (ledger_entries db)"
    "wallets d = wallets db"
  using assms by (auto simp: set_status_def)

lemma credits_frames:
  assumes "settle_credits i a db = Some d"
  shows "bridge_transfers d = bridge_transfers db" "payment_orders d = payment_orders db"
    "wallets d = wallets db"
  using assms by (auto simp: settle_credits_def update_entries_def)

section \<open>A completion is delivered again\<close>

lemma and_then_Inr:
  "and_then r k = (Inr (), db') \<longleftrightarrow> (\<exists>d. r = (Inr (), d) \<and> k d = (Inr (), db'))"
  by (auto simp: and_then_def split: prod.splits sum.splits)

lemma or_throw_Inr: "or_throw msg r db = (Inr (), d) \<longleftrightarrow> r = Some d"
  by (auto simp: or_throw_def split: option.splits)

lemma safety_net_frames:
  assumes "safety_net v ev o' n db = (Inr (), d)"
  shows "bridge_transfers d = bridge_transfers db" "payment_orders d = payment_orders db"
  using assms
  by (auto simp: safety_net_def Let_def try_insert_def insert_entry_def split: if_splits option.splits)

text \<open>The transfer a second delivery reads is the one the first delivery read.\<close>

lemma transfer_row_again:
  assumes "bridge_transfers d = bridge_transfers (set_transfer tid g db)"
    and g: "\<And>t. bt_id (g t) = bt_id t" "\<And>t. bt_bridge_transfer_id (g t) = bt_bridge_transfer_id t"
    and h: "\<And>t. bt_id (h t) = bt_id t" "\<And>t. bt_bridge_transfer_id (h t) = bt_bridge_transfer_id t"
  shows "map_option bt_id (maybe_single (transfer_rows tid (set_transfer tid h d)))
    = map_option bt_id (maybe_single (transfer_rows tid (set_transfer tid g db)))"
proof -
  have rows: "map bt_id (transfer_rows tid (set_transfer tid f e)) = map bt_id (transfer_rows tid e)"
    if "\<And>t. bt_id (f t) = bt_id t" "\<And>t. bt_bridge_transfer_id (f t) = bt_bridge_transfer_id t"
    for f and e :: orders_db
    using that by (induction "bridge_transfers e" arbitrary: e)
      (auto simp: transfer_rows_def set_transfer_def filter_map o_def update_where_def)
  have single: "map_option bt_id (maybe_single rs) = maybe_single (map bt_id rs)" for rs
    by (auto simp: maybe_single_def split: list.splits)
  have "map bt_id (transfer_rows tid (set_transfer tid h d)) = map bt_id (transfer_rows tid d)"
    by (rule rows [OF h])
  also have "\<dots> = map bt_id (transfer_rows tid (set_transfer tid g db))"
    using assms(1) by (simp add: transfer_rows_def)
  finally show ?thesis by (simp add: single)
qed

definition of_order :: "payment_order \<Rightarrow> ledger_entry \<Rightarrow> bool" where
  "of_order o' e \<longleftrightarrow> le_reference_type e = Some ''payment_order''
     \<and> le_reference_id e = Some (po_id o') \<and> le_status e = ''pending''"

text \<open>What a completion leaves behind: no live order of the transfer, or the order of a first leg
  without pending entries.\<close>

definition nothing_open :: "string \<Rightarrow> orders_db \<Rightarrow> bool" where
  "nothing_open tid db \<longleftrightarrow> (case maybe_single (transfer_orders tid LIVE_FOR_COMPLETION db) of
     None \<Rightarrow> True | Some o' \<Rightarrow> isDualLegFlow o' \<and> filter (of_order o') (ledger_entries db) = [])"

lemma completed_order_status [simp]:
  "po_status (completed_order v ev o' x) = ''completed''"
  by (simp add: completed_order_def Let_def transferTraceCodesToPatch_def traceCodesToPatch_def)

lemma mark_completed_frames [simp]:
  "payment_orders (mark_completed v ev o' db)
    = update_where (\<lambda>x. po_id x = po_id o') (completed_order v ev o') (payment_orders db)"
  "bridge_transfers (mark_completed v ev o' db) = bridge_transfers db"
  "ledger_entries (mark_completed v ev o' db) = ledger_entries db"
proof -
  have "core (mark_completed v ev o' db)
      = core (update_orders (\<lambda>x. po_id x = po_id o') (completed_order v ev o') db)"
    by (simp add: mark_completed_def Let_def) (simp add: core_def notifyAdminStaff_def notify_all_def)
  from core_eqD [OF this] show
    "payment_orders (mark_completed v ev o' db)
      = update_where (\<lambda>x. po_id x = po_id o') (completed_order v ev o') (payment_orders db)"
    "ledger_entries (mark_completed v ev o' db) = ledger_entries db" by simp_all
  show "bridge_transfers (mark_completed v ev o' db) = bridge_transfers db"
    by (simp add: mark_completed_def Let_def)
qed

lemma settle_order_steps:
  assumes "settle_order v ev o' db = (Inr (), d)"
  obtains d1 d2 d3 n where "settle_credits (po_id o') (te_final_amount ev) db = Some d1"
    "settle_debits (po_id o') d1 = Some d2" "safety_net v ev o' n d2 = (Inr (), d3)"
    "core d = core d3" "bridge_transfers d = bridge_transfers d3"
proof -
  from assms obtain d1 d2 d3 n where "settle_credits (po_id o') (te_final_amount ev) db = Some d1"
    "settle_debits (po_id o') d1 = Some d2" "safety_net v ev o' n d2 = (Inr (), d3)"
    "d = (if po_flow_type o' = Some ''fiat_bo_to_bridge_wallet''
       then notify (po_user_id o') ''financial'' (Some ''payment_order'') (Some (po_id o')) d3 else d3)"
    unfolding settle_order_def Let_def and_then_Inr or_throw_Inr by (elim exE conjE) simp
  then show thesis by (intro that [of d1 d2 n d3]) simp_all
qed

lemma complete_order_frames:
  assumes "complete_order v ev o' db = (Inr (), d)"
  shows "payment_orders d
      = update_where (\<lambda>x. po_id x = po_id o') (completed_order v ev o') (payment_orders db)"
    and "bridge_transfers d = bridge_transfers db"
  using assms unfolding complete_order_def
proof (atomize(full), elim settle_order_steps)
  fix d1 d2 d3 n
  assume s: "settle_credits (po_id o') (te_final_amount ev) (mark_completed v ev o' db) = Some d1"
    "settle_debits (po_id o') d1 = Some d2" "safety_net v ev o' n d2 = (Inr (), d3)"
    "core d = core d3" "bridge_transfers d = bridge_transfers d3"
  show "payment_orders d
      = update_where (\<lambda>x. po_id x = po_id o') (completed_order v ev o') (payment_orders db)
    \<and> bridge_transfers d = bridge_transfers db"
    using credits_frames [OF s(1)] status_frames [OF s(2) [unfolded settle_debits_def]]
      safety_net_frames [OF s(3)] core_eqD [OF s(4)] s(5) by simp
qed
lemma update_clears_live:
  assumes one: "maybe_single (transfer_orders tid sts db) = Some o'"
    and os: "payment_orders d = update_where (\<lambda>x. po_id x = po_id o') f (payment_orders db)"
    and st: "\<And>x. po_status (f x) \<notin> set sts"
  shows "transfer_orders tid sts d = []"
proof -
  have "x = o'" if "x \<in> set (payment_orders db)" "po_bridge_transfer_id x = Some tid"
    "po_status x \<in> set sts" for x
  proof -
    have "x \<in> set (transfer_orders tid sts db)" using that by (simp add: transfer_orders_def)
    then show ?thesis using one by (simp add: maybe_single_Some)
  qed
  then show ?thesis
    by (auto simp: transfer_orders_def os filter_empty_conv st elim!: update_whereE split: if_splits)
qed

lemma terminal_not_live [simp]:
  "''completed'' \<notin> set LIVE_FOR_COMPLETION" "''failed'' \<notin> set LIVE_FOR_FAILURE"
  by (simp_all add: LIVE_FOR_COMPLETION_def LIVE_FOR_FAILURE_def)
lemma first_leg_again:
  assumes "complete_first_leg o' db = (Inr (), d)"
  shows "payment_orders d = payment_orders db" "bridge_transfers d = bridge_transfers db"
    "filter (of_order o') (ledger_entries d) = []"
proof -
  from assms obtain d1 where d1: "set_status (of_order o') ''settled'' db = Some d1"
    and d: "core d = core d1" "bridge_transfers d = bridge_transfers d1"
    by (auto simp: complete_first_leg_def and_then_Inr or_throw_Inr settle_and_release_reserved_def
          of_order_def [abs_def])
  have "filter (of_order o') (ledger_entries d1) = []"
    using d1 by (rule set_status_clears) (simp add: of_order_def)
  then show "payment_orders d = payment_orders db" "bridge_transfers d = bridge_transfers db"
    "filter (of_order o') (ledger_entries d) = []"
    using status_frames [OF d1] core_eqD [OF d(1)] d(2) by simp_all
qed

text \<open>The last step settles what is booked under the transfer itself.\<close>

lemma close_transfer_again:
  assumes "close_transfer transfer o' db = (Inr (), d)"
  shows "payment_orders d = payment_orders db" "bridge_transfers d = bridge_transfers db"
    "\<And>t. transfer = Some t \<Longrightarrow> filter (of_transfer (bt_id t)) (ledger_entries d) = []"
    "\<And>q. filter (of_order q) (ledger_entries db) = [] \<Longrightarrow> filter (of_order q) (ledger_entries d) = []"
proof -
  have "payment_orders d = payment_orders db \<and> bridge_transfers d = bridge_transfers db
    \<and> (\<forall>t. transfer = Some t \<longrightarrow> filter (of_transfer (bt_id t)) (ledger_entries d) = [])
    \<and> (\<forall>q. filter (of_order q) (ledger_entries db) = [] \<longrightarrow> filter (of_order q) (ledger_entries d) = [])"
  proof (cases transfer)
    case None
    then show ?thesis using assms by (simp add: close_transfer_def)
  next
    case (Some t)
    with assms obtain d1 where d1: "set_status (of_transfer (bt_id t)) ''settled'' db = Some d1"
      and d: "core d = core d1" "bridge_transfers d = bridge_transfers d1"
      by (auto simp: close_transfer_def and_then_Inr or_throw_Inr)
    have "filter (of_transfer (bt_id t)) (ledger_entries d1) = []"
      using d1 by (rule set_status_clears) (simp add: of_transfer_def)
    moreover have "filter (of_order q) (ledger_entries d1) = []"
      if "filter (of_order q) (ledger_entries db) = []" for q
      using that by (auto simp: status_frames [OF d1] filter_empty_conv of_order_def elim!: update_whereE
          split: if_splits)
    ultimately show ?thesis using status_frames [OF d1] core_eqD [OF d(1)] d(2) Some by simp
  qed
  then show "payment_orders d = payment_orders db" "bridge_transfers d = bridge_transfers db"
    "\<And>t. transfer = Some t \<Longrightarrow> filter (of_transfer (bt_id t)) (ledger_entries d) = []"
    "\<And>q. filter (of_order q) (ledger_entries db) = [] \<Longrightarrow> filter (of_order q) (ledger_entries d) = []"
    by blast+
qed

lemma close_transfer_settled:
  assumes "\<And>t. transfer = Some t \<Longrightarrow> filter (of_transfer (bt_id t)) (ledger_entries db) = []"
  obtains d where "close_transfer transfer o' db = (Inr (), d)" "core d = core db"
  using assms by (cases transfer) (simp_all add: close_transfer_def or_throw_def and_then_def set_status_none)

lemma first_leg_settled:
  assumes "filter (of_order o') (ledger_entries db) = []"
  obtains d where "complete_first_leg o' db = (Inr (), d)" "core d = core db"
proof -
  have "settle_and_release_reserved (po_id o') db = Some db"
    unfolding settle_and_release_reserved_def
    by (rule set_status_none) (use assms in \<open>simp add: of_order_def [abs_def]\<close>)
  then show thesis
    by (intro that [of "notify (po_user_id o') ''financial'' (Some ''payment_order'') (Some (po_id o'))
          (notifyAdminStaff ''system'' (po_id o') db)"])
      (simp_all add: complete_first_leg_def or_throw_def and_then_def)
qed

definition order_step ::
  "transfer_env \<Rightarrow> string \<Rightarrow> transfer_event \<Rightarrow> orders_db \<Rightarrow> unit result \<times> orders_db" where
  "order_step v tid ev db =
     (case maybe_single (transfer_orders tid LIVE_FOR_COMPLETION db) of
        None \<Rightarrow> (Inr (), flagCompletedTransferOnCancelledOrder tid db)
      | Some o' \<Rightarrow> if isDualLegFlow o' then complete_first_leg o' db else complete_order v ev o' db)"

lemma order_step_again:
  assumes "order_step v tid ev db = (Inr (), d)"
  shows "nothing_open tid d" "bridge_transfers d = bridge_transfers db"
proof -
  have "nothing_open tid d \<and> bridge_transfers d = bridge_transfers db"
  proof (cases "maybe_single (transfer_orders tid LIVE_FOR_COMPLETION db)")
    case None
    then have "payment_orders d = payment_orders db \<and> bridge_transfers d = bridge_transfers db"
      using assms core_eqD(4) [OF flag_core] by (auto simp: order_step_def)
    with None show ?thesis by (simp add: nothing_open_def transfer_orders_def)
  next
    case (Some o')
    show ?thesis
    proof (cases "isDualLegFlow o'")
      case True
      then have "complete_first_leg o' db = (Inr (), d)" using assms Some by (simp add: order_step_def)
      from first_leg_again [OF this] True Some show ?thesis by (simp add: nothing_open_def transfer_orders_def)
    next
      case False
      then have "complete_order v ev o' db = (Inr (), d)" using assms Some by (simp add: order_step_def)
      from update_clears_live [OF Some complete_order_frames(1) [OF this]] complete_order_frames(2) [OF this]
      show ?thesis by (simp add: nothing_open_def)
    qed
  qed
  then show "nothing_open tid d" "bridge_transfers d = bridge_transfers db" by simp_all
qed

lemma order_step_settled:
  assumes "nothing_open tid db"
  obtains d where "order_step v tid ev db = (Inr (), d)" "core d = core db"
proof (cases "maybe_single (transfer_orders tid LIVE_FOR_COMPLETION db)")
  case None
  then show thesis
    by (intro that [of "flagCompletedTransferOnCancelledOrder tid db"]) (simp_all add: order_step_def)
next
  case (Some o')
  then have "isDualLegFlow o'" "filter (of_order o') (ledger_entries db) = []"
    using assms by (simp_all add: nothing_open_def)
  moreover from this(2) obtain d where "complete_first_leg o' db = (Inr (), d)" "core d = core db"
    by (rule first_leg_settled)
  ultimately show thesis using Some by (intro that [of d]) (simp_all add: order_step_def)
qed

lemma handleTransferComplete_steps:
  assumes "truthy (te_id ev)" and "tid = the (te_id ev)"
    and "db1 = set_transfer tid (\<lambda>t. t\<lparr>bt_bridge_state := st, bt_status := ''completed''\<rparr>) db"
    and "transfer = maybe_single (transfer_rows tid db1)"
    and "db2 = set_payout (Option.bind transfer bt_payout_request_id) ''completed'' db1"
  shows "handleTransferComplete v st ev db = and_then (order_step v tid ev db2)
    (close_transfer transfer (maybe_single (transfer_orders tid LIVE_FOR_COMPLETION db2)))"
  using assms(1) by (simp add: handleTransferComplete_def order_step_def assms(2-) Let_def)

text \<open>C35: A transfer's completion may be delivered any number of times.\<close>

theorem transfer_completion_idempotent:
  assumes first: "handleTransferComplete v st ev db = (Inr (), db')" and same: "te_id ev2 = te_id ev"
  shows "\<exists>d. handleTransferComplete v2 st2 ev2 db' = (Inr (), d) \<and> balances d = balances db'
    \<and> ledger_entries d = ledger_entries db' \<and> payment_orders d = payment_orders db'"
proof -
  have t: "truthy (te_id ev)"
  proof (rule ccontr)
    assume "\<not> truthy (te_id ev)"
    with first show False by (simp add: handleTransferComplete_def)
  qed
  define tid where "tid = the (te_id ev)"
  define f :: "string \<Rightarrow> bridge_transfer \<Rightarrow> bridge_transfer" where "f = (\<lambda>s t. t\<lparr>bt_bridge_state := s, bt_status := ''completed''\<rparr>)"
  have f: "bt_id (f s t) = bt_id t" "bt_bridge_transfer_id (f s t) = bt_bridge_transfer_id t" for s t
    by (simp_all add: f_def)
  define r where "r = (\<lambda>d. maybe_single (transfer_rows tid d))"
  define d1 where "d1 = set_transfer tid (f st) db"
  define d2 where "d2 = set_payout (Option.bind (r d1) bt_payout_request_id) ''completed'' d1"
  note steps = handleTransferComplete_steps [OF t tid_def d1_def [unfolded f_def] r_def [THEN fun_cong] d2_def]
  from first obtain d3 where d3: "order_step v tid ev d2 = (Inr (), d3)"
    and c: "close_transfer (r d1) (maybe_single (transfer_orders tid LIVE_FOR_COMPLETION d2)) d3 = (Inr (), db')"
    unfolding steps and_then_Inr by blast
  note c' = close_transfer_again [OF c] and o' = order_step_again [OF d3]
  define e1 where "e1 = set_transfer tid (f st2) db'"
  define e2 where "e2 = set_payout (Option.bind (r e1) bt_payout_request_id) ''completed'' e1"
  have e2: "core e2 = core db'" by (simp add: e2_def e1_def)
  have open': "nothing_open tid e2"
    using o'(1) c' core_eqD [OF e2] by (auto simp: nothing_open_def transfer_orders_def split: option.splits)
  have "bridge_transfers db' = bridge_transfers (set_transfer tid (f st) db)"
    using c'(2) o'(2) by (simp add: d2_def d1_def)
  from transfer_row_again [OF this f f] have row: "map_option bt_id (r e1) = map_option bt_id (r d1)"
    by (simp add: r_def e1_def d1_def)
  obtain e3 where e3: "order_step v2 tid ev2 e2 = (Inr (), e3)" "core e3 = core e2"
    using order_step_settled [OF open'] .
  have "filter (of_transfer (bt_id t)) (ledger_entries e3) = []" if "r e1 = Some t" for t
    using row that c'(3) core_eqD(3) [OF e3(2)] core_eqD(3) [OF e2] by (cases "r d1") auto
  then obtain e where e: "close_transfer (r e1)
      (maybe_single (transfer_orders tid LIVE_FOR_COMPLETION e2)) e3 = (Inr (), e)" "core e = core e3"
    using close_transfer_settled by metis
  have "handleTransferComplete v2 st2 ev2 db' = (Inr (), e)"
    using handleTransferComplete_steps [of ev2 tid e1 st2 db' "r e1" e2 v2] t same e3(1) e(1)
    by (simp add: tid_def e1_def e2_def r_def f_def and_then_def)
  with core_eqD [OF e(2)] core_eqD [OF e3(2)] core_eqD [OF e2] show ?thesis by auto
qed

text \<open>The completion of a fund-in with a pending credit: the credit is settled with the amount of the
  receipt, and delivering the event again changes no balance.\<close>

definition transfer_row :: "string \<Rightarrow> bridge_transfer" where
  "transfer_row st = \<lparr>bt_id = ''t1'', bt_user_id = ''u1'', bt_bridge_transfer_id = Some ''tr1'',
     bt_source_rail = ''polygon'', bt_source_currency = Some ''usdc'', bt_destination_rail = ''polygon'',
     bt_destination_currency = ''usdc'', bt_amount = 100, bt_developer_fee_amount = None,
     bt_developer_fee_percent = None, bt_net_amount = 100, bt_status = st, bt_bridge_state = st,
     bt_payout_request_id = None\<rparr>"

definition transfer_order :: "string \<Rightarrow> string \<Rightarrow> payment_order" where
  "transfer_order flow st = sample_order\<lparr>po_flow_type := Some flow, po_status := st,
     po_bridge_transfer_id := Some ''tr1''\<rparr>"

definition transfer_db :: "payment_order \<Rightarrow> orders_db" where
  "transfer_db o' = (sample_db [o'])\<lparr>bridge_transfers := [transfer_row ''pending'']\<rparr>"

definition transfer_sample :: transfer_event where
  "transfer_sample = \<lparr>te_id = Some ''tr1'', te_state = Some ''complete'', te_initial_amount = None,
     te_final_amount = Some 99, te_receipt_fee = None, te_exchange_rate = None, te_tx_hash = None,
     te_imad = None, te_trace_number = None, te_destination_currency = None, te_return_reason = None,
     te_add_funding = (\<lambda>x. x)\<rparr>"

definition transfer_sample_env :: transfer_env where
  "transfer_sample_env = \<lparr>tv_max_usd = (\<lambda>_. None), tv_release = own_release, tv_entry_id = ''e5'',
     tv_now = 20, tv_event_id = None\<rparr>"

lemma transfer_samples [simp]:
  "te_id transfer_sample = Some ''tr1''" "te_final_amount transfer_sample = Some 99"
  "tv_release transfer_sample_env = own_release"
  by (simp_all add: transfer_sample_def transfer_sample_env_def)

definition onramp_done :: orders_db where
  "onramp_done = snd (handleTransferComplete transfer_sample_env ''complete'' transfer_sample
     (transfer_db (transfer_order ''crypto_to_bridge_wallet'' ''processing'')))"

lemma onramp_run:
  "handleTransferComplete transfer_sample_env ''complete'' transfer_sample
     (transfer_db (transfer_order ''crypto_to_bridge_wallet'' ''processing'')) = (Inr (), onramp_done)"
  "map ba_available (balances onramp_done) = [199]"
proof -
  have "fst (handleTransferComplete transfer_sample_env ''complete'' transfer_sample
     (transfer_db (transfer_order ''crypto_to_bridge_wallet'' ''processing''))) = Inr ()"
    by code_simp
  then show "handleTransferComplete transfer_sample_env ''complete'' transfer_sample
     (transfer_db (transfer_order ''crypto_to_bridge_wallet'' ''processing'')) = (Inr (), onramp_done)"
    by (simp add: onramp_done_def prod_eq_iff)
  show "map ba_available (balances onramp_done) = [199]" by code_simp
qed

theorem transfer_completion_idempotent_witness:
  "\<exists>d. handleTransferComplete transfer_sample_env ''completed'' transfer_sample onramp_done = (Inr (), d)
    \<and> map ba_available (balances d) = [199]"
  using transfer_completion_idempotent [OF onramp_run(1), of transfer_sample transfer_sample_env "''completed''"]
    onramp_run(2) by auto

section \<open>Failures and refunds\<close>

lemma try_pending:
  assumes "\<And>e. p e \<Longrightarrow> le_status e = ''pending''" "st \<noteq> ''settled''"
  shows "balances (try_status p st db) = balances db" "payment_orders (try_status p st db) = payment_orders db"
    "bridge_transfers (try_status p st db) = bridge_transfers db"
proof -
  have "fire_updates (wallets db) st (filter p (ledger_entries db)) (balances db) = Some (balances db)"
    by (rule fire_pending) (use assms in auto)
  then show "balances (try_status p st db) = balances db" "payment_orders (try_status p st db) = payment_orders db"
    "bridge_transfers (try_status p st db) = bridge_transfers db"
    by (simp_all add: try_status_def set_status_def)
qed

lemma try_failed [simp]:
  "balances (try_status (of_transfer i) ''failed'' db) = balances db"
  "payment_orders (try_status (of_transfer i) ''failed'' db) = payment_orders db"
  "bridge_transfers (try_status (of_transfer i) ''failed'' db) = bridge_transfers db"
  "balances (try_status (entry_of_order i ''pending'') ''failed'' db) = balances db"
  "payment_orders (try_status (entry_of_order i ''pending'') ''failed'' db) = payment_orders db"
  "bridge_transfers (try_status (entry_of_order i ''pending'') ''failed'' db) = bridge_transfers db"
  by (rule try_pending; simp add: of_transfer_def entry_of_order_def)+

lemma core_fields [simp]:
  "balances (set_transfer tid f db) = balances db" "payment_orders (set_transfer tid f db) = payment_orders db"
  "balances (set_payout i st db) = balances db" "payment_orders (set_payout i st db) = payment_orders db"
  "balances (notify u ty rt r db) = balances db" "payment_orders (notify u ty rt r db) = payment_orders db"
  "balances (notifyAdminStaff ty ref db) = balances db" "payment_orders (notifyAdminStaff ty ref db) = payment_orders db"
  "balances (log_activity usr act db) = balances db" "payment_orders (log_activity usr act db) = payment_orders db"
  "wallets (set_transfer tid f db) = wallets db" "ledger_entries (set_transfer tid f db) = ledger_entries db"
  using core_frames [THEN core_eqD(1)] core_frames [THEN core_eqD(2)] core_frames [THEN core_eqD(3)]
    core_frames [THEN core_eqD(4)] by auto

text \<open>One failed transfer without a payout request: what is released, and to whom.\<close>



lemma rows_after:
  assumes "bridge_transfers d = update_where (\<lambda>t. bt_bridge_transfer_id t = Some tid) f (bridge_transfers db)"
    and "\<And>t. bt_bridge_transfer_id (f t) = bt_bridge_transfer_id t"
  shows "transfer_rows tid d = map f (transfer_rows tid db)"
  unfolding transfer_rows_def assms(1) by (rule filter_update_where) (simp add: assms(2))
lemma failed_balances:
  assumes "truthy (te_id ev)" "tid = the (te_id ev)"
    and t: "maybe_single (transfer_rows tid db) = Some t" "bt_status t \<noteq> ''completed''"
      "\<not> truthy (bt_payout_request_id t)"
    and o': "maybe_single (transfer_orders tid LIVE_FOR_FAILURE db) = failed"
  shows "balances (snd (handleTransferFailed v ev db)) =
      (let b1 = (if in_flows offRampWalletFlows failed \<or> in_flows noReservationFlows failed then balances db
                 else tv_release v (bt_user_id t) (to_upper (bt_destination_currency t)) (bt_amount t) (balances db))
       in if in_flows offRampWalletFlows failed \<and> 0 < po_amount (the failed)
          then tv_release v (po_user_id (the failed)) (to_upper (or_else (po_currency (the failed)) ''USDC''))
                 (po_amount (the failed)) b1
          else b1)" (is ?b)
    and "payment_orders (snd (handleTransferFailed v ev db)) = (case failed of None \<Rightarrow> payment_orders db
      | Some q \<Rightarrow> update_where (\<lambda>x. po_id x = po_id q)
          (\<lambda>x. x\<lparr>po_status := ''failed'', po_failure_reason := Some (''Bridge transfer '' @ tid)\<rparr>) (payment_orders db))" (is ?o)
    and "bridge_transfers (snd (handleTransferFailed v ev db)) = update_where (\<lambda>t. bt_bridge_transfer_id t = Some tid)
      (\<lambda>t. t\<lparr>bt_bridge_state := ''failed'', bt_status := ''failed''\<rparr>) (bridge_transfers db)" (is ?t)
proof -
  let ?f = "\<lambda>t. t\<lparr>bt_bridge_state := ''failed'', bt_status := ''failed''\<rparr>"
  have r: "transfer_rows tid (set_transfer tid ?f db) = map ?f (transfer_rows tid db)"
    by (rule rows_after) (simp_all add: set_transfer_def)
  with t(1) have row: "maybe_single (transfer_rows tid (set_transfer tid ?f db)) = Some (?f t)"
    by (simp add: maybe_single_Some)
  have live: "transfer_orders tid sts d = transfer_orders tid sts db" if "payment_orders d = payment_orders db" for sts d
    using that by (simp add: transfer_orders_def)
  let ?db3 = "try_status (of_transfer (bt_id t)) ''failed''
       (set_payout (bt_payout_request_id t) ''failed'' (set_transfer tid ?f db))"
  have live3: "maybe_single (transfer_orders tid LIVE_FOR_FAILURE ?db3) = failed"
    using o' live [of ?db3] by simp
  have pay: "failed_payout (?f t) d = (bt_amount t, bt_destination_currency t)" for d
    using t(3) by (simp add: failed_payout_def)
  note run = handleTransferFailed_def assms(1) assms(2) [symmetric] t(1,2) row live3 pay Let_def
    fail_transfer_order_def
  show ?b ?o ?t
    by (cases failed; simp add: run in_flows_def)+
qed

text \<open>C36: The failure of a transfer that the client funds from an external wallet pays the client.
  Nothing is reserved for the flows \<open>wallet_to_wallet\<close> and \<open>crypto_to_bridge_wallet\<close>, which the
  list of flows without a reserve does not name, so the handler asks the database to release the
  amount of the transfer all the same.\<close>

theorem failed_onchain_transfer_pays_client:
  assumes "truthy (te_id ev)" "maybe_single (transfer_rows (the (te_id ev)) db) = Some t"
    "bt_status t \<noteq> ''completed''" "\<not> truthy (bt_payout_request_id t)"
    and "maybe_single (transfer_orders (the (te_id ev)) LIVE_FOR_FAILURE db) = Some o'"
    and "po_flow_type o' \<in> {Some ''wallet_to_wallet'', Some ''crypto_to_bridge_wallet''}"
  shows "balances (snd (handleTransferFailed v ev db))
    = tv_release v (bt_user_id t) (to_upper (bt_destination_currency t)) (bt_amount t) (balances db)"
  using failed_balances(1) [OF assms(1) refl assms(2-5)] assms(6)
  by (elim insertE) (simp_all add: in_flows_def offRampWalletFlows_def noReservationFlows_def psavDepositFlows_def)

theorem failed_onchain_transfer_pays_client_witness:
  "map (\<lambda>b. (ba_available b, ba_reserved b)) (balances (snd (handleTransferFailed transfer_sample_env transfer_sample
     ((transfer_db (transfer_order ''wallet_to_wallet'' ''waiting_deposit''))
       \<lparr>balances := [\<lparr>ba_user_id = ''u1'', ba_currency = ''USDC'', ba_amount = 0, ba_available = 0,
          ba_reserved = 0\<rparr>]\<rparr>)))) = [(100, 0)]"
proof -
  define db where "db = (transfer_db (transfer_order ''wallet_to_wallet'' ''waiting_deposit''))
       \<lparr>balances := [\<lparr>ba_user_id = ''u1'', ba_currency = ''USDC'', ba_amount = 0, ba_available = 0,
          ba_reserved = 0\<rparr>]\<rparr>"
  have "maybe_single (transfer_rows (the (te_id transfer_sample)) db) = Some (transfer_row ''pending'')"
    "maybe_single (transfer_orders (the (te_id transfer_sample)) LIVE_FOR_FAILURE db)
      = Some (transfer_order ''wallet_to_wallet'' ''waiting_deposit'')"
    by (simp_all add: db_def transfer_db_def transfer_rows_def transfer_orders_def transfer_row_def
        transfer_order_def LIVE_FOR_FAILURE_def sample_db_def)
  from failed_onchain_transfer_pays_client [OF _ this(1) _ _ this(2), of transfer_sample_env]
  have "balances (snd (handleTransferFailed transfer_sample_env transfer_sample db))
      = own_release ''u1'' (to_upper ''usdc'') 100 (balances db)"
    by (simp add: transfer_row_def transfer_order_def)
  moreover have "map (\<lambda>b. (ba_available b, ba_reserved b)) (own_release ''u1'' (to_upper ''usdc'') 100 (balances db)) = [(100, 0)]"
    unfolding db_def by code_simp
  ultimately show ?thesis by (simp add: db_def)
qed

text \<open>C37: A transfer that fails twice is released twice. The provider reports a transfer as failed and
  later as returned; the first event releases the reserve of the order, the second finds no live
  order any more and so takes the generic release, of the transfer's amount in the destination
  currency.\<close>

theorem duplicate_failure_releases_again:
  assumes ev: "truthy (te_id ev)" and t: "maybe_single (transfer_rows (the (te_id ev)) db) = Some t"
    "bt_status t \<noteq> ''completed''" "\<not> truthy (bt_payout_request_id t)"
    and o': "maybe_single (transfer_orders (the (te_id ev)) LIVE_FOR_FAILURE db) = Some o'"
    and f: "in_flows offRampWalletFlows (Some o')" "0 < po_amount o'" and db1: "db1 = snd (handleTransferFailed v ev db)"
  shows "balances db1 = tv_release v (po_user_id o') (to_upper (or_else (po_currency o') ''USDC'')) (po_amount o') (balances db)
    \<and> balances (snd (handleTransferFailed v ev db1))
      = tv_release v (bt_user_id t) (to_upper (bt_destination_currency t)) (bt_amount t) (balances db1)"
proof -
  let ?g = "\<lambda>t. t\<lparr>bt_bridge_state := ''failed'', bt_status := ''failed''\<rparr>"
  note first = failed_balances [OF ev refl t o', of v, folded db1]
  have "balances db1 = tv_release v (po_user_id o') (to_upper (or_else (po_currency o') ''USDC'')) (po_amount o') (balances db)"
    using first(1) f by simp
  moreover have "transfer_rows (the (te_id ev)) db1 = map ?g (transfer_rows (the (te_id ev)) db)"
    using rows_after [OF first(3)] by simp
  with t(1) have t1: "maybe_single (transfer_rows (the (te_id ev)) db1) = Some (?g t)"
    by (simp add: maybe_single_Some)
  have "transfer_orders (the (te_id ev)) LIVE_FOR_FAILURE db1 = []"
    by (rule update_clears_live [OF o']) (simp add: first(2), simp)
  then have "maybe_single (transfer_orders (the (te_id ev)) LIVE_FOR_FAILURE db1) = None" by simp
  from failed_balances(1) [OF ev refl t1 _ _ this, of v] t(3)
  have "balances (snd (handleTransferFailed v ev db1))
      = tv_release v (bt_user_id t) (to_upper (bt_destination_currency t)) (bt_amount t) (balances db1)"
    by (simp add: in_flows_def)
  ultimately show ?thesis by simp
qed

theorem duplicate_failure_releases_again_witness:
  "\<exists>db1. db1 = snd (handleTransferFailed transfer_sample_env transfer_sample
        (transfer_db (transfer_order ''bridge_wallet_to_crypto'' ''processing'')))
    \<and> map ba_available (balances (snd (handleTransferFailed transfer_sample_env transfer_sample db1))) = [300]"
proof -
  define db where "db = transfer_db (transfer_order ''bridge_wallet_to_crypto'' ''processing'')"
  define db1 where "db1 = snd (handleTransferFailed transfer_sample_env transfer_sample db)"
  have "maybe_single (transfer_rows (the (te_id transfer_sample)) db) = Some (transfer_row ''pending'')"
    "maybe_single (transfer_orders (the (te_id transfer_sample)) LIVE_FOR_FAILURE db)
      = Some (transfer_order ''bridge_wallet_to_crypto'' ''processing'')"
    by (simp_all add: db_def transfer_db_def transfer_rows_def transfer_orders_def transfer_row_def
        transfer_order_def LIVE_FOR_FAILURE_def sample_db_def)
  from duplicate_failure_releases_again [OF _ this(1) _ _ this(2) _ _ db1_def]
  have "balances (snd (handleTransferFailed transfer_sample_env transfer_sample db1))
      = own_release ''u1'' (to_upper ''usdc'') 100 (own_release ''u1'' (to_upper ''USDC'') 100 (balances db))"
    by (simp add: transfer_row_def transfer_order_def in_flows_def offRampWalletFlows_def sample_order_def)
  moreover have "map ba_available (own_release ''u1'' (to_upper ''usdc'') 100
      (own_release ''u1'' (to_upper ''USDC'') 100 (balances db))) = [300]"
    unfolding db_def by code_simp
  ultimately show ?thesis unfolding db1_def db_def by metis
qed

text \<open>A refund that the provider reports before the order is completed strands the reserve. The
  order is closed as refunded, neither balances nor ledger change, and no operation of the staff
  can release the reserve afterwards, since a refunded order is final.\<close>

theorem early_refund_strands_reserve:
  assumes ev: "truthy (te_id ev)"
    and o': "maybe_single (filter (\<lambda>q. po_bridge_transfer_id q = Some (the (te_id ev))) (payment_orders db)) = Some o'"
    and st: "po_status o' \<notin> {''completed'', ''refunded''}" and id: "select_order (po_id o') db = Some o'"
    and d: "d = snd (handleTransferRefunded v ev db)"
  shows "balances d = balances db \<and> ledger_entries d = ledger_entries db
    \<and> failOrder w (po_id o') actor why d = (Inl (BadRequestException ''''), d)
    \<and> snd (cancelOrderByStaff w api (po_id o') actor why refund d) = d"
proof -
  define f :: "payment_order \<Rightarrow> payment_order" where "f = (\<lambda>q. q\<lparr>po_status := ''refunded'',
    po_failure_reason := Some (''Bridge: '' @ or_else (te_return_reason ev) ''Sin motivo'')\<rparr>)"
  have f: "po_id (f q) = po_id q" "po_status (f q) = ''refunded''" for q by (simp_all add: f_def)
  have "core d = core (update_orders (\<lambda>q. po_id q = po_id o') f db)"
    unfolding d f_def handleTransferRefunded_def using ev o' st
    by (simp add: Let_def split: option.split) (simp add: core_def update_orders_def)
  note c = core_eqD [OF this, simplified]
  have "filter (\<lambda>q. po_id q = po_id o') (payment_orders d)
      = map f (filter (\<lambda>q. po_id q = po_id o') (payment_orders db))"
    unfolding c(4) by (rule filter_update_where) (simp add: f)
  then have s: "select_order (po_id o') d = Some (f o')"
    using id by (simp add: select_order_def maybe_single_Some)
  have r: "''refunded'' \<in> set TERMINAL_ORDER_STATUSES" by (simp add: TERMINAL_ORDER_STATUSES_def)
  have "failOrder w (po_id o') actor why d = (Inl (BadRequestException ''''), d)"
    by (simp add: failOrder_def s f r)
  moreover have "snd (cancelOrderByStaff w api (po_id o') actor why refund d) = d"
    by (simp add: cancelOrderByStaff_def s f Let_def evaluateStaffCancellation_def r deny_def)
  ultimately show ?thesis using c by simp
qed

theorem early_refund_strands_reserve_witness:
  "map ba_reserved (balances (snd (failOrder alone ''o1'' ''s'' ''lost'' (snd (handleTransferRefunded transfer_sample_env
     transfer_sample (transfer_db (transfer_order ''bridge_wallet_to_crypto'' ''processing''))))))) = [100]"
proof -
  define db where "db = transfer_db (transfer_order ''bridge_wallet_to_crypto'' ''processing'')"
  have "maybe_single (filter (\<lambda>q. po_bridge_transfer_id q = Some (the (te_id transfer_sample))) (payment_orders db))
      = Some (transfer_order ''bridge_wallet_to_crypto'' ''processing'')"
    "select_order ''o1'' db = Some (transfer_order ''bridge_wallet_to_crypto'' ''processing'')"
    by (simp_all add: db_def transfer_db_def transfer_order_def sample_db_def select_order_def)
  from early_refund_strands_reserve [OF _ this(1) _ _ refl, of transfer_sample_env alone "''s''" "''lost''"] this(2)
  have "balances (snd (failOrder alone ''o1'' ''s'' ''lost'' (snd (handleTransferRefunded transfer_sample_env
      transfer_sample db)))) = balances db"
    by (simp add: transfer_order_def)
  then show ?thesis by (simp add: db_def transfer_db_def sample_db_def)
qed

end
