(* ===== verification/DrainProperties.thy ===== *)
theory DrainProperties imports DrainEvents TransferProperties begin

text \<open>
  Properties of the drain events: one event changes at most one order, which waited for a drain or
  had this one, and no balance; and the ways in which the link between a drain and an order fails.
\<close>

section \<open>One event, one order\<close>

lemma update_one:
  assumes "distinct (map po_id os)" "x \<in> set os"
  shows "update_where (\<lambda>q. po_id q = po_id x) f os = map (\<lambda>q. if q = x then f q else q) os"
  unfolding update_where_def
proof (rule map_cong [OF refl])
  fix q assume "q \<in> set os"
  with assms have "po_id q = po_id x \<longleftrightarrow> q = x" by (auto simp: distinct_map dest: inj_onD)
  then show "(if po_id q = po_id x then f q else q) = (if q = x then f q else q)" by simp
qed

definition one_order ::
  "(payment_order \<Rightarrow> payment_order \<Rightarrow> bool) \<Rightarrow> payment_order list \<Rightarrow> payment_order list \<Rightarrow> bool" where
  "one_order R os os' \<longleftrightarrow> os' = os \<or>
     (\<exists>x\<in>set os. \<exists>f. R x (f x) \<and> os' = map (\<lambda>q. if q = x then f q else q) os)"

lemma one_orderI:
  assumes "distinct (map po_id os)" "x \<in> set os" "R x (f x)"
    "os' = update_where (\<lambda>q. po_id q = po_id x) f os"
  shows "one_order R os os'"
  using assms unfolding one_order_def by (auto simp: update_one)

text \<open>What an event of the drain \<open>d\<close> may do to an order.\<close>

definition drain_move :: "string \<Rightarrow> payment_order \<Rightarrow> payment_order \<Rightarrow> bool" where
  "drain_move d x y \<longleftrightarrow> po_id y = po_id x \<and> po_amount y = po_amount x \<and>
     (po_status x = ''processing'' \<and> po_drain_id x \<in> {None, Some d}
        \<and> po_status y = ''completed'' \<and> po_drain_id y = Some d
      \<or> po_drain_id x = Some d \<and> po_drain_id y = Some d
        \<and> (po_status y = po_status x \<or> po_status x \<notin> set CLOSED_FOR_DRAIN \<and> po_status y = ''failed''))"

lemma waiting_in: "x \<in> set (waiting_orders p db) \<Longrightarrow>
    x \<in> set (payment_orders db) \<and> po_status x = ''processing'' \<and> po_drain_id x = None \<and> p x"
  by (auto simp: waiting_orders_def)

lemma first_row_set: "first_row rs = Some x \<Longrightarrow> x \<in> set rs"
  by (cases rs) simp_all

lemma find_take_set: "find q (take n rs) = Some x \<Longrightarrow> x \<in> set rs"
  by (auto simp: find_Some_iff dest: in_set_takeD)

lemma match_in:
  assumes "match_drain ev a b db = Some (x, how)"
  shows "x \<in> set (payment_orders db) \<and> po_status x = ''processing'' \<and> po_drain_id x = None"
  using assms waiting_in
  by (auto simp: match_drain_def match_by_liquidation_address_def match_by_external_account_def
        match_by_to_address_def dest!: first_row_set find_take_set split: option.splits if_splits)

lemma found_in:
  "findOrderByDrainId d db = Some x \<Longrightarrow> x \<in> set (payment_orders db) \<and> po_drain_id x = Some d"
  unfolding findOrderByDrainId_def by (rule maybe_single_in)

lemma complete_core:
  "core (completeDrainOrder now ev d x db) = core (update_orders (\<lambda>q. po_id q = po_id x)
     (\<lambda>q. q\<lparr>po_status := ''completed'', po_completed_at := Some now, po_drain_id := Some d,
        po_amount_destination := patch_opt (dn_final_amount ev) (po_amount_destination q)\<rparr>) db)"
  by (simp add: completeDrainOrder_def)

lemma fail_core:
  "core (failDrainOrder x d st reason n db) = (if po_status x \<in> set CLOSED_FOR_DRAIN then core db
     else core (update_orders (\<lambda>q. po_id q = po_id x) (failed_by_drain d reason) db))"
  by (simp add: failDrainOrder_def Let_def)

lemma core_update: "core (update_orders p f db)
    = (wallets db, balances db, ledger_entries db, update_where p f (payment_orders db))"
  by (simp add: core_def)

text \<open>The effect of an event: the money is left alone and at most one order moves.\<close>

definition drain_effect :: "string \<Rightarrow> orders_db \<Rightarrow> orders_db \<Rightarrow> bool" where
  "drain_effect d db db' \<longleftrightarrow> balances db' = balances db \<and> ledger_entries db' = ledger_entries db
     \<and> one_order (drain_move d) (payment_orders db) (payment_orders db')"

lemma effect_same: "core db' = core db \<Longrightarrow> drain_effect d db db'"
  by (auto simp: drain_effect_def one_order_def dest: core_eqD)

lemma effect_update:
  assumes "core db' = core (update_orders (\<lambda>q. po_id q = po_id x) f db)"
    "distinct (map po_id (payment_orders db))" "x \<in> set (payment_orders db)" "drain_move d x (f x)"
  shows "drain_effect d db db'"
  using one_orderI [OF assms(2,3), of "drain_move d" f] assms(1,4)
  by (simp add: core_def drain_effect_def)

lemma processed_effect:
  assumes "distinct (map po_id (payment_orders db))"
  shows "drain_effect d db (drain_payment_processed now ev d db)"
proof -
  let ?f = "\<lambda>q. q\<lparr>po_status := ''completed'', po_completed_at := Some now, po_drain_id := Some d,
      po_amount_destination := patch_opt (dn_final_amount ev) (po_amount_destination q)\<rparr>"
  have step: "drain_effect d db (completeDrainOrder now ev d x db)"
    if "x \<in> set (payment_orders db) \<and> po_status x = ''processing'' \<and> po_drain_id x \<in> {None, Some d}" for x
    by (rule effect_update [OF complete_core assms]) (use that in \<open>simp_all add: drain_move_def\<close>)
  show ?thesis
  proof (cases "maybe_single (filter (\<lambda>o'. po_drain_id o' = Some d \<and> po_status o' = ''processing'')
      (payment_orders db))")
    case (Some x)
    from maybe_single_in [OF this] show ?thesis
      by (simp add: drain_payment_processed_def Some step)
  next
    case None
    note n = this
    show ?thesis
    proof (cases "match_drain ev (or_else (dn_amount ev) 0) (or_else (dn_amount ev) 0 > 0) db")
      case None
      with n show ?thesis by (simp add: drain_payment_processed_def effect_same)
    next
      case (Some xh)
      obtain x how where "xh = (x, how)" by force
      with Some n match_in [of ev _ _ db x how] show ?thesis
        by (simp add: drain_payment_processed_def step)
    qed
  qed
qed

lemma failed_move:
  "po_status x \<notin> set CLOSED_FOR_DRAIN \<Longrightarrow> po_drain_id x = Some d \<Longrightarrow> drain_move d x (failed_by_drain d r x)"
  by (simp add: drain_move_def failed_by_drain_def)

lemma failed_effect:
  assumes "distinct (map po_id (payment_orders db))"
  shows "drain_effect d db (drain_failed d st reason db)"
proof (cases "findOrderByDrainId d db")
  case None
  then show ?thesis by (simp add: drain_failed_def effect_same)
next
  case (Some x)
  note x = found_in [OF Some]
  show ?thesis
  proof (cases "po_status x \<in> set CLOSED_FOR_DRAIN")
    case True
    with Some show ?thesis by (simp add: drain_failed_def effect_same fail_core)
  next
    case False
    show ?thesis
      by (rule effect_update [where f = "failed_by_drain d reason" and x = x, OF _ assms])
         (use Some x False in \<open>simp_all add: drain_failed_def fail_core failed_move\<close>)
  qed
qed

lemma missing_policy_effect:
  assumes "distinct (map po_id (payment_orders db))"
  shows "drain_effect d db (handleDrainMissingReturnPolicy d db)"
proof (cases "findOrderByDrainId d db")
  case None
  then show ?thesis by (simp add: handleDrainMissingReturnPolicy_def effect_same)
next
  case (Some x)
  note x = found_in [OF Some]
  show ?thesis
  proof (cases "po_status x \<in> set CLOSED_FOR_DRAIN")
    case True
    with Some show ?thesis by (simp add: handleDrainMissingReturnPolicy_def effect_same)
  next
    case False
    show ?thesis
      by (rule effect_update [where f = "failed_by_drain d ''bridge_missing_return_policy''" and x = x, OF _ assms])
         (use Some x False in \<open>simp_all add: handleDrainMissingReturnPolicy_def failed_move\<close>)
  qed
qed

lemma refunded_effect:
  assumes "distinct (map po_id (payment_orders db))"
  shows "drain_effect d db (handleDrainRefunded d db)"
proof (cases "findOrderByDrainId d db")
  case None
  then show ?thesis by (simp add: handleDrainRefunded_def effect_same)
next
  case (Some x)
  note x = found_in [OF Some]
  define r where "r = Some (or_else (po_failure_reason x) ''bridge_refunded'' @ '' | USDT devuelto'')"
  show ?thesis
    by (rule effect_update [where f = "\<lambda>q. q\<lparr>po_failure_reason := r\<rparr>" and x = x, OF _ assms])
       (use Some x in \<open>simp_all add: handleDrainRefunded_def drain_move_def flip: r_def\<close>)
qed

lemma quiet_drain_effects:
  "drain_effect d db (handleDrainPaymentSubmitted d db)" "drain_effect d db (drain_alert ty d db)"
  by (auto intro!: effect_same simp: handleDrainPaymentSubmitted_def drain_alert_def split: option.split)

lemmas drain_effects = processed_effect failed_effect missing_policy_effect refunded_effect

lemma drain_event_effect:
  assumes "distinct (map po_id (payment_orders db))" "dn_id ev = Some d"
  shows "drain_effect d db (handleDrainUpdated now ev db)"
  using assms unfolding handleDrainUpdated_def Let_def handleDrainInReview_def handleDrainRefundInFlight_def
    handleDrainRefundFailed_def handleDrainUndeliverable_def handleDrainReturned_def handleDrainCanceled_def
    handleDrainError_def
  by (auto intro: drain_effects quiet_drain_effects effect_same simp del: core_fields)

section \<open>Properties\<close>


definition drain_order :: "string \<Rightarrow> int \<Rightarrow> payment_order" where
  "drain_order i t0 = blank_order\<lparr>po_id := i, po_user_id := ''u1'', po_flow_type := Some ''bolivia_to_world'',
     po_status := ''processing'', po_amount := 100, po_liquidation_address_id := Some ''la1'',
     po_created_at := t0\<rparr>"

definition drain_db :: orders_db where
  "drain_db = empty_tables\<lparr>payment_orders :=
     [(drain_order ''o1'' 1)\<lparr>po_drain_id := Some ''d1''\<rparr>, drain_order ''o2'' 2]\<rparr>"

definition drain_sample :: drain_event where
  "drain_sample = \<lparr>dn_id = Some ''d1'', dn_state = Some ''payment_processed'', dn_amount = Some 10,
     dn_external_account = None, dn_to_address = None, dn_liquidation_address = Some ''la1'',
     dn_final_amount = None, dn_failure_reason = None, dn_return_reason = None,
     dn_cancellation_reason = None, dn_reason = None\<rparr>"


section \<open>A repeated payment completes another order\<close>

text \<open>After the completion of \<open>x\<close> a query that sees neither its old nor its new row is unchanged.\<close>

lemma filter_after:
  assumes "\<not> p x" "\<not> p y"
  shows "filter p (map (\<lambda>q. if q = x then y else q) os) = filter p os"
  by (induction os) (auto simp: assms)

lemma filter_gone:
  assumes "filter p os = [x]" "\<not> p y"
  shows "filter p (map (\<lambda>q. if q = x then y else q) os) = []"
proof -
  have "q = x" if "q \<in> set os" "p q" for q
  proof -
    from that have "q \<in> set (filter p os)" by simp
    then show ?thesis unfolding assms(1) by simp
  qed
  with assms(2) show ?thesis by (auto simp: filter_empty_conv)
qed

lemma completed_orders:
  assumes "distinct (map po_id (payment_orders db))" "x \<in> set (payment_orders db)"
  obtains y where "po_id y = po_id x" "po_status y = ''completed''" "po_drain_id y = Some d"
    "payment_orders (completeDrainOrder now ev d x db)
      = map (\<lambda>q. if q = x then y else q) (payment_orders db)"
proof -
  define f where "f q = q\<lparr>po_status := ''completed'', po_completed_at := Some now, po_drain_id := Some d,
      po_amount_destination := patch_opt (dn_final_amount ev) (po_amount_destination q)\<rparr>" for q :: payment_order
  have "payment_orders (completeDrainOrder now ev d x db)
      = update_where (\<lambda>q. po_id q = po_id x) f (payment_orders db)"
    using complete_core [of now ev d x db] by (simp add: core_def f_def [abs_def])
  also have "\<dots> = map (\<lambda>q. if q = x then f x else q) (payment_orders db)"
    by (simp add: update_one [OF assms] cong: if_cong)
  finally show ?thesis by (intro that [of "f x"]) (simp_all add: f_def)
qed

lemma completed_status:
  assumes "payment_orders db' = map (\<lambda>q. if q = x then y else q) (payment_orders db)"
    "distinct (map po_id (payment_orders db))" "x \<in> set (payment_orders db)" "po_id y = po_id x"
    "q \<in> set (payment_orders db')" "po_id q = po_id x"
  shows "q = y"
proof -
  from assms(1,5) obtain r where "r \<in> set (payment_orders db)" "q = (if r = x then y else r)" by auto
  with assms(2,3,6) show ?thesis by (auto simp: distinct_map dest: inj_onD split: if_splits)
qed

text \<open>C39: A payment that is delivered twice, as after a crash before the event is closed, completes
  two orders. The first delivery completes the order of the drain; the second no longer finds it
  in processing, takes the late match by the liquidation address and completes the next order that
  waits for its own payment there.\<close>

theorem repeated_drain_payment_completes_two_orders:
  assumes "distinct (map po_id (payment_orders db))"
    and "dn_id ev = Some d" "d \<noteq> ''''" "dn_state ev = Some ''payment_processed''"
    and "dn_liquidation_address ev = Some a" "a \<noteq> ''''"
    and "filter (\<lambda>q. po_drain_id q = Some d \<and> po_status q = ''processing'') (payment_orders db) = [x]"
    and "waiting_orders (\<lambda>q. po_liquidation_address_id q = Some a) db = y # ys"
  shows "\<forall>q\<in>set (payment_orders (handleDrainUpdated now ev (handleDrainUpdated now ev db))).
    po_id q \<in> {po_id x, po_id y} \<longrightarrow> po_status q = ''completed''"
proof -
  let ?d1 = "completeDrainOrder now ev d x db"
  let ?d2 = "completeDrainOrder now ev d y ?d1"
  let ?p = "\<lambda>q. po_drain_id q = Some d \<and> po_status q = ''processing''"
  have x: "x \<in> set (payment_orders db)" "?p x"
    using arg_cong [OF assms(7), of set] by auto
  have y: "y \<in> set (payment_orders db)" "po_drain_id y = None"
    using waiting_in [of y "\<lambda>q. po_liquidation_address_id q = Some a" db] assms(8) by auto
  have run: "handleDrainUpdated now ev = drain_payment_processed now ev d"
    using assms(2-4) by (simp add: handleDrainUpdated_def fun_eq_iff)
  obtain x' where x': "po_id x' = po_id x" "po_status x' = ''completed''" "po_drain_id x' = Some d"
    and os1: "payment_orders ?d1 = map (\<lambda>q. if q = x then x' else q) (payment_orders db)"
    by (rule completed_orders [OF assms(1) x(1)])
  have ids: "map po_id (payment_orders ?d1) = map po_id (payment_orders db)"
    unfolding os1 using x'(1) by simp
  have yx: "y \<noteq> x" using x(2) y(2) by auto
  have y1: "y \<in> set (payment_orders ?d1)" using y(1) yx unfolding os1 by force
  have dist1: "distinct (map po_id (payment_orders ?d1))" using assms(1) by (simp add: ids)
  obtain y' where y': "po_id y' = po_id y" "po_status y' = ''completed''"
    and os2: "payment_orders ?d2 = map (\<lambda>q. if q = y then y' else q) (payment_orders ?d1)"
    by (rule completed_orders [OF dist1 y1])
  have none: "filter ?p (payment_orders ?d1) = []"
    unfolding os1 by (rule filter_gone [OF assms(7)]) (simp add: x'(2))
  have wait: "waiting_orders (\<lambda>q. po_liquidation_address_id q = Some a) ?d1 = y # ys"
    unfolding assms(8) [symmetric] unfolding waiting_orders_def os1
    by (subst filter_after) (simp_all add: x x')
  have "handleDrainUpdated now ev (handleDrainUpdated now ev db) = ?d2"
    unfolding run
    by (simp add: drain_payment_processed_def assms(5-7) none match_drain_def
          match_by_liquidation_address_def wait)
  moreover have "po_status q = ''completed''"
    if "q \<in> set (payment_orders ?d2)" "po_id q \<in> {po_id x, po_id y}" for q
  proof (cases "po_id q = po_id y")
    case True
    from completed_status [OF os2 dist1 y1 y'(1) that(1) True] y'(2) show ?thesis by simp
  next
    case False
    from that(1) obtain r where "r \<in> set (payment_orders ?d1)" "q = (if r = y then y' else r)"
      unfolding os2 by auto
    with False that(2) y'(1) have "q \<in> set (payment_orders ?d1)" "po_id q = po_id x"
      by (simp_all split: if_splits)
    from completed_status [OF os1 assms(1) x(1) x'(1) this] x'(2) show ?thesis by simp
  qed
  ultimately show ?thesis by simp
qed

theorem repeated_drain_payment_completes_two_orders_witness:
  "(let after = handleDrainUpdated 5 drain_sample (handleDrainUpdated 5 drain_sample drain_db)
    in map po_status (payment_orders after) = [''completed'', ''completed''])"
proof -
  have "waiting_orders (\<lambda>q. po_liquidation_address_id q = Some ''la1'') drain_db
      = drain_order ''o2'' 2 # []"
    by code_simp
  from repeated_drain_payment_completes_two_orders [OF _ _ _ _ _ _ _ this, where ev = drain_sample and d = "''d1''" and now = 5
      and x = "(drain_order ''o1'' 1)\<lparr>po_drain_id := Some ''d1''\<rparr>"]
  have c: "\<forall>q\<in>set (payment_orders (handleDrainUpdated 5 drain_sample (handleDrainUpdated 5 drain_sample drain_db))).
    po_id q \<in> {''o1'', ''o2''} \<longrightarrow> po_status q = ''completed''"
    by (simp add: drain_db_def drain_sample_def drain_order_def)
  have "map po_id (payment_orders (handleDrainUpdated 5 drain_sample (handleDrainUpdated 5 drain_sample drain_db)))
      = [''o1'', ''o2'']"
    by code_simp
  with c show ?thesis by (auto simp: Let_def map_eq_Cons_conv)
qed

end
