(* ===== verification/OrderApproval.thy ===== *)
theory OrderApproval imports OrderLifecycle OrderLimits begin

text \<open>
  The approval of a received deposit by the staff and the edits of the client, from
  \<open>src/application/payment-orders/payment-orders.service.ts\<close>. The approval of
  \<open>bolivia_to_world\<close> creates the transfer at the provider with a fixed amount of destination; the
  one of \<open>bolivia_to_wallet\<close> only looks up the address where the staff deposit.
\<close>

section \<open>Rates and the estimated margin\<close>

text \<open>A rate of the exchange rate service; an error is its exception.\<close>

record full_rate = rate_data +
  base_rate :: rat

type_synonym get_rate = "string \<Rightarrow> full_rate result"

definition BRIDGE_FIXED_OUTPUT_BUFFER :: rat where
  "BRIDGE_FIXED_OUTPUT_BUFFER = 1 / 100"

text \<open>The margin in BOB; \<open>None\<close> is \<open>NaN\<close>, which a rate of zero leads to.\<close>

definition usd_dest_sell :: "get_rate \<Rightarrow> string \<Rightarrow> rat result" where
  "usd_dest_sell getRate destCurrency =
     (if destCurrency = ''USD'' then Inr 1
      else bind_r (getRate (''USD_'' @ destCurrency))
        (\<lambda>d. Inr (or_else (bridge_sell_rate d) (base_rate d))))"

definition estimateBoliviaToWorldMargin :: "get_rate \<Rightarrow> payment_order \<Rightarrow> rat option result" where
  "estimateBoliviaToWorldMargin getRate order =
     bind_r (getRate ''BOB_USD'') (\<lambda>b.
       bind_r (usd_dest_sell getRate (to_upper (or_else (po_destination_currency order) ''usd''))) (\<lambda>sell.
         let bobUsdBase = base_rate b;
             amountDestination = or_else (po_amount_destination order) 0
         in Inr (if sell = 0 \<or> (po_developer_fee_usd order = None \<and> bobUsdBase = 0) then None
            else
              let developerFeeUsd = (case po_developer_fee_usd order of Some f \<Rightarrow> f
                    | None \<Rightarrow> or_else (po_fee_amount order) 0 / bobUsdBase);
                  usdcNeeded = amountDestination / sell;
                  buffer = usdcNeeded * BRIDGE_FIXED_OUTPUT_BUFFER;
                  usdcToDeposit = usdcNeeded + buffer + developerFeeUsd;
                  costBob = usdcToDeposit * bobUsdBase;
                  returnedBob = (developerFeeUsd + buffer) * bobUsdBase
              in Some (round2 (po_amount order - costBob + returnedBob)))))"

definition getBoliviaToWorldMarginEstimate ::
  "get_rate \<Rightarrow> string \<Rightarrow> orders_db \<Rightarrow> rat option result" where
  "getBoliviaToWorldMarginEstimate getRate orderId db =
     (case select_order orderId db of
        None \<Rightarrow> Inl (NotFoundException '''')
      | Some order \<Rightarrow>
          if po_flow_type order \<noteq> Some ''bolivia_to_world'' then Inl (BadRequestException '''')
          else estimateBoliviaToWorldMargin getRate order)"

section \<open>Two transfers must not share an address\<close>

definition COLLISION_STATUSES :: "string list" where
  "COLLISION_STATUSES = [''waiting_deposit'', ''deposit_received'', ''processing'']"

definition same_deposit_route :: "string \<Rightarrow> payment_order \<Rightarrow> bool" where
  "same_deposit_route destCurrency row \<longleftrightarrow>
     (case po_bridge_instructions row of
        None \<Rightarrow> False
      | Some i \<Rightarrow> to_lower (or_else (di_rail i) '''') = ''solana''
          \<and> to_lower (or_else (di_currency i) '''') = ''usdc''
          \<and> to_lower (or_else (po_destination_currency row) '''') = destCurrency)"

definition assertNoDepositAddressCollision :: "payment_order \<Rightarrow> orders_db \<Rightarrow> unit result" where
  "assertNoDepositAddressCollision order db =
     (let active = take 50 (filter (\<lambda>r. po_user_id r = po_user_id order \<and> po_id r \<noteq> po_id order
            \<and> po_bridge_transfer_id r \<noteq> None \<and> po_status r \<in> set COLLISION_STATUSES) (payment_orders db))
      in case find (same_deposit_route (to_lower (or_else (po_destination_currency order) ''''))) active of
           None \<Rightarrow> Inr ()
         | Some _ \<Rightarrow> Inl (ConflictException ''DEPOSIT_ADDRESS_IN_USE''))"

section \<open>The transfer of \<open>bolivia_to_world\<close>\<close>

text \<open>The data the transfer needs; the fee is rebuilt for an order that has none frozen, and an
  infinite one is refused by the provider.\<close>

definition b2w_data ::
  "get_rate \<Rightarrow> payment_order \<Rightarrow> orders_db \<Rightarrow> (string \<times> string \<times> string \<times> rat \<times> rat) result" where
  "b2w_data getRate order db =
     (if \<not> truthy (po_supplier_id order) then Inl (BadRequestException ''supplier_id'')
      else if or_else (po_amount_destination order) 0 \<le> 0 then Inl (BadRequestException ''amount_destination'')
      else case maybe_single (filter (\<lambda>s. Some (sp_id s) = po_supplier_id order) (suppliers db)) of
        None \<Rightarrow> Inl (BadRequestException ''payment_rail'')
      | Some s \<Rightarrow>
          if \<not> truthy (sp_payment_rail s) then Inl (BadRequestException ''payment_rail'')
          else case Option.bind (maybe_single (filter (\<lambda>p. pr_id p = po_user_id order) (profiles db)))
                      pr_bridge_customer_id of
            None \<Rightarrow> Inl (BadRequestException ''bridge_customer_id'')
          | Some customer \<Rightarrow>
              if customer = '''' then Inl (BadRequestException ''bridge_customer_id'')
              else case Option.bind (maybe_single (filter (\<lambda>a. Some (ea_id a) = po_external_account_id order)
                           (external_accounts db))) ea_bridge_external_account_id of
                None \<Rightarrow> Inl (NotFoundException '''')
              | Some ext \<Rightarrow>
                  if ext = '''' then Inl (NotFoundException '''')
                  else bind_r (case po_developer_fee_usd order of
                      Some f \<Rightarrow> Inr f
                    | None \<Rightarrow> bind_r (getRate ''BOB_USD'')
                        (\<lambda>d. if effective_rate d = 0 then Inl (ErrorException ''developer_fee'')
                             else Inr (round2 (or_else (po_fee_amount order) 0 / effective_rate d))))
                    (\<lambda>fee. Inr (the (sp_payment_rail s), customer, ext, fee, the (po_amount_destination order))))"

definition createBoliviaToWorldTransfer ::
  "leg_env \<Rightarrow> get_rate \<Rightarrow> payment_order \<Rightarrow> orders_db \<Rightarrow> ostring result \<times> orders_db" where
  "createBoliviaToWorldTransfer lv getRate order db =
     (case b2w_data getRate order db of
        Inl e \<Rightarrow> (Inl e, db)
      | Inr (rail, customer, ext, fee, amountDestination) \<Rightarrow>
          let dcur = to_lower (or_else (po_destination_currency order) ''usd'') in
          (case lv_post lv (''po_b2w_'' @ po_id order)
              \<lparr>tp_on_behalf_of = customer, tp_source_rail = ''solana'', tp_source_currency = ''usdc'',
               tp_source_wallet = None, tp_source_amount = None, tp_destination_rail = rail,
               tp_destination_currency = dcur, tp_to_address = None, tp_external_account = Some ext,
               tp_destination_wallet = None, tp_destination_amount = Some (toFixed2 amountDestination),
               tp_rail_reference = buildRailReference rail (po_id order), tp_amount = None,
               tp_developer_fee = Some (toFixed2 fee), tp_developer_fee_percent = None,
               tp_flexible_amount = False, tp_client_reference_id = po_id order\<rparr> of
             Inl e \<Rightarrow> (Inl e, db)
           | Inr resp \<Rightarrow>
               let db1 = set_order (po_id order) (\<lambda>o'. o'\<lparr>po_bridge_transfer_id := br_id resp,
                     po_bridge_instructions := Some \<lparr>di_to_address = br_to_address resp, di_rail = Some ''solana'',
                       di_currency = Some ''usdc'', di_amount_to_deposit = br_source_amount resp\<rparr>\<rparr>) db;
                   (_, db2) = recordBridgeTransfer (lv_transfer_row_ok lv)
                     (transfer_row lv order resp ''solana'' (Some ''usdc'') rail dcur
                        (or_else (br_source_amount resp) 0) (Some fee) None amountDestination ''awaiting_funds'') db1
               in (Inr (br_id resp), db2)))"

section \<open>Approval\<close>

record approve_dto =
  ap_notes :: ostring
  ap_receipt_url :: ostring
  ap_acknowledge_negative_margin :: "bool option"

text \<open>The address where the staff deposit for \<open>bolivia_to_wallet\<close>, read after the claim.\<close>

definition wallet_deposit_address :: "payment_order \<Rightarrow> orders_db \<Rightarrow> liquidation_address result" where
  "wallet_deposit_address order db =
     (if \<not> truthy (po_supplier_id order) then Inl (BadRequestException ''supplier_id'')
      else case Option.bind (maybe_single (filter (\<lambda>s. Some (sp_id s) = po_supplier_id order) (suppliers db)))
                  sp_liquidation_address_id of
        None \<Rightarrow> Inl (BadRequestException ''liquidation address'')
      | Some la \<Rightarrow>
          if la = '''' then Inl (BadRequestException ''liquidation address'')
          else case maybe_single (filter (\<lambda>a. la_bridge_id a = la) (liquidation_addresses db)) of
            None \<Rightarrow> Inl (BadRequestException ''liquidation address'')
          | Some a \<Rightarrow> Inr a)"

definition BOB_OUT_FLOWS :: "string list" where
  "BOB_OUT_FLOWS = [''bolivia_to_world'', ''bolivia_to_wallet'', ''fiat_bo_to_bridge_wallet'']"

definition amount_to_deposit :: "payment_order \<Rightarrow> rat option" where
  "amount_to_deposit order =
     (case po_exchange_rate order of
        Some rate \<Rightarrow> if rate \<noteq> 0 \<and> (\<exists>f\<in>set BOB_OUT_FLOWS. po_flow_type order = Some f)
                     then Some (toFixed2 (po_amount order / rate)) else po_amount_destination order
      | None \<Rightarrow> po_amount_destination order)"

text \<open>The margin blocks the approval when it is negative, unless the staff acknowledge it; when it
  cannot be estimated the approval goes on.\<close>

definition negative_margin :: "get_rate \<Rightarrow> payment_order \<Rightarrow> approve_dto \<Rightarrow> bool" where
  "negative_margin getRate order dto \<longleftrightarrow>
     (case estimateBoliviaToWorldMargin getRate order of
        Inr (Some m) \<Rightarrow> m < 0 \<and> \<not> or_else (ap_acknowledge_negative_margin dto) False
      | _ \<Rightarrow> False)"

definition approved_fields :: "op_env \<Rightarrow> string \<Rightarrow> approve_dto \<Rightarrow> payment_order \<Rightarrow> payment_order \<Rightarrow> payment_order" where
  "approved_fields v actorId dto order o' = o'\<lparr>po_status := ''processing'',
     po_approved_by := Some actorId, po_approved_at := Some (oe_now v),
     po_notes := (if truthy (ap_notes dto)
                  then append_note (po_notes order) ''[ADMIN] '' (the (ap_notes dto)) else po_notes order),
     po_receipt_url := (if truthy (ap_receipt_url dto) then ap_receipt_url dto else po_receipt_url o')\<rparr>"

definition deposit_after_approval ::
  "leg_env \<Rightarrow> get_rate \<Rightarrow> payment_order \<Rightarrow> payment_order \<Rightarrow> orders_db \<Rightarrow> payment_order result \<times> orders_db" where
  "deposit_after_approval lv getRate order updated db =
     (if po_flow_type order = Some ''bolivia_to_world''
      then (case createBoliviaToWorldTransfer lv getRate order db of
              (Inr _, db') \<Rightarrow> (Inr updated, db')
            | (Inl _, db') \<Rightarrow>
                (Inl (BadRequestException ''''), set_order (po_id order)
                   (\<lambda>o'. o'\<lparr>po_status := ''deposit_received''\<rparr>) db'))
      else if po_flow_type order = Some ''bolivia_to_wallet''
      then (case wallet_deposit_address order db of
              Inl e \<Rightarrow> (Inl e, db)
            | Inr a \<Rightarrow> (Inr updated, set_order (po_id order) (\<lambda>o'. o'\<lparr>po_bridge_instructions :=
                Some \<lparr>di_to_address = la_address a, di_rail = la_chain a, di_currency = la_currency a,
                      di_amount_to_deposit = amount_to_deposit order\<rparr>\<rparr>) db))
      else (Inr updated, db))"

definition approveOrder ::
  "op_env \<Rightarrow> leg_env \<Rightarrow> get_rate \<Rightarrow> string \<Rightarrow> string \<Rightarrow> approve_dto \<Rightarrow> orders_db
    \<Rightarrow> payment_order result \<times> orders_db" where
  "approveOrder v lv getRate orderId actorId dto db =
     (case select_order orderId db of
        None \<Rightarrow> (Inl (NotFoundException ''''), db)
      | Some order \<Rightarrow>
          if po_status order \<noteq> ''deposit_received'' then (Inl (BadRequestException ''''), db)
          else if \<not> po_requires_psav order then (Inl (BadRequestException ''''), db)
          else
            let world = (po_flow_type order = Some ''bolivia_to_world'') in
            (case (if world then assertNoDepositAddressCollision order db else Inr ()) of
               Inl e \<Rightarrow> (Inl e, db)
             | Inr _ \<Rightarrow>
                 if world \<and> negative_margin getRate order dto then (Inl (ConflictException ''NEGATIVE_MARGIN''), db)
                 else if \<not> oe_db_ok v then (Inl (DbException ''''), oe_env v db)
                 else
                   let (updated, db1) = cas_order
                         (\<lambda>o'. po_id o' = orderId \<and> po_status o' = ''deposit_received'')
                         (approved_fields v actorId dto order) (oe_env v db)
                   in case updated of
                        None \<Rightarrow> (Inl (ConflictException ''ORDER_STATE_CHANGED''), db1)
                      | Some o' \<Rightarrow>
                          deposit_after_approval lv getRate order o'
                            (log_activity (po_user_id order) ''PAYMENT_ORDER_APPROVED''
                              (log_audit (Some actorId) ''APPROVE_PAYMENT_ORDER'' orderId db1))))"

section \<open>Edits by the client\<close>

text \<open>The outer option of a field says whether the request contains it.\<close>

record order_patch =
  up_supporting_document_url :: "ostring option"
  up_notes :: "ostring option"

definition EDITABLE_STATUSES :: "string list" where
  "EDITABLE_STATUSES = [''created'', ''waiting_deposit'']"

definition updateOrderByUser ::
  "bool \<Rightarrow> string \<Rightarrow> string \<Rightarrow> order_patch \<Rightarrow> orders_db \<Rightarrow> payment_order result \<times> orders_db" where
  "updateOrderByUser db_ok userId orderId dto db =
     (case select_user_order userId orderId db of
        None \<Rightarrow> (Inl (NotFoundException ''''), db)
      | Some order \<Rightarrow>
          if po_status order \<notin> set EDITABLE_STATUSES then (Inl (BadRequestException ''''), db)
          else if up_supporting_document_url dto = None \<and> up_notes dto = None
            then (Inl (BadRequestException ''''), db)
          else if \<not> db_ok then (Inl (DbException ''''), db)
          else
            let (updated, db') = cas_order (\<lambda>o'. po_id o' = orderId \<and> po_user_id o' = userId)
                  (\<lambda>o'. o'\<lparr>po_supporting_document_url := or_else (up_supporting_document_url dto) (po_supporting_document_url o'),
                          po_notes := or_else (up_notes dto) (po_notes o')\<rparr>) db
            in case updated of None \<Rightarrow> (Inl (DbException ''''), db') | Some o' \<Rightarrow> (Inr o', db'))"

end
