(* ===== verification/ApprovalProperties.thy ===== *)
theory ApprovalProperties imports OrderApproval OrderProperties begin

text \<open>
  Properties of the approval of a received deposit: it leaves the quote and the money alone, a
  transfer that fails gives the order back, and an order to a wallet without a liquidation address
  is claimed and left behind.
\<close>

section \<open>The run of an approval\<close>

definition claimed_deposit ::
  "op_env \<Rightarrow> string \<Rightarrow> approve_dto \<Rightarrow> string \<Rightarrow> payment_order \<Rightarrow> orders_db \<Rightarrow> orders_db" where
  "claimed_deposit v actor dto i order db =
     log_activity (po_user_id order) ''PAYMENT_ORDER_APPROVED''
       (log_audit (Some actor) ''APPROVE_PAYMENT_ORDER'' i
         (update_orders (\<lambda>x. po_id x = i \<and> po_status x = ''deposit_received'')
            (approved_fields v actor dto order) db))"

definition approvable :: "op_env \<Rightarrow> get_rate \<Rightarrow> string \<Rightarrow> approve_dto \<Rightarrow> payment_order \<Rightarrow> orders_db \<Rightarrow> bool" where
  "approvable v getRate i dto order db \<longleftrightarrow> select_order i db = Some order
     \<and> po_status order = ''deposit_received'' \<and> po_requires_psav order \<and> oe_db_ok v
     \<and> (po_flow_type order = Some ''bolivia_to_world'' \<longrightarrow>
          is_ok (assertNoDepositAddressCollision order db) \<and> \<not> negative_margin getRate order dto)"

lemma select_order_claim:
  assumes "select_order i db = Some order" "po_status order = ''deposit_received''"
  shows "filter (\<lambda>x. po_id x = i) (payment_orders (claimed_deposit v actor dto i order db))
    = [approved_fields v actor dto order order]"
proof -
  let ?u = "\<lambda>x. if po_status x = ''deposit_received'' then approved_fields v actor dto order x else x"
  have "filter (\<lambda>x. po_id x = i) (update_where (\<lambda>x. po_id x = i \<and> po_status x = ''deposit_received'')
      (approved_fields v actor dto order) os) = map ?u (filter (\<lambda>x. po_id x = i) os)" for os
    by (induction os) (simp_all add: approved_fields_def)
  from this [of "payment_orders db"] assms show ?thesis
    by (simp add: claimed_deposit_def select_order_def maybe_single_Some)
qed

lemma claimed_tables:
  "suppliers (claimed_deposit v actor dto i order db) = suppliers db"
  "liquidation_addresses (claimed_deposit v actor dto i order db) = liquidation_addresses db"
  by (simp_all add: claimed_deposit_def log_activity_def log_audit_def update_orders_def)

lemma approve_run:
  assumes "approvable v getRate i dto order db" "oe_env v = (\<lambda>d. d)"
  shows "approveOrder v lv getRate i actor dto db =
    deposit_after_approval lv getRate order (approved_fields v actor dto order order)
      (claimed_deposit v actor dto i order db)"
proof -
  have s: "select_order i db = Some order" "po_status order = ''deposit_received''" "po_requires_psav order"
    "oe_db_ok v" using assms(1) by (simp_all add: approvable_def)
  show ?thesis
  proof (cases "po_flow_type order = Some ''bolivia_to_world''")
    case True
    with assms(1) have "assertNoDepositAddressCollision order db = Inr ()" "\<not> negative_margin getRate order dto"
      by (simp_all add: approvable_def is_ok_iff)
    with True show ?thesis
      by (simp add: approveOrder_def claimed_deposit_def s assms(2) select_cas [OF s(1,2)])
  next
    case False
    then show ?thesis
      by (simp add: approveOrder_def claimed_deposit_def s assms(2) select_cas [OF s(1,2)])
  qed
qed
lemma approve_refused:
  assumes "\<not> (\<exists>order. approvable v getRate i dto order db)" "oe_env v = (\<lambda>d. d)"
  shows "\<exists>e. approveOrder v lv getRate i actor dto db = (Inl e, db)"
proof (cases "select_order i db")
  case None
  then show ?thesis by (simp add: approveOrder_def)
next
  case (Some order)
  with assms(1) have "\<not> approvable v getRate i dto order db" by blast
  with Some assms(2) show ?thesis
    by (cases "assertNoDepositAddressCollision order db";
        cases "po_flow_type order = Some ''bolivia_to_world''")
       (auto simp: approvable_def approveOrder_def simp del: not_Some_eq)
qed

section \<open>Frames\<close>

text \<open>The columns the client agreed to when the order was created.\<close>

definition quote_of :: "payment_order \<Rightarrow> string \<times> string \<times> rat \<times> ostring \<times> rat option \<times> rat option
    \<times> rat option \<times> ostring \<times> rat option \<times> rat option" where
  "quote_of x = (po_id x, po_user_id x, po_amount x, po_currency x, po_fee_amount x, po_net_amount x,
     po_amount_destination x, po_destination_currency x, po_exchange_rate x, po_developer_fee_usd x)"

definition agreed :: "orders_db \<Rightarrow> _" where
  "agreed db = (balances db, ledger_entries db, map quote_of (payment_orders db))"

lemma agreed_update [simp]:
  "(\<And>x. quote_of (f x) = quote_of x) \<Longrightarrow> agreed (update_orders p f db) = agreed db"
  by (simp add: agreed_def map_update_where)

lemma agreed_logs [simp]:
  "agreed (log_audit w a r db) = agreed db" "agreed (log_activity u a db) = agreed db"
  "agreed (snd (recordBridgeTransfer ok row db)) = agreed db"
  by (simp_all add: agreed_def)

lemma quote_fields [simp]:
  "quote_of (approved_fields v actor dto order x) = quote_of x"
  "quote_of (x\<lparr>po_status := s\<rparr>) = quote_of x" "quote_of (x\<lparr>po_bridge_instructions := b\<rparr>) = quote_of x"
  "quote_of (x\<lparr>po_bridge_transfer_id := t, po_bridge_instructions := b\<rparr>) = quote_of x"
  by (simp_all add: quote_of_def approved_fields_def)

lemma claimed_agreed [simp]: "agreed (claimed_deposit v actor dto i order db) = agreed db"
  by (simp add: claimed_deposit_def)

lemma transfer_agreed [simp]: "agreed (snd (createBoliviaToWorldTransfer lv getRate order db)) = agreed db"
  by (simp add: createBoliviaToWorldTransfer_def set_order_def Let_def case_prod_beta quote_of_def
      split: sum.split)

lemma deposit_agreed [simp]: "agreed (snd (deposit_after_approval lv getRate order u db)) = agreed db"
proof (cases "createBoliviaToWorldTransfer lv getRate order db")
  case (Pair r db')
  with transfer_agreed [of lv getRate order db] have "agreed db' = agreed db" by simp
  with Pair show ?thesis
    by (simp add: deposit_after_approval_def set_order_def split: sum.split)
qed

section \<open>Properties\<close>

text \<open>C40: Approving an order moves no money and keeps the quote. Whatever the provider, the rates
  and the staff answer, and whether the approval succeeds or not, balances, ledger and the agreed
  columns of every order (amount, fee, rate, destination amount) are as before.\<close>

theorem approval_keeps_quote:
  assumes "oe_env v = (\<lambda>d. d)"
  shows "agreed (snd (approveOrder v lv getRate i actor dto db)) = agreed db"
proof (cases "\<exists>order. approvable v getRate i dto order db")
  case True
  then obtain order where "approvable v getRate i dto order db" by blast
  from approve_run [OF this assms] show ?thesis by simp
next
  case False
  from approve_refused [OF this assms, of lv actor] show ?thesis by auto
qed

definition blocked_order :: payment_order where
  "blocked_order = blank_order\<lparr>po_id := ''o1'', po_user_id := ''u1'', po_status := ''deposit_received'',
     po_flow_type := Some ''bolivia_to_wallet'', po_amount := 700, po_currency := Some ''BOB'',
     po_requires_psav := True\<rparr>"

definition plain_approval :: approve_dto where
  "plain_approval = \<lparr>ap_notes = None, ap_receipt_url = None, ap_acknowledge_negative_margin = None\<rparr>"

theorem approval_keeps_quote_witness:
  "agreed (snd (approveOrder alone provider_down (\<lambda>_. Inl (ErrorException '''')) ''o1'' ''s'' plain_approval
     (sample_db [blocked_order]))) = agreed (sample_db [blocked_order])"
  by (rule approval_keeps_quote) simp

lemma transfer_failed_same:
  "createBoliviaToWorldTransfer lv getRate order db = (Inl e, db') \<Longrightarrow> db' = db"
  by (auto simp: createBoliviaToWorldTransfer_def Let_def case_prod_beta split: sum.splits)

text \<open>When the transfer of \<open>bolivia_to_world\<close> cannot be created, for whatever reason, the order
  is a received deposit again, so that the staff can repeat the approval.\<close>

theorem failed_world_approval_recoverable:
  assumes "oe_env v = (\<lambda>d. d)" "select_order i db = Some order"
    and "po_status order = ''deposit_received''" "po_flow_type order = Some ''bolivia_to_world''"
    and "approveOrder v lv getRate i actor dto db = (Inl e, db')"
  shows "\<exists>order'. select_order i db' = Some order' \<and> po_status order' = ''deposit_received''"
proof (cases "\<exists>o'. approvable v getRate i dto o' db")
  case False
  from approve_refused [OF this assms(1), of lv actor] assms(2,3,5) show ?thesis by auto
next
  case True
  then have a: "approvable v getRate i dto order db" using assms(2) by (auto simp: approvable_def)
  let ?d = "claimed_deposit v actor dto i order db"
  have id: "po_id order = i" and one: "filter (\<lambda>x. po_id x = i) (payment_orders db) = [order]"
    using assms(2) select_order_in [OF assms(2)] by (simp_all add: select_order_def maybe_single_Some)
  from approve_run [OF a assms(1), of lv actor] assms(4,5)
  have "deposit_after_approval lv getRate order (approved_fields v actor dto order order) ?d = (Inl e, db')"
    by simp
  then have db': "db' = set_order (po_id order) (\<lambda>o'. o'\<lparr>po_status := ''deposit_received''\<rparr>) ?d"
    using assms(4) transfer_failed_same [of lv getRate order ?d]
    by (cases "createBoliviaToWorldTransfer lv getRate order ?d"; cases "fst (createBoliviaToWorldTransfer lv getRate order ?d)")
       (simp_all add: deposit_after_approval_def)
  have "filter (\<lambda>x. po_id x = i) (payment_orders ?d) = [approved_fields v actor dto order order]"
    by (rule select_order_claim [OF assms(2,3)])
  then have "filter (\<lambda>x. po_id x = i) (payment_orders db')
      = [(approved_fields v actor dto order order)\<lparr>po_status := ''deposit_received''\<rparr>]"
    unfolding db' set_order_def id using assms(3)
    by (simp add: filter_update_where)
  then show ?thesis by (simp add: select_order_def)
qed

text \<open>The approval of \<open>bolivia_to_wallet\<close> claims the order before it looks for the liquidation
  address of the supplier. When there is none it throws and leaves the order in processing without
  instructions for the staff; the approval cannot be repeated, although nothing was sent. The
  approval of \<open>bolivia_to_world\<close> gives the order back in the same situation.\<close>

theorem approval_without_address_sticks:
  assumes "oe_env v = (\<lambda>d. d)" "oe_db_ok v" "select_order i db = Some order"
    and "po_status order = ''deposit_received''" "po_requires_psav order"
    and "po_flow_type order = Some ''bolivia_to_wallet''"
    and "wallet_deposit_address order db = Inl e"
    and "approveOrder v lv getRate i actor dto db = (res, db')"
  shows "res = Inl e
    \<and> map_option po_status (select_order i db') = Some ''processing''
    \<and> map_option po_bridge_instructions (select_order i db') = Some (po_bridge_instructions order)
    \<and> approveOrder v lv getRate i actor' dto' db' = (Inl (BadRequestException ''''), db')"
proof -
  let ?d = "claimed_deposit v actor dto i order db"
  have a: "approvable v getRate i dto order db"
    unfolding approvable_def by (simp add: assms)
  have "wallet_deposit_address order ?d = wallet_deposit_address order db"
    unfolding wallet_deposit_address_def claimed_tables ..
  with approve_run [OF a assms(1), of lv actor] assms(6-8) have r: "res = Inl e" "db' = ?d"
    by (simp_all add: deposit_after_approval_def)
  have "filter (\<lambda>x. po_id x = i) (payment_orders ?d) = [approved_fields v actor dto order order]"
    using select_order_claim [OF assms(3,4)] by simp
  then have s: "select_order i db' = Some (approved_fields v actor dto order order)"
    by (simp add: select_order_def r)
  have f: "po_status (approved_fields v actor dto order order) = ''processing''"
    "po_bridge_instructions (approved_fields v actor dto order order) = po_bridge_instructions order"
    by (simp_all add: approved_fields_def)
  show ?thesis by (simp add: r(1) s f approveOrder_def)
qed

theorem approval_without_address_sticks_witness:
  "fst (approveOrder alone provider_down (\<lambda>_. Inl (ErrorException '''')) ''o1'' ''s'' plain_approval
     (sample_db [blocked_order])) = Inl (BadRequestException ''supplier_id'')"
  using approval_without_address_sticks [of alone "''o1''" "sample_db [blocked_order]" blocked_order
      "BadRequestException ''supplier_id''" provider_down "\<lambda>_. Inl (ErrorException '''')" "''s''" plain_approval]
  by (cases "approveOrder alone provider_down (\<lambda>_. Inl (ErrorException '''')) ''o1'' ''s'' plain_approval
        (sample_db [blocked_order])")
     (simp add: select_order_def blocked_order_def wallet_deposit_address_def)

definition world_order :: payment_order where
  "world_order = blocked_order\<lparr>po_flow_type := Some ''bolivia_to_world''\<rparr>"

theorem failed_world_approval_recoverable_witness:
  "\<exists>order'. select_order ''o1'' (snd (approveOrder alone provider_down (\<lambda>_. Inl (ErrorException ''''))
      ''o1'' ''s'' plain_approval (sample_db [world_order]))) = Some order'
    \<and> po_status order' = ''deposit_received''"
proof -
  let ?r = "approveOrder alone provider_down (\<lambda>_. Inl (ErrorException '''')) ''o1'' ''s'' plain_approval (sample_db [world_order])"
  have "(case fst ?r of Inl _ \<Rightarrow> True | Inr _ \<Rightarrow> False)" by code_simp
  then obtain e where "?r = (Inl e, snd ?r)" by (cases ?r) (simp split: sum.splits)
  then show ?thesis
    by (intro failed_world_approval_recoverable [where order = world_order])
       (simp_all add: select_order_def world_order_def blocked_order_def)
qed

end
