(* ===== verification/OrderIndexes.thy ===== *)
theory OrderIndexes imports OrderStates begin

text \<open>
  At most one active order per route: the checks of
  \<open>src/application/payment-orders/payment-orders.service.ts\<close> before an order is created, and the
  partial unique indexes of \<open>migrations/20260909_pending_review_gate.sql\<close> and
  \<open>20260909_pending_review_gate_indexes_interbank.sql\<close> that an insert meets. The comments there ask
  for the same statuses in both.
\<close>

section \<open>The unique indexes\<close>

text \<open>The key of a row in an index: \<open>None\<close> when the row is outside of it or a column is null, which
  PostgreSQL treats as different from every other row.\<close>

type_synonym order_index = "payment_order \<Rightarrow> string list option"

definition flow_in :: "string list \<Rightarrow> payment_order \<Rightarrow> bool" where
  "flow_in fs r \<longleftrightarrow> (case po_flow_type r of None \<Rightarrow> False | Some f \<Rightarrow> f \<in> set fs)"

definition INTERBANK_ACTIVE :: "string list" where
  "INTERBANK_ACTIVE = [''pending_review'', ''waiting_deposit'', ''deposit_received'', ''processing'']"

definition OFF_RAMP_ACTIVE :: "string list" where
  "OFF_RAMP_ACTIVE = [''created'', ''pending_review'', ''processing'']"

definition WORLD_ACTIVE :: "string list" where
  "WORLD_ACTIVE = [''created'', ''pending_review'', ''waiting_deposit'', ''processing'']"

definition BRIDGE_DEPOSIT_FLOWS :: "string list" where
  "BRIDGE_DEPOSIT_FLOWS = [''fiat_bo_to_bridge_wallet'', ''crypto_to_bridge_wallet'', ''wallet_to_wallet'']"

definition index_on :: "string \<Rightarrow> string list \<Rightarrow> (payment_order \<Rightarrow> string list option) \<Rightarrow> order_index" where
  "index_on flow sts key r =
     (if po_flow_type r = Some flow \<and> po_status r \<in> set sts
      then map_option (Cons (po_user_id r)) (key r) else None)"

definition key1 :: "(payment_order \<Rightarrow> ostring) \<Rightarrow> payment_order \<Rightarrow> string list option" where
  "key1 c r = map_option (\<lambda>x. [x]) (c r)"

definition key2 :: "(payment_order \<Rightarrow> ostring) \<Rightarrow> (payment_order \<Rightarrow> ostring) \<Rightarrow> payment_order \<Rightarrow> string list option" where
  "key2 c d r = Option.bind (c r) (\<lambda>x. map_option (\<lambda>y. [x, y]) (d r))"

definition idx_po_btw_active_per_currency :: order_index where
  "idx_po_btw_active_per_currency = index_on ''bolivia_to_world'' INTERBANK_ACTIVE (key1 po_destination_currency)"

definition idx_po_b2w_active_per_dest_currency :: order_index where
  "idx_po_b2w_active_per_dest_currency = index_on ''bolivia_to_wallet'' INTERBANK_ACTIVE (key1 po_destination_currency)"

definition idx_po_w2b_active_per_dest_currency :: order_index where
  "idx_po_w2b_active_per_dest_currency = index_on ''world_to_bolivia'' INTERBANK_ACTIVE (key1 po_destination_currency)"

definition idx_po_bw2fbo_active_per_src :: order_index where
  "idx_po_bw2fbo_active_per_src = index_on ''bridge_wallet_to_fiat_bo'' OFF_RAMP_ACTIVE (key1 po_source_currency)"

definition idx_po_bw2c_active_per_src_dest :: order_index where
  "idx_po_bw2c_active_per_src_dest =
     index_on ''bridge_wallet_to_crypto'' OFF_RAMP_ACTIVE (key2 po_source_currency po_destination_network)"

definition idx_po_bw2fus_active_per_src_supplier :: order_index where
  "idx_po_bw2fus_active_per_src_supplier =
     index_on ''bridge_wallet_to_fiat_us'' OFF_RAMP_ACTIVE (key2 po_source_currency po_supplier_id)"

definition idx_po_w2w_active_per_src_supplier :: order_index where
  "idx_po_w2w_active_per_src_supplier =
     index_on ''wallet_to_world'' WORLD_ACTIVE (key2 po_source_currency po_supplier_id)"

definition takes_bridge_address :: "payment_order \<Rightarrow> bool" where
  "takes_bridge_address r \<longleftrightarrow> po_status r = ''waiting_deposit'' \<and> po_bridge_transfer_id r \<noteq> None
     \<or> po_status r = ''pending_review''"

definition idx_po_bridge_active_per_rail :: order_index where
  "idx_po_bridge_active_per_rail r =
     (if flow_in BRIDGE_DEPOSIT_FLOWS r \<and> takes_bridge_address r
      then map_option (Cons (po_user_id r)) (key2 po_source_network po_source_currency r) else None)"

definition order_indexes :: "order_index list" where
  "order_indexes = [idx_po_btw_active_per_currency, idx_po_b2w_active_per_dest_currency,
     idx_po_w2b_active_per_dest_currency, idx_po_bw2fbo_active_per_src, idx_po_bw2c_active_per_src_dest,
     idx_po_bw2fus_active_per_src_supplier, idx_po_w2w_active_per_src_supplier, idx_po_bridge_active_per_rail]"

definition violates :: "payment_order list \<Rightarrow> payment_order \<Rightarrow> order_index \<Rightarrow> bool" where
  "violates os row idx \<longleftrightarrow> idx row \<noteq> None \<and> list_ex (\<lambda>r. idx r = idx row) os"

text \<open>\<open>.insert(...).select().single()\<close> with the error the code throws.\<close>

definition insert_payment_order :: "bool \<Rightarrow> payment_order \<Rightarrow> orders_db \<Rightarrow> payment_order result \<times> orders_db" where
  "insert_payment_order db_ok row db =
     (if \<not> db_ok \<or> list_ex (violates (payment_orders db) row) order_indexes then (Inl (DbException ''''), db)
      else (Inr row, db\<lparr>payment_orders := payment_orders db @ [row]\<rparr>))"

section \<open>The checks of the service\<close>

definition active_for :: "string \<Rightarrow> string \<Rightarrow> string list \<Rightarrow> payment_order \<Rightarrow> bool" where
  "active_for userId flow sts r \<longleftrightarrow> po_user_id r = userId \<and> po_flow_type r = Some flow \<and> po_status r \<in> set sts"

definition refuse_if :: "bool \<Rightarrow> unit result" where
  "refuse_if b = (if b then Inl (ConflictException ''ACTIVE_ORDER_CONFLICT'') else Inr ())"

text \<open>\<open>ilike\<close> without wildcards compares regardless of case.\<close>

definition ilike :: "ostring \<Rightarrow> string \<Rightarrow> bool" where
  "ilike c s \<longleftrightarrow> (case c of None \<Rightarrow> False | Some x \<Rightarrow> to_lower x = to_lower s)"

definition assertNoConflictingBoliviaToWorldOrder :: "string \<Rightarrow> string \<Rightarrow> orders_db \<Rightarrow> unit result" where
  "assertNoConflictingBoliviaToWorldOrder userId destinationCurrency db =
     refuse_if (list_ex (\<lambda>r. active_for userId ''bolivia_to_world'' INTERBANK_ACTIVE r
       \<and> ilike (po_destination_currency r) (to_upper destinationCurrency)) (payment_orders db))"

definition assertNoConflictingBridgeDepositOrder :: "string \<Rightarrow> string \<Rightarrow> string \<Rightarrow> orders_db \<Rightarrow> unit result" where
  "assertNoConflictingBridgeDepositOrder userId sourceCurrency sourceNetwork db =
     (let candidates = take 10 (filter (\<lambda>r. po_user_id r = userId \<and> flow_in BRIDGE_DEPOSIT_FLOWS r
            \<and> po_source_network r = Some (to_lower sourceNetwork)
            \<and> (po_source_currency r = Some (to_upper sourceCurrency) \<or> po_source_currency r = None)
            \<and> po_status r \<in> {''pending_review'', ''waiting_deposit''}) (payment_orders db))
      in refuse_if (list_ex takes_bridge_address candidates))"

definition assertNoConflictingPsavOrder :: "string \<Rightarrow> string \<Rightarrow> string \<Rightarrow> orders_db \<Rightarrow> unit result" where
  "assertNoConflictingPsavOrder userId flowType destinationCurrency db =
     refuse_if (list_ex (\<lambda>r. active_for userId flowType INTERBANK_ACTIVE r
       \<and> po_destination_currency r = Some (to_upper destinationCurrency)) (payment_orders db))"

definition assertNoConflictingWorldToBoliviaOrder :: "string \<Rightarrow> string \<Rightarrow> orders_db \<Rightarrow> unit result" where
  "assertNoConflictingWorldToBoliviaOrder userId sourceCurrency db =
     refuse_if (list_ex (\<lambda>r. active_for userId ''world_to_bolivia'' INTERBANK_ACTIVE r
       \<and> po_currency r = Some (to_upper sourceCurrency)) (payment_orders db))"

definition assertNoConflictingOffRampOrder :: "string \<Rightarrow> string \<Rightarrow> string \<Rightarrow> orders_db \<Rightarrow> unit result" where
  "assertNoConflictingOffRampOrder userId flowType sourceCurrency db =
     refuse_if (list_ex (\<lambda>r. active_for userId flowType OFF_RAMP_ACTIVE r
       \<and> po_source_currency r = Some (to_upper sourceCurrency)) (payment_orders db))"

definition assertNoConflictingCryptoOffRamp :: "string \<Rightarrow> string \<Rightarrow> string \<Rightarrow> orders_db \<Rightarrow> unit result" where
  "assertNoConflictingCryptoOffRamp userId sourceCurrency destinationNetwork db =
     refuse_if (list_ex (\<lambda>r. active_for userId ''bridge_wallet_to_crypto'' OFF_RAMP_ACTIVE r
       \<and> po_source_currency r = Some (to_upper sourceCurrency)
       \<and> po_destination_network r = Some (to_lower destinationNetwork)) (payment_orders db))"

definition assertNoConflictingFiatUsOffRamp :: "string \<Rightarrow> string \<Rightarrow> string \<Rightarrow> orders_db \<Rightarrow> unit result" where
  "assertNoConflictingFiatUsOffRamp userId sourceCurrency supplierId db =
     refuse_if (list_ex (\<lambda>r. active_for userId ''bridge_wallet_to_fiat_us'' OFF_RAMP_ACTIVE r
       \<and> po_source_currency r = Some (to_upper sourceCurrency)
       \<and> po_supplier_id r = Some supplierId) (payment_orders db))"

definition assertNoConflictingWalletToWorld :: "string \<Rightarrow> string \<Rightarrow> string \<Rightarrow> orders_db \<Rightarrow> unit result" where
  "assertNoConflictingWalletToWorld userId sourceCurrency supplierId db =
     refuse_if (list_ex (\<lambda>r. active_for userId ''wallet_to_world'' WORLD_ACTIVE r
       \<and> po_source_currency r = Some (to_upper sourceCurrency)
       \<and> po_supplier_id r = Some supplierId) (payment_orders db))"

section \<open>Checks against indexes\<close>

lemma refuse_if_ok [simp]: "is_ok (refuse_if b) \<longleftrightarrow> \<not> b" "refuse_if b = Inr u \<longleftrightarrow> \<not> b"
  by (simp_all add: refuse_if_def)

lemma violates_index_on:
  assumes "po_flow_type row = Some flow" "po_status row \<in> set sts" "key row = Some k"
  shows "violates os row (index_on flow sts key)
    \<longleftrightarrow> list_ex (\<lambda>r. active_for (po_user_id row) flow sts r \<and> key r = Some k) os"
  using assms by (auto simp: violates_def index_on_def active_for_def list_ex_iff)

lemma outside_index:
  "po_flow_type row \<noteq> Some flow \<Longrightarrow> \<not> violates os row (index_on flow sts key)"
  by (simp add: violates_def index_on_def)

lemma outside_bridge_index:
  "\<not> flow_in BRIDGE_DEPOSIT_FLOWS row \<Longrightarrow> \<not> violates os row idx_po_bridge_active_per_rail"
  by (simp add: violates_def idx_po_bridge_active_per_rail_def)

lemmas indexes = order_indexes_def idx_po_btw_active_per_currency_def idx_po_b2w_active_per_dest_currency_def
  idx_po_w2b_active_per_dest_currency_def idx_po_bw2fbo_active_per_src_def idx_po_bw2c_active_per_src_dest_def
  idx_po_bw2fus_active_per_src_supplier_def idx_po_w2w_active_per_src_supplier_def

lemma key1_Some: "key1 c r = Some [x] \<longleftrightarrow> c r = Some x"
  by (auto simp: key1_def)

lemma key2_Some: "key2 c d r = Some [x, y] \<longleftrightarrow> c r = Some x \<and> d r = Some y"
  by (auto simp: key2_def bind_eq_Some_conv)

lemma violates_key1:
  assumes "po_flow_type row = Some flow" "po_status row \<in> set sts" "c row = Some x"
  shows "violates os row (index_on flow sts (key1 c))
    \<longleftrightarrow> list_ex (\<lambda>r. active_for (po_user_id row) flow sts r \<and> c r = Some x) os"
  using violates_index_on [OF assms(1,2), of "key1 c" "[x]"] assms(3) by (simp add: key1_Some)

lemma violates_key2:
  assumes "po_flow_type row = Some flow" "po_status row \<in> set sts" "c row = Some x" "d row = Some y"
  shows "violates os row (index_on flow sts (key2 c d))
    \<longleftrightarrow> list_ex (\<lambda>r. active_for (po_user_id row) flow sts r \<and> c r = Some x \<and> d r = Some y) os"
  using violates_index_on [OF assms(1,2), of "key2 c d" "[x, y]"] assms(3,4) by (simp add: key2_Some)

lemma insert_ok: "is_ok (fst (insert_payment_order ok row db)) \<longleftrightarrow>
    ok \<and> \<not> list_ex (violates (payment_orders db) row) order_indexes"
  by (simp add: insert_payment_order_def)

lemma only_index:
  assumes "po_flow_type row = Some flow" "flow \<noteq> ''world_to_bolivia''"
  shows "flow = ''bolivia_to_wallet'' \<Longrightarrow> list_ex (violates os row) order_indexes
      \<longleftrightarrow> violates os row idx_po_b2w_active_per_dest_currency"
    and "flow = ''bolivia_to_world'' \<Longrightarrow> list_ex (violates os row) order_indexes
      \<longleftrightarrow> violates os row idx_po_btw_active_per_currency"
    and "flow = ''bridge_wallet_to_fiat_bo'' \<Longrightarrow> list_ex (violates os row) order_indexes
      \<longleftrightarrow> violates os row idx_po_bw2fbo_active_per_src"
    and "flow = ''bridge_wallet_to_crypto'' \<Longrightarrow> list_ex (violates os row) order_indexes
      \<longleftrightarrow> violates os row idx_po_bw2c_active_per_src_dest"
    and "flow = ''bridge_wallet_to_fiat_us'' \<Longrightarrow> list_ex (violates os row) order_indexes
      \<longleftrightarrow> violates os row idx_po_bw2fus_active_per_src_supplier"
    and "flow = ''wallet_to_world'' \<Longrightarrow> list_ex (violates os row) order_indexes
      \<longleftrightarrow> violates os row idx_po_w2w_active_per_src_supplier"
  using assms
  by (simp_all add: indexes outside_index outside_bridge_index flow_in_def BRIDGE_DEPOSIT_FLOWS_def)

text \<open>An order in review is in every index of its flow.\<close>

lemma review_active: "''pending_review'' \<in> set INTERBANK_ACTIVE" "''pending_review'' \<in> set OFF_RAMP_ACTIVE"
    "''pending_review'' \<in> set WORLD_ACTIVE"
  by (simp_all add: INTERBANK_ACTIVE_def OFF_RAMP_ACTIVE_def WORLD_ACTIVE_def)




end
