(* ===== verification/RouteCatalogs.thy ===== *)
theory RouteCatalogs imports Prelude begin

text \<open>
  The tables of supported routes and their lookups, from
  \<open>src/common/constants/bridge-route-catalog.constants.ts\<close> and
  \<open>transfer-route-catalog.constants.ts\<close>. An object literal is an association list of its own
  keys; a missing key is \<open>None\<close>, as \<open>?.\<close> and \<open>??\<close> have it.
\<close>

section \<open>Into a wallet of the client (\<open>crypto_to_bridge_wallet\<close>)\<close>

record route_entry =
  re_destinations :: "string list"
  re_min :: rat

definition route_entry :: "string list \<Rightarrow> rat \<Rightarrow> route_entry" where
  "route_entry ds m = \<lparr>re_destinations = ds, re_min = m\<rparr>"

definition BRIDGE_RAMP_ON_ROUTES :: "(string \<times> (string \<times> route_entry) list) list" where
  "BRIDGE_RAMP_ON_ROUTES =
    [(''ethereum'',
       [(''usdc'', route_entry [''usdc'', ''usdb'', ''pyusd'', ''eurc''] 1),
        (''usdt'', route_entry [''usdc'', ''usdt'', ''usdb''] 2),
        (''eurc'', route_entry [''usdc'', ''usdb'', ''eurc''] 1),
        (''pyusd'', route_entry [''usdc'', ''pyusd''] 1)]),
     (''solana'',
       [(''usdc'', route_entry [''usdc'', ''usdb'', ''pyusd'', ''eurc''] 1),
        (''usdt'', route_entry [''usdc'', ''usdb''] 2),
        (''usdb'', route_entry [''pyusd'', ''usdt''] 1),
        (''eurc'', route_entry [''usdc'', ''usdb'', ''eurc''] 1),
        (''pyusd'', route_entry [''usdc'', ''usdt''] 1)]),
     (''tron'', [(''usdt'', route_entry [''usdc'', ''usdt'', ''usdb'', ''pyusd''] 5)]),
     (''polygon'', [(''usdc'', route_entry [''usdc'', ''usdt'', ''usdb'', ''pyusd'', ''eurc''] 1)]),
     (''stellar'', [(''usdc'', route_entry [''usdc'', ''usdt'', ''usdb'', ''pyusd'', ''eurc''] 1)])]"

definition ramp_on_route :: "string \<Rightarrow> string \<Rightarrow> route_entry option" where
  "ramp_on_route network sourceCurrency =
     Option.bind (map_of BRIDGE_RAMP_ON_ROUTES network) (\<lambda>r. map_of r (to_lower sourceCurrency))"

definition getSourceCurrencies :: "string \<Rightarrow> string list" where
  "getSourceCurrencies network = map fst (or_else (map_of BRIDGE_RAMP_ON_ROUTES network) [])"

definition getDestinationCurrencies :: "string \<Rightarrow> string \<Rightarrow> string list" where
  "getDestinationCurrencies network sourceCurrency =
     (case ramp_on_route network sourceCurrency of None \<Rightarrow> [] | Some r \<Rightarrow> re_destinations r)"

definition getMinAmount :: "string \<Rightarrow> string \<Rightarrow> rat" where
  "getMinAmount network sourceCurrency =
     (case ramp_on_route network sourceCurrency of None \<Rightarrow> 1 | Some r \<Rightarrow> re_min r)"

definition isValidBridgeRampRoute :: "string \<Rightarrow> string \<Rightarrow> string \<Rightarrow> bool" where
  "isValidBridgeRampRoute sourceNetwork sourceCurrency destinationCurrency \<longleftrightarrow>
     (case ramp_on_route sourceNetwork sourceCurrency of
        None \<Rightarrow> False
      | Some r \<Rightarrow> to_lower destinationCurrency \<in> set (re_destinations r))"

definition FIAT_BO_ALLOWED_DESTINATION_CURRENCIES :: "string list" where
  "FIAT_BO_ALLOWED_DESTINATION_CURRENCIES = [''usdc'', ''usdt'', ''usdb'', ''pyusd'', ''eurc'']"

definition isValidFiatBoDestination :: "string \<Rightarrow> bool" where
  "isValidFiatBoDestination currency \<longleftrightarrow>
     to_lower currency \<in> set FIAT_BO_ALLOWED_DESTINATION_CURRENCIES"

text \<open>The network and token the agent sends from.\<close>

definition resolvePsavCryptoSource :: "string \<Rightarrow> string \<times> string" where
  "resolvePsavCryptoSource destCurrency =
     (let dest = to_lower destCurrency in
      if dest = ''usdb'' then (''tempo'', ''usdb'')
      else if dest = ''usdc'' \<or> dest = ''eurc'' then (''solana'', dest)
      else (''ethereum'', dest))"

record allowed_source =
  as_network :: string
  as_currency :: string
  as_min :: rat

definition source :: "string \<Rightarrow> string \<Rightarrow> rat \<Rightarrow> allowed_source" where
  "source n c m = \<lparr>as_network = n, as_currency = c, as_min = m\<rparr>"

definition BRIDGE_ON_RAMP_ALLOWED_SOURCES_BY_DEST :: "(string \<times> allowed_source list) list" where
  "BRIDGE_ON_RAMP_ALLOWED_SOURCES_BY_DEST =
    [(''usdc'', [source ''ethereum'' ''usdc'' 1, source ''polygon'' ''usdc'' 1,
                 source ''solana'' ''usdc'' 1, source ''stellar'' ''usdc'' 1]),
     (''usdt'', [source ''ethereum'' ''usdt'' 20, source ''tron'' ''usdt'' 20]),
     (''usdb'', []),
     (''pyusd'', [source ''ethereum'' ''pyusd'' 1]),
     (''eurc'', [source ''ethereum'' ''eurc'' 1, source ''solana'' ''eurc'' 1])]"

definition sources_for :: "string \<Rightarrow> allowed_source list" where
  "sources_for destCurrency =
     or_else (map_of BRIDGE_ON_RAMP_ALLOWED_SOURCES_BY_DEST (to_lower destCurrency)) []"

definition is_source :: "string \<Rightarrow> string \<Rightarrow> allowed_source \<Rightarrow> bool" where
  "is_source n c s \<longleftrightarrow> as_network s = to_lower n \<and> as_currency s = to_lower c"

definition getSourceNetworksForDest :: "string \<Rightarrow> string list" where
  "getSourceNetworksForDest destCurrency =
     rev (remdups (rev (map as_network (sources_for destCurrency))))"

definition getSourceCurrenciesForDestAndNetwork :: "string \<Rightarrow> string \<Rightarrow> string list" where
  "getSourceCurrenciesForDestAndNetwork destCurrency sourceNetwork =
     map as_currency (filter (\<lambda>s. as_network s = to_lower sourceNetwork) (sources_for destCurrency))"

definition getMinAmountByDest :: "string \<Rightarrow> string \<Rightarrow> string \<Rightarrow> rat" where
  "getMinAmountByDest destCurrency sourceNetwork sourceCurrency =
     (case find (is_source sourceNetwork sourceCurrency) (sources_for destCurrency) of
        None \<Rightarrow> 1 | Some s \<Rightarrow> as_min s)"

definition isValidOnRampSourceForDest :: "string \<Rightarrow> string \<Rightarrow> string \<Rightarrow> bool" where
  "isValidOnRampSourceForDest destCurrency sourceNetwork sourceCurrency \<longleftrightarrow>
     list_ex (is_source sourceNetwork sourceCurrency) (sources_for destCurrency)"

section \<open>Out of a wallet of the client\<close>

type_synonym min_table = "(string \<times> (string \<times> (string \<times> rat) list) list) list"

definition min_of :: "min_table \<Rightarrow> string \<Rightarrow> string \<Rightarrow> string \<Rightarrow> rat" where
  "min_of t a n b = or_else (Option.bind (Option.bind (map_of t (to_lower a))
     (\<lambda>r. map_of r (to_lower n))) (\<lambda>r. map_of r (to_lower b))) 0"

definition BRIDGE_RAMP_OFF_ROUTES :: min_table where
  "BRIDGE_RAMP_OFF_ROUTES =
    [(''usdc'', [(''ethereum'', [(''usdc'', 1)]), (''solana'', [(''usdc'', 1)]),
                 (''polygon'', [(''usdc'', 1)]), (''stellar'', [(''usdc'', 1)])]),
     (''usdt'', [(''ethereum'', [(''usdt'', 20)]), (''solana'', [(''usdt'', 5)]), (''tron'', [(''usdt'', 5)])]),
     (''usdb'', [(''solana'', [(''usdb'', 1)])]),
     (''pyusd'', [(''ethereum'', [(''pyusd'', 1)])]),
     (''eurc'', [(''ethereum'', [(''eurc'', 1)]), (''solana'', [(''eurc'', 1)]), (''stellar'', [(''eurc'', 1)])])]"

definition isValidOffRampRoute :: "string \<Rightarrow> string \<Rightarrow> string \<Rightarrow> bool" where
  "isValidOffRampRoute sourceCurrency destNetwork destCurrency \<longleftrightarrow>
     min_of BRIDGE_RAMP_OFF_ROUTES sourceCurrency destNetwork destCurrency > 0"

definition getOffRampMinAmount :: "string \<Rightarrow> string \<Rightarrow> string \<Rightarrow> rat" where
  "getOffRampMinAmount = min_of BRIDGE_RAMP_OFF_ROUTES"

definition FIAT_BO_OFF_RAMP_ROUTES :: min_table where
  "FIAT_BO_OFF_RAMP_ROUTES =
    [(''usdc'', [(''solana'', [(''usdc'', 1)])]), (''usdt'', [(''tron'', [(''usdt'', 5)])])]"

definition FIAT_BO_OFF_RAMP_SOURCE_CURRENCIES :: "string list" where
  "FIAT_BO_OFF_RAMP_SOURCE_CURRENCIES = map fst FIAT_BO_OFF_RAMP_ROUTES"

definition isFiatBoOffRampSourceValid :: "string \<Rightarrow> string \<Rightarrow> string \<Rightarrow> bool" where
  "isFiatBoOffRampSourceValid sourceCurrency psavNetwork psavCurrency \<longleftrightarrow>
     min_of FIAT_BO_OFF_RAMP_ROUTES sourceCurrency psavNetwork psavCurrency > 0"

definition getFiatBoOffRampMinAmount :: "string \<Rightarrow> string \<Rightarrow> string \<Rightarrow> rat" where
  "getFiatBoOffRampMinAmount = min_of FIAT_BO_OFF_RAMP_ROUTES"

text \<open>The account of the agent with exactly the token of the source. The accounts are given by
  their currency and network.\<close>

definition resolveFiatBoPsavMatch ::
  "('a \<Rightarrow> string) \<Rightarrow> ('a \<Rightarrow> ostring) \<Rightarrow> string \<Rightarrow> 'a list \<Rightarrow> ('a \<times> string \<times> rat) option" where
  "resolveFiatBoPsavMatch cur net sourceCurrency psavAccounts =
     (let srcLower = to_lower sourceCurrency in
      case map_of FIAT_BO_OFF_RAMP_ROUTES srcLower of
        None \<Rightarrow> None
      | Some routes \<Rightarrow>
          (case find (\<lambda>a. to_lower (cur a) = srcLower) psavAccounts of
             None \<Rightarrow> None
           | Some psav \<Rightarrow>
               let minAmount = or_else (Option.bind (map_of routes (to_lower (or_else (net psav) '''')))
                     (\<lambda>r. map_of r srcLower)) 0
               in if minAmount = 0 then None else Some (psav, cur psav, minAmount)))"

section \<open>From a wallet outside\<close>

definition WALLET_TO_WORLD_SOURCE_ROUTES :: "(string \<times> (string list \<times> rat)) list" where
  "WALLET_TO_WORLD_SOURCE_ROUTES = [(''solana'', ([''usdc''], 1)), (''ethereum'', ([''usdc''], 1))]"

definition isValidWalletToWorldSource :: "string \<Rightarrow> string \<Rightarrow> bool" where
  "isValidWalletToWorldSource sourceNetwork sourceCurrency \<longleftrightarrow>
     (case map_of WALLET_TO_WORLD_SOURCE_ROUTES (to_lower sourceNetwork) of
        None \<Rightarrow> False | Some (cs, _) \<Rightarrow> to_lower sourceCurrency \<in> set cs)"

definition getWalletToWorldMinAmount :: "string \<Rightarrow> string \<Rightarrow> rat" where
  "getWalletToWorldMinAmount sourceNetwork sourceCurrency =
     (if \<not> isValidWalletToWorldSource sourceNetwork sourceCurrency then 0
      else snd (the (map_of WALLET_TO_WORLD_SOURCE_ROUTES (to_lower sourceNetwork))))"

definition TRANSFER_ROUTE_CATALOG :: "(string \<times> (string \<times> allowed_source list) list) list" where
  "TRANSFER_ROUTE_CATALOG =
    [(''solana'', [(''usdc'', [source ''solana'' ''usdc'' 1, source ''ethereum'' ''usdc'' 1,
        source ''polygon'' ''usdc'' 1, source ''stellar'' ''usdc'' 1])]),
     (''ethereum'', [(''usdc'', [source ''solana'' ''usdc'' 1, source ''polygon'' ''usdc'' 1,
        source ''stellar'' ''usdc'' 1])]),
     (''polygon'', [(''usdc'', [source ''solana'' ''usdc'' 1, source ''ethereum'' ''usdc'' 1,
        source ''stellar'' ''usdc'' 1])]),
     (''stellar'', [(''usdc'', [source ''solana'' ''usdc'' 1, source ''ethereum'' ''usdc'' 1,
        source ''polygon'' ''usdc'' 1, source ''stellar'' ''usdc'' 1])]),
     (''tron'', [(''usdt'', [source ''solana'' ''usdt'' 5, source ''ethereum'' ''usdt'' 5,
        source ''tron'' ''usdt'' 5])])]"

definition getValidSourceRoutes :: "string \<Rightarrow> string \<Rightarrow> allowed_source list" where
  "getValidSourceRoutes destNetwork destCurrency =
     or_else (Option.bind (map_of TRANSFER_ROUTE_CATALOG (to_lower destNetwork))
       (\<lambda>r. map_of r (to_lower destCurrency))) []"

definition isValidTransferRoute :: "string \<Rightarrow> string \<Rightarrow> string \<Rightarrow> string \<Rightarrow> bool" where
  "isValidTransferRoute srcNetwork srcCurrency dstNetwork dstCurrency \<longleftrightarrow>
     list_ex (is_source srcNetwork srcCurrency) (getValidSourceRoutes dstNetwork dstCurrency)"

definition getTransferMinAmount :: "string \<Rightarrow> string \<Rightarrow> string \<Rightarrow> string \<Rightarrow> rat" where
  "getTransferMinAmount srcNetwork srcCurrency dstNetwork dstCurrency =
     (case find (is_source srcNetwork srcCurrency) (getValidSourceRoutes dstNetwork dstCurrency) of
        None \<Rightarrow> 0 | Some s \<Rightarrow> as_min s)"

definition getAvailableSourceNetworks :: "string \<Rightarrow> string \<Rightarrow> string list" where
  "getAvailableSourceNetworks dstNetwork dstCurrency =
     rev (remdups (rev (map as_network (getValidSourceRoutes dstNetwork dstCurrency))))"

definition getAvailableSourceCurrencies :: "string \<Rightarrow> string \<Rightarrow> string \<Rightarrow> string list" where
  "getAvailableSourceCurrencies dstNetwork dstCurrency srcNetwork =
     map as_currency (filter (\<lambda>s. as_network s = to_lower srcNetwork)
       (getValidSourceRoutes dstNetwork dstCurrency))"

section \<open>Lookups\<close>

lemma min_of_in:
  assumes "min_of t a n b \<noteq> 0"
  obtains r s m where "(to_lower a, r) \<in> set t" "(to_lower n, s) \<in> set r" "(to_lower b, m) \<in> set s"
    "min_of t a n b = m"
  using assms unfolding min_of_def
  by (cases "map_of t (to_lower a)"; simp; cases "map_of (the (map_of t (to_lower a))) (to_lower n)";
      simp; cases "map_of (the (map_of (the (map_of t (to_lower a))) (to_lower n))) (to_lower b)")
     (auto dest!: map_of_SomeD)

lemma find_exists: "list_ex p xs \<longleftrightarrow> find p xs \<noteq> None"
  by (induction xs) simp_all

text \<open>The routes of the tables as lists, on which \<open>code_simp\<close> decides a property of all.\<close>

definition flat :: "min_table \<Rightarrow> (string \<times> string \<times> string \<times> rat) list" where
  "flat t = concat (map (\<lambda>(a, r). concat (map (\<lambda>(n, s). map (\<lambda>(b, m). (a, n, b, m)) s) r)) t)"

lemma flat_in: "(a, r) \<in> set t \<Longrightarrow> (n, s) \<in> set r \<Longrightarrow> (b, m) \<in> set s \<Longrightarrow> (a, n, b, m) \<in> set (flat t)"
  by (auto simp: flat_def intro!: bexI [of _ "(a, r)"] bexI [of _ "(n, s)"] image_eqI [of _ _ "(b, m)"])

definition same_token :: "string \<times> string \<times> string \<times> rat \<Rightarrow> bool" where
  "same_token x \<longleftrightarrow> (case x of (a, n, b, m) \<Rightarrow> a = b \<and> 1 \<le> m)"

lemma tables_same_token:
  "list_all same_token (flat BRIDGE_RAMP_OFF_ROUTES)" "list_all same_token (flat FIAT_BO_OFF_RAMP_ROUTES)"
  by code_simp+

lemma min_same_token:
  assumes "list_all same_token (flat t)" "min_of t a n b \<noteq> 0"
  shows "to_lower a = to_lower b" "1 \<le> min_of t a n b"
proof -
  obtain r s m where i: "(to_lower a, r) \<in> set t" "(to_lower n, s) \<in> set r" "(to_lower b, m) \<in> set s"
    "min_of t a n b = m" by (rule min_of_in [OF assms(2)])
  from flat_in [OF i(1-3)] assms(1) have "same_token (to_lower a, to_lower n, to_lower b, m)"
    by (auto simp: list_all_iff)
  with i(4) show "to_lower a = to_lower b" "1 \<le> min_of t a n b" by (simp_all add: same_token_def)
qed

definition transfer_sources :: "(string \<times> allowed_source) list" where
  "transfer_sources = concat (map (\<lambda>(n, r). concat (map (\<lambda>(c, ss). map (Pair c) ss) r)) TRANSFER_ROUTE_CATALOG)"

lemma transfer_table: "list_all (\<lambda>(c, s). as_currency s = c \<and> 1 \<le> as_min s) transfer_sources"
  by code_simp

lemma valid_source_in: "s \<in> set (getValidSourceRoutes n c) \<Longrightarrow> (to_lower c, s) \<in> set transfer_sources"
proof -
  assume s: "s \<in> set (getValidSourceRoutes n c)"
  then obtain r where r: "map_of TRANSFER_ROUTE_CATALOG (to_lower n) = Some r"
    by (cases "map_of TRANSFER_ROUTE_CATALOG (to_lower n)") (simp_all add: getValidSourceRoutes_def)
  with s obtain ss where ss: "map_of r (to_lower c) = Some ss" "s \<in> set ss"
    by (cases "map_of r (to_lower c)") (simp_all add: getValidSourceRoutes_def)
  from map_of_SomeD [OF r] map_of_SomeD [OF ss(1)] ss(2) show ?thesis
    by (auto simp: transfer_sources_def intro!: bexI [of _ "(to_lower n, r)"] bexI [of _ "(to_lower c, ss)"])
qed

lemma transfer_route_found:
  assumes "find (is_source sn sc) (getValidSourceRoutes dn dc) = Some s"
  shows "to_lower sc = to_lower dc" "1 \<le> as_min s"
proof -
  have "s \<in> set (getValidSourceRoutes dn dc)" "is_source sn sc s"
    using assms by (auto simp: find_Some_iff)
  with valid_source_in [of s dn dc] transfer_table show "to_lower sc = to_lower dc" "1 \<le> as_min s"
    by (auto simp: is_source_def list_all_iff)
qed

text \<open>A route that is accepted out of a wallet, in or out of Bolivia or between wallets, keeps
  the token and has a minimum of at least one unit; a route is accepted exactly when its minimum
  is not zero. Upper and lower case do not matter.\<close>

theorem accepted_routes_keep_token:
  "(isValidOffRampRoute a n b \<longrightarrow> to_lower a = to_lower b \<and> 1 \<le> getOffRampMinAmount a n b)
   \<and> (isFiatBoOffRampSourceValid a n b \<longrightarrow> to_lower a = to_lower b \<and> 1 \<le> getFiatBoOffRampMinAmount a n b)
   \<and> (isValidTransferRoute m a n b \<longrightarrow> to_lower a = to_lower b \<and> 1 \<le> getTransferMinAmount m a n b)
   \<and> (isValidOffRampRoute a n b \<longleftrightarrow> getOffRampMinAmount a n b \<noteq> 0)
   \<and> (isFiatBoOffRampSourceValid a n b \<longleftrightarrow> getFiatBoOffRampMinAmount a n b \<noteq> 0)
   \<and> (isValidTransferRoute m a n b \<longleftrightarrow> getTransferMinAmount m a n b \<noteq> 0)"
proof -
  note off = min_same_token [OF tables_same_token(1), of a n b]
    and fiat = min_same_token [OF tables_same_token(2), of a n b]
  have off': "min_of BRIDGE_RAMP_OFF_ROUTES a n b \<noteq> 0 \<longleftrightarrow> min_of BRIDGE_RAMP_OFF_ROUTES a n b > 0"
    using off(2) by force
  have fiat': "min_of FIAT_BO_OFF_RAMP_ROUTES a n b \<noteq> 0 \<longleftrightarrow> min_of FIAT_BO_OFF_RAMP_ROUTES a n b > 0"
    using fiat(2) by force
  have w2w: "isValidTransferRoute m a n b \<longleftrightarrow> getTransferMinAmount m a n b \<noteq> 0"
    "getTransferMinAmount m a n b \<noteq> 0 \<Longrightarrow> to_lower a = to_lower b \<and> 1 \<le> getTransferMinAmount m a n b"
    using transfer_route_found [of m a n b]
    by (auto simp: isValidTransferRoute_def getTransferMinAmount_def find_exists split: option.splits)
  show ?thesis
    using off fiat off' fiat' w2w
    by (simp add: isValidOffRampRoute_def isFiatBoOffRampSourceValid_def getOffRampMinAmount_def
        getFiatBoOffRampMinAmount_def)
qed

theorem accepted_routes_keep_token_witness:
  "isValidTransferRoute ''Solana'' ''USDC'' ''stellar'' ''usdc'' \<and> to_lower ''USDC'' = to_lower ''usdc''"
proof -
  have v: "isValidTransferRoute ''Solana'' ''USDC'' ''stellar'' ''usdc''" by code_simp
  with accepted_routes_keep_token [of "''USDC''" "''stellar''" "''usdc''" "''Solana''"] show ?thesis by blast
qed

end
