(* ===== verification/OrderCreation.thy ===== *)
theory OrderCreation imports OrderIndexes OrderApproval FlowAccess Fees RouteCatalogs begin

text \<open>
  The creation of orders between banks and wallets, from
  \<open>src/application/payment-orders/payment-orders.service.ts\<close>: \<open>createInterbankOrder\<close> and the four
  flows it creates. Fees, limits, permitted flows and the review gate are the ones of their own
  theories. Columns that are only printed (names of banks, account numbers) are left out.
\<close>

section \<open>Environment and requests\<close>

text \<open>
  What a creation reads beside the tables of the orders: the provider (\<open>cr_leg\<close>), the tables of
  fees, limits and flows, the settings, the rates, and the values the server makes up.
  \<open>cr_reserve\<close> is the database function \<open>reserve_balance\<close>, which is not in the repository; \<open>None\<close> is
  its error. \<open>cr_show\<close> is \<open>toString\<close> of a number.
\<close>

record create_env =
  cr_leg :: leg_env
  cr_now :: int
  cr_today :: int
  cr_fees :: fees_db
  cr_limits :: limits_db
  cr_flows :: flows_db
  cr_settings :: app_settings
  cr_rate :: get_rate
  cr_reserve :: "string \<Rightarrow> string \<Rightarrow> rat \<Rightarrow> balance list \<Rightarrow> balance list option"
  cr_show :: "rat \<Rightarrow> string"
  cr_new_id :: string
  cr_reference :: string
  cr_db_ok :: bool
  cr_review_rows :: "flow_review_setting list option"

record interbank_dto =
  ci_flow_type :: string
  ci_amount :: "rat option"
  ci_external_account_id :: ostring
  ci_destination_currency :: ostring
  ci_source_network :: ostring
  ci_source_currency :: ostring
  ci_destination_address :: ostring
  ci_destination_network :: ostring
  ci_supplier_id :: ostring
  ci_business_purpose :: ostring
  ci_supporting_document_url :: ostring
  ci_notes :: ostring
  ci_exchange_rate_applied :: "rat option"

text \<open>\<open>dto.amount!\<close>: the decorators require it in every flow but \<open>wallet_to_wallet\<close>.\<close>

definition dto_amount :: "interbank_dto \<Rightarrow> rat" where
  "dto_amount dto = or_else (ci_amount dto) 0"

definition lift :: "'a result \<Rightarrow> ('a \<Rightarrow> orders_db \<Rightarrow> 'b result \<times> orders_db) \<Rightarrow> orders_db
    \<Rightarrow> 'b result \<times> orders_db" where
  "lift r f db = (case r of Inl e \<Rightarrow> (Inl e, db) | Inr x \<Rightarrow> f x db)"

lemma lift_simps [simp]: "lift (Inl e) f db = (Inl e, db)" "lift (Inr x) f db = f x db"
  by (simp_all add: lift_def)

definition require :: "bool \<Rightarrow> exn \<Rightarrow> unit result" where
  "require b e = (if b then Inr () else Inl e)"

definition or_throw_none :: "exn \<Rightarrow> 'a option \<Rightarrow> 'a result" where
  "or_throw_none e r = (case r of None \<Rightarrow> Inl e | Some x \<Rightarrow> Inr x)"

lemma require_Inr [simp]: "require b e = Inr u \<longleftrightarrow> b"
  by (simp add: require_def)

lemma or_throw_none_Inr [simp]: "or_throw_none e r = Inr x \<longleftrightarrow> r = Some x"
  by (simp add: or_throw_none_def split: option.split)

section \<open>Checks\<close>

definition assertCurrencyActive :: "string \<Rightarrow> orders_db \<Rightarrow> unit result" where
  "assertCurrencyActive currency db =
     (case maybe_single (filter (\<lambda>r. fst r = to_lower currency) (currency_settings db)) of
        None \<Rightarrow> Inl (BadRequestException '''')
      | Some r \<Rightarrow> if snd r then Inr () else Inl (BadRequestException ''''))"

text \<open>\<open>suppliers/suppliers.service.ts\<close>\<close>

definition assertUsableForPayment :: "supplier \<Rightarrow> unit result" where
  "assertUsableForPayment s = require (sp_compliance_status s \<noteq> Some ''blocked'') (BadRequestException '''')"

text \<open>\<open>client-bank-accounts/client-bank-accounts.service.ts\<close>\<close>

definition getApprovedAccountForWithdrawal :: "string \<Rightarrow> orders_db \<Rightarrow> client_bank_account result" where
  "getApprovedAccountForWithdrawal userId db =
     or_throw_none (BadRequestException '''')
       (maybe_single (filter (\<lambda>a. cb_user_id a = userId \<and> cb_is_primary a \<and> cb_currency a = ''BOB''
          \<and> cb_status a = ''approved'') (client_bank_accounts db)))"

definition parseLiquidationFeePercent :: "ostring \<Rightarrow> rat result" where
  "parseLiquidationFeePercent value =
     (if \<not> truthy value then Inl (BadRequestException '''')
      else case parse_float (the value) of
        Fin p \<Rightarrow> if p < 0 \<or> 100 \<le> p then Inl (BadRequestException '''') else Inr p
      | _ \<Rightarrow> Inl (BadRequestException ''''))"

section \<open>Amounts\<close>

definition calculateFeeFromLiquidationAddress :: "rat \<Rightarrow> rat \<Rightarrow> fee_amounts" where
  "calculateFeeFromLiquidationAddress amount developerFeePercent =
     (let amountCents = js_round (amount * 100);
          feeCents = js_round (amountCents * developerFeePercent / 100)
      in \<lparr>fee_amount = feeCents / 100, net_amount = (amountCents - feeCents) / 100\<rparr>)"

text \<open>\<open>fiat-rail-catalog.constants.ts\<close>\<close>

definition resolveBoOutFeeRail :: "string \<Rightarrow> ostring \<Rightarrow> string" where
  "resolveBoOutFeeRail destinationCurrency supplierRail =
     (let rail = to_lower (or_else supplierRail '''') in
      if to_lower destinationCurrency = ''usd'' \<and> (rail = ''ach'' \<or> rail = ''wire'') then rail
      else ''psav'')"

definition BOLIVIA_TO_WORLD_RATE_TOLERANCE :: rat where
  "BOLIVIA_TO_WORLD_RATE_TOLERANCE = 1 / 100"

record world_amounts = fee_amounts +
  wa_developer_fee_usd :: rat
  wa_amount_destination :: rat

text \<open>A rate of zero makes the converted amount infinite; the provider's fee is not computed then.\<close>

definition calculateBoliviaToWorldAmounts ::
  "create_env \<Rightarrow> string \<Rightarrow> rat \<Rightarrow> string \<Rightarrow> string \<Rightarrow> rat \<Rightarrow> rat \<Rightarrow> world_amounts result" where
  "calculateBoliviaToWorldAmounts v userId amountBob feeRail destinationCurrency appliedRate bobUsdRate =
     (if bobUsdRate = 0 then Inl (DbException '''')
      else
        let grossUsd = amountBob / bobUsdRate;
            developerFeeUsd = fee_amount (calculateFee (cr_today v) userId ''interbank_bo_out'' feeRail
              destinationCurrency grossUsd (cr_fees v));
            feeBob = js_round (developerFeeUsd * bobUsdRate * 100) / 100;
            netBob = js_round ((amountBob - feeBob) * 100) / 100
        in if netBob \<le> 0 then Inl (BadRequestException '''')
           else Inr \<lparr>fee_amount = feeBob, net_amount = netBob, wa_developer_fee_usd = developerFeeUsd,
             wa_amount_destination = js_floor (netBob / appliedRate * 100 + 1 / 10^9) / 100\<rparr>)"

text \<open>The rate of the client, when the request has one, or the live one.\<close>

definition client_rate_or :: "rat option \<Rightarrow> rat \<Rightarrow> rat" where
  "client_rate_or r live = (case r of Some x \<Rightarrow> if 0 < x then x else live | None \<Rightarrow> live)"

section \<open>Rows\<close>

text \<open>The execution context of a deposit at the agent, kept while the order is in review.\<close>

definition psav_ctx :: "string \<Rightarrow> rat \<Rightarrow> fee_amounts \<Rightarrow> string \<Rightarrow> bridge_exec_context" where
  "psav_ctx cur amount fee ty = \<lparr>ctx_kind = Some (PsavDepositExec ty cur), ctx_source_currency = Some cur,
     ctx_amount = amount, ctx_fee_amount = fee_amount fee, ctx_net_amount = net_amount fee,
     ctx_total_needed = Some (Fin 0)\<rparr>"

text \<open>What all rows between banks share.\<close>

definition interbank_row :: "create_env \<Rightarrow> string \<Rightarrow> string \<Rightarrow> interbank_dto \<Rightarrow> payment_order" where
  "interbank_row v flow userId dto = blank_order\<lparr>po_id := cr_new_id v, po_user_id := userId,
     po_flow_type := Some flow, po_business_purpose := ci_business_purpose dto,
     po_supporting_document_url := ci_supporting_document_url dto, po_notes := ci_notes dto,
     po_created_at := cr_now v\<rparr>"

text \<open>A deposit at the agent: with the review skipped the instructions and the deadline are
  published at once, otherwise the order waits with its context.\<close>

definition psav_row ::
  "create_env \<Rightarrow> bool \<Rightarrow> string \<Rightarrow> string \<Rightarrow> interbank_dto \<Rightarrow> fee_amounts \<Rightarrow> string \<Rightarrow> psav_account \<Rightarrow> string
    \<Rightarrow> payment_order" where
  "psav_row v skip flow userId dto fee cur account ty = (interbank_row v flow userId dto)\<lparr>
     po_requires_psav := True, po_amount := dto_amount dto, po_currency := Some cur,
     po_fee_amount := Some (fee_amount fee), po_net_amount := Some (net_amount fee),
     po_psav_instructions := (if skip then Some (pa_id account) else None),
     po_deposit_reference_code := Some (cr_reference v),
     po_status := (if skip then ''waiting_deposit'' else ''pending_review''),
     po_deposit_expires_at := (if skip then Some (lv_deadline (cr_leg v)) else None),
     po_ctx := (if skip then None else Some (psav_ctx cur (dto_amount dto) fee ty))\<rparr>"

section \<open>Bolivia to the world\<close>

definition find_supplier :: "string \<Rightarrow> interbank_dto \<Rightarrow> orders_db \<Rightarrow> supplier option" where
  "find_supplier userId dto db =
     (if truthy (ci_supplier_id dto)
      then maybe_single (filter (\<lambda>s. sp_user_id s = userId \<and> Some (sp_id s) = ci_supplier_id dto) (suppliers db))
      else first_row (filter (\<lambda>s. sp_user_id s = userId
             \<and> sp_external_account_id s = ci_external_account_id dto) (suppliers db)))"

text \<open>USDC and USDT are quoted as the dollar.\<close>

definition rate_currency :: "string \<Rightarrow> string" where
  "rate_currency c = (let u = to_upper c in if u = ''USDC'' \<or> u = ''USDT'' then ''USD'' else u)"

definition applied_world_rate :: "interbank_dto \<Rightarrow> rat \<Rightarrow> rat result" where
  "applied_world_rate dto liveRate =
     (case ci_exchange_rate_applied dto of
        None \<Rightarrow> Inr liveRate
      | Some r \<Rightarrow>
          if r \<le> 0 then Inr liveRate
          else if r < liveRate * (1 - BOLIVIA_TO_WORLD_RATE_TOLERANCE) then Inl (BadRequestException ''RATE_EXPIRED'')
          else Inr r)"

definition catch_bad :: "'a result \<Rightarrow> 'a result" where
  "catch_bad r = (case r of Inl _ \<Rightarrow> Inl (BadRequestException '''') | Inr x \<Rightarrow> Inr x)"

text \<open>The account and the supplier of the beneficiary, with the checks that tie them together.\<close>

definition world_beneficiary ::
  "string \<Rightarrow> interbank_dto \<Rightarrow> orders_db \<Rightarrow> (external_account \<times> string \<times> supplier) result" where
  "world_beneficiary userId dto db =
     bind_r (or_throw_none (NotFoundException '''')
       (maybe_single (filter (\<lambda>a. Some (ea_id a) = ci_external_account_id dto \<and> ea_user_id a = userId)
          (external_accounts db)))) (\<lambda>ext.
     bind_r (require (\<not> (truthy (ci_destination_currency dto) \<and> truthy (ea_currency ext)
         \<and> to_lower (the (ci_destination_currency dto)) \<noteq> to_lower (the (ea_currency ext))))
       (BadRequestException '''')) (\<lambda>_.
     bind_r (or_throw_none (ErrorException ''destinationCurrency'')
       (nullish (ci_destination_currency dto) (ea_currency ext))) (\<lambda>dcur.
     bind_r (assertNoConflictingBoliviaToWorldOrder userId dcur db) (\<lambda>_.
     bind_r (or_throw_none (NotFoundException '''') (find_supplier userId dto db)) (\<lambda>s.
     bind_r (require (sp_external_account_id s = Some (ea_id ext)) (BadRequestException '''')) (\<lambda>_.
     bind_r (assertUsableForPayment s) (\<lambda>_. Inr (ext, dcur, s))))))))"

definition world_quote ::
  "create_env \<Rightarrow> string \<Rightarrow> interbank_dto \<Rightarrow> string \<Rightarrow> supplier \<Rightarrow> (rat \<times> world_amounts) result" where
  "world_quote v userId dto dcur s =
     bind_r (catch_bad (cr_rate v (''BOB_'' @ rate_currency dcur))) (\<lambda>rd.
     bind_r (require (effective_rate rd > 0) (BadRequestException '''')) (\<lambda>_.
     bind_r (applied_world_rate dto (effective_rate rd)) (\<lambda>rate.
     let feeRail = resolveBoOutFeeRail dcur (sp_payment_rail s) in
     bind_r (assertFeeConfigured (cr_today v) userId ''interbank_bo_out'' feeRail dcur (cr_fees v)) (\<lambda>_.
     bind_r (cr_rate v ''BOB_USD'') (\<lambda>bob.
     bind_r (calculateBoliviaToWorldAmounts v userId (dto_amount dto) feeRail dcur rate (effective_rate bob))
       (\<lambda>a. Inr (rate, a)))))))"

definition createBoliviaToWorld ::
  "create_env \<Rightarrow> bool \<Rightarrow> string \<Rightarrow> interbank_dto \<Rightarrow> orders_db \<Rightarrow> payment_order result \<times> orders_db" where
  "createBoliviaToWorld v skip userId dto db =
     lift (bind_r (world_beneficiary userId dto db) (\<lambda>(ext, dcur, s).
           bind_r (world_quote v userId dto dcur s) (\<lambda>(rate, a).
           bind_r (getDepositAccountForUser userId ''bank_bo'' ''BOB'' db) (\<lambda>account.
             Inr ((psav_row v skip ''bolivia_to_world'' userId dto (fee_amounts.truncate a) ''BOB'' account ''bank_bo'')\<lparr>
               po_developer_fee_usd := Some (wa_developer_fee_usd a), po_destination_type := Some ''external_account'',
               po_destination_currency := Some dcur, po_external_account_id := ci_external_account_id dto,
               po_supplier_id := Some (sp_id s), po_exchange_rate := Some rate,
               po_amount_destination := Some (wa_amount_destination a)\<rparr>)))))
       (insert_payment_order (cr_db_ok v)) db"

section \<open>Wallet to wallet\<close>

text \<open>The wallet of the supplier, with its network and token.\<close>

definition wallet_beneficiary ::
  "string \<Rightarrow> interbank_dto \<Rightarrow> orders_db \<Rightarrow> (string \<times> string \<times> string) result" where
  "wallet_beneficiary userId dto db =
     bind_r (or_throw_none (NotFoundException '''')
       (maybe_single (filter (\<lambda>s. Some (sp_id s) = ci_supplier_id dto \<and> sp_user_id s = userId) (suppliers db)))) (\<lambda>s.
     bind_r (assertUsableForPayment s) (\<lambda>_.
     let b = sp_bank_details s;
         cur = map_option to_lower (nullish (bd_wallet_currency b) (ci_destination_currency dto))
     in if \<not> truthy (bd_wallet_address b) \<or> \<not> truthy (bd_wallet_network b) \<or> \<not> truthy cur
        then Inl (BadRequestException '''')
        else Inr (the (bd_wallet_address b), the (bd_wallet_network b), the cur)))"

text \<open>The source of the funds; without a network or a currency the code raises a type error.\<close>

definition wallet_source ::
  "string \<Rightarrow> interbank_dto \<Rightarrow> string \<Rightarrow> string \<Rightarrow> orders_db \<Rightarrow> (string \<times> string) result" where
  "wallet_source userId dto net cur db =
     bind_r (or_throw_none (ErrorException ''source_currency'') (ci_source_currency dto)) (\<lambda>sc.
     bind_r (assertCurrencyActive sc db) (\<lambda>_.
     bind_r (or_throw_none (ErrorException ''source_network'') (ci_source_network dto)) (\<lambda>sn.
     bind_r (require (isValidTransferRoute sn sc net cur) (BadRequestException '''')) (\<lambda>_.
     bind_r (require (\<not> (0 < dto_amount dto \<and> dto_amount dto < getTransferMinAmount sn sc net cur))
       (BadRequestException '''')) (\<lambda>_.
     bind_r (assertNoConflictingBridgeDepositOrder userId sc sn db) (\<lambda>_. Inr (sn, sc)))))))"

definition w2w_fee :: "create_env \<Rightarrow> string \<Rightarrow> string \<Rightarrow> rat \<Rightarrow> fee_amounts" where
  "w2w_fee v userId sc amount =
     (if 0 < amount then calculateFee (cr_today v) userId ''interbank_w2w'' ''bridge'' sc amount (cr_fees v)
      else \<lparr>fee_amount = 0, net_amount = 0\<rparr>)"

definition w2w_percent :: "create_env \<Rightarrow> string \<Rightarrow> string \<Rightarrow> string" where
  "w2w_percent v userId sc =
     cr_show v (getFeePercent (cr_today v) userId ''interbank_w2w'' ''bridge'' sc (cr_fees v))"

definition w2w_ctx ::
  "string \<Rightarrow> string \<Rightarrow> string \<Rightarrow> string \<Rightarrow> string \<Rightarrow> string \<Rightarrow> rat \<Rightarrow> fee_amounts \<Rightarrow> bridge_exec_context" where
  "w2w_ctx sn sc net cur addr pct amount fee =
     \<lparr>ctx_kind = Some (WalletToWalletExec (to_lower sn) (to_lower sc) (to_lower net) (to_lower cur) addr pct),
      ctx_source_currency = Some (to_upper sc), ctx_amount = amount, ctx_fee_amount = fee_amount fee,
      ctx_net_amount = net_amount fee, ctx_total_needed = Some (Fin 0)\<rparr>"

definition w2w_row ::
  "create_env \<Rightarrow> bool \<Rightarrow> string \<Rightarrow> interbank_dto \<Rightarrow> string \<times> string \<times> string \<Rightarrow> string \<times> string
    \<Rightarrow> payment_order \<times> bridge_exec_context" where
  "w2w_row v skip userId dto dest src =
     (let (addr, net, cur) = dest; (sn, sc) = src;
          fee = w2w_fee v userId sc (dto_amount dto);
          ctx = w2w_ctx sn sc net cur addr (w2w_percent v userId sc) (dto_amount dto) fee
      in ((interbank_row v ''wallet_to_wallet'' userId dto)\<lparr>po_requires_psav := False, po_amount := dto_amount dto,
            po_currency := Some (to_upper sc), po_fee_amount := Some (fee_amount fee),
            po_net_amount := Some (net_amount fee), po_source_network := Some sn,
            po_source_currency := Some (to_upper sc), po_destination_type := Some ''crypto_address'',
            po_destination_address := Some addr, po_destination_network := Some net,
            po_destination_currency := Some (to_upper cur), po_exchange_rate := Some 1,
            po_amount_destination := Some (net_amount fee), po_supplier_id := ci_supplier_id dto,
            po_status := (if skip then ''created'' else ''pending_review''),
            po_ctx := (if skip then None else Some ctx)\<rparr>, ctx))"

text \<open>With the review skipped the leg runs in the same request; its failure closes the order.
  The result is the row the leg leaves behind.\<close>

definition created_row :: "create_env \<Rightarrow> orders_db \<Rightarrow> payment_order result" where
  "created_row v db = or_throw_none (NotFoundException '''') (select_order (cr_new_id v) db)"

definition run_now ::
  "create_env \<Rightarrow> bool \<Rightarrow> (payment_order \<Rightarrow> orders_db \<Rightarrow> bridge_leg_result result \<times> orders_db)
    \<Rightarrow> payment_order \<Rightarrow> orders_db \<Rightarrow> payment_order result \<times> orders_db" where
  "run_now v skip leg order db =
     (if \<not> skip then (Inr order, db)
      else case leg order db of
        (Inl e, db') \<Rightarrow> (Inl e, db')
      | (Inr _, db') \<Rightarrow> (created_row v db', db'))"

definition createWalletToWallet ::
  "create_env \<Rightarrow> bool \<Rightarrow> string \<Rightarrow> interbank_dto \<Rightarrow> orders_db \<Rightarrow> payment_order result \<times> orders_db" where
  "createWalletToWallet v skip userId dto db =
     lift (bind_r (wallet_beneficiary userId dto db) (\<lambda>dest.
           bind_r (wallet_source userId dto (fst (snd dest)) (snd (snd dest)) db) (\<lambda>src.
             Inr (dest, src))))
       (\<lambda>(dest, src) db.
          let (row, ctx) = w2w_row v skip userId dto dest src; (addr, net, cur) = dest; (sn, sc) = src in
          case insert_payment_order (cr_db_ok v) row db of
            (Inl e, db1) \<Rightarrow> (Inl e, db1)
          | (Inr order, db1) \<Rightarrow>
              run_now v skip (\<lambda>o'. executeWalletToWalletLeg (cr_leg v) o' ctx (to_lower sn) (to_lower sc)
                 (to_lower net) (to_lower cur) addr (w2w_percent v userId sc) FailOrder) order db1) db"

section \<open>Bolivia to a wallet\<close>

text \<open>The supplier is looked up by its id alone; the liquidation address must belong to the client.\<close>

definition wallet_liquidation ::
  "string \<Rightarrow> interbank_dto \<Rightarrow> orders_db \<Rightarrow> (liquidation_address \<times> rat) result" where
  "wallet_liquidation userId dto db =
     (case maybe_single (filter (\<lambda>s. Some (sp_id s) = ci_supplier_id dto) (suppliers db)) of
        None \<Rightarrow> Inl (BadRequestException '''')
      | Some s \<Rightarrow>
          if \<not> truthy (sp_liquidation_address_id s) then Inl (BadRequestException '''')
          else
            bind_r (assertUsableForPayment s) (\<lambda>_.
            bind_r (or_throw_none (BadRequestException '''')
              (maybe_single (filter (\<lambda>a. la_user_id a = userId
                 \<and> Some (la_bridge_id a) = sp_liquidation_address_id s) (liquidation_addresses db)))) (\<lambda>a.
            bind_r (parseLiquidationFeePercent (la_developer_fee_percent a)) (\<lambda>pct. Inr (a, pct)))))"

definition token_of :: "liquidation_address \<Rightarrow> interbank_dto \<Rightarrow> string result" where
  "token_of a dto =
     (let c = map_option to_upper (if truthy (la_currency a) then la_currency a else ci_destination_currency dto)
      in if truthy c then Inr (the c) else Inl (BadRequestException ''''))"

definition createBoliviaToWallet ::
  "create_env \<Rightarrow> bool \<Rightarrow> string \<Rightarrow> interbank_dto \<Rightarrow> orders_db \<Rightarrow> payment_order result \<times> orders_db" where
  "createBoliviaToWallet v skip userId dto db =
     lift (bind_r (wallet_liquidation userId dto db) (\<lambda>(a, pct).
           bind_r (getDepositAccountForUser userId ''bank_bo'' ''BOB'' db) (\<lambda>account.
           let fee = calculateFeeFromLiquidationAddress (dto_amount dto) pct in
           bind_r (cr_rate v ''BOB_USD'') (\<lambda>rd.
           let rate = client_rate_or (ci_exchange_rate_applied dto) (effective_rate rd) in
           bind_r (token_of a dto) (\<lambda>dcur.
           bind_r (assertNoConflictingPsavOrder userId ''bolivia_to_wallet'' dcur db) (\<lambda>_.
             Inr ((psav_row v skip ''bolivia_to_wallet'' userId dto fee ''BOB'' account ''bank_bo'')\<lparr>
               po_liquidation_address_id := Some (la_bridge_id a), po_destination_type := Some ''crypto_address'',
               po_destination_address := ci_destination_address dto,
               po_destination_network := ci_destination_network dto, po_destination_currency := Some dcur,
               po_supplier_id := ci_supplier_id dto, po_exchange_rate := Some rate,
               po_amount_destination := Some (toFixed2 (net_amount fee / rate))\<rparr>)))))))
       (insert_payment_order (cr_db_ok v)) db"

section \<open>The world to Bolivia\<close>

definition WORLD_TO_BOLIVIA_PSAV_TYPE :: "(string \<times> string) list" where
  "WORLD_TO_BOLIVIA_PSAV_TYPE = [(''USD'', ''bank_us''), (''EUR'', ''bank_eu''), (''MXN'', ''bank_mx''),
     (''BRL'', ''bank_br''), (''COP'', ''bank_co''), (''GBP'', ''bank_gb'')]"

definition createWorldToBolivia ::
  "create_env \<Rightarrow> bool \<Rightarrow> string \<Rightarrow> interbank_dto \<Rightarrow> orders_db \<Rightarrow> payment_order result \<times> orders_db" where
  "createWorldToBolivia v skip userId dto db =
     (let sourceCurrency = to_upper (or_else (ci_source_currency dto) ''usd'') in
      lift (bind_r (or_throw_none (BadRequestException '''') (map_of WORLD_TO_BOLIVIA_PSAV_TYPE sourceCurrency)) (\<lambda>ty.
            bind_r (getApprovedAccountForWithdrawal userId db) (\<lambda>bank.
            bind_r (getDepositAccountForUser userId ty sourceCurrency db) (\<lambda>account.
            let fee = calculateFee (cr_today v) userId ''interbank_bo_in'' ''psav'' sourceCurrency
                  (dto_amount dto) (cr_fees v) in
            bind_r (cr_rate v (sourceCurrency @ ''_BOB'')) (\<lambda>rd.
            let rate = client_rate_or (ci_exchange_rate_applied dto) (effective_rate rd) in
            bind_r (assertNoConflictingWorldToBoliviaOrder userId sourceCurrency db) (\<lambda>_.
              Inr ((psav_row v skip ''world_to_bolivia'' userId dto fee sourceCurrency account ty)\<lparr>
                po_destination_type := Some ''bank_bo'', po_destination_currency := Some ''BOB'',
                po_supplier_id := ci_supplier_id dto, po_exchange_rate := Some rate,
                po_amount_destination := Some (toFixed2 (net_amount fee * rate))\<rparr>)))))))
        (insert_payment_order (cr_db_ok v)) db)"

section \<open>The entry point\<close>

datatype 'r creation = Created payment_order | ReviewRequested 'r

text \<open>The limits of the flow, in dollars. Above the maximum the request becomes one for an
  exception, when the client gives a reason.\<close>

definition limit_currency :: "interbank_dto \<Rightarrow> string" where
  "limit_currency dto =
     (if ci_flow_type dto = ''bolivia_to_world'' \<or> ci_flow_type dto = ''bolivia_to_wallet'' then ''BOB''
      else if ci_flow_type dto = ''wallet_to_wallet''
        then to_upper (or_else (ci_source_currency dto) ''USDC'')
      else ''USD'')"

definition limit_rates :: "create_env \<Rightarrow> string \<Rightarrow> rate_data result" where
  "limit_rates v pair = bind_r (cr_rate v pair) (\<lambda>d. Inr (rate_data.truncate d))"

definition owner_times :: "orders_db \<Rightarrow> (string \<times> int) list" where
  "owner_times db = map (\<lambda>o'. (po_user_id o', po_created_at o')) (payment_orders db)"

definition dispatch_interbank ::
  "create_env \<Rightarrow> bool \<Rightarrow> string \<Rightarrow> interbank_dto \<Rightarrow> orders_db \<Rightarrow> payment_order result \<times> orders_db" where
  "dispatch_interbank v skip userId dto db =
     (if ci_flow_type dto = ''bolivia_to_world'' then createBoliviaToWorld v skip userId dto db
      else if ci_flow_type dto = ''wallet_to_wallet'' then createWalletToWallet v skip userId dto db
      else if ci_flow_type dto = ''bolivia_to_wallet'' then createBoliviaToWallet v skip userId dto db
      else if ci_flow_type dto = ''world_to_bolivia'' then createWorldToBolivia v skip userId dto db
      else (Inl (BadRequestException ''''), db))"

definition resolveReviewGate :: "create_env \<Rightarrow> ostring \<Rightarrow> flow_review_settings_service \<Rightarrow> bool" where
  "resolveReviewGate v flowType s =
     (\<not> fst (requiresReview (cr_now v) (cr_review_rows v) flowType s))"

text \<open>\<open>review\<close> is the request for an exception (\<open>order-review.service.ts\<close>).\<close>

definition createInterbankOrder ::
  "create_env \<Rightarrow> flow_review_settings_service \<Rightarrow> string \<Rightarrow> interbank_dto \<Rightarrow> ostring
    \<Rightarrow> (limit_check \<Rightarrow> orders_db \<Rightarrow> 'r result \<times> orders_db) \<Rightarrow> orders_db
    \<Rightarrow> 'r creation result \<times> orders_db" where
  "createInterbankOrder v s userId dto clientReason review db =
     (let checks = bind_r (assertOnboardingApproved userId (cr_flows v)) (\<lambda>_.
            bind_r (validateRateLimit (cr_now v) (cr_settings v) (owner_times db) userId) (\<lambda>_.
            bind_r (assertFlowEnabled userId (ci_flow_type dto) (cr_flows v)) (\<lambda>_.
              case ci_amount dto of
                None \<Rightarrow> Inr None
              | Some amount \<Rightarrow>
                  bind_r (checkAmountLimits (cr_today v) (cr_settings v) (limit_rates v) amount (ci_flow_type dto)
                            (Some (limit_currency dto)) (Some userId) (cr_limits v))
                    (\<lambda>c. Inr (if lc_exceeded c then Some c else None)))))
      in lift checks (\<lambda>exceeded db.
           case exceeded of
             Some c \<Rightarrow>
               if \<not> truthy clientReason then (Inl (BadRequestException ''''), db)
               else (case review c db of
                   (Inl e, db') \<Rightarrow> (Inl e, db')
                 | (Inr r, db') \<Rightarrow> (Inr (ReviewRequested r), db'))
           | None \<Rightarrow>
               (case dispatch_interbank v (resolveReviewGate v (Some (ci_flow_type dto)) s) userId dto db of
                  (Inl e, db') \<Rightarrow> (Inl e, db')
                | (Inr order, db') \<Rightarrow>
                    (Inr (Created order), log_audit (Some userId) ''CREATE_PAYMENT_ORDER'' (po_id order) db'))) db)"

end
