(* ===== verification/RampCreation.thy ===== *)
theory RampCreation imports OrderCreation VaDeposits begin

text \<open>
  The creation of orders into and out of the wallets of a client, from
  \<open>src/application/payment-orders/payment-orders.service.ts\<close>: \<open>createWalletRampOrder\<close> and the
  flows it creates. The flows that debit a wallet reserve the funds before the order exists; the
  ones with an address of the provider create the transfer before the order exists. Live rates are
  positive; where one is zero the code computes with infinities that the database refuses.
\<close>

section \<open>Requests and shared checks\<close>

record ramp_dto =
  cw_flow_type :: string
  cw_amount :: "rat option"
  cw_wallet_id :: ostring
  cw_destination_address :: ostring
  cw_destination_network :: ostring
  cw_destination_currency :: ostring
  cw_source_network :: ostring
  cw_source_currency :: ostring
  cw_supplier_id :: ostring
  cw_business_purpose :: ostring
  cw_supporting_document_url :: ostring
  cw_notes :: ostring
  cw_exchange_rate_applied :: "rat option"
  cw_destination_amount :: "rat option"

text \<open>What only these flows read: the live rate of a currency (client's and provider's) and
  \<open>toFixed(4)\<close> of a number.\<close>

record ramp_env = create_env +
  cr_live :: "string \<Rightarrow> (rat \<times> rat) result"
  cr_fixed4 :: "rat \<Rightarrow> string"

definition ramp_amount :: "ramp_dto \<Rightarrow> rat" where
  "ramp_amount dto = or_else (cw_amount dto) 0"

definition getUserWallet :: "string \<Rightarrow> ostring \<Rightarrow> orders_db \<Rightarrow> wallet result" where
  "getUserWallet userId walletId db =
     (case first_row (filter (\<lambda>w. wa_user_id w = userId \<and> wa_is_active w
             \<and> (truthy walletId \<longrightarrow> Some (wa_id w) = walletId)) (wallets db)) of
        None \<Rightarrow> Inl (NotFoundException '''')
      | Some w \<Rightarrow> if truthy (wa_provider_wallet_id w) then Inr w else Inl (BadRequestException ''''))"

definition bridge_customer :: "string \<Rightarrow> orders_db \<Rightarrow> string result" where
  "bridge_customer userId db =
     (let c = Option.bind (maybe_single (filter (\<lambda>p. pr_id p = userId) (profiles db))) pr_bridge_customer_id
      in if truthy c then Inr (the c) else Inl (BadRequestException ''bridge_customer_id''))"

text \<open>The balance is read, compared and only then reserved.\<close>

definition check_available :: "string \<Rightarrow> string \<Rightarrow> rat \<Rightarrow> orders_db \<Rightarrow> unit result" where
  "check_available userId cur totalNeeded db =
     (case maybe_single (filter (\<lambda>b. ba_user_id b = userId \<and> ba_currency b = cur) (balances db)) of
        None \<Rightarrow> Inl (BadRequestException ''saldo'')
      | Some b \<Rightarrow> require (\<not> ba_available b < totalNeeded) (BadRequestException ''saldo''))"

text \<open>\<open>rpc('reserve_balance')\<close>: its error is not looked at.\<close>

definition reserve_balance :: "'e create_env_scheme \<Rightarrow> string \<Rightarrow> string \<Rightarrow> rat \<Rightarrow> orders_db \<Rightarrow> orders_db" where
  "reserve_balance v user cur amt db =
     (case cr_reserve v user cur amt (balances db) of None \<Rightarrow> db | Some b \<Rightarrow> db\<lparr>balances := b\<rparr>)"

text \<open>\<open>psav.service.ts\<close>; the order of the accounts is the one of the table.\<close>

definition getActiveCryptoAccountsForUser :: "string \<Rightarrow> orders_db \<Rightarrow> psav_account list" where
  "getActiveCryptoAccountsForUser userId db =
     (let psavId = Option.bind (maybe_single (filter (\<lambda>p. pr_id p = userId) (profiles db))) pr_assigned_psav_id
      in filter (\<lambda>a. pa_type a = ''crypto'' \<and> pa_is_active a
            \<and> (truthy psavId \<longrightarrow> Some (pa_psav_id a) = psavId)) (psav_accounts db))"

definition ramp_row :: "'e create_env_scheme \<Rightarrow> string \<Rightarrow> string \<Rightarrow> ramp_dto \<Rightarrow> string \<Rightarrow> fee_amounts \<Rightarrow> payment_order" where
  "ramp_row v flow userId dto walletId fee = blank_order\<lparr>po_id := cr_new_id v, po_user_id := userId,
     po_wallet_id := Some walletId, po_flow_type := Some flow,
     po_fee_amount := Some (fee_amount fee), po_net_amount := Some (net_amount fee),
     po_business_purpose := cw_business_purpose dto,
     po_supporting_document_url := cw_supporting_document_url dto, po_notes := cw_notes dto,
     po_created_at := cr_now v\<rparr>"

definition waiting_or_review :: "bool \<Rightarrow> string \<Rightarrow> bridge_exec_context \<Rightarrow> payment_order \<Rightarrow> payment_order" where
  "waiting_or_review skip st ctx row = row\<lparr>po_status := (if skip then st else ''pending_review''),
     po_ctx := (if skip then None else Some ctx)\<rparr>"

section \<open>Into a wallet\<close>

text \<open>With the review skipped the transfer is created before the order. When the order cannot be
  inserted the transfer stays.\<close>

definition insert_with_transfer ::
  "'e create_env_scheme \<Rightarrow> payment_order \<Rightarrow> bridge_transfer \<Rightarrow> rat \<Rightarrow> string \<Rightarrow> bridge_response \<Rightarrow> orders_db
    \<Rightarrow> payment_order result \<times> orders_db" where
  "insert_with_transfer v row transfer credit cur resp db =
     (let (_, db1) = recordBridgeTransfer (lv_transfer_row_ok (cr_leg v)) transfer db in
      case insert_payment_order (cr_db_ok v) row db1 of
        (Inl e, db2) \<Rightarrow> (Inl e, db2)
      | (Inr order, db2) \<Rightarrow>
          (Inr order, insert_leg_entry (cr_leg v) order ''credit'' (Some credit) cur (br_id resp) db2))"

record bo_quote = fee_amounts +
  bq_dest :: string
  bq_rate :: rat
  bq_rail :: string
  bq_source :: string
  bq_estimated :: rat
  bq_net :: rat
  bq_percent :: string

definition quote_fiat_bo :: "ramp_env \<Rightarrow> string \<Rightarrow> ramp_dto \<Rightarrow> string \<Rightarrow> orders_db \<Rightarrow> bo_quote result" where
  "quote_fiat_bo v userId dto dest db =
     (let amount = ramp_amount dto;
          fee = calculateFee (cr_today v) userId ''ramp_on_bo'' ''psav'' dest amount (cr_fees v)
      in bind_r (cr_rate v ''BOB_USD'') (\<lambda>rd.
         let rate = client_rate_or (cw_exchange_rate_applied dto) (effective_rate rd);
             (rail, scur) = resolvePsavCryptoSource dest
         in bind_r (assertNoConflictingBridgeDepositOrder userId scur rail db) (\<lambda>_.
            Inr \<lparr>fee_amount = fee_amount fee, net_amount = net_amount fee, bq_dest = dest, bq_rate = rate,
              bq_rail = rail, bq_source = scur, bq_estimated = toFixed2 (amount / rate),
              bq_net = toFixed2 (net_amount fee / rate),
              bq_percent = cr_fixed4 v (if amount > 0 then fee_amount fee / amount * 100 else 0)\<rparr>)))"

definition fiat_bo_ctx :: "ramp_dto \<Rightarrow> wallet \<Rightarrow> bo_quote \<Rightarrow> bridge_exec_context" where
  "fiat_bo_ctx dto w q = \<lparr>ctx_kind = Some (FiatBoOnRampExec ''bank_bo'' ''BOB'' (bq_rail q) (bq_source q)
       (or_else (wa_network w) '''') (bq_dest q) (bq_percent q) (bq_estimated q) (bq_net q)),
     ctx_source_currency = Some ''BOB'', ctx_amount = ramp_amount dto, ctx_fee_amount = fee_amount q,
     ctx_net_amount = net_amount q, ctx_total_needed = Some (Fin 0)\<rparr>"

definition fiat_bo_row :: "ramp_env \<Rightarrow> bool \<Rightarrow> string \<Rightarrow> ramp_dto \<Rightarrow> wallet \<Rightarrow> psav_account \<Rightarrow> bo_quote \<Rightarrow> payment_order" where
  "fiat_bo_row v skip userId dto w account q =
     waiting_or_review skip ''waiting_deposit'' (fiat_bo_ctx dto w q)
       ((ramp_row v ''fiat_bo_to_bridge_wallet'' userId dto (wa_id w) (fee_amounts.truncate q))\<lparr>
         po_requires_psav := True, po_amount := ramp_amount dto, po_currency := Some ''BOB'',
         po_source_network := Some (bq_rail q), po_source_currency := Some (to_upper (bq_source q)),
         po_destination_type := Some ''bridge_wallet'', po_destination_currency := Some (to_upper (bq_dest q)),
         po_exchange_rate := Some (bq_rate q), po_amount_destination := Some (bq_net q),
         po_psav_instructions := (if skip then Some (pa_id account) else None),
         po_deposit_reference_code := Some (cr_reference v),
         po_deposit_expires_at := (if skip then Some (lv_deadline (cr_leg v)) else None)\<rparr>)"

definition createFiatBoToBridgeWallet ::
  "ramp_env \<Rightarrow> bool \<Rightarrow> string \<Rightarrow> ramp_dto \<Rightarrow> orders_db \<Rightarrow> payment_order result \<times> orders_db" where
  "createFiatBoToBridgeWallet v skip userId dto db =
     (let dest = to_lower (or_else (cw_destination_currency dto) ''usdc'') in
      lift (bind_r (getUserWallet userId (cw_wallet_id dto) db) (\<lambda>w.
            bind_r (require (isValidFiatBoDestination dest) (BadRequestException '''')) (\<lambda>_.
            bind_r (bridge_customer userId db) (\<lambda>customer.
            bind_r (getDepositAccountForUser userId ''bank_bo'' ''BOB'' db) (\<lambda>account.
            bind_r (quote_fiat_bo v userId dto dest db) (\<lambda>q. Inr (w, customer, account, q)))))))
        (\<lambda>(w, customer, account, q) db.
           let row = fiat_bo_row v skip userId dto w account q; network = or_else (wa_network w) '''' in
           if \<not> skip then insert_payment_order (cr_db_ok v) row db
           else case lv_post (cr_leg v) (''po_fiat_bo_'' @ cr_new_id v)
                  ((flexible_payload (cr_new_id v) customer (bq_rail q) (bq_source q) network dest (bq_percent q))
                     \<lparr>tp_destination_wallet := wa_provider_wallet_id w\<rparr>) of
             Inl e \<Rightarrow> (Inl (BadRequestException ''''), db)
           | Inr resp \<Rightarrow>
               insert_with_transfer v
                 (row\<lparr>po_bridge_transfer_id := br_id resp, po_bridge_instructions :=
                    Some (buildFiatBoOnRampInstructions resp (bq_rail q) (bq_source q))\<rparr>)
                 (transfer_row (cr_leg v) row resp (bq_rail q) None network (to_upper dest) (bq_estimated q)
                    None None (bq_net q) ''awaiting_funds'')
                 (bq_net q) (to_upper dest) resp db) db)"

text \<open>\<open>crypto_to_bridge_wallet\<close>: any amount from a wallet outside.\<close>

definition crypto_source :: "string \<Rightarrow> ramp_dto \<Rightarrow> wallet \<Rightarrow> string \<Rightarrow> string \<Rightarrow> orders_db \<Rightarrow> string result" where
  "crypto_source userId dto w dest scur db =
     (let net = nullish (cw_source_network dto) (wa_network w) in
      if \<not> truthy net then Inl (BadRequestException '''')
      else
        bind_r (assertCurrencyActive scur db) (\<lambda>_.
        bind_r (require (isValidOnRampSourceForDest dest (the net) scur) (BadRequestException '''')) (\<lambda>_.
        bind_r (require (\<not> (0 < ramp_amount dto \<and> ramp_amount dto < getMinAmountByDest dest (the net) scur))
          (BadRequestException '''')) (\<lambda>_.
        bind_r (assertNoConflictingBridgeDepositOrder userId scur (the net) db) (\<lambda>_. Inr (the net))))))"

definition crypto_on_ctx ::
  "ramp_dto \<Rightarrow> wallet \<Rightarrow> string \<Rightarrow> string \<Rightarrow> string \<Rightarrow> string \<Rightarrow> fee_amounts \<Rightarrow> bridge_exec_context" where
  "crypto_on_ctx dto w net scur dest pct fee =
     \<lparr>ctx_kind = Some (CryptoOnRampExec net scur (or_else (wa_network w) '''') dest pct),
      ctx_source_currency = Some (to_upper scur), ctx_amount = ramp_amount dto,
      ctx_fee_amount = fee_amount fee, ctx_net_amount = net_amount fee, ctx_total_needed = Some (Fin 0)\<rparr>"

definition createCryptoToBridgeWallet ::
  "ramp_env \<Rightarrow> bool \<Rightarrow> string \<Rightarrow> ramp_dto \<Rightarrow> orders_db \<Rightarrow> payment_order result \<times> orders_db" where
  "createCryptoToBridgeWallet v skip userId dto db =
     (let scur = to_lower (or_else (cw_source_currency dto) ''usdc'');
          dest = to_lower (or_else (cw_destination_currency dto) ''usdc'');
          fee = calculateFee (cr_today v) userId ''ramp_on_crypto'' ''bridge'' scur (ramp_amount dto) (cr_fees v);
          pct = cr_show v (getFeePercent (cr_today v) userId ''ramp_on_crypto'' ''bridge'' scur (cr_fees v))
      in lift (bind_r (getUserWallet userId (cw_wallet_id dto) db) (\<lambda>w.
               bind_r (bridge_customer userId db) (\<lambda>customer.
               bind_r (crypto_source userId dto w dest scur db) (\<lambda>net. Inr (w, customer, net)))))
        (\<lambda>(w, customer, net) db.
           let row = waiting_or_review skip ''waiting_deposit'' (crypto_on_ctx dto w net scur dest pct fee)
                 ((ramp_row v ''crypto_to_bridge_wallet'' userId dto (wa_id w) fee)\<lparr>po_amount := ramp_amount dto,
                   po_currency := Some (to_upper scur), po_source_currency := Some (to_upper scur),
                   po_source_network := Some net, po_destination_type := Some ''bridge_wallet'',
                   po_destination_currency := Some (to_upper dest), po_exchange_rate := Some 1,
                   po_notes := Some (or_else (cw_notes dto) ''On-ramp crypto flexible'')\<rparr>);
               network = or_else (wa_network w) ''''
           in if \<not> skip then insert_payment_order (cr_db_ok v) row db
              else case lv_post (cr_leg v) (''po_c2bw_'' @ cr_new_id v)
                     ((flexible_payload (cr_new_id v) customer net scur network dest pct)
                        \<lparr>tp_destination_wallet := wa_provider_wallet_id w\<rparr>) of
                Inl e \<Rightarrow> (Inl (BadRequestException ''''), db)
              | Inr resp \<Rightarrow>
                  insert_with_transfer v
                    (row\<lparr>po_bridge_transfer_id := br_id resp,
                         po_bridge_instructions := Some (buildCryptoOnRampInstructions resp net)\<rparr>)
                    (transfer_row (cr_leg v) row resp net (Some (to_upper scur)) network (to_upper dest)
                       (ramp_amount dto) None None (net_amount fee) ''payment_submitted'')
                    (net_amount fee) (to_upper dest) resp db) db)"

section \<open>Out of a wallet\<close>

text \<open>The end of the four flows that debit a wallet: reserve, insert, and with the review skipped
  run the leg. An insert that fails gives the reserve back.\<close>

definition reserve_and_insert ::
  "'e create_env_scheme \<Rightarrow> bool \<Rightarrow> string \<Rightarrow> string \<Rightarrow> rat \<Rightarrow> payment_order
    \<Rightarrow> (payment_order \<Rightarrow> orders_db \<Rightarrow> bridge_leg_result result \<times> orders_db) \<Rightarrow> orders_db
    \<Rightarrow> payment_order result \<times> orders_db" where
  "reserve_and_insert v skip userId cur totalNeeded row leg db =
     (let db1 = reserve_balance v userId cur totalNeeded db in
      case insert_payment_order (cr_db_ok v) row db1 of
        (Inl e, db2) \<Rightarrow> (Inl e, call_release (lv_release (cr_leg v)) userId cur totalNeeded db2)
      | (Inr order, db2) \<Rightarrow>
          if \<not> skip then (Inr order, db2)
          else case leg order db2 of
            (Inl e, db3) \<Rightarrow> (Inl e, db3)
          | (Inr _, db3) \<Rightarrow> (or_throw_none (NotFoundException '''') (select_order (cr_new_id v) db3), db3))"

definition off_ctx :: "exec_kind \<Rightarrow> string \<Rightarrow> rat \<Rightarrow> fee_amounts \<Rightarrow> bridge_exec_context" where
  "off_ctx k cur amount fee = \<lparr>ctx_kind = Some k, ctx_source_currency = Some cur, ctx_amount = amount,
     ctx_fee_amount = fee_amount fee, ctx_net_amount = net_amount fee, ctx_total_needed = Some (Fin amount)\<rparr>"

text \<open>The account of the agent that takes the token, for Bolivia and Peru.\<close>

definition psav_match :: "string \<Rightarrow> string \<Rightarrow> rat \<Rightarrow> orders_db \<Rightarrow> (psav_account \<times> string) result" where
  "psav_match userId cur amount db =
     (if to_lower cur \<notin> set FIAT_BO_OFF_RAMP_SOURCE_CURRENCIES then Inl (BadRequestException '''')
      else case resolveFiatBoPsavMatch pa_currency pa_crypto_network cur
                  (getActiveCryptoAccountsForUser userId db) of
        None \<Rightarrow> Inl (BadRequestException '''')
      | Some (a, dcur, routeMin) \<Rightarrow>
          if \<not> truthy (pa_crypto_address a) then Inl (BadRequestException '''')
          else if amount < routeMin then Inl (BadRequestException '''')
          else Inr (a, dcur))"

definition MAX_RATE_DEVIATION :: rat where
  "MAX_RATE_DEVIATION = 3 / 100"

definition check_deviation :: "rat option \<Rightarrow> rat \<Rightarrow> unit result" where
  "check_deviation clientRate liveBase =
     (case clientRate of
        None \<Rightarrow> Inr ()
      | Some r \<Rightarrow> require (\<not> (0 < r \<and> MAX_RATE_DEVIATION < \<bar>r - liveBase\<bar> / liveBase)) (BadRequestException ''''))"

definition createBridgeWalletToFiatBo ::
  "ramp_env \<Rightarrow> bool \<Rightarrow> string \<Rightarrow> ramp_dto \<Rightarrow> orders_db \<Rightarrow> payment_order result \<times> orders_db" where
  "createBridgeWalletToFiatBo v skip userId dto db =
     (let cur = to_upper (or_else (cw_source_currency dto) ''usdc''); amount = ramp_amount dto;
          fee = calculateFee (cr_today v) userId ''ramp_off_bo'' ''psav'' cur amount (cr_fees v)
      in lift (bind_r (getApprovedAccountForWithdrawal userId db) (\<lambda>_.
               bind_r (getUserWallet userId (cw_wallet_id dto) db) (\<lambda>w.
               bind_r (psav_match userId cur amount db) (\<lambda>(a, dcur).
               bind_r (check_available userId cur amount db) (\<lambda>_.
               bind_r (assertNoConflictingOffRampOrder userId ''bridge_wallet_to_fiat_bo'' cur db) (\<lambda>_.
               bind_r (bridge_customer userId db) (\<lambda>_.
               bind_r (cr_rate v ''USD_BOB'') (\<lambda>rd.
               bind_r (check_deviation (cw_exchange_rate_applied dto) (effective_rate rd)) (\<lambda>_.
                 Inr (w, a, dcur, client_rate_or (cw_exchange_rate_applied dto) (effective_rate rd)))))))))))
        (\<lambda>(w, a, dcur, rate).
           let ctx = off_ctx (FiatBoExec (pa_id a) dcur) cur amount fee in
           reserve_and_insert v skip userId cur amount
             (waiting_or_review skip ''created'' ctx
               ((ramp_row v ''bridge_wallet_to_fiat_bo'' userId dto (wa_id w) fee)\<lparr>po_requires_psav := True, po_amount := amount,
                 po_currency := Some cur, po_source_currency := Some cur,
                 po_destination_type := Some ''bank_bo'', po_destination_currency := Some ''BOB'',
                 po_exchange_rate := Some rate,
                 po_amount_destination := Some (toFixed2 (net_amount fee * rate))\<rparr>))
             (\<lambda>order. executeBridgeWalletToFiatBoLeg (cr_leg v) order ctx (pa_id a) dcur FailOrder)) db)"

text \<open>The supplier of a withdrawal to an address: usable, and of the same network and token.\<close>

definition check_crypto_supplier :: "string \<Rightarrow> ramp_dto \<Rightarrow> string \<Rightarrow> string \<Rightarrow> orders_db \<Rightarrow> unit result" where
  "check_crypto_supplier userId dto rail dcur db =
     (if \<not> truthy (cw_supplier_id dto) then Inr ()
      else case maybe_single (filter (\<lambda>s. Some (sp_id s) = cw_supplier_id dto \<and> sp_user_id s = userId
                  \<and> sp_is_active s) (suppliers db)) of
        None \<Rightarrow> Inl (BadRequestException '''')
      | Some s \<Rightarrow>
          bind_r (assertUsableForPayment s) (\<lambda>_.
          bind_r (require (map_option to_lower (bd_wallet_network (sp_bank_details s)) = Some rail)
            (BadRequestException '''')) (\<lambda>_.
          require (map_option to_lower (bd_wallet_currency (sp_bank_details s)) = Some dcur)
            (BadRequestException ''''))))"

definition createBridgeWalletToCrypto ::
  "ramp_env \<Rightarrow> bool \<Rightarrow> string \<Rightarrow> ramp_dto \<Rightarrow> orders_db \<Rightarrow> payment_order result \<times> orders_db" where
  "createBridgeWalletToCrypto v skip userId dto db =
     (let cur = to_upper (or_else (cw_source_currency dto) ''usdc''); amount = ramp_amount dto;
          fee = calculateFee (cr_today v) userId ''ramp_off_crypto'' ''bridge'' cur amount (cr_fees v);
          rail = trim_ws (to_lower (or_else (cw_destination_network dto) ''''));
          dcur = to_lower (or_else (cw_destination_currency dto) cur);
          routeMin = getOffRampMinAmount (to_lower cur) rail dcur
      in lift (bind_r (getUserWallet userId (cw_wallet_id dto) db) (\<lambda>w.
               bind_r (check_available userId cur amount db) (\<lambda>_.
               bind_r (require (rail \<in> set ALLOWED_NETWORKS) (BadRequestException '''')) (\<lambda>_.
               bind_r (require (isValidOffRampRoute (to_lower cur) rail dcur) (BadRequestException '''')) (\<lambda>_.
               bind_r (assertNoConflictingCryptoOffRamp userId cur (or_else (cw_destination_network dto) '''') db) (\<lambda>_.
               bind_r (require (\<not> (0 < routeMin \<and> amount < routeMin)) (BadRequestException '''')) (\<lambda>_.
               bind_r (check_crypto_supplier userId dto rail dcur db) (\<lambda>_.
               bind_r (bridge_customer userId db) (\<lambda>_. Inr w)))))))))
        (\<lambda>w.
           let addr = or_else (cw_destination_address dto) '''';
               ctx = off_ctx (CryptoExec rail dcur addr) cur amount fee in
           reserve_and_insert v skip userId cur amount
             (waiting_or_review skip ''created'' ctx
               ((ramp_row v ''bridge_wallet_to_crypto'' userId dto (wa_id w) fee)\<lparr>po_amount := amount, po_currency := Some cur,
                 po_source_currency := Some cur, po_destination_type := Some ''crypto_address'',
                 po_destination_address := cw_destination_address dto,
                 po_destination_network := cw_destination_network dto,
                 po_destination_currency := Some (to_upper (or_else (cw_destination_currency dto) cur)),
                 po_exchange_rate := Some 1, po_amount_destination := Some (net_amount fee),
                 po_supplier_id := (if truthy (cw_supplier_id dto) then cw_supplier_id dto else None)\<rparr>))
             (\<lambda>order. executeBridgeWalletToCryptoLeg (cr_leg v) order ctx rail dcur addr FailOrder)) db)"

end
