(* ===== verification/PayoutCreation.thy ===== *)
theory PayoutCreation imports RampCreation begin

text \<open>
  The creation of orders that pay a bank account, from
  \<open>src/application/payment-orders/payment-orders.service.ts\<close>: out of a wallet of the client with or
  without a fixed amount of destination, by way of the agent to Peru, and from a wallet outside. It
  ends with the entry point \<open>createWalletRampOrder\<close> and the creation from an approved exception.
\<close>

section \<open>The quote with a fixed amount of destination\<close>

definition NON_USD_ALLOWED_SOURCE_CURRENCY :: string where
  "NON_USD_ALLOWED_SOURCE_CURRENCY = ''USDC''"

definition MAX_DEBIT_INCREASE :: rat where
  "MAX_DEBIT_INCREASE = 5 / 1000"

definition quoteFiatUsFixedOutput ::
  "ramp_env \<Rightarrow> string \<Rightarrow> string \<Rightarrow> string \<Rightarrow> ramp_dto \<Rightarrow> fixed_output_amounts result" where
  "quoteFiatUsFixedOutput v userId paymentRail destCurrency dto =
     bind_r (cr_live v destCurrency) (\<lambda>(clientRate, bridgeSellRate).
     bind_r (require (clientRate > 0 \<and> bridgeSellRate > 0) (BadRequestException '''')) (\<lambda>_.
     let rule = getFeeConfigRow (cr_today v) userId ''ramp_off_fiat_us'' paymentRail destCurrency (cr_fees v);
         asked = or_else (cw_destination_amount dto) 0;
         destinationAmount = (if asked > 0 then js_round (asked * 100) / 100
           else destinationFromSource (ramp_amount dto) clientRate rule)
     in bind_r (require (destinationAmount > 0) (BadRequestException '''')) (\<lambda>_.
        bind_r (calculateFixedOutputAmounts destinationAmount clientRate bridgeSellRate rule) (\<lambda>quote.
        bind_r (require (\<not> ramp_amount dto * (1 + MAX_DEBIT_INCREASE) + 1 / 100 < fo_source_amount quote)
          (BadRequestException '''')) (\<lambda>_. Inr quote)))))"

section \<open>To a bank account of a supplier\<close>

definition own_supplier :: "string \<Rightarrow> ostring \<Rightarrow> orders_db \<Rightarrow> supplier option" where
  "own_supplier userId supplierId db =
     maybe_single (filter (\<lambda>s. Some (sp_id s) = supplierId \<and> sp_user_id s = userId) (suppliers db))"

text \<open>The account at the provider and the rail of a supplier. The account belongs to the supplier,
  so it is not looked up by owner.\<close>

definition supplier_account :: "supplier \<Rightarrow> orders_db \<Rightarrow> (external_account \<times> string) result" where
  "supplier_account s db =
     (if \<not> truthy (sp_external_account_id s) then Inl (NotFoundException '''')
      else case maybe_single (filter (\<lambda>a. Some (ea_id a) = sp_external_account_id s \<and> ea_is_active a)
                  (external_accounts db)) of
        None \<Rightarrow> Inl (NotFoundException '''')
      | Some a \<Rightarrow>
          if \<not> truthy (ea_bridge_external_account_id a) then Inl (NotFoundException '''')
          else if \<not> truthy (sp_payment_rail s) then Inl (BadRequestException '''')
          else Inr (a, the (sp_payment_rail s)))"

text \<open>The amounts: one to one in dollars, or the quote.\<close>

record payout_quote = fee_amounts +
  pq_total :: rat
  pq_fixed :: "fixed_output_amounts option"

definition payout_amounts ::
  "ramp_env \<Rightarrow> string \<Rightarrow> ramp_dto \<Rightarrow> string \<Rightarrow> string \<Rightarrow> string \<Rightarrow> payout_quote result" where
  "payout_amounts v userId dto rail cur dcur =
     (if dcur = ''USD''
      then let fee = calculateFee (cr_today v) userId ''ramp_off_fiat_us'' rail dcur (ramp_amount dto) (cr_fees v)
           in Inr \<lparr>fee_amount = fee_amount fee, net_amount = net_amount fee, pq_total = ramp_amount dto,
                pq_fixed = None\<rparr>
      else
        bind_r (require (cur = NON_USD_ALLOWED_SOURCE_CURRENCY) (BadRequestException '''')) (\<lambda>_.
        bind_r (require (isFixedOutputCurrency dcur) (BadRequestException '''')) (\<lambda>_.
        bind_r (quoteFiatUsFixedOutput v userId rail dcur dto) (\<lambda>q.
          Inr \<lparr>fee_amount = fo_fee_amount q, net_amount = fo_net_amount q,
            pq_total = fo_source_amount q, pq_fixed = Some q\<rparr>))))"

definition payout_kind :: "external_account \<Rightarrow> string \<Rightarrow> payout_quote \<Rightarrow> exec_kind" where
  "payout_kind a rail q =
     FiatUsExec rail (ea_id a) (to_lower (or_else (ea_currency a) ''usd'')) (pq_fixed q \<noteq> None)
       (map_option fo_destination_amount (pq_fixed q)) (map_option fo_client_rate (pq_fixed q))"

definition payout_row ::
  "ramp_env \<Rightarrow> string \<Rightarrow> ramp_dto \<Rightarrow> wallet \<Rightarrow> supplier \<Rightarrow> external_account \<Rightarrow> string \<Rightarrow> payout_quote
    \<Rightarrow> payment_order" where
  "payout_row v userId dto w s a cur q =
     (ramp_row v ''bridge_wallet_to_fiat_us'' userId dto (wa_id w) (fee_amounts.truncate q))\<lparr>
       po_amount := pq_total q, po_currency := Some cur, po_source_currency := Some cur,
       po_destination_type := Some ''external_account'',
       po_destination_currency := Some (or_else (ea_currency a) ''USD''),
       po_exchange_rate := Some (case pq_fixed q of Some f \<Rightarrow> fo_client_rate f | None \<Rightarrow> 1),
       po_fx_mode := (if pq_fixed q = None then None else Some ''fixed_output''),
       po_fx_buffer_amount := map_option fo_fx_buffer_amount (pq_fixed q),
       po_external_account_id := Some (ea_id a), po_supplier_id := Some (sp_id s),
       po_amount_destination := Some (case pq_fixed q of Some f \<Rightarrow> fo_destination_amount f | None \<Rightarrow> net_amount q)\<rparr>"

text \<open>Peru: the same two legs as to Bolivia, to the agent, with the row of a payout.\<close>

definition createBridgeWalletToPeruPsav ::
  "ramp_env \<Rightarrow> bool \<Rightarrow> string \<Rightarrow> ramp_dto \<Rightarrow> supplier \<Rightarrow> orders_db \<Rightarrow> payment_order result \<times> orders_db" where
  "createBridgeWalletToPeruPsav v skip userId dto s db =
     (let cur = to_upper (or_else (cw_source_currency dto) ''usdc''); amount = ramp_amount dto;
          fee = calculateFee (cr_today v) userId ''ramp_off_fiat_us'' ''pe_bank_transfer'' ''USD'' amount (cr_fees v)
      in lift (bind_r (getUserWallet userId (cw_wallet_id dto) db) (\<lambda>w.
               bind_r (psav_match userId cur amount db) (\<lambda>(a, dcur).
               bind_r (check_available userId cur amount db) (\<lambda>_.
               bind_r (assertNoConflictingFiatUsOffRamp userId cur (sp_id s) db) (\<lambda>_.
               bind_r (bridge_customer userId db) (\<lambda>_. Inr (w, a, dcur)))))))
        (\<lambda>(w, a, dcur).
           let ctx = off_ctx (PeruExec (pa_id a) dcur) cur amount fee in
           reserve_and_insert v skip userId cur amount
             (waiting_or_review skip ''created'' ctx
               ((ramp_row v ''bridge_wallet_to_fiat_us'' userId dto (wa_id w) fee)\<lparr>
                 po_requires_psav := True, po_amount := amount, po_currency := Some cur,
                 po_source_currency := Some cur, po_destination_type := Some ''manual_pe_bank'',
                 po_destination_currency := Some ''USD'', po_supplier_id := Some (sp_id s),
                 po_exchange_rate := Some 1, po_amount_destination := Some (net_amount fee)\<rparr>))
             (\<lambda>order. executeBridgeWalletToPeruPsavLeg (cr_leg v) order ctx (pa_id a) dcur FailOrder)) db)"

definition createPayout ::
  "ramp_env \<Rightarrow> bool \<Rightarrow> string \<Rightarrow> ramp_dto \<Rightarrow> wallet \<Rightarrow> supplier \<Rightarrow> orders_db \<Rightarrow> payment_order result \<times> orders_db" where
  "createPayout v skip userId dto w s db =
     (let cur = to_upper (or_else (cw_source_currency dto) ''usdc'') in
      lift (bind_r (supplier_account s db) (\<lambda>(a, rail).
            bind_r (bridge_customer userId db) (\<lambda>_.
            bind_r (payout_amounts v userId dto rail cur (to_upper (or_else (ea_currency a) ''USD''))) (\<lambda>q.
            bind_r (check_available userId cur (pq_total q) db) (\<lambda>_.
            bind_r (assertNoConflictingFiatUsOffRamp userId cur (the (cw_supplier_id dto)) db) (\<lambda>_.
              Inr (a, rail, q)))))))
        (\<lambda>(a, rail, q).
           let k = payout_kind a rail q; ctx = off_ctx k cur (pq_total q) (fee_amounts.truncate q) in
           reserve_and_insert v skip userId cur (pq_total q)
             (waiting_or_review skip ''created'' ctx (payout_row v userId dto w s a cur q))
             (\<lambda>order. run_leg (cr_leg v) order ctx k FailOrder)) db)"

definition createBridgeWalletToFiatUs ::
  "ramp_env \<Rightarrow> bool \<Rightarrow> string \<Rightarrow> ramp_dto \<Rightarrow> orders_db \<Rightarrow> payment_order result \<times> orders_db" where
  "createBridgeWalletToFiatUs v skip userId dto db =
     (case getUserWallet userId (cw_wallet_id dto) db of
        Inl e \<Rightarrow> (Inl e, db)
      | Inr w \<Rightarrow>
          if \<not> truthy (cw_supplier_id dto) then (Inl (BadRequestException ''''), db)
          else case own_supplier userId (cw_supplier_id dto) db of
            None \<Rightarrow> (Inl (NotFoundException ''''), db)
          | Some s \<Rightarrow>
              lift (assertUsableForPayment s) (\<lambda>_.
                if sp_payment_rail s = Some ''pe_bank_transfer''
                then createBridgeWalletToPeruPsav v skip userId dto s
                else createPayout v skip userId dto w s) db)"

section \<open>From a wallet outside to a bank account\<close>

text \<open>The fee travels as a percentage, so a tariff with a fixed part is refused.\<close>

definition world_fee :: "ramp_env \<Rightarrow> string \<Rightarrow> ramp_dto \<Rightarrow> string \<Rightarrow> string \<Rightarrow> (string \<times> fee_amounts) result" where
  "world_fee v userId dto rail dcur =
     bind_r (assertFeeConfigured (cr_today v) userId ''ramp_off_wallet_world'' rail dcur (cr_fees v)) (\<lambda>_.
     bind_r (case getFeeConfigRow (cr_today v) userId ''ramp_off_wallet_world'' rail dcur (cr_fees v) of
         None \<Rightarrow> Inr ()
       | Some r \<Rightarrow> require (rule_fee_type r = ''percent'') (BadRequestException '''')) (\<lambda>_.
     Inr (cr_show v (getFeePercent (cr_today v) userId ''ramp_off_wallet_world'' rail dcur (cr_fees v)),
          if 0 < ramp_amount dto
          then calculateFee (cr_today v) userId ''ramp_off_wallet_world'' rail dcur (ramp_amount dto) (cr_fees v)
          else \<lparr>fee_amount = 0, net_amount = 0\<rparr>)))"

text \<open>The wallet only groups the order on the screen; it need not exist at the provider.\<close>

definition reference_wallet :: "string \<Rightarrow> ostring \<Rightarrow> orders_db \<Rightarrow> wallet result" where
  "reference_wallet userId walletId db =
     or_throw_none (NotFoundException '''') (first_row (filter (\<lambda>w. wa_user_id w = userId \<and> wa_is_active w
        \<and> (truthy walletId \<longrightarrow> Some (wa_id w) = walletId)) (wallets db)))"

record world_request =
  wq_net :: string
  wq_cur :: string
  wq_supplier :: supplier
  wq_account :: external_account
  wq_rail :: string
  wq_customer :: string
  wq_percent :: string
  wq_fee :: fee_amounts
  wq_wallet :: wallet

definition world_checks :: "ramp_env \<Rightarrow> string \<Rightarrow> ramp_dto \<Rightarrow> orders_db \<Rightarrow> world_request result" where
  "world_checks v userId dto db =
     (if \<not> truthy (cw_supplier_id dto) \<or> \<not> truthy (cw_source_network dto) \<or> \<not> truthy (cw_source_currency dto)
         \<or> \<not> truthy (cw_business_purpose dto)
      then Inl (BadRequestException '''')
      else
        let net = to_lower (the (cw_source_network dto)); cur = to_upper (the (cw_source_currency dto));
            routeMin = getWalletToWorldMinAmount net cur
        in bind_r (require (isValidWalletToWorldSource net cur) (BadRequestException '''')) (\<lambda>_.
           bind_r (require (\<not> (0 < ramp_amount dto \<and> 0 < routeMin \<and> ramp_amount dto < routeMin))
             (BadRequestException '''')) (\<lambda>_.
           bind_r (or_throw_none (NotFoundException '''') (own_supplier userId (cw_supplier_id dto) db)) (\<lambda>s.
           bind_r (assertUsableForPayment s) (\<lambda>_.
           bind_r (supplier_account s db) (\<lambda>(a, rail).
           bind_r (bridge_customer userId db) (\<lambda>customer.
           bind_r (world_fee v userId dto rail (to_upper (or_else (ea_currency a) ''USD''))) (\<lambda>(pct, fee).
           bind_r (assertNoConflictingWalletToWorld userId cur (the (cw_supplier_id dto)) db) (\<lambda>_.
           bind_r (reference_wallet userId (cw_wallet_id dto) db) (\<lambda>w.
             Inr \<lparr>wq_net = net, wq_cur = cur, wq_supplier = s, wq_account = a, wq_rail = rail,
               wq_customer = customer, wq_percent = pct, wq_fee = fee, wq_wallet = w\<rparr>))))))))))"

definition world_ctx :: "ramp_dto \<Rightarrow> world_request \<Rightarrow> bridge_exec_context" where
  "world_ctx dto q = \<lparr>ctx_kind = Some (WalletToWorldExec (wq_net q) (wq_rail q) (ea_id (wq_account q))
       (to_lower (or_else (ea_currency (wq_account q)) ''usd'')) (wq_percent q)),
     ctx_source_currency = Some (wq_cur q), ctx_amount = ramp_amount dto,
     ctx_fee_amount = fee_amount (wq_fee q), ctx_net_amount = net_amount (wq_fee q),
     ctx_total_needed = Some (Fin 0)\<rparr>"

definition world_row :: "ramp_env \<Rightarrow> bool \<Rightarrow> string \<Rightarrow> ramp_dto \<Rightarrow> world_request \<Rightarrow> payment_order" where
  "world_row v skip userId dto q =
     waiting_or_review skip ''waiting_deposit'' (world_ctx dto q)
       ((ramp_row v ''wallet_to_world'' userId dto (wa_id (wq_wallet q)) (wq_fee q))\<lparr>
         po_source_network := Some (wq_net q), po_source_currency := Some (wq_cur q),
         po_amount := ramp_amount dto, po_currency := Some (wq_cur q),
         po_destination_type := Some ''external_account'',
         po_destination_currency := Some (or_else (ea_currency (wq_account q)) ''USD''),
         po_exchange_rate := Some 1, po_amount_destination := Some (net_amount (wq_fee q)),
         po_external_account_id := Some (ea_id (wq_account q)), po_supplier_id := Some (sp_id (wq_supplier q))\<rparr>)"

definition createWalletToWorld ::
  "ramp_env \<Rightarrow> bool \<Rightarrow> string \<Rightarrow> ramp_dto \<Rightarrow> orders_db \<Rightarrow> payment_order result \<times> orders_db" where
  "createWalletToWorld v skip userId dto db =
     lift (world_checks v userId dto db)
       (\<lambda>q db.
          let row = world_row v skip userId dto q; dcur = to_lower (or_else (ea_currency (wq_account q)) ''usd'') in
          if \<not> skip then insert_payment_order (cr_db_ok v) row db
          else case lv_post (cr_leg v) (''po_w2w_'' @ cr_new_id v)
                 ((flexible_payload (cr_new_id v) (wq_customer q) (wq_net q) (to_lower (wq_cur q)) (wq_rail q) dcur (wq_percent q))
                    \<lparr>tp_external_account := ea_bridge_external_account_id (wq_account q),
                     tp_rail_reference := buildRailReference (wq_rail q) (cr_new_id v)\<rparr>) of
            Inl e \<Rightarrow> (Inl (BadRequestException ''''), db)
          | Inr resp \<Rightarrow>
              if deposit_address resp = '''' then (Inl (BadRequestException ''''), db)
              else case insert_payment_order (cr_db_ok v)
                     (row\<lparr>po_bridge_transfer_id := br_id resp, po_bridge_instructions :=
                        Some (buildWalletToWorldDepositInstructions resp (wq_net q) (wq_cur q))\<rparr>) db of
                  (Inl e, db1) \<Rightarrow> (Inl e, db1)
                | (Inr order, db1) \<Rightarrow>
                    let (_, db2) = recordBridgeTransfer (lv_transfer_row_ok (cr_leg v))
                          (transfer_row (cr_leg v) row resp (wq_net q) (Some (to_lower (wq_cur q))) (wq_rail q) dcur
                             (ramp_amount dto) None (Some (wq_percent q)) (net_amount (wq_fee q)) ''awaiting_funds'') db1
                    in (Inr order, db2)) db"

section \<open>The entry point\<close>

definition ramp_limit_currency :: "ramp_dto \<Rightarrow> string" where
  "ramp_limit_currency dto =
     (if cw_flow_type dto = ''fiat_bo_to_bridge_wallet'' then ''BOB''
      else if cw_flow_type dto \<in> {''crypto_to_bridge_wallet'', ''bridge_wallet_to_fiat_bo'',
          ''bridge_wallet_to_crypto'', ''bridge_wallet_to_fiat_us'', ''wallet_to_world''}
        then to_upper (or_else (cw_source_currency dto) ''USDC'')
      else ''USD'')"

text \<open>An order of flexible amount has nothing to compare; without an amount every comparison is
  false, as with \<open>undefined\<close>.\<close>

definition ramp_limit_check :: "ramp_env \<Rightarrow> string \<Rightarrow> ramp_dto \<Rightarrow> limit_check option result" where
  "ramp_limit_check v userId dto =
     (if cw_flow_type dto = ''wallet_to_world'' \<and> ramp_amount dto \<le> 0 then Inr None
      else case cw_amount dto of
        None \<Rightarrow> Inr None
      | Some amount \<Rightarrow>
          bind_r (checkAmountLimits (cr_today v) (cr_settings v) (limit_rates (create_env.truncate v)) amount
                    (cw_flow_type dto) (Some (ramp_limit_currency dto)) (Some userId) (cr_limits v))
            (\<lambda>c. Inr (if lc_exceeded c then Some c else None)))"

definition dispatch_ramp ::
  "ramp_env \<Rightarrow> bool \<Rightarrow> string \<Rightarrow> ramp_dto \<Rightarrow> orders_db \<Rightarrow> payment_order result \<times> orders_db" where
  "dispatch_ramp v skip userId dto db =
     (if cw_flow_type dto = ''fiat_bo_to_bridge_wallet'' then createFiatBoToBridgeWallet v skip userId dto db
      else if cw_flow_type dto = ''crypto_to_bridge_wallet'' then createCryptoToBridgeWallet v skip userId dto db
      else if cw_flow_type dto = ''bridge_wallet_to_fiat_bo'' then createBridgeWalletToFiatBo v skip userId dto db
      else if cw_flow_type dto = ''bridge_wallet_to_crypto'' then createBridgeWalletToCrypto v skip userId dto db
      else if cw_flow_type dto = ''bridge_wallet_to_fiat_us'' then createBridgeWalletToFiatUs v skip userId dto db
      else if cw_flow_type dto = ''wallet_to_world'' then createWalletToWorld v skip userId dto db
      else (Inl (BadRequestException ''''), db))"

definition notifyStaffOrderPendingReview :: "string \<Rightarrow> orders_db \<Rightarrow> orders_db" where
  "notifyStaffOrderPendingReview orderId db =
     (let staff = take 5 (filter (\<lambda>p. pr_role p \<in> {''staff'', ''admin'', ''super_admin''} \<and> pr_is_active p) (profiles db))
      in foldl (\<lambda>d p. notify (pr_id p) ''alert'' (Some ''payment_order'') (Some orderId) d) db staff)"

definition createWalletRampOrder ::
  "ramp_env \<Rightarrow> flow_review_settings_service \<Rightarrow> string \<Rightarrow> ramp_dto \<Rightarrow> ostring
    \<Rightarrow> (limit_check \<Rightarrow> orders_db \<Rightarrow> 'r result \<times> orders_db) \<Rightarrow> orders_db
    \<Rightarrow> 'r creation result \<times> orders_db" where
  "createWalletRampOrder v s userId dto clientReason review db =
     (let checks = bind_r (assertOnboardingApproved userId (cr_flows v)) (\<lambda>_.
            bind_r (validateRateLimit (cr_now v) (cr_settings v) (owner_times db) userId) (\<lambda>_.
            bind_r (assertFlowEnabled userId (cw_flow_type dto) (cr_flows v)) (\<lambda>_.
            bind_r (let c = nullish (cw_source_currency dto) (cw_destination_currency dto)
                    in if truthy c then assertCurrencyActive (the c) db else Inr ()) (\<lambda>_.
              ramp_limit_check v userId dto))))
      in lift checks (\<lambda>exceeded db.
           case exceeded of
             Some c \<Rightarrow>
               if \<not> truthy clientReason then (Inl (BadRequestException ''''), db)
               else (case review c db of
                   (Inl e, db') \<Rightarrow> (Inl e, db')
                 | (Inr r, db') \<Rightarrow> (Inr (ReviewRequested r), db'))
           | None \<Rightarrow>
               (case dispatch_ramp v (resolveReviewGate (create_env.truncate v) (Some (cw_flow_type dto)) s) userId dto db of
                  (Inl e, db') \<Rightarrow> (Inl e, db')
                | (Inr order, db') \<Rightarrow>
                    let db1 = log_audit (Some userId) ''CREATE_WALLET_RAMP_ORDER'' (po_id order) db'
                    in (Inr (Created order), if po_status order = ''pending_review''
                          then notifyStaffOrderPendingReview (po_id order) db1 else db1))) db)"

text \<open>An approved exception is created without the maximum and without the review.\<close>

definition createInterbankOrderBypassLimit ::
  "create_env \<Rightarrow> string \<Rightarrow> interbank_dto \<Rightarrow> orders_db \<Rightarrow> payment_order result \<times> orders_db" where
  "createInterbankOrderBypassLimit v = dispatch_interbank v True"

definition createWalletRampOrderBypassLimit ::
  "ramp_env \<Rightarrow> string \<Rightarrow> ramp_dto \<Rightarrow> orders_db \<Rightarrow> payment_order result \<times> orders_db" where
  "createWalletRampOrderBypassLimit v = dispatch_ramp v True"

end
