(* ===== verification/CreationProperties.thy ===== *)
theory CreationProperties imports PayoutCreation OrderProperties begin

text \<open>
  What the creation of orders guarantees: what a new order in review looks like, what it leaves
  behind when it fails or is rejected, which rates and destinations a client may choose.
\<close>

section \<open>Samples\<close>

definition hold :: "string \<Rightarrow> string \<Rightarrow> rat \<Rightarrow> balance list \<Rightarrow> balance list option" where
  "hold u c a bs = Some (update_where (has_key u c)
     (\<lambda>b. b\<lparr>ba_available := ba_available b - a, ba_reserved := ba_reserved b + a\<rparr>) bs)"

definition seven :: full_rate where
  "seven = \<lparr>effective_rate = 7, bridge_sell_rate = None, base_rate = 7\<rparr>"

definition sample_env :: ramp_env where
  "sample_env = \<lparr>cr_leg = provider_down, cr_now = 10, cr_today = 0,
     cr_fees = \<lparr>fees_config = [], customer_fee_overrides = [], fees_audit = []\<rparr>,
     cr_limits = \<lparr>customer_limit_overrides = [], limits_audit = []\<rparr>,
     cr_flows = \<lparr>client_profiles = [\<lparr>cp_id = ''u1'', cp_country_code = Some ''BO'',
        cp_onboarding_status = Some ''approved''\<rparr>], customer_flow_overrides = [], flows_audit = []\<rparr>,
     cr_settings = [(''MAX_BRIDGE_WALLET_TO_CRYPTO_USD'', ''500'')], cr_rate = (\<lambda>_. Inr seven), cr_reserve = hold, cr_show = (\<lambda>_. ''''), cr_new_id = ''o9'',
     cr_reference = ''REF'', cr_db_ok = True, cr_review_rows = Some [],
     cr_live = (\<lambda>_. Inl (ErrorException '''')), cr_fixed4 = (\<lambda>_. '''')\<rparr>"

definition withdrawal :: ramp_dto where
  "withdrawal = \<lparr>cw_flow_type = ''bridge_wallet_to_crypto'', cw_amount = Some 50, cw_wallet_id = None,
     cw_destination_address = Some ''0xabc'', cw_destination_network = Some ''polygon'',
     cw_destination_currency = Some ''usdc'', cw_source_network = None, cw_source_currency = Some ''usdc'',
     cw_supplier_id = None, cw_business_purpose = None, cw_supporting_document_url = None, cw_notes = None,
     cw_exchange_rate_applied = None, cw_destination_amount = None\<rparr>"

definition withdraw :: "ramp_env \<Rightarrow> bool \<Rightarrow> payment_order result \<times> orders_db" where
  "withdraw v skip = dispatch_ramp v skip ''u1'' withdrawal (sample_db [])"

lemma ok_run: "is_ok (fst r) \<Longrightarrow> r = (Inr (projr (fst r)), snd r)" "\<not> is_ok (fst r) \<Longrightarrow> r = (Inl (projl (fst r)), snd r)"
  by (cases r; cases "fst r"; simp add: is_ok_def)+

lemma sample_balance:
  "check_available ''u1'' c a (sample_db os) = Inr () \<longleftrightarrow> c = ''USDC'' \<and> a \<le> 100"
  by (simp add: check_available_def sample_db_def not_less)

section \<open>Orders in review\<close>

text \<open>A new order in review shows nothing to deposit to, and carries the context the approval runs.\<close>

definition review_row :: "'e create_env_scheme \<Rightarrow> string \<Rightarrow> payment_order \<Rightarrow> bool" where
  "review_row v userId r \<longleftrightarrow> po_id r = cr_new_id v \<and> po_user_id r = userId \<and> po_status r = ''pending_review''
     \<and> has_exec_kind r \<and> supportsStaffReviewGate (po_flow_type r) \<and> po_bridge_transfer_id r = None
     \<and> po_bridge_instructions r = None \<and> po_psav_instructions r = None \<and> po_deposit_expires_at r = None"

definition reserves :: "payment_order \<Rightarrow> string \<Rightarrow> rat \<Rightarrow> bool" where
  "reserves r cur amt \<longleftrightarrow> map_option ctx_total_needed (po_ctx r) = Some (Some (Fin amt))
     \<and> map_option ctx_source_currency (po_ctx r) = Some (Some cur)"

text \<open>How a creation with review ends: refused with the tables as they were, inserted without a
  reserve, or reserved and inserted.\<close>

definition reviewed ::
  "'e create_env_scheme \<Rightarrow> string \<Rightarrow> orders_db \<Rightarrow> payment_order result \<times> orders_db \<Rightarrow> bool" where
  "reviewed v userId db res \<longleftrightarrow> (\<exists>e. res = (Inl e, db))
     \<or> (\<exists>row cur. review_row v userId row \<and> reserves row cur 0
          \<and> res = insert_payment_order (cr_db_ok v) row db)
     \<or> (\<exists>row s leg. review_row v userId row \<and> reserves row (to_upper s) (po_amount row)
          \<and> check_available userId (to_upper s) (po_amount row) db = Inr ()
          \<and> res = reserve_and_insert v False userId (to_upper s) (po_amount row) row leg db)"
definition all_ok :: "('a \<Rightarrow> bool) \<Rightarrow> 'a result \<Rightarrow> bool" where
  "all_ok P r \<longleftrightarrow> (case r of Inl _ \<Rightarrow> True | Inr x \<Rightarrow> P x)"

lemma all_ok_bind: "(\<And>x. r = Inr x \<Longrightarrow> all_ok P (f x)) \<Longrightarrow> all_ok P (bind_r r f)"
  by (cases r) (simp_all add: all_ok_def)

lemma all_ok_simps [simp]: "all_ok P (Inl e)" "all_ok P (Inr x) \<longleftrightarrow> P x"
  by (simp_all add: all_ok_def)

lemma reviewed_error [simp]: "reviewed v u db (Inl e, db)"
  by (simp add: reviewed_def)

lemma reviewed_lift: "(\<And>x. r = Inr x \<Longrightarrow> reviewed v u db (f x db)) \<Longrightarrow> reviewed v u db (lift r f db)"
  by (cases r) simp_all

lemma reviewed_insert:
  assumes "review_row v u row" "reserves row cur 0"
  shows "reviewed v u db (insert_payment_order (cr_db_ok v) row db)"
  using assms by (auto simp: reviewed_def)

lemma reviewed_lift_insert:
  assumes "all_ok (\<lambda>row. review_row v u row \<and> reserves row cur 0) r"
  shows "reviewed v u db (lift r (insert_payment_order (cr_db_ok v)) db)"
  using assms reviewed_insert by (cases r) (simp_all, blast)

lemma reviewed_reserve:
  assumes "review_row v u row" "reserves row (to_upper s) amt" "check_available u (to_upper s) amt db = Inr ()"
    and "po_amount row = amt"
  shows "reviewed v u db (reserve_and_insert v False u (to_upper s) amt row leg db)"
  using assms unfolding reviewed_def by blast

lemma gate_flows:
  "supportsStaffReviewGate (Some ''bolivia_to_world'')" "supportsStaffReviewGate (Some ''bolivia_to_wallet'')"
  "supportsStaffReviewGate (Some ''world_to_bolivia'')" "supportsStaffReviewGate (Some ''wallet_to_wallet'')"
  "supportsStaffReviewGate (Some ''fiat_bo_to_bridge_wallet'')"
  "supportsStaffReviewGate (Some ''crypto_to_bridge_wallet'')"
  "supportsStaffReviewGate (Some ''bridge_wallet_to_fiat_bo'')"
  "supportsStaffReviewGate (Some ''bridge_wallet_to_fiat_us'')" "supportsStaffReviewGate (Some ''wallet_to_world'')"
  by (simp_all add: supportsStaffReviewGate_def STAFF_REVIEW_GATED_FLOWS_def)

lemmas row_simps = review_row_def reserves_def has_exec_kind_def psav_row_def psav_ctx_def interbank_row_def
  gate_flows

lemma bolivia_to_world_reviewed: "reviewed v u db (createBoliviaToWorld v False u dto db)"
  unfolding createBoliviaToWorld_def case_prod_beta
  by (intro reviewed_lift_insert [where cur = "''BOB''"] all_ok_bind) (simp add: row_simps)

lemma bolivia_to_wallet_reviewed: "reviewed v u db (createBoliviaToWallet v False u dto db)"
  unfolding createBoliviaToWallet_def case_prod_beta Let_def
  by (intro reviewed_lift_insert [where cur = "''BOB''"] all_ok_bind) (simp add: row_simps)

lemma world_to_bolivia_reviewed: "reviewed v u db (createWorldToBolivia v False u dto db)"
  unfolding createWorldToBolivia_def case_prod_beta Let_def
  by (intro reviewed_lift_insert [where cur = "to_upper (or_else (ci_source_currency dto) ''usd'')"] all_ok_bind)
     (simp add: row_simps)

lemma insert_not_skip:
  "(case fst (insert_payment_order ok row db) of Inl e \<Rightarrow> (Inl e, snd (insert_payment_order ok row db))
     | Inr order \<Rightarrow> run_now v False (leg order) order (snd (insert_payment_order ok row db)))
    = insert_payment_order ok row db"
  by (simp add: insert_payment_order_def run_now_def)

lemma wallet_to_wallet_reviewed: "reviewed v u db (createWalletToWallet v False u dto db)"
  unfolding createWalletToWallet_def w2w_row_def w2w_ctx_def Let_def case_prod_beta
  by (intro reviewed_lift, unfold prod.sel insert_not_skip, rule reviewed_insert)
     (simp_all add: row_simps)

lemma interbank_reviewed: "reviewed v u db (dispatch_interbank v False u dto db)"
  by (simp add: dispatch_interbank_def bolivia_to_world_reviewed bolivia_to_wallet_reviewed
      world_to_bolivia_reviewed wallet_to_wallet_reviewed)

lemmas ramp_rows = row_simps ramp_row_def waiting_or_review_def off_ctx_def

lemma fiat_bo_onramp_reviewed: "reviewed v u db (createFiatBoToBridgeWallet v False u dto db)"
  unfolding createFiatBoToBridgeWallet_def Let_def case_prod_beta simp_thms if_True fiat_bo_row_def fiat_bo_ctx_def
  by (intro reviewed_lift reviewed_insert) (simp_all add: ramp_rows)

lemma crypto_onramp_reviewed: "reviewed v u db (createCryptoToBridgeWallet v False u dto db)"
  unfolding createCryptoToBridgeWallet_def Let_def case_prod_beta simp_thms if_True crypto_on_ctx_def
  by (intro reviewed_lift reviewed_insert) (simp_all add: ramp_rows)

lemma wallet_to_world_reviewed: "reviewed v u db (createWalletToWorld v False u dto db)"
  unfolding createWalletToWorld_def Let_def case_prod_beta simp_thms if_True world_row_def world_ctx_def
  by (intro reviewed_lift reviewed_insert) (simp_all add: ramp_rows)

lemma bind_passed: "bind_r r f = Inr y \<Longrightarrow> (\<And>x. r = Inr x \<Longrightarrow> f x = Inr y \<Longrightarrow> P) \<Longrightarrow> P"
  by (cases r) simp_all

lemma fiat_bo_offramp_reviewed: "reviewed v u db (createBridgeWalletToFiatBo v False u dto db)"
  unfolding createBridgeWalletToFiatBo_def Let_def case_prod_beta
  by (intro reviewed_lift reviewed_reserve; elim bind_passed) (simp_all add: ramp_rows)

lemma crypto_offramp_reviewed: "reviewed v u db (createBridgeWalletToCrypto v False u dto db)"
  unfolding createBridgeWalletToCrypto_def Let_def case_prod_beta
  by (intro reviewed_lift reviewed_reserve; elim bind_passed) (simp_all add: ramp_rows supportsStaffReviewGate_def
      STAFF_REVIEW_GATED_FLOWS_def)

lemma peru_reviewed: "reviewed v u db (createBridgeWalletToPeruPsav v False u dto s db)"
  unfolding createBridgeWalletToPeruPsav_def Let_def case_prod_beta
  by (intro reviewed_lift reviewed_reserve; elim bind_passed) (simp_all add: ramp_rows)

lemma payout_reviewed: "reviewed v u db (createPayout v False u dto w s db)"
  unfolding createPayout_def Let_def case_prod_beta
  by (intro reviewed_lift reviewed_reserve; elim bind_passed)
     (simp_all add: ramp_rows payout_row_def, hypsubst_thin, simp)

lemma fiat_us_reviewed: "reviewed v u db (createBridgeWalletToFiatUs v False u dto db)"
  by (simp add: createBridgeWalletToFiatUs_def lift_def peru_reviewed payout_reviewed
      split: sum.split option.split)

lemma ramp_reviewed: "reviewed v u db (dispatch_ramp v False u dto db)"
  by (simp add: dispatch_ramp_def fiat_bo_onramp_reviewed crypto_onramp_reviewed fiat_bo_offramp_reviewed
      crypto_offramp_reviewed fiat_us_reviewed wallet_to_world_reviewed)


section \<open>Review keeps the provider out\<close>

text \<open>What a creation computes from its environment, apart from the provider.\<close>

lemma without_provider [simp]:
  fixes v :: create_env
  shows "interbank_row (v\<lparr>cr_leg := l\<rparr>) flow u dto = interbank_row v flow u dto"
    "world_quote (v\<lparr>cr_leg := l\<rparr>) u dto c s = world_quote v u dto c s"
    "w2w_fee (v\<lparr>cr_leg := l\<rparr>) u c a = w2w_fee v u c a"
    "w2w_percent (v\<lparr>cr_leg := l\<rparr>) u c = w2w_percent v u c"
  by (simp_all add: interbank_row_def world_quote_def calculateBoliviaToWorldAmounts_def w2w_fee_def w2w_percent_def
      cong: if_cong)

lemma psav_row_without_provider [simp]:
  "psav_row (v\<lparr>cr_leg := l\<rparr>) False flow u dto fee c a t = psav_row v False flow u dto fee c a t"
  by (simp add: psav_row_def)

lemma run_now_review [simp]: "run_now v False leg order db = (Inr order, db)"
  by (simp add: run_now_def)

lemma w2w_without_provider: "createWalletToWallet (v\<lparr>cr_leg := l\<rparr>) False u dto db = createWalletToWallet v False u dto db"
  unfolding createWalletToWallet_def w2w_row_def Let_def case_prod_beta prod.sel insert_not_skip by simp

lemma interbank_without_provider:
  "dispatch_interbank (v\<lparr>cr_leg := l\<rparr>) False u dto db = dispatch_interbank v False u dto db"
  by (simp add: dispatch_interbank_def createBoliviaToWorld_def w2w_without_provider
      createBoliviaToWallet_def createWorldToBolivia_def Let_def case_prod_beta)
lemma ramp_without_provider_parts [simp]:
  fixes v :: ramp_env
  shows "ramp_row (v\<lparr>cr_leg := l\<rparr>) flow u dto w fee = ramp_row v flow u dto w fee"
    "quote_fiat_bo (v\<lparr>cr_leg := l\<rparr>) u dto d db = quote_fiat_bo v u dto d db"
    "quoteFiatUsFixedOutput (v\<lparr>cr_leg := l\<rparr>) u r c dto = quoteFiatUsFixedOutput v u r c dto"
    "world_fee (v\<lparr>cr_leg := l\<rparr>) u dto r c = world_fee v u dto r c"
    "reserve_balance (v\<lparr>cr_leg := l\<rparr>) u c a db = reserve_balance v u c a db"
  by (simp_all add: ramp_row_def quote_fiat_bo_def quoteFiatUsFixedOutput_def world_fee_def reserve_balance_def)

lemma ramp_without_provider_rows [simp]:
  fixes v :: ramp_env
  shows "payout_amounts (v\<lparr>cr_leg := l\<rparr>) u dto r c d = payout_amounts v u dto r c d"
    "world_checks (v\<lparr>cr_leg := l\<rparr>) u dto db = world_checks v u dto db"
    "payout_row (v\<lparr>cr_leg := l\<rparr>) u dto w s a c q = payout_row v u dto w s a c q"
    "world_row (v\<lparr>cr_leg := l\<rparr>) sk u dto wq = world_row v sk u dto wq"
    "fiat_bo_row (v\<lparr>cr_leg := l\<rparr>) False u dto w account bq = fiat_bo_row v False u dto w account bq"
  by (simp_all add: payout_amounts_def world_checks_def payout_row_def world_row_def fiat_bo_row_def)

lemma reserve_review:
  "reserve_and_insert v False u c a row leg =
     (\<lambda>db. let r = insert_payment_order (cr_db_ok v) row (reserve_balance v u c a db)
      in case fst r of Inl e \<Rightarrow> (Inl e, call_release (lv_release (cr_leg v)) u c a (snd r))
       | Inr order \<Rightarrow> (Inr order, snd r))"
  by (rule ext) (simp add: reserve_and_insert_def Let_def case_prod_beta split: sum.split)
lemma offramps_without_provider:
  assumes "lv_release l = lv_release (cr_leg v)"
  shows "createBridgeWalletToFiatBo (v\<lparr>cr_leg := l\<rparr>) False u dto db = createBridgeWalletToFiatBo v False u dto db"
    "createBridgeWalletToCrypto (v\<lparr>cr_leg := l\<rparr>) False u dto db = createBridgeWalletToCrypto v False u dto db"
    "createBridgeWalletToPeruPsav (v\<lparr>cr_leg := l\<rparr>) False u dto s = createBridgeWalletToPeruPsav v False u dto s"
    "createPayout (v\<lparr>cr_leg := l\<rparr>) False u dto w s = createPayout v False u dto w s"
  by (simp_all add: fun_eq_iff createBridgeWalletToFiatBo_def createBridgeWalletToCrypto_def
      createBridgeWalletToPeruPsav_def createPayout_def reserve_review Let_def case_prod_beta assms
      cong: sum.case_cong)

lemma ramp_without_provider:
  assumes "lv_release l = lv_release (cr_leg v)"
  shows "dispatch_ramp (v\<lparr>cr_leg := l\<rparr>) False u dto db = dispatch_ramp v False u dto db"
proof -
  have "createBridgeWalletToFiatUs (v\<lparr>cr_leg := l\<rparr>) False u dto db = createBridgeWalletToFiatUs v False u dto db"
    unfolding createBridgeWalletToFiatUs_def offramps_without_provider [OF assms] ..
  then show ?thesis
    by (simp add: dispatch_ramp_def createFiatBoToBridgeWallet_def createCryptoToBridgeWallet_def
        createWalletToWorld_def offramps_without_provider [OF assms] Let_def case_prod_beta)
qed


lemma inserted:
  "insert_payment_order ok row db = (Inr o', db1) \<Longrightarrow>
     o' = row \<and> db1 = db\<lparr>payment_orders := payment_orders db @ [row]\<rparr>"
  by (auto simp: insert_payment_order_def split: if_splits)

lemma not_inserted: "insert_payment_order ok row db = (Inl e, db1) \<Longrightarrow> db1 = db"
  by (simp add: insert_payment_order_def split: if_splits)

lemma reserved_and_inserted:
  "reserve_and_insert v False u c a row leg db = (Inr o', db1) \<Longrightarrow>
     insert_payment_order (cr_db_ok v) row (reserve_balance v u c a db) = (Inr o', db1)"
  by (simp add: reserve_review Let_def split: sum.splits prod.splits)
     (simp add: prod_eq_iff)
lemma reserve_frame [simp]:
  "payment_orders (reserve_balance v u c a db) = payment_orders db"
  "bridge_transfers (reserve_balance v u c a db) = bridge_transfers db"
  "ledger_entries (reserve_balance v u c a db) = ledger_entries db"
  "balances (reserve_balance v u c a db) = or_else (cr_reserve v u c a (balances db)) (balances db)"
  by (simp_all add: reserve_balance_def or_else_def split: option.split)

definition same_records :: "orders_db \<Rightarrow> orders_db \<Rightarrow> bool" where
  "same_records db db1 \<longleftrightarrow> ledger_entries db1 = ledger_entries db \<and> bridge_transfers db1 = bridge_transfers db"

lemma reviewed_created:
  assumes "reviewed v u db (Inr o', db1)"
  shows "review_row v u o' \<and> payment_orders db1 = payment_orders db @ [o'] \<and> same_records db db1
    \<and> (\<exists>cur. reserves o' cur 0 \<and> balances db1 = balances db
        \<or> to_upper cur = cur \<and> reserves o' cur (po_amount o')
          \<and> check_available u cur (po_amount o') db = Inr ()
          \<and> balances db1 = or_else (cr_reserve v u cur (po_amount o') (balances db)) (balances db))"
  using assms unfolding reviewed_def
proof (elim disjE exE conjE)
  fix row cur
  assume "review_row v u row" "reserves row cur 0" "(Inr o', db1) = insert_payment_order (cr_db_ok v) row db"
  then show ?thesis using inserted [of "cr_db_ok v" row db o' db1] by (auto simp: same_records_def)
next
  fix row s leg
  assume r: "review_row v u row" "reserves row (to_upper s) (po_amount row)"
    "check_available u (to_upper s) (po_amount row) db = Inr ()"
    "(Inr o', db1) = reserve_and_insert v False u (to_upper s) (po_amount row) row leg db"
  from inserted [OF reserved_and_inserted [OF r(4) [symmetric]]] r(1-3) show ?thesis
    by (auto simp: same_records_def intro!: exI [of _ "to_upper s"])
qed simp

text \<open>C3: A creation that needs review returns an order of the shape the review works on, in all ten
  flows: it waits, carries the context its approval runs, and shows the client no account, no
  address, no transfer and no deadline. It is the only row written, neither ledger nor transfers
  change, and the provider is not called: any other answers of it give the same result.\<close>

theorem review_orders_well_formed:
  assumes "res = dispatch_ramp v False u dto db \<and> v' = create_env.truncate v
     \<or> res = dispatch_interbank v' False u idto db"
    and "res = (Inr o', db1)"
  shows "review_row v' u o' \<and> payment_orders db1 = payment_orders db @ [o'] \<and> same_records db db1
    \<and> dispatch_ramp (v\<lparr>cr_leg := (cr_leg v)\<lparr>lv_post := post\<rparr>\<rparr>) False u dto db = dispatch_ramp v False u dto db
    \<and> dispatch_interbank (v'\<lparr>cr_leg := l\<rparr>) False u idto db = dispatch_interbank v' False u idto db"
proof -
  have "review_row v' u o' \<and> payment_orders db1 = payment_orders db @ [o'] \<and> same_records db db1"
    using assms(1)
  proof
    assume "res = dispatch_ramp v False u dto db \<and> v' = create_env.truncate v"
    then show ?thesis
      using ramp_reviewed [of v u db dto] reviewed_created [of v u db o' db1] assms(2)
      by (simp add: review_row_def create_env.truncate_def)
  next
    assume "res = dispatch_interbank v' False u idto db"
    then show ?thesis
      using interbank_reviewed [of v' u db idto] reviewed_created [of v' u db o' db1] assms(2) by simp
  qed
  then show ?thesis by (simp add: ramp_without_provider interbank_without_provider)
qed

theorem review_orders_well_formed_witness:
  "review_row (create_env.truncate sample_env) ''u1'' (projr (fst (withdraw sample_env False)))
    \<and> same_records (sample_db []) (snd (withdraw sample_env False))"
proof -
  have "is_ok (fst (withdraw sample_env False))" by code_simp
  from ok_run(1) [OF this] show ?thesis
    using review_orders_well_formed [of "withdraw sample_env False" sample_env "''u1''" withdrawal "sample_db []"
        "create_env.truncate sample_env"] by (simp add: withdraw_def)
qed

section \<open>Reserve and rejection\<close>

text \<open>What a creation relies on: a reserve within the balance is taken, and releasing it gives the
  balances back.\<close>

definition reserve_undone :: "'e create_env_scheme \<Rightarrow> release_fn \<Rightarrow> string \<Rightarrow> orders_db \<Rightarrow> bool" where
  "reserve_undone v rel u db \<longleftrightarrow> (\<forall>c a. 0 < a \<longrightarrow> check_available u c a db = Inr () \<longrightarrow>
     (\<exists>bs. cr_reserve v u c a (balances db) = Some bs \<and> rel u c a bs = balances db))"

lemma reserves_resolve:
  assumes "reserves r cur amt" "0 < amt" "to_upper cur = cur" "cur \<noteq> ''''"
  shows "resolvePendingReviewReserve (po_currency r) (po_source_currency r) (po_ctx r)
    = Some \<lparr>reserve_currency = cur, reserve_amount = amt\<rparr>"
  using assms reserve_from_ctx by (cases "po_ctx r") (auto simp: reserves_def)

lemma reserves_nothing:
  "reserves r cur 0 \<Longrightarrow> resolvePendingReviewReserve (po_currency r) (po_source_currency r) (po_ctx r) = None"
  by (cases "po_ctx r") (auto simp: reserves_def resolvePendingReviewReserve_def)

lemma new_order_select:
  assumes "payment_orders db1 = payment_orders db @ [r]" "\<forall>x\<in>set (payment_orders db). po_id x \<noteq> po_id r"
  shows "select_order (po_id r) db1 = Some r"
proof -
  have "filter (\<lambda>x. po_id x = po_id r) (payment_orders db) = []"
    using assms(2) by (simp add: filter_empty_conv)
  then show ?thesis by (simp add: select_order_def assms(1) maybe_single_Some)
qed


lemma no_empty_currency:
  assumes "check_available u cur amt db = Inr ()" "\<forall>b\<in>set (balances db). ba_currency b \<noteq> ''''"
  shows "cur \<noteq> ''''"
proof
  assume "cur = ''''"
  then have "filter (\<lambda>b. ba_user_id b = u \<and> ba_currency b = cur) (balances db) = []"
    using assms(2) by (simp add: filter_empty_conv)
  then show False using assms(1) by (simp add: check_available_def)
qed

lemma rejected_review:
  assumes "select_order i db = Some o1" "po_status o1 = ''pending_review''" "oe_env w = (\<lambda>d. d)"
  shows "\<exists>o2 db2. rejectOrderReviewStep w i actor reason db = (Inr o2, db2) \<and> po_status o2 = ''failed''
    \<and> balances db2 = (case resolvePendingReviewReserve (po_currency o1) (po_source_currency o1) (po_ctx o1) of
        None \<Rightarrow> balances db
      | Some r \<Rightarrow> oe_release w (po_user_id o1) (reserve_currency r) (reserve_amount r) (balances db))"
proof -
  note cas = select_cas [OF assms(1,2)]
  show ?thesis
    by (simp add: rejectOrderReviewStep_def assms cas releasePendingReviewReserve_def split: option.split)
qed

text \<open>C4: Creating an order into or out of a wallet and rejecting it in review is a round trip for
  the balances, in every flow. The reserve taken from the context of the order is the one the
  creation made: the same client, currency and amount.\<close>

theorem rejected_creation_restores_balances:
  assumes "dispatch_ramp v False u dto db = (Inr o', db1)" "0 < po_amount o'"
    and "\<forall>x\<in>set (payment_orders db). po_id x \<noteq> cr_new_id v" "\<forall>b\<in>set (balances db). ba_currency b \<noteq> ''''"
    and "reserve_undone v (oe_release w) u db" "oe_env w = (\<lambda>d. d)"
  shows "\<exists>o2 db2. rejectOrderReviewStep w (po_id o') actor reason db1 = (Inr o2, db2)
    \<and> po_status o2 = ''failed'' \<and> balances db2 = balances db"
proof -
  from reviewed_created [of v u db o' db1] ramp_reviewed [of v u db dto] assms(1)
  obtain cur where row: "review_row v u o'" "payment_orders db1 = payment_orders db @ [o']"
    and money: "reserves o' cur 0 \<and> balances db1 = balances db
        \<or> to_upper cur = cur \<and> reserves o' cur (po_amount o')
          \<and> check_available u cur (po_amount o') db = Inr ()
          \<and> balances db1 = or_else (cr_reserve v u cur (po_amount o') (balances db)) (balances db)"
    by auto
  have new: "\<forall>x\<in>set (payment_orders db). po_id x \<noteq> po_id o'"
    using row(1) assms(3) by (simp add: review_row_def)
  have st: "po_status o' = ''pending_review''" "po_user_id o' = u" using row(1) by (simp_all add: review_row_def)
  note rejected = rejected_review [OF new_order_select [OF row(2) new] st(1) assms(6), of actor reason]
  from money show ?thesis
  proof (elim disjE conjE)
    assume "reserves o' cur 0" "balances db1 = balances db"
    then show ?thesis using rejected by (simp add: reserves_nothing)
  next
    assume m: "to_upper cur = cur" "reserves o' cur (po_amount o')" "check_available u cur (po_amount o') db = Inr ()"
      "balances db1 = or_else (cr_reserve v u cur (po_amount o') (balances db)) (balances db)"
    then have r: "resolvePendingReviewReserve (po_currency o') (po_source_currency o') (po_ctx o')
        = Some \<lparr>reserve_currency = cur, reserve_amount = po_amount o'\<rparr>"
      using reserves_resolve [OF m(2) assms(2) m(1) no_empty_currency [OF m(3) assms(4)]] by simp
    from assms(2,5) m(3) obtain bs where "cr_reserve v u cur (po_amount o') (balances db) = Some bs"
      "oe_release w u cur (po_amount o') bs = balances db" unfolding reserve_undone_def by blast
    then show ?thesis using rejected m(4) by (simp add: r st(2) or_else_def)
  qed
qed

lemma sample_reserve_undone: "reserve_undone sample_env own_release ''u1'' (sample_db os)"
proof -
  have up: "to_upper ''USDC'' = ''USDC''" by code_simp
  show ?thesis
    unfolding reserve_undone_def sample_balance
    by (simp add: sample_env_def hold_def own_release_def releaseReservedBalance_def)
       (simp add: sample_db_def has_key_def update_where_def release_row_def up)
qed

theorem rejected_creation_restores_balances_witness:
  "\<exists>o2 db2. rejectOrderReviewStep alone ''o9'' ''s'' ''no'' (snd (withdraw sample_env False)) = (Inr o2, db2)
    \<and> po_status o2 = ''failed'' \<and> balances db2 = balances (sample_db [])"
proof -
  have "is_ok (fst (withdraw sample_env False))" "0 < po_amount (projr (fst (withdraw sample_env False)))"
    "po_id (projr (fst (withdraw sample_env False))) = ''o9''" by code_simp+
  with ok_run(1) [OF this(1)] show ?thesis
    using rejected_creation_restores_balances [of sample_env "''u1''" withdrawal "sample_db []"
        "projr (fst (withdraw sample_env False))" "snd (withdraw sample_env False)" alone "''s''" "''no''"]
    by (simp add: withdraw_def sample_reserve_undone) (simp add: sample_db_def)
qed



definition no_reserve :: ramp_env where
  "no_reserve = sample_env\<lparr>cr_reserve := \<lambda>_ _ _ _. None\<rparr>"


section \<open>Failed creations\<close>

text \<open>The legs that debit, run in the request itself: a failure releases the reserve of the context.\<close>

definition leg_refunds ::
  "release_fn \<Rightarrow> payment_order \<Rightarrow> string \<Rightarrow> rat \<Rightarrow> orders_db \<Rightarrow> bridge_leg_result result \<times> orders_db \<Rightarrow> bool" where
  "leg_refunds rel order cur amt db rd \<longleftrightarrow>
     map po_id (payment_orders (snd rd)) = map po_id (payment_orders db)
     \<and> (\<forall>e. fst rd = Inl e \<longrightarrow> 0 < amt \<longrightarrow> balances (snd rd) = rel (po_user_id order) cur amt (balances db))"

lemma update_where_map: "(\<And>x. g (f x) = g x) \<Longrightarrow> map g (update_where p f xs) = map g xs"
  by (induction xs) (auto simp: update_where_def)

lemma leg_refunds_failure:
  assumes "ctx_source_currency ctx = Some cur" "ctx_total_needed ctx = Some (Fin amt)"
  shows "leg_refunds rel order cur amt db (handleBridgeLegFailure rel order ctx FailOrder db)"
  using assms by (simp add: leg_refunds_def handleBridgeLegFailure_def Let_def total_needed_def or_else_def update_where_map)

lemma leg_refunds_done: "leg_refunds rel order cur amt db (offramp_done v order ctx sc r dc resp db)"
  by (simp add: leg_refunds_def offramp_done_def Let_def case_prod_beta set_order_def update_where_map)

lemma leg_refunds_cases:
  "(\<And>e. x = Inl e \<Longrightarrow> leg_refunds rel order cur amt db (f e)) \<Longrightarrow>
   (\<And>y. x = Inr y \<Longrightarrow> leg_refunds rel order cur amt db (g y)) \<Longrightarrow>
   leg_refunds rel order cur amt db (case x of Inl e \<Rightarrow> f e | Inr y \<Rightarrow> g y)"
  by (cases x) simp_all

lemma offramp_legs_refund:
  assumes "ctx_source_currency ctx = Some cur" "ctx_total_needed ctx = Some (Fin amt)"
  shows "leg_refunds (lv_release lv) order cur amt db (executeBridgeWalletToFiatBoLeg lv order ctx a c FailOrder db)"
    "leg_refunds (lv_release lv) order cur amt db (executeBridgeWalletToPeruPsavLeg lv order ctx a c FailOrder db)"
    "leg_refunds (lv_release lv) order cur amt db (executeBridgeWalletToCryptoLeg lv order ctx r c ad FailOrder db)"
    "leg_refunds (lv_release lv) order cur amt db (executeBridgeWalletToFiatUsLeg lv order ctx r e c fx d FailOrder db)"
  unfolding executeBridgeWalletToFiatBoLeg_def executeBridgeWalletToPeruPsavLeg_def
    executeBridgeWalletToCryptoLeg_def executeBridgeWalletToFiatUsLeg_def assms(1) option.case Let_def case_prod_beta
  by (intro leg_refunds_cases leg_refunds_failure leg_refunds_done assms)+

text \<open>How a creation ends for the balances: they stay, or the amount is reserved and given back by
  whatever fails.\<close>

definition settles ::
  "ramp_env \<Rightarrow> bool \<Rightarrow> bool \<Rightarrow> string \<Rightarrow> orders_db \<Rightarrow> payment_order result \<times> orders_db \<Rightarrow> bool" where
  "settles v skip pos userId db res \<longleftrightarrow> balances (snd res) = balances db
     \<or> (\<exists>row cur amt leg. po_id row = cr_new_id v \<and> po_user_id row = userId \<and> (pos \<longrightarrow> 0 < amt)
          \<and> check_available userId cur amt db = Inr ()
          \<and> (\<forall>d. leg_refunds (lv_release (cr_leg v)) row cur amt d (leg row d))
          \<and> res = reserve_and_insert v skip userId cur amt row leg db)"

lemma settles_same: "balances (snd res) = balances db \<Longrightarrow> settles v skip pos u db res"
  by (simp add: settles_def)

lemma settles_lift: "(\<And>x. r = Inr x \<Longrightarrow> settles v skip pos u db (f x db)) \<Longrightarrow> settles v skip pos u db (lift r f db)"
  by (cases r) (simp_all add: settles_def)

lemma settles_reserve:
  assumes "check_available u cur amt db = Inr ()" "po_id row = cr_new_id v" "po_user_id row = u" "pos \<Longrightarrow> 0 < amt"
    and "\<And>d. leg_refunds (lv_release (cr_leg v)) row cur amt d (leg row d)"
  shows "settles v skip pos u db (reserve_and_insert v skip u cur amt row leg db)"
  using assms unfolding settles_def by blast

lemma insert_keeps_balances [simp]: "balances (snd (insert_payment_order ok row db)) = balances db"
  by (simp add: insert_payment_order_def)

lemma insert_with_transfer_balances [simp]:
  "balances (snd (insert_with_transfer v row t c cur resp db)) = balances db"
  by (simp add: insert_with_transfer_def Let_def case_prod_beta split: sum.split)

lemma deposits_settle:
  "settles v skip pos u db (createFiatBoToBridgeWallet v skip u dto db)"
  "settles v skip pos u db (createCryptoToBridgeWallet v skip u dto db)"
  "settles v skip pos u db (createWalletToWorld v skip u dto db)"
  unfolding createFiatBoToBridgeWallet_def createCryptoToBridgeWallet_def createWalletToWorld_def Let_def case_prod_beta
  by (intro settles_lift settles_same; simp split: sum.split)+

text \<open>The amounts of the flows out of a wallet are positive: the request's, and the quote's.\<close>

definition debits :: "ramp_env \<Rightarrow> string \<Rightarrow> ramp_dto \<Rightarrow> bool" where
  "debits v userId dto \<longleftrightarrow> 0 < ramp_amount dto
     \<and> (\<forall>rail c q. quoteFiatUsFixedOutput v userId rail c dto = Inr q \<longrightarrow> 0 < fo_source_amount q)"

lemma payout_debits: "debits v u dto \<Longrightarrow> payout_amounts v u dto r c d = Inr q \<Longrightarrow> 0 < pq_total q"
  by (auto simp: debits_def payout_amounts_def Let_def bind_r_Inr split: if_splits)


lemma ramp_row_ids [simp]:
  "po_id (ramp_row v f u dto w fee) = cr_new_id v" "po_user_id (ramp_row v f u dto w fee) = u"
  "po_id (waiting_or_review skip st ctx row) = po_id row" "po_user_id (waiting_or_review skip st ctx row) = po_user_id row"
  "ctx_source_currency (off_ctx k cur a fee) = Some cur" "ctx_total_needed (off_ctx k cur a fee) = Some (Fin a)"
  by (simp_all add: ramp_row_def waiting_or_review_def off_ctx_def)

lemma fiat_bo_offramp_settles: "settles v skip (debits v u dto) u db (createBridgeWalletToFiatBo v skip u dto db)"
  unfolding createBridgeWalletToFiatBo_def Let_def case_prod_beta
  by (intro settles_lift settles_reserve; (elim bind_passed)?) (simp_all add: debits_def offramp_legs_refund)

lemma crypto_offramp_settles: "settles v skip (debits v u dto) u db (createBridgeWalletToCrypto v skip u dto db)"
  unfolding createBridgeWalletToCrypto_def Let_def case_prod_beta
  by (intro settles_lift settles_reserve; (elim bind_passed)?) (simp_all add: debits_def offramp_legs_refund)

lemma peru_settles: "settles v skip (debits v u dto) u db (createBridgeWalletToPeruPsav v skip u dto s db)"
  unfolding createBridgeWalletToPeruPsav_def Let_def case_prod_beta
  by (intro settles_lift settles_reserve; (elim bind_passed)?) (simp_all add: debits_def offramp_legs_refund)

lemma payout_passed:
  assumes "bind_r (supplier_account s db) (\<lambda>p. bind_r (bridge_customer u db) (\<lambda>_.
      bind_r (payout_amounts v u dto (snd p) cur (d p)) (\<lambda>q. bind_r (check_available u cur (pq_total q) db) (\<lambda>_.
      bind_r (c p) (\<lambda>_. Inr (fst p, snd p, q)))))) = Inr x"
  shows "check_available u cur (pq_total (snd (snd x))) db = Inr () \<and> (debits v u dto \<longrightarrow> 0 < pq_total (snd (snd x)))"
  using assms by (elim bind_passed) (auto dest: payout_debits)

lemma payout_settles: "settles v skip (debits v u dto) u db (createPayout v skip u dto w s db)"
  unfolding createPayout_def Let_def case_prod_beta
  by (intro settles_lift settles_reserve; (drule payout_passed)?)
     (simp_all add: payout_row_def payout_kind_def run_leg_def offramp_legs_refund)

lemma ramp_settles: "settles v skip (debits v u dto) u db (dispatch_ramp v skip u dto db)"
proof -
  have "settles v skip (debits v u dto) u db (createBridgeWalletToFiatUs v skip u dto db)"
    unfolding createBridgeWalletToFiatUs_def lift_def
    by (simp add: peru_settles payout_settles settles_same split: sum.split option.split)
  then show ?thesis
    by (simp add: dispatch_ramp_def deposits_settle fiat_bo_offramp_settles crypto_offramp_settles settles_same)
qed

lemma select_by_ids:
  assumes "map po_id (payment_orders db') = is @ [i]" "i \<notin> set is"
  shows "\<exists>r. select_order i db' = Some r"
proof -
  obtain rs r where o': "payment_orders db' = rs @ [r]" "map po_id rs = is" "po_id r = i"
    using assms(1) by (auto simp: map_eq_append_conv map_eq_Cons_conv)
  have "\<forall>x\<in>set rs. po_id x \<noteq> i" using o'(2) assms(2) by (auto simp: in_set_conv_nth)
  then have "filter (\<lambda>x. po_id x = i) rs = []" by (simp add: filter_empty_conv)
  then show ?thesis by (simp add: select_order_def o'(1,3) maybe_single_Some)
qed

lemma reserve_and_insert_failed:
  assumes "(Inl e, db1) = reserve_and_insert v skip u cur amt row leg db"
    and "cr_reserve v u cur amt (balances db) = Some bs" "lv_release (cr_leg v) u cur amt bs = balances db" "0 < amt"
    and "po_id row = cr_new_id v" "po_user_id row = u" "\<forall>x\<in>set (payment_orders db). po_id x \<noteq> cr_new_id v"
    and leg: "\<forall>d. leg_refunds (lv_release (cr_leg v)) row cur amt d (leg row d)"
  shows "balances db1 = balances db"
proof -
  define db0 where "db0 = reserve_balance v u cur amt db"
  have b0: "balances db0 = bs" "payment_orders db0 = payment_orders db"
    by (simp_all add: db0_def assms(2) or_else_def)
  note run = assms(1) [unfolded reserve_and_insert_def Let_def db0_def [symmetric]]
  obtain r db2 where ins: "insert_payment_order (cr_db_ok v) row db0 = (r, db2)" by fastforce
  show ?thesis
  proof (cases r)
    case (Inl f)
    with ins have "db2 = db0" by (simp add: not_inserted)
    with run ins Inl show ?thesis by (simp add: b0 assms(3))
  next
    case (Inr order)
    with ins inserted [of "cr_db_ok v" row db0 order db2]
    have o': "order = row" "db2 = db0\<lparr>payment_orders := payment_orders db @ [row]\<rparr>" by (simp_all add: b0)
    obtain lr db3 where l: "leg row db2 = (lr, db3)" by fastforce
    from leg [rule_format, of db2] have ref: "map po_id (payment_orders db3) = map po_id (payment_orders db2)"
      "\<forall>e. lr = Inl e \<longrightarrow> balances db3 = lv_release (cr_leg v) u cur amt (balances db2)"
      using assms(4,6) by (simp_all add: leg_refunds_def l)
    have "\<exists>r. select_order (cr_new_id v) db3 = Some r"
      by (rule select_by_ids [of _ "map po_id (payment_orders db)"]) (use ref(1) o' assms(5,7) in auto)
    with run ins Inr l ref(2) o' b0(1) assms(3) show ?thesis
      by (auto simp: or_throw_none_def split: if_splits sum.splits)
  qed
qed

lemma failed_ramp_balances:
  assumes "dispatch_ramp v skip u dto db = (Inl e, db1)" "debits v u dto"
    and "\<forall>x\<in>set (payment_orders db). po_id x \<noteq> cr_new_id v"
    and "reserve_undone v (lv_release (cr_leg v)) u db"
  shows "balances db1 = balances db"
  using ramp_settles [of v skip u dto db] unfolding settles_def assms(1)
proof (elim disjE exE conjE)
  fix row cur amt leg
  assume row: "po_id row = cr_new_id v" "po_user_id row = u" and pos: "debits v u dto \<longrightarrow> 0 < amt"
    and ok: "check_available u cur amt db = Inr ()"
    and leg: "\<forall>d. leg_refunds (lv_release (cr_leg v)) row cur amt d (leg row d)"
    and run: "(Inl e, db1) = reserve_and_insert v skip u cur amt row leg db"
  from pos assms(2,4) ok obtain bs where bs: "cr_reserve v u cur amt (balances db) = Some bs"
    "lv_release (cr_leg v) u cur amt bs = balances db" "0 < amt" unfolding reserve_undone_def by blast
  show "balances db1 = balances db"
    by (rule reserve_and_insert_failed [OF run bs row assms(3) leg])
qed simp


end
