(* ===== verification/CreationGates.thy ===== *)
theory CreationGates imports CreationProperties begin

text \<open>
  The gates a new order passes and the terms it gets: the permitted flows, limits and review of the
  entry points, the rates a client may ask for, the address a withdrawal goes to, and the unique
  index that counts orders of the world to Bolivia.
\<close>

section \<open>One order of the world to Bolivia\<close>

text \<open>The unique index of \<open>world_to_bolivia\<close> is on the destination currency, which is BOB in every
  order of the flow. A client with one active order cannot create another in any currency, although
  the check before it, by the currency of the source, lets it pass.\<close>

theorem second_world_to_bolivia_refused:
  assumes "r \<in> set (payment_orders db)" "active_for u ''world_to_bolivia'' INTERBANK_ACTIVE r"
    and "po_destination_currency r = Some ''BOB''"
  shows "(\<exists>e. createWorldToBolivia v skip u dto db = (Inl e, db))
    \<and> ((\<forall>x\<in>set (payment_orders db). active_for u ''world_to_bolivia'' INTERBANK_ACTIVE x
          \<longrightarrow> po_currency x \<noteq> Some (to_upper c))
        \<longrightarrow> assertNoConflictingWorldToBoliviaOrder u c db = Inr ())"
proof
  have bad: "\<exists>e. insert_payment_order ok row db = (Inl e, db)"
    if "po_flow_type row = Some ''world_to_bolivia''" "po_status row \<in> set INTERBANK_ACTIVE"
      "po_destination_currency row = Some ''BOB''" "po_user_id row = u" for ok row
  proof -
    have "violates (payment_orders db) row idx_po_w2b_active_per_dest_currency"
      unfolding idx_po_w2b_active_per_dest_currency_def
        violates_key1 [where c = po_destination_currency, OF that(1,2,3)]
      using assms by (auto simp: list_ex_iff that(4))
    then show ?thesis by (simp add: insert_payment_order_def order_indexes_def)
  qed
  show "\<exists>e. createWorldToBolivia v skip u dto db = (Inl e, db)"
    unfolding createWorldToBolivia_def Let_def lift_def
    by (split sum.split) (auto simp: bind_r_Inr intro!: bad simp: row_simps INTERBANK_ACTIVE_def)
qed (simp add: assertNoConflictingWorldToBoliviaOrder_def refuse_if_def list_ex_iff)

definition transfer_in :: "string \<Rightarrow> interbank_dto" where
  "transfer_in cur = \<lparr>ci_flow_type = ''world_to_bolivia'', ci_amount = Some 100, ci_external_account_id = None,
     ci_destination_currency = None, ci_source_network = None, ci_source_currency = Some cur,
     ci_destination_address = None, ci_destination_network = None, ci_supplier_id = None,
     ci_business_purpose = None, ci_supporting_document_url = None, ci_notes = None, ci_exchange_rate_applied = None\<rparr>"

definition agent_account :: "string \<Rightarrow> string \<Rightarrow> psav_account" where
  "agent_account ty cur = \<lparr>pa_id = ''a1'', pa_psav_id = ''p1'', pa_type = ty, pa_currency = cur, pa_crypto_address = None,
     pa_crypto_network = None, pa_is_active = True\<rparr>"

definition bank_db :: "payment_order list \<Rightarrow> orders_db" where
  "bank_db os = (sample_db os)\<lparr>psav_accounts := [agent_account ''bank_us'' ''USD'', agent_account ''bank_eu'' ''EUR'',
       agent_account ''bank_bo'' ''BOB''],
     client_bank_accounts := [\<lparr>cb_id = ''c1'', cb_user_id = ''u1'', cb_currency = ''BOB'', cb_is_primary = True,
       cb_status = ''approved''\<rparr>]\<rparr>"

definition bank_env :: create_env where
  "bank_env = create_env.truncate sample_env"

definition dollar_order :: payment_order where
  "dollar_order = projr (fst (createWorldToBolivia bank_env False ''u1'' (transfer_in ''usd'') (bank_db [])))"

theorem second_world_to_bolivia_refused_witness:
  "(\<exists>e. createWorldToBolivia bank_env False ''u1'' (transfer_in ''eur'') (bank_db [dollar_order]) = (Inl e, bank_db [dollar_order]))
    \<and> assertNoConflictingWorldToBoliviaOrder ''u1'' ''eur'' (bank_db [dollar_order]) = Inr ()
    \<and> is_ok (fst (createWorldToBolivia bank_env False ''u1'' (transfer_in ''eur'') (bank_db [])))"
proof -
  have o': "active_for ''u1'' ''world_to_bolivia'' INTERBANK_ACTIVE dollar_order"
    "po_destination_currency dollar_order = Some ''BOB''" "po_currency dollar_order \<noteq> Some (to_upper ''eur'')" by code_simp+
  have "payment_orders (bank_db [dollar_order]) = [dollar_order]" by (simp add: bank_db_def)
  moreover have "is_ok (fst (createWorldToBolivia bank_env False ''u1'' (transfer_in ''eur'') (bank_db [])))" by code_simp
  ultimately show ?thesis
    using second_world_to_bolivia_refused [of dollar_order "bank_db [dollar_order]" "''u1''" bank_env False "transfer_in ''eur''" "''eur''"] o'
    by simp
qed

section \<open>Rates the client asks for\<close>

lemma rate_not_in_request [simp]:
  "dto_amount (dto\<lparr>ci_exchange_rate_applied := y\<rparr>) = dto_amount dto"
  "psav_row v skip f u (dto\<lparr>ci_exchange_rate_applied := y\<rparr>) = psav_row v skip f u dto"
  "wallet_liquidation u (dto\<lparr>ci_exchange_rate_applied := y\<rparr>) db = wallet_liquidation u dto db"
  "token_of a (dto\<lparr>ci_exchange_rate_applied := y\<rparr>) = token_of a dto"
  by (simp_all add: dto_amount_def psav_row_def interbank_row_def fun_eq_iff wallet_liquidation_def token_of_def)

definition priced :: "rat \<Rightarrow> rat \<Rightarrow> payment_order \<Rightarrow> payment_order" where
  "priced r a o' = o'\<lparr>po_exchange_rate := Some r, po_amount_destination := Some a\<rparr>"

lemma insert_priced:
  assumes "insert_payment_order ok (priced r a row) db = (Inr o1, db1)"
  shows "\<exists>db2. insert_payment_order ok (priced r' a' row) db = (Inr (priced r' a' row), db2)"
proof -
  have "\<forall>idx\<in>set order_indexes. idx (priced r' a' row) = idx (priced r a row)"
    by (simp add: indexes idx_po_bridge_active_per_rail_def index_on_def key1_def key2_def
        flow_in_def takes_bridge_address_def priced_def cong: if_cong)
  then have "\<forall>idx\<in>set order_indexes. violates os (priced r' a' row) idx = violates os (priced r a row) idx" for os
    by (auto simp: violates_def)
  then have "list_ex (violates os (priced r' a' row)) order_indexes = list_ex (violates os (priced r a row)) order_indexes" for os
    by (auto simp: list_ex_iff)
  with assms show ?thesis by (auto simp: insert_payment_order_def split: if_splits)
qed


text \<open>A creation that takes the rate: checks that do not read it, and a row priced with it.\<close>

definition takes_rate ::
  "(rat option \<Rightarrow> payment_order result \<times> orders_db) \<Rightarrow> (rat \<Rightarrow> rat \<Rightarrow> rat) \<Rightarrow> orders_db \<Rightarrow> bool" where
  "takes_rate f conv db \<longleftrightarrow> (\<exists>ok checks. \<forall>y. f y = lift checks (\<lambda>(row, live).
     insert_payment_order ok (priced (client_rate_or y live)
       (toFixed2 (conv (the (po_net_amount row)) (client_rate_or y live))) row)) db)"

lemma takes_rate_any:
  assumes "takes_rate f conv db" "f y = (Inr o1, db1)" "0 < x"
  shows "\<exists>o2 db2. f (Some x) = (Inr o2, db2) \<and> po_net_amount o2 = po_net_amount o1
    \<and> po_exchange_rate o2 = Some x \<and> po_amount_destination o2 = Some (toFixed2 (conv (the (po_net_amount o1)) x))"
proof -
  from assms(1) obtain ok checks where f: "f y = lift checks (\<lambda>(row, live).
     insert_payment_order ok (priced (client_rate_or y live)
       (toFixed2 (conv (the (po_net_amount row)) (client_rate_or y live))) row)) db" for y
    unfolding takes_rate_def by blast
  with assms(2) obtain row live where c: "checks = Inr (row, live)" by (cases checks) auto
  define r a where "r = client_rate_or y live" and "a = toFixed2 (conv (the (po_net_amount row)) r)"
  have ins: "insert_payment_order ok (priced r a row) db = (Inr o1, db1)"
    using assms(2) by (simp add: f c r_def a_def)
  from insert_priced [OF ins, of x "toFixed2 (conv (the (po_net_amount row)) x)"] inserted [OF ins]
  show ?thesis using assms(3) by (auto simp: f c client_rate_or_def priced_def)
qed

lemma lift_bind: "lift (bind_r r f) g db = lift r (\<lambda>x db. lift (f x) g db) db"
  by (cases r) simp_all

lemma world_to_bolivia_takes_rate:
  "takes_rate (\<lambda>y. createWorldToBolivia v skip u (dto\<lparr>ci_exchange_rate_applied := y\<rparr>) db) (\<lambda>n r. n * r) db"
proof -
  define cur where "cur = to_upper (or_else (ci_source_currency dto) ''usd'')"
  define fee where "fee = calculateFee (cr_today v) u ''interbank_bo_in'' ''psav'' cur (dto_amount dto) (cr_fees v)"
  define base where "base = (\<lambda>ty account. (psav_row v skip ''world_to_bolivia'' u dto fee cur account ty)\<lparr>
     po_destination_type := Some ''bank_bo'', po_destination_currency := Some ''BOB'', po_supplier_id := ci_supplier_id dto\<rparr>)"
  define checks where "checks = bind_r (or_throw_none (BadRequestException '''') (map_of WORLD_TO_BOLIVIA_PSAV_TYPE cur)) (\<lambda>ty.
     bind_r (getApprovedAccountForWithdrawal u db) (\<lambda>_. bind_r (getDepositAccountForUser u ty cur db) (\<lambda>account.
     bind_r (cr_rate v (cur @ ''_BOB'')) (\<lambda>rd. bind_r (assertNoConflictingWorldToBoliviaOrder u cur db) (\<lambda>_.
       Inr (base ty account, effective_rate rd))))))"
  have "createWorldToBolivia v skip u (dto\<lparr>ci_exchange_rate_applied := y\<rparr>) db
     = lift checks (\<lambda>(row, live). insert_payment_order (cr_db_ok v)
         (priced (client_rate_or y live) (toFixed2 (the (po_net_amount row) * client_rate_or y live)) row)) db" for y
    by (simp add: createWorldToBolivia_def Let_def cur_def [symmetric] fee_def [symmetric] checks_def lift_bind
        base_def priced_def psav_row_def)
  then show ?thesis unfolding takes_rate_def by blast
qed

lemma bolivia_to_wallet_takes_rate:
  "takes_rate (\<lambda>y. createBoliviaToWallet v skip u (dto\<lparr>ci_exchange_rate_applied := y\<rparr>) db) (\<lambda>n r. n / r) db"
proof -
  define fee where "fee = (\<lambda>pct. calculateFeeFromLiquidationAddress (dto_amount dto) pct)"
  define base where "base = (\<lambda>(a :: liquidation_address) pct account dcur.
     (psav_row v skip ''bolivia_to_wallet'' u dto (fee pct) ''BOB'' account ''bank_bo'')\<lparr>
       po_liquidation_address_id := Some (la_bridge_id a), po_destination_type := Some ''crypto_address'',
       po_destination_address := ci_destination_address dto, po_destination_network := ci_destination_network dto,
       po_destination_currency := Some dcur, po_supplier_id := ci_supplier_id dto\<rparr>)"
  define checks where "checks = bind_r (wallet_liquidation u dto db) (\<lambda>(a, pct).
     bind_r (getDepositAccountForUser u ''bank_bo'' ''BOB'' db) (\<lambda>account.
     bind_r (cr_rate v ''BOB_USD'') (\<lambda>rd. bind_r (token_of a dto) (\<lambda>dcur.
     bind_r (assertNoConflictingPsavOrder u ''bolivia_to_wallet'' dcur db) (\<lambda>_.
       Inr (base a pct account dcur, effective_rate rd))))))"
  have "createBoliviaToWallet v skip u (dto\<lparr>ci_exchange_rate_applied := y\<rparr>) db
     = lift checks (\<lambda>(row, live). insert_payment_order (cr_db_ok v)
         (priced (client_rate_or y live) (toFixed2 (the (po_net_amount row) / client_rate_or y live)) row)) db" for y
    by (simp add: createBoliviaToWallet_def Let_def fee_def [symmetric] checks_def lift_bind case_prod_beta
        base_def priced_def psav_row_def)
  then show ?thesis unfolding takes_rate_def by blast
qed

lemma same_rate [simp]: "dto\<lparr>ci_exchange_rate_applied := ci_exchange_rate_applied dto\<rparr> = dto"
  by simp

text \<open>C8: In two flows the rate of the request is used as it is. Where an order would have been
  created at all, the same request with any positive rate is accepted too; the order keeps that
  rate, and the amount the client is to receive is computed with it.\<close>

theorem client_rate_is_taken:
  assumes "0 < x"
  shows "(createWorldToBolivia v skip u dto db = (Inr o1, db1) \<longrightarrow> (\<exists>o2 db2.
        createWorldToBolivia v skip u (dto\<lparr>ci_exchange_rate_applied := Some x\<rparr>) db = (Inr o2, db2)
        \<and> po_net_amount o2 = po_net_amount o1 \<and> po_exchange_rate o2 = Some x
        \<and> po_amount_destination o2 = Some (toFixed2 (the (po_net_amount o1) * x))))
    \<and> (createBoliviaToWallet v skip u dto db = (Inr o1, db1) \<longrightarrow> (\<exists>o2 db2.
        createBoliviaToWallet v skip u (dto\<lparr>ci_exchange_rate_applied := Some x\<rparr>) db = (Inr o2, db2)
        \<and> po_net_amount o2 = po_net_amount o1 \<and> po_exchange_rate o2 = Some x
        \<and> po_amount_destination o2 = Some (toFixed2 (the (po_net_amount o1) / x))))"
  using takes_rate_any [OF world_to_bolivia_takes_rate [of v skip u dto db], of "ci_exchange_rate_applied dto" o1 db1 x]
    takes_rate_any [OF bolivia_to_wallet_takes_rate [of v skip u dto db], of "ci_exchange_rate_applied dto" o1 db1 x] assms
  by simp


theorem client_rate_is_taken_witness:
  "\<exists>o2 db2. createWorldToBolivia bank_env False ''u1'' ((transfer_in ''usd'')\<lparr>ci_exchange_rate_applied := Some 1000\<rparr>) (bank_db []) = (Inr o2, db2)
    \<and> po_net_amount o2 = Some 100 \<and> po_amount_destination o2 = Some 100000
    \<and> po_amount_destination dollar_order = Some 700"
proof -
  let ?run = "createWorldToBolivia bank_env False ''u1'' (transfer_in ''usd'') (bank_db [])"
  have "is_ok (fst ?run)" by code_simp
  note run = ok_run(1) [OF this]
  have "po_net_amount (projr (fst ?run)) = Some 100" "toFixed2 (100 * 1000) = (100000 :: rat)"
    "po_amount_destination dollar_order = Some 700" by code_simp+
  then show ?thesis
    using client_rate_is_taken [of 1000 bank_env False "''u1''" "transfer_in ''usd''" "bank_db []" "projr (fst ?run)" "snd ?run"]
      run by auto
qed

section \<open>Rates that are checked\<close>

lemma applied_rate_bound:
  "applied_world_rate dto live = Inr r \<Longrightarrow> 0 < live \<Longrightarrow> live * 99 / 100 \<le> r"
  by (auto simp: applied_world_rate_def BOLIVIA_TO_WORLD_RATE_TOLERANCE_def split: option.splits if_splits)

lemma world_amount_bound:
  assumes "0 < live" "live * 99 / 100 \<le> r" "0 < n"
  shows "js_floor (n / r * 100 + 1 / 10^9) / 100 \<le> n / (live * 99 / 100) + 1 / 10^11"
proof -
  have "n / r \<le> n / (live * 99 / 100)" using assms by (intro divide_left_mono) auto
  moreover have "js_floor (n / r * 100 + 1 / 10^9) \<le> n / r * 100 + 1 / 10^9" by (rule js_floor_le)
  ultimately show ?thesis by simp
qed

lemma world_quote_facts:
  assumes "world_quote v u dto dcur s = Inr (rate, a)"
  shows "\<exists>rd. cr_rate v (''BOB_'' @ rate_currency dcur) = Inr rd \<and> 0 < effective_rate rd
    \<and> effective_rate rd * 99 / 100 \<le> rate \<and> 0 < net_amount a
    \<and> wa_amount_destination a \<le> net_amount a / (effective_rate rd * 99 / 100) + 1 / 10^11"
proof -
  define pair where "pair = ''BOB_'' @ rate_currency dcur"
  define bobPair where "bobPair = ''BOB_USD''"
  define feeRail where "feeRail = resolveBoOutFeeRail dcur (sp_payment_rail s)"
  define flow where "flow = ''interbank_bo_out''"
  from assms obtain rd and bob :: full_rate where q: "catch_bad (cr_rate v pair) = Inr rd" "0 < effective_rate rd"
    "applied_world_rate dto (effective_rate rd) = Inr rate"
    "calculateBoliviaToWorldAmounts v u (dto_amount dto) feeRail dcur rate (effective_rate bob) = Inr a"
    unfolding world_quote_def Let_def pair_def [symmetric] feeRail_def [symmetric] bobPair_def [symmetric]
      flow_def [symmetric] by (elim bind_passed) auto
  have rd: "cr_rate v pair = Inr rd" using q(1) by (simp add: catch_bad_def split: sum.splits)
  note low = applied_rate_bound [OF q(3,2)]
  from q(4) have net: "0 < net_amount a"
    and dest: "wa_amount_destination a = js_floor (net_amount a / rate * 100 + 1 / 10^9) / 100"
    by (auto simp: calculateBoliviaToWorldAmounts_def Let_def split: if_splits)
  show ?thesis
    using rd q(2) low net world_amount_bound [OF q(2) low net] by (simp add: dest pair_def)
qed

text \<open>C7: An order of \<open>bolivia_to_world\<close> never promises more than the live rate allows. Whatever rate
  the request asks for, the one kept is at most one percent below the live rate of the moment, and
  the amount at the destination is at most the net amount at that lowest rate.\<close>

theorem bolivia_to_world_rate_protected:
  assumes "createBoliviaToWorld v skip u dto db = (Inr o', db1)"
  shows "\<exists>dcur rd rate net out. po_destination_currency o' = Some dcur
    \<and> cr_rate v (''BOB_'' @ rate_currency dcur) = Inr rd \<and> po_exchange_rate o' = Some rate
    \<and> effective_rate rd * 99 / 100 \<le> rate
    \<and> po_net_amount o' = Some net \<and> 0 < net \<and> po_amount_destination o' = Some out
    \<and> out \<le> net / (effective_rate rd * 99 / 100) + 1 / 10^11"
proof -
  have lift_ok: "\<exists>x. r = Inr x \<and> f x db = (Inr o', db1)" if "lift r f db = (Inr o', db1)" for r :: "'x result" and f
    using that by (cases r) auto
  from lift_ok [OF assms [unfolded createBoliviaToWorld_def case_prod_beta]]
  obtain row where row: "bind_r (world_beneficiary u dto db) (\<lambda>p. bind_r (world_quote v u dto (fst (snd p)) (snd (snd p)))
      (\<lambda>q. bind_r (getDepositAccountForUser u ''bank_bo'' ''BOB'' db) (\<lambda>account.
        Inr ((psav_row v skip ''bolivia_to_world'' u dto (fee_amounts.truncate (snd q)) ''BOB'' account ''bank_bo'')\<lparr>
               po_developer_fee_usd := Some (wa_developer_fee_usd (snd q)), po_destination_type := Some ''external_account'',
               po_destination_currency := Some (fst (snd p)), po_external_account_id := ci_external_account_id dto,
               po_supplier_id := Some (sp_id (snd (snd p))), po_exchange_rate := Some (fst q),
               po_amount_destination := Some (wa_amount_destination (snd q))\<rparr>)))) = Inr row"
    and ins: "insert_payment_order (cr_db_ok v) row db = (Inr o', db1)" by auto
  from row obtain p rate a where q: "world_quote v u dto (fst (snd p)) (snd (snd p)) = Inr (rate, a)"
    and cols: "po_destination_currency row = Some (fst (snd p))" "po_exchange_rate row = Some rate"
      "po_net_amount row = Some (net_amount a)" "po_amount_destination row = Some (wa_amount_destination a)"
    by (elim bind_passed) (auto simp: psav_row_def fee_amounts.truncate_def)
  from world_quote_facts [OF q] inserted [OF ins] cols show ?thesis by auto
qed


definition world_fees :: fees_db where
  "world_fees = \<lparr>fees_config = [\<lparr>fc_id = ''f1'', fc_operation_type = ''interbank_bo_out'', fc_payment_rail = ''psav'',
     fc_currency = ''usd'', fc_fee = \<lparr>ff_fee_type = ''percent'', ff_fee_percent = Some 1, ff_fee_fixed = None, ff_min_fee = None,
       ff_max_fee = None\<rparr>, fc_is_active = True\<rparr>], customer_fee_overrides = [], fees_audit = []\<rparr>"

definition world_env :: create_env where
  "world_env = bank_env\<lparr>cr_fees := world_fees\<rparr>"

definition world_db :: orders_db where
  "world_db = (bank_db [])\<lparr>external_accounts := [\<lparr>ea_id = ''e1'', ea_user_id = ''u1'',
       ea_bridge_external_account_id = Some ''be1'', ea_currency = Some ''usd'', ea_is_active = True\<rparr>],
     suppliers := [\<lparr>sp_id = ''s1'', sp_user_id = ''u1'', sp_is_active = True, sp_compliance_status = None,
       sp_payment_rail = Some ''pix'', sp_external_account_id = Some ''e1'', sp_liquidation_address_id = None,
       sp_bank_details = \<lparr>bd_wallet_address = None, bd_wallet_network = None, bd_wallet_currency = None\<rparr>\<rparr>]\<rparr>"

definition payment_out :: interbank_dto where
  "payment_out = (transfer_in ''bob'')\<lparr>ci_flow_type := ''bolivia_to_world'', ci_amount := Some 700,
     ci_external_account_id := Some ''e1''\<rparr>"

lemma ten_nine [code_unfold]: "(10 :: rat) ^ 9 = 1000000000"
  by simp

lemma world_sample_created: "is_ok (fst (createBoliviaToWorld world_env False ''u1'' payment_out world_db))"
proof -
  define s where "s = hd (suppliers world_db)"
  define e where "e = hd (external_accounts world_db)"
  have "world_beneficiary ''u1'' payment_out world_db = Inr (e, ''usd'', s)"
    "getDepositAccountForUser ''u1'' ''bank_bo'' ''BOB'' world_db = Inr (agent_account ''bank_bo'' ''BOB'')"
    unfolding s_def e_def by code_simp+
  moreover have "is_ok (world_quote world_env ''u1'' payment_out ''usd'' s)"
  proof -
    have r: "cr_rate world_env p = Inr seven" for p
      by (simp add: world_env_def bank_env_def sample_env_def create_env.truncate_def)
    have "resolveBoOutFeeRail ''usd'' (sp_payment_rail s) = ''psav''"
      "assertFeeConfigured (cr_today world_env) ''u1'' ''interbank_bo_out'' ''psav'' ''usd'' (cr_fees world_env) = Inr ()"
      "is_ok (calculateBoliviaToWorldAmounts world_env ''u1'' (dto_amount payment_out) ''psav'' ''usd'' 7 7)"
      "ci_exchange_rate_applied payment_out = None"
      unfolding s_def by code_simp+
    then show ?thesis
      by (auto simp: world_quote_def r catch_bad_def seven_def applied_world_rate_def require_def is_ok_def bind_r_def
          split: sum.splits)
  qed
  then obtain q where "world_quote world_env ''u1'' payment_out ''usd'' s = Inr q" by (auto simp: is_ok_def split: sum.splits)
  moreover have "payment_orders world_db = []" "cr_db_ok world_env"
    by (simp_all add: world_db_def bank_db_def world_env_def bank_env_def sample_env_def create_env.truncate_def)
  then have "is_ok (fst (insert_payment_order (cr_db_ok world_env) row world_db))" for row
    by (simp add: insert_payment_order_def violates_def list_ex_iff is_ok_def)
  ultimately show ?thesis by (simp add: createBoliviaToWorld_def case_prod_beta)
qed

theorem bolivia_to_world_rate_protected_witness:
  "\<exists>dcur rate. po_destination_currency (projr (fst (createBoliviaToWorld world_env False ''u1'' payment_out world_db))) = Some dcur
    \<and> po_exchange_rate (projr (fst (createBoliviaToWorld world_env False ''u1'' payment_out world_db))) = Some rate
    \<and> effective_rate seven * 99 / 100 \<le> rate"
proof -
  let ?run = "createBoliviaToWorld world_env False ''u1'' payment_out world_db"
  note run = ok_run(1) [OF world_sample_created]
  have "cr_rate world_env p = Inr seven" for p by (simp add: world_env_def bank_env_def sample_env_def create_env.truncate_def)
  with bolivia_to_world_rate_protected [OF run] obtain dcur rate where
    "po_destination_currency (projr (fst ?run)) = Some dcur" "po_exchange_rate (projr (fst ?run)) = Some rate"
    "effective_rate seven * 99 / 100 \<le> rate" by (elim exE conjE) (rule that, assumption+, simp)
  then show ?thesis by (intro exI conjI)
qed
section \<open>The address of a withdrawal\<close>

definition to_address :: "string \<Rightarrow> payment_order \<Rightarrow> payment_order" where
  "to_address a o' = o'\<lparr>po_destination_address := Some a,
     po_ctx := map_option (\<lambda>c. c\<lparr>ctx_kind := map_option (\<lambda>k. case k of CryptoExec r d _ \<Rightarrow> CryptoExec r d a | _ \<Rightarrow> k)
       (ctx_kind c)\<rparr>) (po_ctx o')\<rparr>"

lemma insert_to_address:
  assumes "insert_payment_order ok row db = (Inr o1, db1)"
  shows "insert_payment_order ok (to_address a row) db
    = (Inr (to_address a row), db\<lparr>payment_orders := payment_orders db @ [to_address a row]\<rparr>)"
proof -
  have "\<forall>idx\<in>set order_indexes. idx (to_address a row) = idx row"
    by (simp add: indexes idx_po_bridge_active_per_rail_def index_on_def key1_def key2_def
        flow_in_def takes_bridge_address_def to_address_def cong: if_cong)
  then have "\<forall>idx\<in>set order_indexes. violates os (to_address a row) idx = violates os row idx" for os
    by (auto simp: violates_def)
  then have "list_ex (violates os (to_address a row)) order_indexes = list_ex (violates os row) order_indexes" for os
    by (auto simp: list_ex_iff)
  with assms show ?thesis by (auto simp: insert_payment_order_def split: if_splits)
qed

lemma address_not_checked [simp]:
  "ramp_amount (dto\<lparr>cw_destination_address := y\<rparr>) = ramp_amount dto"
  "check_crypto_supplier u (dto\<lparr>cw_destination_address := y\<rparr>) r d db = check_crypto_supplier u dto r d db"
  "ramp_row v f u (dto\<lparr>cw_destination_address := y\<rparr>) w fee = ramp_row v f u dto w fee"
  by (simp_all add: ramp_amount_def check_crypto_supplier_def ramp_row_def)

definition crypto_row ::
  "ramp_env \<Rightarrow> string \<Rightarrow> ramp_dto \<Rightarrow> string \<Rightarrow> string \<Rightarrow> string \<Rightarrow> fee_amounts \<Rightarrow> ostring \<Rightarrow> wallet \<Rightarrow> payment_order" where
  "crypto_row v u dto cur rail dcur fee y w = waiting_or_review False ''created''
      (off_ctx (CryptoExec rail dcur (or_else y '''')) cur (ramp_amount dto) fee)
      ((ramp_row v ''bridge_wallet_to_crypto'' u dto (wa_id w) fee)\<lparr>po_amount := ramp_amount dto, po_currency := Some cur,
         po_source_currency := Some cur, po_destination_type := Some ''crypto_address'',
         po_destination_address := y, po_destination_network := cw_destination_network dto,
         po_destination_currency := Some (to_upper (or_else (cw_destination_currency dto) cur)),
         po_exchange_rate := Some 1, po_amount_destination := Some (net_amount fee),
         po_supplier_id := (if truthy (cw_supplier_id dto) then cw_supplier_id dto else None)\<rparr>)"

lemma crypto_row_address: "crypto_row v u dto cur rail dcur fee (Some a) w = to_address a (crypto_row v u dto cur rail dcur fee y w)"
  by (simp add: crypto_row_def to_address_def waiting_or_review_def off_ctx_def or_else_def)

text \<open>The withdrawal as checks that do not read the address, and a row with it.\<close>

lemma crypto_split:
  "\<exists>checks cur rail dcur fee leg. \<forall>y. createBridgeWalletToCrypto v False u (dto\<lparr>cw_destination_address := y\<rparr>) db
     = lift checks (\<lambda>w. reserve_and_insert v False u cur (ramp_amount dto)
         (crypto_row v u dto cur rail dcur fee y w) (leg y w)) db"
proof -
  define cur where "cur = to_upper (or_else (cw_source_currency dto) ''usdc'')"
  define fee where "fee = calculateFee (cr_today v) u ''ramp_off_crypto'' ''bridge'' cur (ramp_amount dto) (cr_fees v)"
  define rail where "rail = trim_ws (to_lower (or_else (cw_destination_network dto) ''''))"
  define dcur where "dcur = to_lower (or_else (cw_destination_currency dto) cur)"
  define leg where "leg = (\<lambda>y (w :: wallet) order. executeBridgeWalletToCryptoLeg (cr_leg v) order
    (off_ctx (CryptoExec rail dcur (or_else y '''')) cur (ramp_amount dto) fee) rail dcur (or_else y '''') FailOrder)"
  have "createBridgeWalletToCrypto v False u (dto\<lparr>cw_destination_address := y\<rparr>) db
     = lift (bind_r (getUserWallet u (cw_wallet_id dto) db) (\<lambda>w.
               bind_r (check_available u cur (ramp_amount dto) db) (\<lambda>_.
               bind_r (require (rail \<in> set ALLOWED_NETWORKS) (BadRequestException '''')) (\<lambda>_.
               bind_r (require (isValidOffRampRoute (to_lower cur) rail dcur) (BadRequestException '''')) (\<lambda>_.
               bind_r (assertNoConflictingCryptoOffRamp u cur (or_else (cw_destination_network dto) '''') db) (\<lambda>_.
               bind_r (require (\<not> (0 < getOffRampMinAmount (to_lower cur) rail dcur
                   \<and> ramp_amount dto < getOffRampMinAmount (to_lower cur) rail dcur)) (BadRequestException '''')) (\<lambda>_.
               bind_r (check_crypto_supplier u dto rail dcur db) (\<lambda>_.
               bind_r (bridge_customer u db) (\<lambda>_. Inr w)))))))))
         (\<lambda>w. reserve_and_insert v False u cur (ramp_amount dto)
           (crypto_row v u dto cur rail dcur fee y w) (leg y w)) db" for y
    by (simp add: createBridgeWalletToCrypto_def Let_def cur_def [symmetric] fee_def [symmetric]
        rail_def [symmetric] dcur_def [symmetric] crypto_row_def leg_def)
  then show ?thesis by blast
qed

text \<open>C11: A withdrawal to an address names a supplier the compliance has screened, and checks that its
  network and token are the supplier's; the address itself is compared with nothing. A request that
  is accepted for one address is accepted for any other with the same supplier, and the leg that
  the approval runs pays that other address.\<close>

theorem supplier_address_not_enforced:
  assumes "createBridgeWalletToCrypto v False u dto db = (Inr o1, db1)"
  shows "\<exists>o2 db2. createBridgeWalletToCrypto v False u (dto\<lparr>cw_destination_address := Some a\<rparr>) db = (Inr o2, db2)
    \<and> o2 = to_address a o1 \<and> po_destination_address o2 = Some a \<and> po_supplier_id o2 = po_supplier_id o1
    \<and> (\<exists>r d. Option.bind (po_ctx o2) ctx_kind = Some (CryptoExec r d a))"
proof -
  from crypto_split [of v u dto db] obtain checks cur rail dcur fee leg where
    split: "\<forall>y. createBridgeWalletToCrypto v False u (dto\<lparr>cw_destination_address := y\<rparr>) db
     = lift checks (\<lambda>w. reserve_and_insert v False u cur (ramp_amount dto)
         (crypto_row v u dto cur rail dcur fee y w) (leg y w)) db"
    by (elim exE) (rule that)
  have same: "dto\<lparr>cw_destination_address := cw_destination_address dto\<rparr> = dto" by simp
  let ?row = "crypto_row v u dto cur rail dcur fee (cw_destination_address dto)"
  from assms split [rule_format, of "cw_destination_address dto"] obtain w where w: "checks = Inr w"
    and run: "reserve_and_insert v False u cur (ramp_amount dto) (?row w) (leg (cw_destination_address dto) w) db = (Inr o1, db1)"
    unfolding same by (cases checks) auto
  note ins = reserved_and_inserted [OF run]
  have o1: "o1 = ?row w" using inserted [OF ins] by simp
  note ins2 = insert_to_address [OF ins [unfolded o1], of a]
  have "\<exists>db2. createBridgeWalletToCrypto v False u (dto\<lparr>cw_destination_address := Some a\<rparr>) db = (Inr (to_address a o1), db2)"
    by (simp add: split w crypto_row_address [of _ _ _ _ _ _ _ a _ "cw_destination_address dto"] reserve_review Let_def ins2 o1)
  moreover have "po_destination_address (to_address a o1) = Some a" "po_supplier_id (to_address a o1) = po_supplier_id o1"
    "Option.bind (po_ctx (to_address a o1)) ctx_kind = Some (CryptoExec rail dcur a)"
    by (simp_all add: o1 crypto_row_def to_address_def waiting_or_review_def off_ctx_def)
  ultimately show ?thesis by auto
qed


theorem supplier_address_not_enforced_witness:
  "\<exists>o2 db2. createBridgeWalletToCrypto sample_env False ''u1'' (withdrawal\<lparr>cw_destination_address := Some ''0xeve''\<rparr>)
      (sample_db []) = (Inr o2, db2) \<and> po_destination_address o2 = Some ''0xeve''"
proof -
  have "is_ok (fst (createBridgeWalletToCrypto sample_env False ''u1'' withdrawal (sample_db [])))" by code_simp
  from supplier_address_not_enforced [OF ok_run(1) [OF this], of "''0xeve''"] show ?thesis by auto
qed

section \<open>The gates of the entry points\<close>

text \<open>The switch of the flow was off at some moment of the last fifteen seconds.\<close>

definition review_was_off :: "(int \<Rightarrow> flow_review_setting list option) \<Rightarrow> int \<Rightarrow> string \<Rightarrow> bool" where
  "review_was_off hist now flow \<longleftrightarrow>
     (\<exists>t rows. now - 15000 < t \<and> t \<le> now \<and> hist t = Some rows \<and> settings_map rows flow = Some False)"

lemma skip_was_configured:
  assumes "resolveReviewGate v (Some f) s" "f \<in> set STAFF_REVIEW_GATED_FLOWS"
    and "cache_loaded hist (cr_now v) s" "cr_review_rows v = hist (cr_now v)"
  shows "review_was_off hist (cr_now v) f"
proof -
  have "fst (requiresReview (cr_now v) (hist (cr_now v)) (Some f) s) = False"
    using assms(1,4) by (simp add: resolveReviewGate_def)
  from requiresReview_gated [OF assms(2), of "cr_now v" "hist (cr_now v)" s] this
  have m: "fst (loadCache (cr_now v) (hist (cr_now v)) s) f = Some False"
    by (auto simp: or_else_def split: option.splits)
  from settings.get_answer [of hist "cr_now v" s] assms(3)
  have "\<exists>t. cr_now v - CACHE_TTL_MS < t \<and> t \<le> cr_now v
      \<and> map_option settings_map (hist t) = Some (fst (loadCache (cr_now v) (hist (cr_now v)) s))"
    using m by (auto simp: cache_loaded_fresh)
  with m show ?thesis by (auto simp: review_was_off_def CACHE_TTL_MS_def)
qed

lemma interbank_gated: "dispatch_interbank v skip u dto db = (Inr o', db1) \<Longrightarrow> ci_flow_type dto \<in> set STAFF_REVIEW_GATED_FLOWS"
  by (simp add: dispatch_interbank_def STAFF_REVIEW_GATED_FLOWS_def split: if_splits)

lemma ramp_gated: "dispatch_ramp v skip u dto db = (Inr o', db1) \<Longrightarrow> cw_flow_type dto \<in> set STAFF_REVIEW_GATED_FLOWS"
  by (simp add: dispatch_ramp_def STAFF_REVIEW_GATED_FLOWS_def split: if_splits)

definition within_limits :: "create_env \<Rightarrow> string \<Rightarrow> string \<Rightarrow> string \<Rightarrow> rat \<Rightarrow> bool" where
  "within_limits v u flow cur amount \<longleftrightarrow> (\<exists>c. checkAmountLimits (cr_today v) (cr_settings v) (limit_rates v) amount flow
     (Some cur) (Some u) (cr_limits v) = Inr c \<and> \<not> lc_exceeded c)"

definition admitted :: "create_env \<Rightarrow> string \<Rightarrow> string \<Rightarrow> orders_db \<Rightarrow> bool" where
  "admitted v u flow db \<longleftrightarrow> assertOnboardingApproved u (cr_flows v) = Inr ()
     \<and> validateRateLimit (cr_now v) (cr_settings v) (owner_times db) u = Inr ()
     \<and> assertFlowEnabled u flow (cr_flows v) = Inr ()"

lemma created_interbank:
  assumes "createInterbankOrder v s u dto reason review db = (Inr (Created o'), db1)"
  shows "admitted v u (ci_flow_type dto) db
    \<and> (\<forall>amount. ci_amount dto = Some amount \<longrightarrow> within_limits v u (ci_flow_type dto) (limit_currency dto) amount)
    \<and> (\<exists>db2. dispatch_interbank v (resolveReviewGate v (Some (ci_flow_type dto)) s) u dto db = (Inr o', db2))"
proof -
  have "lift r f db = (Inr (Created o'), db1) \<Longrightarrow> \<exists>x. r = Inr x \<and> f x db = (Inr (Created o'), db1)"
    for r :: "'x result" and f by (cases r) auto
  from this [OF assms [unfolded createInterbankOrder_def Let_def]] obtain x where
    x: "bind_r (assertOnboardingApproved u (cr_flows v)) (\<lambda>_.
        bind_r (validateRateLimit (cr_now v) (cr_settings v) (owner_times db) u) (\<lambda>_.
        bind_r (assertFlowEnabled u (ci_flow_type dto) (cr_flows v)) (\<lambda>_.
          case ci_amount dto of None \<Rightarrow> Inr None
          | Some amount \<Rightarrow> bind_r (checkAmountLimits (cr_today v) (cr_settings v) (limit_rates v) amount
              (ci_flow_type dto) (Some (limit_currency dto)) (Some u) (cr_limits v))
              (\<lambda>c. Inr (if lc_exceeded c then Some c else None))))) = Inr x"
    and run: "(case x of Some c \<Rightarrow>
         if \<not> truthy reason then (Inl (BadRequestException ''''), db)
         else (case review c db of (Inl e, db') \<Rightarrow> (Inl e, db') | (Inr r, db') \<Rightarrow> (Inr (ReviewRequested r), db'))
       | None \<Rightarrow> (case dispatch_interbank v (resolveReviewGate v (Some (ci_flow_type dto)) s) u dto db of
            (Inl e, db') \<Rightarrow> (Inl e, db')
          | (Inr order, db') \<Rightarrow>
              (Inr (Created order), log_audit (Some u) ''CREATE_PAYMENT_ORDER'' (po_id order) db')))
       = (Inr (Created o'), db1)" by blast
  from run have "x = None" by (auto split: option.splits if_splits prod.splits sum.splits)
  with x run show ?thesis
    by (elim bind_passed) (auto simp: admitted_def within_limits_def bind_r_Inr split: option.splits if_splits prod.splits sum.splits)
qed


lemma created_ramp:
  assumes "createWalletRampOrder v s u dto reason review db = (Inr (Created o'), db1)"
  shows "admitted (create_env.truncate v) u (cw_flow_type dto) db
    \<and> (\<forall>amount. cw_amount dto = Some amount \<longrightarrow> 0 < amount \<longrightarrow>
        within_limits (create_env.truncate v) u (cw_flow_type dto) (ramp_limit_currency dto) amount)
    \<and> (\<exists>db2. dispatch_ramp v (resolveReviewGate (create_env.truncate v) (Some (cw_flow_type dto)) s) u dto db = (Inr o', db2))"
proof -
  have "lift r f db = (Inr (Created o'), db1) \<Longrightarrow> \<exists>x. r = Inr x \<and> f x db = (Inr (Created o'), db1)"
    for r :: "'x result" and f by (cases r) auto
  from this [OF assms [unfolded createWalletRampOrder_def Let_def]] obtain x where
    x: "bind_r (assertOnboardingApproved u (cr_flows v)) (\<lambda>_.
        bind_r (validateRateLimit (cr_now v) (cr_settings v) (owner_times db) u) (\<lambda>_.
        bind_r (assertFlowEnabled u (cw_flow_type dto) (cr_flows v)) (\<lambda>_.
        bind_r (if truthy (nullish (cw_source_currency dto) (cw_destination_currency dto))
            then assertCurrencyActive (the (nullish (cw_source_currency dto) (cw_destination_currency dto))) db else Inr ())
          (\<lambda>_. ramp_limit_check v u dto)))) = Inr x"
    and run: "(case x of Some c \<Rightarrow>
         if \<not> truthy reason then (Inl (BadRequestException ''''), db)
         else (case review c db of (Inl e, db') \<Rightarrow> (Inl e, db') | (Inr r, db') \<Rightarrow> (Inr (ReviewRequested r), db'))
       | None \<Rightarrow> (case dispatch_ramp v (resolveReviewGate (create_env.truncate v) (Some (cw_flow_type dto)) s) u dto db of
            (Inl e, db') \<Rightarrow> (Inl e, db')
          | (Inr order, db') \<Rightarrow>
              (Inr (Created order), if po_status order = ''pending_review''
                 then notifyStaffOrderPendingReview (po_id order)
                   (log_audit (Some u) ''CREATE_WALLET_RAMP_ORDER'' (po_id order) db')
                 else log_audit (Some u) ''CREATE_WALLET_RAMP_ORDER'' (po_id order) db')))
       = (Inr (Created o'), db1)" by blast
  from run have "x = None" by (auto split: option.splits if_splits prod.splits sum.splits)
  with x have ok: "admitted (create_env.truncate v) u (cw_flow_type dto) db" "ramp_limit_check v u dto = Inr None"
    by (auto simp: admitted_def create_env.truncate_def bind_r_Inr)
  have "within_limits (create_env.truncate v) u (cw_flow_type dto) (ramp_limit_currency dto) amount"
    if "cw_amount dto = Some amount" "0 < amount" for amount
    using ok(2) that unfolding within_limits_def
    by (auto simp: ramp_limit_check_def ramp_amount_def or_else_def bind_r_Inr create_env.truncate_def split: if_splits)
  with run \<open>x = None\<close> ok(1) show ?thesis
    by (auto split: if_splits prod.splits sum.splits)
qed



definition usdc_db :: orders_db where
  "usdc_db = (sample_db [])\<lparr>currency_settings := [(''usdc'', True)]\<rparr>"

definition created_withdrawal :: "unit creation result \<times> orders_db" where
  "created_withdrawal = createWalletRampOrder sample_env \<lparr>cache = None, cacheExpiresAt = 0\<rparr> ''u1'' withdrawal None
     (\<lambda>_ db. (Inr (), db)) usdc_db"


end
