(* ===== verification/OrderReview.thy ===== *)
theory OrderReview imports PayoutCreation begin

text \<open>
  Requests for an exception to the limits, \<open>src/application/payment-orders/order-review.service.ts\<close>,
  and the order an approved request creates (\<open>createOrderFromReview\<close>, \<open>payment-orders.service.ts\<close>).
\<close>

section \<open>Requests\<close>

datatype request_payload = Interbank interbank_dto | Ramp ramp_dto

record review_request =
  rr_id :: string
  rr_user_id :: string
  rr_flow_type :: string
  rr_amount :: rat
  rr_currency :: string
  rr_amount_usd_equiv :: jsnum
  rr_limit_usd :: jsnum
  rr_excess_usd :: jsnum
  rr_request_payload :: request_payload
  rr_client_reason :: string
  rr_document_url :: ostring
  rr_status :: string
  rr_reviewed_by :: ostring
  rr_reviewed_at :: "int option"
  rr_staff_notes :: ostring
  rr_payment_order_id :: ostring
  rr_expires_at :: int
  rr_created_at :: int

record review_state =
  rs_requests :: "review_request list"
  rs_orders :: orders_db

text \<open>What other requests do between a read and the write that follows is \<open>re_env\<close>.\<close>

record review_env =
  re_env :: "review_state \<Rightarrow> review_state"
  re_now :: int
  re_settings :: app_settings
  re_db_ok :: bool
  re_new_id :: string

definition requests_of :: "string \<Rightarrow> review_state \<Rightarrow> review_request option" where
  "requests_of i st = maybe_single (filter (\<lambda>r. rr_id r = i) (rs_requests st))"

definition set_requests ::
  "(review_request \<Rightarrow> bool) \<Rightarrow> (review_request \<Rightarrow> review_request) \<Rightarrow> review_state \<Rightarrow> review_state" where
  "set_requests p f st = st\<lparr>rs_requests := update_where p f (rs_requests st)\<rparr>"

definition log_review :: "ostring \<Rightarrow> string \<Rightarrow> string \<Rightarrow> orders_db \<Rightarrow> orders_db" where
  "log_review who act i db = db\<lparr>audit_logs := audit_logs db @ [audit who act ''order_review_requests'' i]\<rparr>"

definition logged :: "ostring \<Rightarrow> string \<Rightarrow> string \<Rightarrow> review_state \<Rightarrow> review_state" where
  "logged who act i st = st\<lparr>rs_orders := log_review who act i (rs_orders st)\<rparr>"

section \<open>Operations\<close>

definition expireStaleRequests :: "review_env \<Rightarrow> review_state \<Rightarrow> review_state" where
  "expireStaleRequests e st =
     (let stale = (\<lambda>r. rr_status r = ''pending_review'' \<and> rr_expires_at r < re_now e) in
      if \<not> re_db_ok e then st
      else foldl (\<lambda>s r. logged None ''EXPIRE_REVIEW_REQUEST'' (rr_id r) s)
             (set_requests stale (\<lambda>r. r\<lparr>rr_status := ''expired''\<rparr>) st) (filter stale (rs_requests st)))"

definition expiry_hours :: "app_settings \<Rightarrow> rat" where
  "expiry_hours s =
     (case parse_int (or_else (setting s ''ORDER_REVIEW_EXPIRY_HOURS'') ''48'') of
        Fin h \<Rightarrow> if h \<le> 0 then 48 else h
      | _ \<Rightarrow> 48)"

definition js_minus :: "jsnum \<Rightarrow> jsnum \<Rightarrow> jsnum" where
  "js_minus a b = (case (a, b) of
      (Fin x, Fin y) \<Rightarrow> Fin (x - y)
    | (PosInf, Fin _) \<Rightarrow> PosInf | (PosInf, NegInf) \<Rightarrow> PosInf
    | (NegInf, Fin _) \<Rightarrow> NegInf | (NegInf, PosInf) \<Rightarrow> NegInf
    | (Fin _, PosInf) \<Rightarrow> NegInf | (Fin _, NegInf) \<Rightarrow> PosInf
    | _ \<Rightarrow> NaN)"

text \<open>The insert returns the new row; the caller's state gets it at the end of its table.\<close>

definition createReviewRequest ::
  "review_env \<Rightarrow> review_request list \<Rightarrow> string \<Rightarrow> string \<Rightarrow> rat \<Rightarrow> string \<Rightarrow> limit_check \<Rightarrow> request_payload
    \<Rightarrow> string \<Rightarrow> ostring \<Rightarrow> orders_db \<Rightarrow> review_request result \<times> orders_db" where
  "createReviewRequest e rows userId flow amount cur c payload reason documentUrl db =
     (if maybe_single (filter (\<lambda>r. rr_user_id r = userId \<and> rr_flow_type r = flow
             \<and> rr_status r = ''pending_review'') rows) \<noteq> None
      then (Inl (ConflictException ''''), db)
      else if \<not> re_db_ok e then (Inl (DbException ''''), db)
      else
        (Inr \<lparr>rr_id = re_new_id e, rr_user_id = userId, rr_flow_type = flow, rr_amount = amount,
           rr_currency = cur, rr_amount_usd_equiv = lc_amountUsd c, rr_limit_usd = lc_max c,
           rr_excess_usd = fixed2 (js_minus (lc_amountUsd c) (lc_max c)), rr_request_payload = payload,
           rr_client_reason = reason, rr_document_url = documentUrl, rr_status = ''pending_review'',
           rr_reviewed_by = None, rr_reviewed_at = None, rr_staff_notes = None, rr_payment_order_id = None,
           rr_expires_at = re_now e + \<lfloor>expiry_hours (re_settings e)\<rfloor> * 60 * 60 * 1000,
           rr_created_at = re_now e\<rparr>,
         log_review (Some userId) ''CREATE_REVIEW_REQUEST'' (re_new_id e) db))"

definition cancel_check :: "string \<Rightarrow> string \<Rightarrow> review_state \<Rightarrow> unit result" where
  "cancel_check userId reviewId st =
     (case maybe_single (filter (\<lambda>r. rr_id r = reviewId \<and> rr_user_id r = userId) (rs_requests st)) of
        None \<Rightarrow> Inl (NotFoundException '''')
      | Some r \<Rightarrow> if rr_status r \<noteq> ''pending_review'' then Inl (BadRequestException '''') else Inr ())"

text \<open>The write does not ask for the status that was read.\<close>

definition cancel_write :: "review_env \<Rightarrow> string \<Rightarrow> string \<Rightarrow> review_state \<Rightarrow> unit result \<times> review_state" where
  "cancel_write e userId reviewId st =
     (if \<not> re_db_ok e then (Inl (DbException ''''), st)
      else (Inr (), logged (Some userId) ''CANCEL_REVIEW_REQUEST'' reviewId
             (set_requests (\<lambda>r. rr_id r = reviewId) (\<lambda>r. r\<lparr>rr_status := ''cancelled_by_user''\<rparr>) st)))"

definition cancelReview :: "review_env \<Rightarrow> string \<Rightarrow> string \<Rightarrow> review_state \<Rightarrow> unit result \<times> review_state" where
  "cancelReview e userId reviewId st =
     (case cancel_check userId reviewId st of
        Inl x \<Rightarrow> (Inl x, st)
      | Inr _ \<Rightarrow> cancel_write e userId reviewId (re_env e st))"
definition getMyReviews :: "string \<Rightarrow> review_state \<Rightarrow> review_request list" where
  "getMyReviews userId st =
     rev (sort_key rr_created_at (filter (\<lambda>r. rr_user_id r = userId) (rs_requests st)))"

definition getMyReview :: "string \<Rightarrow> string \<Rightarrow> review_state \<Rightarrow> review_request result" where
  "getMyReview userId reviewId st = or_throw_none (NotFoundException '''')
     (maybe_single (filter (\<lambda>r. rr_id r = reviewId \<and> rr_user_id r = userId) (rs_requests st)))"

definition getReviewById :: "string \<Rightarrow> review_state \<Rightarrow> review_request result" where
  "getReviewById reviewId st = or_throw_none (NotFoundException '''') (requests_of reviewId st)"

text \<open>A page and the number of rows. A page of zero or less asks for a range the database refuses.\<close>

definition listReviews ::
  "ostring \<Rightarrow> ostring \<Rightarrow> int option \<Rightarrow> int option \<Rightarrow> review_state \<Rightarrow> (review_request list \<times> nat) result" where
  "listReviews status flow page limit st =
     (let size = min (or_else limit 20) 100; start = (or_else page 1 - 1) * size;
          rows = rev (sort_key rr_created_at (filter (\<lambda>r. (truthy status \<longrightarrow> Some (rr_status r) = status)
             \<and> (truthy flow \<longrightarrow> Some (rr_flow_type r) = flow)) (rs_requests st)))
      in if start < 0 \<or> size \<le> 0 then Inl (DbException '''')
         else Inr (take (nat size) (drop (nat start) rows), length rows))"

definition approveReview ::
  "review_env \<Rightarrow> string \<Rightarrow> string \<Rightarrow> ostring \<Rightarrow> review_state \<Rightarrow> review_request result \<times> review_state" where
  "approveReview e reviewId actorId staffNotes st =
     (if map_option rr_user_id (requests_of reviewId st) = Some actorId then (Inl (ForbiddenException ''''), st)
      else
        let f = (\<lambda>r. r\<lparr>rr_status := ''approved'', rr_reviewed_by := Some actorId, rr_reviewed_at := Some (re_now e),
              rr_staff_notes := staffNotes\<rparr>);
            p = (\<lambda>r. rr_id r = reviewId \<and> rr_status r = ''pending_review''); st1 = re_env e st
        in case (if re_db_ok e then maybe_single (map f (filter p (rs_requests st1))) else None) of
             None \<Rightarrow> (Inl (ConflictException ''''), if re_db_ok e then set_requests p f st1 else st1)
           | Some r \<Rightarrow> (Inr r, logged (Some actorId) ''APPROVE_REVIEW_REQUEST'' reviewId (set_requests p f st1)))"

definition linkPaymentOrder :: "review_env \<Rightarrow> string \<Rightarrow> string \<Rightarrow> review_state \<Rightarrow> unit result \<times> review_state" where
  "linkPaymentOrder e reviewId orderId st =
     (if \<not> re_db_ok e then (Inl (BadRequestException ''''), st)
      else (Inr (), set_requests (\<lambda>r. rr_id r = reviewId) (\<lambda>r. r\<lparr>rr_payment_order_id := Some orderId\<rparr>) st))"

definition rejectReview ::
  "review_env \<Rightarrow> string \<Rightarrow> string \<Rightarrow> string \<Rightarrow> review_state \<Rightarrow> review_request result \<times> review_state" where
  "rejectReview e reviewId actorId staffNotes st =
     (let f = (\<lambda>r. r\<lparr>rr_status := ''rejected'', rr_reviewed_by := Some actorId, rr_reviewed_at := Some (re_now e),
            rr_staff_notes := Some staffNotes\<rparr>);
          p = (\<lambda>r. rr_id r = reviewId \<and> rr_status r = ''pending_review'')
      in case (if re_db_ok e then maybe_single (map f (filter p (rs_requests st))) else None) of
           None \<Rightarrow> (Inl (ConflictException ''''), if re_db_ok e then set_requests p f st else st)
         | Some r \<Rightarrow>
             let st1 = logged (Some actorId) ''REJECT_REVIEW_REQUEST'' reviewId (set_requests p f st)
             in (Inr r, st1\<lparr>rs_orders := notify (rr_user_id r) ''financial'' (Some ''order_review_request'')
                  (Some reviewId) (rs_orders st1)\<rparr>))"

section \<open>The entry points with their requests\<close>

definition with_request :: "review_request creation result \<times> orders_db \<Rightarrow> review_state
    \<Rightarrow> review_request creation result \<times> review_state" where
  "with_request r st = (fst r, st\<lparr>rs_orders := snd r, rs_requests :=
     (case fst r of Inr (ReviewRequested row) \<Rightarrow> rs_requests st @ [row] | _ \<Rightarrow> rs_requests st)\<rparr>)"

definition submitInterbankOrder ::
  "create_env \<Rightarrow> review_env \<Rightarrow> flow_review_settings_service \<Rightarrow> string \<Rightarrow> interbank_dto \<Rightarrow> ostring \<Rightarrow> ostring
    \<Rightarrow> review_state \<Rightarrow> review_request creation result \<times> review_state" where
  "submitInterbankOrder v e s userId dto reason documentUrl st =
     with_request (createInterbankOrder v s userId dto reason
       (\<lambda>c. createReviewRequest e (rs_requests st) userId (ci_flow_type dto) (dto_amount dto) (limit_currency dto) c
              (Interbank dto) (the reason) documentUrl) (rs_orders st)) st"

definition submitWalletRampOrder ::
  "ramp_env \<Rightarrow> review_env \<Rightarrow> flow_review_settings_service \<Rightarrow> string \<Rightarrow> ramp_dto \<Rightarrow> ostring \<Rightarrow> ostring
    \<Rightarrow> review_state \<Rightarrow> review_request creation result \<times> review_state" where
  "submitWalletRampOrder v e s userId dto reason documentUrl st =
     with_request (createWalletRampOrder v s userId dto reason
       (\<lambda>c. createReviewRequest e (rs_requests st) userId (cw_flow_type dto) (ramp_amount dto) (ramp_limit_currency dto) c
              (Ramp dto) (the reason) documentUrl) (rs_orders st)) st"

section \<open>The order of an approved request\<close>

definition interbankFlows :: "string list" where
  "interbankFlows = [''bolivia_to_world'', ''bolivia_to_wallet'', ''wallet_to_wallet'', ''world_to_bolivia'']"

text \<open>A payload of the other kind has no field the creation needs; the code fails on it.\<close>

definition create_reviewed ::
  "ramp_env \<Rightarrow> review_request \<Rightarrow> orders_db \<Rightarrow> payment_order result \<times> orders_db" where
  "create_reviewed v r db =
     (if rr_flow_type r \<in> set interbankFlows
      then case rr_request_payload r of
             Interbank dto \<Rightarrow> createInterbankOrderBypassLimit (create_env.truncate v) (rr_user_id r) dto db
           | Ramp _ \<Rightarrow> (Inl (BadRequestException ''''), db)
      else case rr_request_payload r of
             Ramp dto \<Rightarrow> createWalletRampOrderBypassLimit v (rr_user_id r) dto db
           | Interbank _ \<Rightarrow> (Inl (BadRequestException ''''), db))"

text \<open>A creation that fails puts the request back; the notes of the staff stay on it.\<close>

definition rollback_review :: "string \<Rightarrow> string \<Rightarrow> review_state \<Rightarrow> review_state" where
  "rollback_review reviewId actorId st =
     logged (Some actorId) ''APPROVE_REVIEW_ROLLBACK'' reviewId
       (set_requests (\<lambda>r. rr_id r = reviewId)
          (\<lambda>r. r\<lparr>rr_status := ''pending_review'', rr_reviewed_by := None, rr_reviewed_at := None\<rparr>) st)"

definition finish_review :: "review_env \<Rightarrow> string \<Rightarrow> review_request \<Rightarrow> payment_order \<Rightarrow> review_state
    \<Rightarrow> (review_request \<times> payment_order) result \<times> review_state" where
  "finish_review e reviewId r order st =
     (case linkPaymentOrder e reviewId (po_id order) st of
        (Inl x, st1) \<Rightarrow> (Inl x, st1)
      | (Inr _, st1) \<Rightarrow>
          (Inr (r, order), st1\<lparr>rs_orders := notify (rr_user_id r) ''financial'' (Some ''payment_order'')
             (Some (po_id order)) (rs_orders st1)\<rparr>))"

definition createOrderFromReview ::
  "ramp_env \<Rightarrow> review_env \<Rightarrow> string \<Rightarrow> string \<Rightarrow> ostring \<Rightarrow> review_state
    \<Rightarrow> (review_request \<times> payment_order) result \<times> review_state" where
  "createOrderFromReview v e reviewId actorId staffNotes st =
     (case approveReview e reviewId actorId staffNotes st of
        (Inl x, st1) \<Rightarrow> (Inl x, st1)
      | (Inr r, st1) \<Rightarrow>
          (case create_reviewed v r (rs_orders st1) of
             (Inl x, db) \<Rightarrow> (Inl x, rollback_review reviewId actorId (st1\<lparr>rs_orders := db\<rparr>))
           | (Inr order, db) \<Rightarrow> finish_review e reviewId r order (st1\<lparr>rs_orders := db\<rparr>)))"

end
