(* ===== verification/ReviewProperties.thy ===== *)
theory ReviewProperties imports OrderReview CreationProperties begin

text \<open>
  What the exceptions to the limits guarantee. The operations of several actors interleave: the
  steps between two waits of a handler are the steps of \<open>review_step\<close>, and a handler that has
  waited goes on from a task. Any step may be the last of its handler (\<open>crash\<close>).
\<close>

section \<open>Interleaved handlers\<close>

datatype review_task =
    Cancelling string string
  | Creating string review_request
  | RollingBack string string
  | Finishing string review_request payment_order

record review_world =
  rw_state :: review_state
  rw_tasks :: "review_task list"
  rw_made :: "(string \<times> string) list"

definition request_ids :: "review_state \<Rightarrow> string set" where
  "request_ids st = rr_id ` set (rs_requests st)"

inductive review_step :: "review_world \<Rightarrow> review_world \<Rightarrow> bool" where
  expire: "review_step w (w\<lparr>rw_state := expireStaleRequests e (rw_state w)\<rparr>)"
| submit_interbank: "re_new_id e \<notin> request_ids (rw_state w) \<Longrightarrow>
    review_step w (w\<lparr>rw_state := snd (submitInterbankOrder v e s u idto reason doc (rw_state w))\<rparr>)"
| submit_ramp: "re_new_id e \<notin> request_ids (rw_state w) \<Longrightarrow>
    review_step w (w\<lparr>rw_state := snd (submitWalletRampOrder rv e s u dto reason doc (rw_state w))\<rparr>)"
| cancel_begin: "cancel_check u i (rw_state w) = Inr () \<Longrightarrow>
    review_step w (w\<lparr>rw_tasks := Cancelling u i # rw_tasks w\<rparr>)"
| cancel_end: "rw_tasks w = xs @ Cancelling u i # ys \<Longrightarrow>
    review_step w (w\<lparr>rw_state := snd (cancel_write e u i (rw_state w)), rw_tasks := xs @ ys\<rparr>)"
| reject: "review_step w (w\<lparr>rw_state := snd (rejectReview e i actor notes' (rw_state w))\<rparr>)"
| approve: "re_env e = (\<lambda>st. st) \<Longrightarrow> approveReview e i actor notes (rw_state w) = (Inr r, st) \<Longrightarrow>
    review_step w (w\<lparr>rw_state := st, rw_tasks := Creating actor r # rw_tasks w\<rparr>)"
| approve_refused: "re_env e = (\<lambda>st. st) \<Longrightarrow> approveReview e i actor notes (rw_state w) = (Inl x, st) \<Longrightarrow>
    review_step w (w\<lparr>rw_state := st\<rparr>)"
| create_done: "rw_tasks w = xs @ Creating actor r # ys \<Longrightarrow>
    create_reviewed rv r (rs_orders (rw_state w)) = (Inr order, db) \<Longrightarrow>
    review_step w (w\<lparr>rw_state := (rw_state w)\<lparr>rs_orders := db\<rparr>, rw_tasks := xs @ Finishing (rr_id r) r order # ys,
      rw_made := (rr_id r, po_id order) # rw_made w\<rparr>)"
| create_failed: "rw_tasks w = xs @ Creating actor r # ys \<Longrightarrow>
    create_reviewed rv r (rs_orders (rw_state w)) = (Inl x, db) \<Longrightarrow>
    review_step w (w\<lparr>rw_state := (rw_state w)\<lparr>rs_orders := db\<rparr>, rw_tasks := xs @ RollingBack actor (rr_id r) # ys\<rparr>)"
| roll_back: "rw_tasks w = xs @ RollingBack actor i # ys \<Longrightarrow>
    review_step w (w\<lparr>rw_state := rollback_review i actor (rw_state w), rw_tasks := xs @ ys\<rparr>)"
| finish: "rw_tasks w = xs @ Finishing i r order # ys \<Longrightarrow>
    review_step w (w\<lparr>rw_state := snd (finish_review e i r order (rw_state w)), rw_tasks := xs @ ys\<rparr>)"
| crash: "rw_tasks w = xs @ t # ys \<Longrightarrow> review_step w (w\<lparr>rw_tasks := xs @ ys\<rparr>)"
| elsewhere: "review_step w (w\<lparr>rw_state := (rw_state w)\<lparr>rs_orders := db\<rparr>\<rparr>)"

definition fresh_world :: "review_world \<Rightarrow> bool" where
  "fresh_world w \<longleftrightarrow> rw_tasks w = [] \<and> rw_made w = [] \<and> distinct (map rr_id (rs_requests (rw_state w)))"

section \<open>Who may decide a request\<close>

definition decides :: "string \<Rightarrow> review_task \<Rightarrow> bool" where
  "decides i t \<longleftrightarrow> (case t of Creating _ r \<Rightarrow> rr_id r = i | RollingBack _ j \<Rightarrow> j = i | _ \<Rightarrow> False)"

definition open_rows :: "string \<Rightarrow> review_state \<Rightarrow> review_request list" where
  "open_rows i st = filter (\<lambda>r. rr_id r = i \<and> rr_status r = ''pending_review'') (rs_requests st)"

definition holds :: "string \<Rightarrow> review_world \<Rightarrow> nat" where
  "holds i w = length (filter (decides i) (rw_tasks w)) + length (filter (\<lambda>m. fst m = i) (rw_made w))"

text \<open>The right to make the order of a request is with its pending row, with one handler, or
  spent.\<close>

definition review_inv :: "review_world \<Rightarrow> bool" where
  "review_inv w \<longleftrightarrow> distinct (map rr_id (rs_requests (rw_state w)))
     \<and> (\<forall>i. length (open_rows i (rw_state w)) + holds i w \<le> 1)
     \<and> (\<forall>i. holds i w \<noteq> 0 \<longrightarrow> i \<in> request_ids (rw_state w))"


section \<open>What a step does to the requests\<close>

text \<open>A quiet change opens no request and knows the same ones.\<close>

definition quiet :: "review_state \<Rightarrow> review_state \<Rightarrow> bool" where
  "quiet st st' \<longleftrightarrow> map rr_id (rs_requests st') = map rr_id (rs_requests st)
     \<and> (\<forall>i. length (open_rows i st') \<le> length (open_rows i st))"

lemma quiet_same: "rs_requests st' = rs_requests st \<Longrightarrow> quiet st st'"
  by (simp add: quiet_def open_rows_def)

lemma logged_requests [simp]: "rs_requests (logged who act i st) = rs_requests st"
  by (simp add: logged_def)

lemma length_filter_update:
  assumes "\<And>x. p x \<Longrightarrow> q (f x) \<Longrightarrow> q x"
  shows "length (filter q (update_where p f xs)) \<le> length (filter q xs)"
  using assms by (induction xs) (auto intro: le_SucI)

lemma quiet_update:
  assumes "rs_requests st' = update_where p f (rs_requests st)" "\<And>r. rr_id (f r) = rr_id r"
    and "\<And>r. p r \<Longrightarrow> rr_status (f r) = ''pending_review'' \<Longrightarrow> rr_status r = ''pending_review''"
  shows "quiet st st'"
  unfolding quiet_def open_rows_def assms(1)
  by (auto simp: assms(2) update_where_map intro!: length_filter_update dest: assms(3))

lemma set_requests_simps [simp]:
  "rs_requests (set_requests p f st) = update_where p f (rs_requests st)"
  "rs_orders (set_requests p f st) = rs_orders st"
  by (simp_all add: set_requests_def)

lemma quiet_refl [simp]: "quiet st st"
  by (simp add: quiet_same)

lemma expire_requests:
  "rs_requests (expireStaleRequests e st) = (if \<not> re_db_ok e then rs_requests st
     else update_where (\<lambda>r. rr_status r = ''pending_review'' \<and> rr_expires_at r < re_now e)
       (\<lambda>r. r\<lparr>rr_status := ''expired''\<rparr>) (rs_requests st))"
proof -
  have "rs_requests (foldl (\<lambda>s r. logged None act (rr_id r) s) s rs) = rs_requests s"
    for act s and rs :: "review_request list"
    by (induction rs arbitrary: s) simp_all
  then show ?thesis by (simp add: expireStaleRequests_def Let_def)
qed

lemma expire_quiet: "quiet st (expireStaleRequests e st)"
  by (cases "re_db_ok e") (auto intro: quiet_same quiet_update simp: expire_requests)

lemma cancel_quiet: "quiet st (snd (cancel_write e u i st))"
  by (cases "re_db_ok e") (auto intro: quiet_same quiet_update simp: cancel_write_def)

lemma reject_quiet: "quiet st (snd (rejectReview e i actor notes st))"
proof (cases "re_db_ok e")
  case True
  then show ?thesis by (auto intro!: quiet_update simp: rejectReview_def Let_def split: option.split)
qed (simp add: rejectReview_def)

lemma refused_quiet:
  assumes "approveReview e i actor notes st = (Inl x, st')" "re_env e = (\<lambda>st. st)"
  shows "quiet st st'"
  using assms by (cases "re_db_ok e")
    (auto simp: approveReview_def Let_def split: if_splits option.splits intro: quiet_same quiet_update)

lemma finish_quiet: "quiet st (snd (finish_review e i r order st))"
proof (cases "re_db_ok e")
  case True
  then show ?thesis by (auto intro!: quiet_update simp: finish_review_def linkPaymentOrder_def)
qed (simp add: finish_review_def linkPaymentOrder_def)

section \<open>New requests\<close>

definition requested :: "review_env \<Rightarrow> review_request list \<Rightarrow> review_request creation result \<Rightarrow> bool" where
  "requested e rows r \<longleftrightarrow> (case r of
     Inr (ReviewRequested row) \<Rightarrow> rr_id row = re_new_id e \<and> rr_status row = ''pending_review''
   | _ \<Rightarrow> True)"

lemma new_request:
  "createReviewRequest e rows u flow a c k p reason doc db = (Inr row, db') \<Longrightarrow>
     rr_id row = re_new_id e \<and> rr_status row = ''pending_review''"
  by (auto simp: createReviewRequest_def Let_def split: if_splits)

lemma fst_lift: "fst (lift r f db) = (case r of Inl e \<Rightarrow> Inl e | Inr x \<Rightarrow> fst (f x db))"
  by (cases r) simp_all

lemma interbank_requested: "requested e rows (fst (createInterbankOrder v s u dto reason
     (\<lambda>c. createReviewRequest e rows u flow a cur c p why doc) db))"
  unfolding createInterbankOrder_def Let_def fst_lift
  by (auto simp: requested_def dest: new_request split: sum.split option.split prod.split)

lemma ramp_requested: "requested e rows (fst (createWalletRampOrder v s u dto reason
     (\<lambda>c. createReviewRequest e rows u flow a cur c p why doc) db))"
  unfolding createWalletRampOrder_def Let_def fst_lift
  by (auto simp: requested_def dest: new_request split: sum.split option.split prod.split)

lemma submitted:
  assumes "requested e (rs_requests st) (fst r)"
  shows "rs_requests (snd (with_request r st)) = rs_requests st \<or>
    (\<exists>row. rs_requests (snd (with_request r st)) = rs_requests st @ [row]
       \<and> rr_id row = re_new_id e \<and> rr_status row = ''pending_review'')"
  using assms by (auto simp: with_request_def requested_def split: sum.split creation.split)


section \<open>The invariant\<close>

text \<open>What is true of the tasks, the made orders and the rows is carried by three numbers.\<close>

definition busy :: "string \<Rightarrow> review_world \<Rightarrow> nat" where
  "busy i w = length (filter (decides i) (rw_tasks w))"

definition made :: "string \<Rightarrow> review_world \<Rightarrow> nat" where
  "made i w = length (filter (\<lambda>m. fst m = i) (rw_made w))"

definition opened :: "string \<Rightarrow> review_world \<Rightarrow> nat" where
  "opened i w = length (open_rows i (rw_state w))"

lemma review_inv_iff:
  "review_inv w \<longleftrightarrow> distinct (map rr_id (rs_requests (rw_state w)))
     \<and> (\<forall>i. opened i w + (busy i w + made i w) \<le> 1)
     \<and> (\<forall>i. busy i w + made i w \<noteq> 0 \<longrightarrow> i \<in> request_ids (rw_state w))"
  by (simp add: review_inv_def opened_def busy_def made_def holds_def)

lemmas counts = busy_def made_def opened_def

lemma busy_remove [simp]:
  assumes "rw_tasks w = xs @ t # ys"
  shows "busy i (w\<lparr>rw_tasks := xs @ ys\<rparr>) = busy i w - of_bool (decides i t)"
  by (simp add: busy_def assms)

lemma decides_simps [simp]:
  "decides i (Creating a r) \<longleftrightarrow> rr_id r = i" "decides i (RollingBack a j) \<longleftrightarrow> j = i"
  "\<not> decides i (Cancelling a j)" "\<not> decides i (Finishing j r order)"
  by (simp_all add: decides_def)

text \<open>The life of a request, seen from outside.\<close>

datatype review_phase = Unknown | Open | Deciding | Ordered | Closed

fun phase_edge :: "review_phase \<Rightarrow> review_phase \<Rightarrow> bool" where
  "phase_edge Unknown Open = True"
| "phase_edge Open Deciding = True"
| "phase_edge Open Closed = True"
| "phase_edge Deciding Ordered = True"
| "phase_edge Deciding Open = True"
| "phase_edge Deciding Closed = True"
| "phase_edge p q = (p = q)"

definition phase :: "string \<Rightarrow> review_world \<Rightarrow> review_phase" where
  "phase i w = (if made i w \<noteq> 0 then Ordered else if busy i w \<noteq> 0 then Deciding
     else if opened i w \<noteq> 0 then Open else if i \<in> request_ids (rw_state w) then Closed else Unknown)"

definition good_step :: "review_world \<Rightarrow> review_world \<Rightarrow> bool" where
  "good_step w w' \<longleftrightarrow> review_inv w' \<and> (\<forall>i. phase_edge (phase i w) (phase i w'))"

lemma quiet_ids: "quiet st st' \<Longrightarrow> request_ids st' = request_ids st"
  unfolding quiet_def request_ids_def by (metis set_map)

lemma phase_edge_refl [simp]: "phase_edge p p"
  by (cases p) simp_all

lemma phase_opened_less:
  assumes "made i w' = made i w" "busy i w' = busy i w" "opened i w' \<le> opened i w"
    and "request_ids (rw_state w') = request_ids (rw_state w)" "opened i w \<noteq> 0 \<longrightarrow> i \<in> request_ids (rw_state w)"
  shows "phase_edge (phase i w) (phase i w')"
  using assms by (auto simp: phase_def)

lemma opened_known: "opened i w \<noteq> 0 \<Longrightarrow> i \<in> request_ids (rw_state w)"
  by (auto simp: opened_def open_rows_def request_ids_def filter_empty_conv)

lemma quiet_step:
  assumes "review_inv w" "quiet (rw_state w) (rw_state w')" "rw_made w' = rw_made w" "\<And>i. busy i w' = busy i w"
  shows "good_step w w'"
proof -
  have m: "made i w' = made i w" for i by (simp add: made_def assms(3))
  have o': "opened i w' \<le> opened i w" for i using assms(2) by (simp add: quiet_def opened_def)
  have "opened i w' + (busy i w + made i w) \<le> 1" for i
    using assms(1) o' [of i] unfolding review_inv_iff by (metis add_le_mono1 order_trans)
  moreover have "distinct (map rr_id (rs_requests (rw_state w')))"
    using assms(1,2) by (simp add: review_inv_def quiet_def)
  ultimately have "review_inv w'"
    using assms(1) by (simp add: review_inv_iff quiet_ids [OF assms(2)] m assms(4))
  then show ?thesis
    using o' by (simp add: good_step_def phase_opened_less m assms(4) quiet_ids [OF assms(2)] opened_known)
qed


lemma good_stepI:
  assumes "distinct (map rr_id (rs_requests (rw_state w')))"
    and "\<And>i. opened i w' + (busy i w' + made i w') \<le> 1"
    and "\<And>i. busy i w' + made i w' \<noteq> 0 \<Longrightarrow> i \<in> request_ids (rw_state w')"
    and "\<And>i. phase_edge (phase i w) (phase i w')"
  shows "good_step w w'"
  using assms by (auto simp: good_step_def review_inv_iff)

lemma submit_step:
  assumes "review_inv w" "new \<notin> request_ids (rw_state w)"
    and "rs_requests st = rs_requests (rw_state w) \<or> (\<exists>row. rs_requests st = rs_requests (rw_state w) @ [row]
      \<and> rr_id row = new \<and> rr_status row = ''pending_review'')"
  shows "good_step w (w\<lparr>rw_state := st\<rparr>)"
  using assms(3)
proof (elim disjE exE conjE)
  assume "rs_requests st = rs_requests (rw_state w)"
  then show ?thesis using assms(1) by (intro quiet_step) (simp_all add: quiet_same busy_def)
next
  fix row
  assume row: "rs_requests st = rs_requests (rw_state w) @ [row]" "rr_id row = new" "rr_status row = ''pending_review''"
  let ?w = "w\<lparr>rw_state := st\<rparr>"
  have same: "busy i ?w = busy i w" "made i ?w = made i w" for i by (simp_all add: busy_def made_def)
  have o': "opened i ?w = opened i w + of_bool (i = new)" for i
    by (auto simp: opened_def open_rows_def row)
  have ids: "request_ids st = insert new (request_ids (rw_state w))" by (simp add: request_ids_def row)
  have none: "opened new w = 0" "busy new w = 0" "made new w = 0"
    using assms(1,2) opened_known [of new w] by (auto simp: review_inv_iff)
  show ?thesis
  proof (rule good_stepI)
    fix i
    show "opened i ?w + (busy i ?w + made i ?w) \<le> 1"
      using assms(1) none by (cases "i = new") (simp_all add: same o' review_inv_iff)
    show "phase_edge (phase i w) (phase i ?w)"
      using none assms(2) by (cases "i = new") (simp_all add: phase_def same o' ids)
  qed (use assms row in \<open>auto simp: review_inv_iff request_ids_def same ids [unfolded request_ids_def]\<close>)
qed

lemma approved_row:
  assumes "approveReview e i actor notes st = (Inr r, st')" "re_env e = (\<lambda>st. st)"
  shows "rr_id r = i \<and> i \<in> request_ids st \<and> open_rows i st \<noteq> [] \<and> open_rows i st' = []
    \<and> quiet st st' \<and> (\<forall>j. j \<noteq> i \<longrightarrow> length (open_rows j st') = length (open_rows j st))"
proof -
  let ?p = "\<lambda>r. rr_id r = i \<and> rr_status r = ''pending_review''"
  let ?f = "\<lambda>r. r\<lparr>rr_status := ''approved'', rr_reviewed_by := Some actor, rr_reviewed_at := Some (re_now e),
    rr_staff_notes := notes\<rparr>"
  have st': "rs_requests st' = update_where ?p ?f (rs_requests st)" and r: "map ?f (filter ?p (rs_requests st)) = [r]"
    using assms by (auto simp: approveReview_def Let_def maybe_single_Some split: if_splits option.splits)
  obtain q where q: "filter ?p (rs_requests st) = [q]" "r = ?f q" using r by (auto simp: map_eq_Cons_conv)
  then have "q \<in> set (filter ?p (rs_requests st))" by simp
  then have in_q: "q \<in> set (rs_requests st)" "rr_id q = i" by auto
  have "length (open_rows j st') = length (open_rows j st)" if "j \<noteq> i" for j
  proof -
    have "filter (\<lambda>r. rr_id r = j \<and> rr_status r = ''pending_review'') (update_where ?p ?f rs)
        = filter (\<lambda>r. rr_id r = j \<and> rr_status r = ''pending_review'') rs" for rs :: "review_request list"
      using that by (induction rs) auto
    then show ?thesis by (simp only: open_rows_def st')
  qed
  moreover have "open_rows i st' = []"
    unfolding open_rows_def st' by (rule update_where_clears) simp
  moreover have "quiet st st'" by (rule quiet_update [OF st']) simp_all
  ultimately show ?thesis using in_q q by (auto simp: request_ids_def open_rows_def)
qed

lemma approve_step:
  assumes "review_inv w" "approveReview e i actor notes (rw_state w) = (Inr r, st)" "re_env e = (\<lambda>st. st)"
  shows "good_step w (w\<lparr>rw_state := st, rw_tasks := Creating actor r # rw_tasks w\<rparr>)" (is "good_step w ?w")
proof -
  note a = approved_row [OF assms(2,3)]
  have b: "busy j ?w = busy j w + of_bool (j = i)" "made j ?w = made j w" for j
    using a by (auto simp: busy_def made_def)
  have o': "opened j ?w = (if j = i then 0 else opened j w)" for j using a by (simp add: opened_def)
  have ids: "request_ids st = request_ids (rw_state w)" using a quiet_ids by blast
  have "1 \<le> opened i w" using a by (simp add: opened_def Suc_le_eq)
  moreover have "opened i w + (busy i w + made i w) \<le> 1" using assms(1) by (simp add: review_inv_iff)
  ultimately have i: "opened i w = 1" "busy i w = 0" "made i w = 0" by linarith+
  show ?thesis
  proof (rule good_stepI)
    fix j
    show "opened j ?w + (busy j ?w + made j ?w) \<le> 1"
      using assms(1) i by (cases "j = i") (simp_all add: b o' review_inv_iff)
    show "phase_edge (phase j w) (phase j ?w)"
      using i by (cases "j = i") (simp_all add: phase_def b o' ids)
    show "j \<in> request_ids (rw_state ?w)" if "busy j ?w + made j ?w \<noteq> 0"
      using that assms(1) a by (cases "j = i") (auto simp: b review_inv_iff ids)
  qed (use a assms(1) in \<open>simp add: review_inv_iff quiet_def\<close>)
qed


text \<open>The handler that decides a request is the only one; it moves on, or gives the right back.\<close>

lemma decider:
  assumes "review_inv w" "rw_tasks w = xs @ t # ys" "decides i t"
  shows "busy i w = 1" "made i w = 0" "opened i w = 0" "i \<in> request_ids (rw_state w)"
    "filter (decides i) xs = []" "filter (decides i) ys = []"
proof -
  have b: "busy i w = 1 + length (filter (decides i) xs) + length (filter (decides i) ys)"
    by (simp add: busy_def assms(2,3))
  moreover have "opened i w + (busy i w + made i w) \<le> 1" using assms(1) by (simp add: review_inv_iff)
  ultimately show "busy i w = 1" "made i w = 0" "opened i w = 0" by linarith+
  then show "filter (decides i) xs = []" "filter (decides i) ys = []" using b by simp_all
  show "i \<in> request_ids (rw_state w)" using assms(1) b by (simp add: review_inv_iff)
qed

lemma decided_step:
  assumes inv: "review_inv w" and t: "rw_tasks w = xs @ t # ys" "decides i t" "\<And>j. j \<noteq> i \<Longrightarrow> \<not> decides j t"
    and ids: "request_ids (rw_state w') = request_ids (rw_state w)" "distinct (map rr_id (rs_requests (rw_state w')))"
    and other: "\<And>j. j \<noteq> i \<Longrightarrow> opened j w' \<le> opened j w \<and> busy j w' = busy j w \<and> made j w' = made j w"
    and one: "opened i w' + (busy i w' + made i w') \<le> 1"
  shows "good_step w w'"
proof (rule good_stepI)
  note d = decider [OF inv t(1,2)]
  fix j
  show "opened j w' + (busy j w' + made j w') \<le> 1"
  proof (cases "j = i")
    case False
    then show ?thesis using inv other [of j] unfolding review_inv_iff by (metis add_le_mono1 order_trans)
  qed (use one in simp)
  show "j \<in> request_ids (rw_state w')" if "busy j w' + made j w' \<noteq> 0"
    using that inv d(4) other [of j] by (cases "j = i") (auto simp: ids review_inv_iff)
  show "phase_edge (phase j w) (phase j w')"
  proof (cases "j = i")
    case True
    then show ?thesis using d by (simp add: phase_def ids)
  next
    case False
    then show ?thesis by (intro phase_opened_less) (simp_all add: other ids opened_known)
  qed
qed (rule ids(2))

lemma rollback_row:
  "opened j (w\<lparr>rw_state := rollback_review i actor (rw_state w), rw_tasks := ts\<rparr>) =
     (if j = i then length (filter (\<lambda>r. rr_id r = i) (rs_requests (rw_state w))) else opened j w)"
  "map rr_id (rs_requests (rollback_review i actor st)) = map rr_id (rs_requests st)"
proof -
  have "length (filter (\<lambda>r. rr_id r = j \<and> rr_status r = ''pending_review'')
      (update_where (\<lambda>r. rr_id r = i)
        (\<lambda>r. r\<lparr>rr_status := ''pending_review'', rr_reviewed_by := None, rr_reviewed_at := None\<rparr>) rs))
    = (if j = i then length (filter (\<lambda>r. rr_id r = i) rs)
       else length (filter (\<lambda>r. rr_id r = j \<and> rr_status r = ''pending_review'') rs))"
    for rs :: "review_request list" by (induction rs) auto
  then show "opened j (w\<lparr>rw_state := rollback_review i actor (rw_state w), rw_tasks := ts\<rparr>) =
     (if j = i then length (filter (\<lambda>r. rr_id r = i) (rs_requests (rw_state w))) else opened j w)"
    by (simp add: opened_def open_rows_def rollback_review_def)
  show "map rr_id (rs_requests (rollback_review i actor st)) = map rr_id (rs_requests st)"
    by (simp add: rollback_review_def update_where_map)
qed

lemma distinct_filter_le: "distinct (map f xs) \<Longrightarrow> length (filter (\<lambda>x. f x = a) xs) \<le> 1"
  by (induction xs) (auto simp: filter_empty_conv image_iff)

lemma roll_back_step:
  assumes "review_inv w" "rw_tasks w = xs @ RollingBack actor i # ys"
  shows "good_step w (w\<lparr>rw_state := rollback_review i actor (rw_state w), rw_tasks := xs @ ys\<rparr>)"
    (is "good_step w ?w")
proof (rule decided_step [OF assms])
  note d = decider [OF assms, of i]
  have un: "distinct (map rr_id (rs_requests (rw_state w)))" using assms(1) by (simp add: review_inv_def)
  show "opened i ?w + (busy i ?w + made i ?w) \<le> 1"
    using d distinct_filter_le [OF un, of i] by (simp add: rollback_row) (simp add: busy_def made_def)
  show "opened j ?w \<le> opened j w \<and> busy j ?w = busy j w \<and> made j ?w = made j w" if "j \<noteq> i" for j
    using that assms(2) by (simp add: rollback_row) (simp add: busy_def made_def)
  show "request_ids (rw_state ?w) = request_ids (rw_state w)"
    using rollback_row(2) [of i actor "rw_state w"] unfolding request_ids_def by (metis review_world.select_convs(1)
      review_world.surjective review_world.update_convs(1,2) set_map)
  show "distinct (map rr_id (rs_requests (rw_state ?w)))" using un by (simp add: rollback_row)
qed simp_all


lemma create_done_step:
  assumes "review_inv w" "rw_tasks w = xs @ Creating actor r # ys"
  shows "good_step w (w\<lparr>rw_state := (rw_state w)\<lparr>rs_orders := db\<rparr>,
    rw_tasks := xs @ Finishing (rr_id r) r order # ys, rw_made := (rr_id r, po_id order) # rw_made w\<rparr>)"
    (is "good_step w ?w")
proof (rule decided_step [OF assms])
  note d = decider [OF assms, of "rr_id r"]
  have o': "opened j ?w = opened j w" for j by (simp add: opened_def open_rows_def)
  show "opened (rr_id r) ?w + (busy (rr_id r) ?w + made (rr_id r) ?w) \<le> 1"
    using d by (simp add: o') (simp add: busy_def made_def)
  show "opened j ?w \<le> opened j w \<and> busy j ?w = busy j w \<and> made j ?w = made j w" if "j \<noteq> rr_id r" for j
    using that assms(2) by (simp add: o') (simp add: busy_def made_def)
qed (use assms(1) in \<open>simp_all add: request_ids_def review_inv_def\<close>)

lemma same_deciders_step:
  assumes "review_inv w" "rw_tasks w = xs @ t # ys" "quiet (rw_state w) st"
    and "\<And>i. length (filter (decides i) ts) = length (filter (decides i) [t])"
  shows "good_step w (w\<lparr>rw_state := st, rw_tasks := xs @ ts @ ys\<rparr>)"
proof (rule quiet_step [OF assms(1)])
  show "busy i (w\<lparr>rw_state := st, rw_tasks := xs @ ts @ ys\<rparr>) = busy i w" for i
    using assms(4) [of i] by (simp add: busy_def assms(2) split: if_splits)
qed (use assms(3) in simp_all)

lemma crash_step:
  assumes "review_inv w" "rw_tasks w = xs @ t # ys"
  shows "good_step w (w\<lparr>rw_tasks := xs @ ys\<rparr>)"
proof (cases "\<exists>i. decides i t")
  case True
  then obtain i where i: "decides i t" ..
  have only: "\<not> decides j t" if "j \<noteq> i" for j using that i by (auto simp: decides_def split: review_task.splits)
  note d = decider [OF assms i]
  show ?thesis
  proof (rule decided_step [OF assms i])
    show "opened i (w\<lparr>rw_tasks := xs @ ys\<rparr>) + (busy i (w\<lparr>rw_tasks := xs @ ys\<rparr>) + made i (w\<lparr>rw_tasks := xs @ ys\<rparr>)) \<le> 1"
      using d i by (simp add: busy_remove [OF assms(2)]) (simp add: opened_def made_def)
    show "opened j (w\<lparr>rw_tasks := xs @ ys\<rparr>) \<le> opened j w \<and> busy j (w\<lparr>rw_tasks := xs @ ys\<rparr>) = busy j w
      \<and> made j (w\<lparr>rw_tasks := xs @ ys\<rparr>) = made j w" if "j \<noteq> i" for j
      using only [OF that] by (simp add: busy_remove [OF assms(2)]) (simp add: opened_def made_def)
  qed (use assms(1) only in \<open>auto simp: review_inv_def\<close>)
next
  case False
  then show ?thesis by (intro quiet_step [OF assms(1)]) (simp_all add: busy_remove [OF assms(2)])
qed

lemma submit_interbank_step:
  assumes "review_inv w" "re_new_id e \<notin> request_ids (rw_state w)"
  shows "good_step w (w\<lparr>rw_state := snd (submitInterbankOrder v e s u dto reason doc (rw_state w))\<rparr>)"
  unfolding submitInterbankOrder_def
  by (rule submit_step [OF assms]) (rule submitted, rule interbank_requested)

lemma submit_ramp_step:
  assumes "review_inv w" "re_new_id e \<notin> request_ids (rw_state w)"
  shows "good_step w (w\<lparr>rw_state := snd (submitWalletRampOrder v e s u dto reason doc (rw_state w))\<rparr>)"
  unfolding submitWalletRampOrder_def
  by (rule submit_step [OF assms]) (rule submitted, rule ramp_requested)

lemma every_step_good: "review_step w w' \<Longrightarrow> review_inv w \<Longrightarrow> good_step w w'"
proof (induction rule: review_step.induct)
  case (cancel_end w xs u i ys e)
  then show ?case using same_deciders_step [of w xs _ ys _ "[]", OF _ _ cancel_quiet] by simp
next
  case (create_failed w xs actor r ys rv x db)
  then show ?case
    using same_deciders_step [of w xs _ ys "(rw_state w)\<lparr>rs_orders := db\<rparr>" "[RollingBack actor (rr_id r)]"]
    by (simp add: quiet_same)
next
  case (finish w xs i r order ys e)
  then show ?case using same_deciders_step [of w xs _ ys _ "[]", OF _ _ finish_quiet] by simp
qed (simp_all add: submit_interbank_step submit_ramp_step approve_step create_done_step roll_back_step crash_step,
  (rule quiet_step; simp add: expire_quiet reject_quiet refused_quiet quiet_same busy_def)+)


lemma fresh_inv: "fresh_world w \<Longrightarrow> review_inv w"
proof -
  assume w: "fresh_world w"
  have "opened i w \<le> 1" for i
  proof -
    have "length (filter (\<lambda>r. rr_status r = ''pending_review'') (filter (\<lambda>r. rr_id r = i) (rs_requests (rw_state w)))) \<le> 1"
      using w distinct_filter_le [of rr_id "rs_requests (rw_state w)" i] length_filter_le order_trans
      unfolding fresh_world_def by blast
    then show ?thesis by (simp add: opened_def open_rows_def conj_commute)
  qed
  then show ?thesis using w by (simp add: review_inv_iff fresh_world_def busy_def made_def)
qed

lemma reachable_inv: "review_step\<^sup>*\<^sup>* w w' \<Longrightarrow> review_inv w \<Longrightarrow> review_inv w'"
  by (induction rule: rtranclp_induct) (auto dest: every_step_good simp: good_step_def)

text \<open>C12: The requests follow their protocol under every interleaving of the handlers, with crashes
  between any two waits: seen from outside, a request is unknown, open, being decided by one
  handler, ordered or closed, and each step of the program leaves it or takes one edge of that
  machine. \<open>Ordered\<close> and \<open>Closed\<close> have no way out.\<close>

theorem requests_follow_protocol:
  assumes "fresh_world w0" "review_step\<^sup>*\<^sup>* w0 w" "review_step w w'"
  shows "phase_edge (phase i w) (phase i w')"
  using every_step_good [OF assms(3) reachable_inv [OF assms(2) fresh_inv [OF assms(1)]]]
  by (simp add: good_step_def)


section \<open>Samples\<close>

definition asked_exception :: review_request where
  "asked_exception = \<lparr>rr_id = ''r1'', rr_user_id = ''u1'', rr_flow_type = ''bridge_wallet_to_crypto'', rr_amount = 50,
     rr_currency = ''USDC'', rr_amount_usd_equiv = Fin 50, rr_limit_usd = Fin 40, rr_excess_usd = Fin 10,
     rr_request_payload = Ramp withdrawal, rr_client_reason = ''rent'', rr_document_url = None,
     rr_status = ''pending_review'', rr_reviewed_by = None, rr_reviewed_at = None, rr_staff_notes = None,
     rr_payment_order_id = None, rr_expires_at = 100, rr_created_at = 0\<rparr>"

definition asked_world :: review_world where
  "asked_world = \<lparr>rw_state = \<lparr>rs_requests = [asked_exception], rs_orders = sample_db []\<rparr>, rw_tasks = [], rw_made = []\<rparr>"

definition staff_env :: review_env where
  "staff_env = \<lparr>re_env = (\<lambda>st. st), re_now = 10, re_settings = [], re_db_ok = True, re_new_id = ''r2''\<rparr>"

definition approved_world :: review_world where
  "approved_world = (let a = approveReview staff_env ''r1'' ''s'' None (rw_state asked_world) in
     asked_world\<lparr>rw_state := snd a, rw_tasks := [Creating ''s'' (projr (fst a))]\<rparr>)"

lemma asked_fresh: "fresh_world asked_world"
  by (simp add: fresh_world_def asked_world_def)

lemma asked_approved: "review_step asked_world approved_world"
proof -
  have ok: "is_ok (fst (approveReview staff_env ''r1'' ''s'' None (rw_state asked_world)))" by code_simp
  have "rw_tasks asked_world = []" "re_env staff_env = (\<lambda>st. st)" by (simp_all add: asked_world_def staff_env_def)
  with approve [of staff_env "''r1''" "''s''" None asked_world, OF _ ok_run(1) [OF ok]]
  show ?thesis by (simp add: approved_world_def Let_def)
qed

theorem requests_follow_protocol_witness:
  "phase ''r1'' asked_world = Open \<and> phase ''r1'' approved_world = Deciding
    \<and> phase_edge (phase ''r1'' asked_world) (phase ''r1'' approved_world)"
proof -
  have "phase ''r1'' asked_world = Open" "phase ''r1'' approved_world = Deciding" by code_simp+
  with requests_follow_protocol [OF asked_fresh rtranclp.rtrancl_refl asked_approved, of "''r1''"] show ?thesis by simp
qed

definition provider_up :: ramp_env where
  "provider_up = sample_env\<lparr>cr_leg := provider_down\<lparr>lv_post := \<lambda>_ _. Inr \<lparr>br_id = Some ''t1'', br_state = None,
     br_to_address = None, br_address = None, br_rail = None, br_currency = None, br_source_amount = None\<rparr>\<rparr>\<rparr>"

definition approved_exception :: review_request where
  "approved_exception = projr (fst (approveReview staff_env ''r1'' ''s'' None (rw_state asked_world)))"

definition ordered_world :: review_world where
  "ordered_world = (let c = create_reviewed provider_up approved_exception (rs_orders (rw_state approved_world));
       order = projr (fst c); i = rr_id approved_exception in
     approved_world\<lparr>rw_state := (rw_state approved_world)\<lparr>rs_orders := snd c\<rparr>,
       rw_tasks := [Finishing i approved_exception order], rw_made := [(i, po_id order)]\<rparr>)"

lemma approved_ordered: "review_step approved_world ordered_world"
proof -
  have ok: "is_ok (fst (create_reviewed provider_up approved_exception (rs_orders (rw_state approved_world))))"
    by code_simp
  have "rw_tasks approved_world = [] @ Creating ''s'' approved_exception # []" "rw_made approved_world = []"
    by (simp_all add: approved_world_def approved_exception_def asked_world_def Let_def)
  with create_done [OF this(1) ok_run(1) [OF ok]] show ?thesis by (simp add: ordered_world_def Let_def)
qed

text \<open>C13: An exception makes at most one order, however staff members, the client, the expiry and
  crashes interleave; once it has, the request is not open and no handler can decide it again.\<close>

theorem exception_makes_one_order:
  assumes "fresh_world w0" "review_step\<^sup>*\<^sup>* w0 w"
  shows "length (filter (\<lambda>m. fst m = i) (rw_made w)) \<le> 1
    \<and> (i \<in> fst ` set (rw_made w) \<longrightarrow> open_rows i (rw_state w) = [] \<and> filter (decides i) (rw_tasks w) = [])"
proof -
  have "opened i w + (busy i w + made i w) \<le> 1"
    using reachable_inv [OF assms(2) fresh_inv [OF assms(1)]] by (simp add: review_inv_iff)
  moreover have "i \<in> fst ` set (rw_made w) \<Longrightarrow> made i w \<noteq> 0"
    by (auto simp: made_def filter_empty_conv)
  ultimately have "i \<in> fst ` set (rw_made w) \<Longrightarrow> opened i w = 0 \<and> busy i w = 0" "made i w \<le> 1" by linarith+
  then show ?thesis by (simp add: counts)
qed

theorem exception_makes_one_order_witness:
  "rw_made ordered_world = [(''r1'', ''o9'')] \<and> length (filter (\<lambda>m. fst m = ''r1'') (rw_made ordered_world)) \<le> 1
    \<and> open_rows ''r1'' (rw_state ordered_world) = []"
proof -
  have m: "rw_made ordered_world = [(''r1'', ''o9'')]" by code_simp
  have run: "review_step\<^sup>*\<^sup>* asked_world ordered_world" using asked_approved approved_ordered by simp
  from exception_makes_one_order [OF asked_fresh run, of "''r1''"] m show ?thesis by simp
qed


section \<open>A cancellation that comes late\<close>

lemma requests_of_filter: "requests_of i st = Some q \<longleftrightarrow> filter (\<lambda>r. rr_id r = i) (rs_requests st) = [q]"
  by (simp add: requests_of_def maybe_single_Some)

lemma filter_own:
  assumes "filter (\<lambda>r. rr_id r = i) rows = [q]"
  shows "filter (\<lambda>r. rr_id r = i \<and> P r) rows = (if P q then [q] else [])"
  using arg_cong [OF assms, of "filter P"] by (simp add: conj_commute)

lemma requests_of_update:
  assumes "requests_of i st = Some q" "rs_requests st' = update_where p f (rs_requests st)"
    and "\<And>r. rr_id (f r) = rr_id r" "p q"
  shows "requests_of i st' = Some (f q)"
proof -
  have "filter (\<lambda>r. rr_id r = i) (update_where p f rows) = map (\<lambda>r. if p r then f r else r) (filter (\<lambda>r. rr_id r = i) rows)"
    for rows by (induction rows) (auto simp: assms(3))
  then show ?thesis using assms(1,4) by (simp add: requests_of_filter assms(2))
qed

definition approved_by :: "string \<Rightarrow> int \<Rightarrow> ostring \<Rightarrow> review_request \<Rightarrow> review_request" where
  "approved_by actor now notes r = r\<lparr>rr_status := ''approved'', rr_reviewed_by := Some actor,
     rr_reviewed_at := Some now, rr_staff_notes := notes\<rparr>"

lemma approve_known:
  assumes "requests_of i st = Some q" "rr_status q = ''pending_review''" "re_env e = (\<lambda>st. st)" "re_db_ok e"
    and "rr_user_id q \<noteq> actor"
  shows "approveReview e i actor notes st = (Inr (approved_by actor (re_now e) notes q),
    logged (Some actor) ''APPROVE_REVIEW_REQUEST'' i
      (set_requests (\<lambda>r. rr_id r = i \<and> rr_status r = ''pending_review'') (approved_by actor (re_now e) notes) st))"
  using assms filter_own [of i "rs_requests st" q "\<lambda>r. rr_status r = ''pending_review''"]
  by (simp add: approveReview_def Let_def approved_by_def [abs_def] requests_of_filter)

lemma approve_needs:
  assumes "approveReview e i actor notes st = (Inr r, st1)" "requests_of i st = Some q"
  shows "re_db_ok e" "rr_user_id q \<noteq> actor"
  using assms by (auto simp: approveReview_def Let_def split: if_splits)

lemma finished:
  assumes "finish_review e i r order st = (Inr x, st1)"
  shows "x = (r, order)" "rs_requests st1 = update_where (\<lambda>r. rr_id r = i)
      (\<lambda>r. r\<lparr>rr_payment_order_id := Some (po_id order)\<rparr>) (rs_requests st)"
  using assms by (auto simp: finish_review_def linkPaymentOrder_def split: if_splits)

lemma approved_status [simp]:
  "rr_status (approved_by actor now notes q) = ''approved''" "rr_id (approved_by actor now notes q) = rr_id q"
  "rr_reviewed_by (approved_by actor now notes q) = Some actor"
  "rr_request_payload (approved_by actor now notes q) = rr_request_payload q"
  "rr_user_id (approved_by actor now notes q) = rr_user_id q"
  "rr_flow_type (approved_by actor now notes q) = rr_flow_type q"
  by (simp_all add: approved_by_def)

lemma requests_of_id: "requests_of i st = Some q \<Longrightarrow> rr_id q = i"
  by (auto simp: requests_of_def dest: maybe_single_in)

lemma approve_request:
  assumes "approveReview e i actor notes st = (Inr r, st1)" "requests_of i st = Some q" "rr_status q = ''pending_review''"
    and "re_env e = (\<lambda>st. st)"
  shows "r = approved_by actor (re_now e) notes q" "requests_of i st1 = Some r" "rs_orders st1
    = log_review (Some actor) ''APPROVE_REVIEW_REQUEST'' i (rs_orders st)"
proof -
  have st: "r = approved_by actor (re_now e) notes q" "st1 = logged (Some actor) ''APPROVE_REVIEW_REQUEST'' i
      (set_requests (\<lambda>r. rr_id r = i \<and> rr_status r = ''pending_review'') (approved_by actor (re_now e) notes) st)"
    using approve_known [OF assms(2,3,4) approve_needs [OF assms(1,2)], of "notes"] assms(1) by simp_all
  show "r = approved_by actor (re_now e) notes q" by (rule st(1))
  show "requests_of i st1 = Some r" unfolding st
    by (rule requests_of_update [OF assms(2), where p = "\<lambda>r. rr_id r = i \<and> rr_status r = ''pending_review''"])
      (simp_all add: assms(3) requests_of_id [OF assms(2)])
  show "rs_orders st1 = log_review (Some actor) ''APPROVE_REVIEW_REQUEST'' i (rs_orders st)"
    by (simp add: st logged_def)
qed

lemma ordered_request:
  assumes "createOrderFromReview v s i actor notes st = (Inr (r, order), st1)" "re_env s = (\<lambda>st. st)"
    and "requests_of i st = Some q" "rr_status q = ''pending_review''"
  shows "requests_of i st1 = Some (approved_by actor (re_now s) notes q\<lparr>rr_payment_order_id := Some (po_id order)\<rparr>)"
proof -
  from assms(1) obtain r0 st0 where a: "approveReview s i actor notes st = (Inr r0, st0)"
    by (auto simp: createOrderFromReview_def split: prod.splits sum.splits)
  note r0 = approve_request [OF a assms(3,4,2)]
  obtain o' db where f: "finish_review s i r0 o' (st0\<lparr>rs_orders := db\<rparr>) = (Inr (r, order), st1)"
    using assms(1) by (auto simp: createOrderFromReview_def a split: prod.splits sum.splits)
  have "requests_of i (st0\<lparr>rs_orders := db\<rparr>) = Some (approved_by actor (re_now s) notes q)"
    using r0 by (simp add: requests_of_def)
  from requests_of_update [OF this finished(2) [OF f]] finished(1) [OF f] requests_of_id [OF assms(3)]
  show ?thesis by simp
qed

text \<open>C15: The cancellation of a request writes without asking for the status it read. When the
  approval of the staff comes between, the client's order exists, the request links it, and the
  request says that the client cancelled it.\<close>

theorem late_cancellation_hides_order:
  assumes "requests_of i st = Some q" "rr_status q = ''pending_review''" "re_db_ok e"
    and "createOrderFromReview v s i actor notes st = (Inr (r, order), st1)" "re_env s = (\<lambda>st. st)"
    and "re_env e = (\<lambda>st. snd (createOrderFromReview v s i actor notes st))"
  shows "\<exists>st2 q2. cancelReview e (rr_user_id q) i st = (Inr (), st2) \<and> requests_of i st2 = Some q2
    \<and> rr_status q2 = ''cancelled_by_user'' \<and> rr_payment_order_id q2 = Some (po_id order)
    \<and> rr_reviewed_by q2 = Some actor \<and> payment_orders (rs_orders st2) = payment_orders (rs_orders st1)"
proof -
  let ?f = "\<lambda>r. r\<lparr>rr_status := ''cancelled_by_user''\<rparr>"
  let ?st = "logged (Some (rr_user_id q)) ''CANCEL_REVIEW_REQUEST'' i (set_requests (\<lambda>r. rr_id r = i) ?f st1)"
  have "cancel_check (rr_user_id q) i st = Inr ()"
    using assms(1,2) filter_own [of i "rs_requests st" q "\<lambda>r. rr_user_id r = rr_user_id q"]
    by (simp add: cancel_check_def requests_of_filter)
  then have "cancelReview e (rr_user_id q) i st = (Inr (), ?st)"
    by (simp add: cancelReview_def cancel_write_def assms(3,4,6))
  moreover have "requests_of i ?st = Some (?f (approved_by actor (re_now s) notes q
      \<lparr>rr_payment_order_id := Some (po_id order)\<rparr>))"
    by (rule requests_of_update [OF ordered_request [OF assms(4,5,1,2)], where p = "\<lambda>r. rr_id r = i"])
      (simp_all add: requests_of_id [OF assms(1)])
  ultimately show ?thesis by (simp add: logged_def log_review_def)
qed


definition approve_sample :: "review_state \<Rightarrow> (review_request \<times> payment_order) result \<times> review_state" where
  "approve_sample = createOrderFromReview provider_up staff_env ''r1'' ''s'' None"

definition late_env :: review_env where
  "late_env = staff_env\<lparr>re_env := \<lambda>st. snd (approve_sample st)\<rparr>"

theorem late_cancellation_hides_order_witness:
  "\<exists>st2 q2. cancelReview late_env ''u1'' ''r1'' (rw_state asked_world) = (Inr (), st2)
    \<and> requests_of ''r1'' st2 = Some q2 \<and> rr_status q2 = ''cancelled_by_user'' \<and> rr_payment_order_id q2 = Some ''o9''
    \<and> map po_id (payment_orders (rs_orders st2)) = [''o9'']"
proof -
  let ?r = "approve_sample (rw_state asked_world)"
  have ok: "is_ok (fst ?r)" by code_simp
  have o': "po_id (snd (projr (fst ?r))) = ''o9''"
    "map po_id (payment_orders (rs_orders (snd ?r))) = [''o9'']" by code_simp+
  have q: "requests_of ''r1'' (rw_state asked_world) = Some asked_exception" by (simp add: requests_of_def asked_world_def
      asked_exception_def)
  have run: "createOrderFromReview provider_up staff_env ''r1'' ''s'' None (rw_state asked_world)
      = (Inr (fst (projr (fst ?r)), snd (projr (fst ?r))), snd ?r)"
    using ok_run(1) [OF ok] by (simp add: approve_sample_def)
  have "rr_status asked_exception = ''pending_review''" "rr_user_id asked_exception = ''u1''" "re_db_ok late_env"
    "re_env staff_env = (\<lambda>st. st)" by (simp_all add: asked_exception_def late_env_def staff_env_def)
  with late_cancellation_hides_order [OF q _ _ run, of late_env] o' show ?thesis
    by (auto simp: late_env_def approve_sample_def)
qed

section \<open>An approval whose order fails\<close>




section \<open>What an approval does not ask again\<close>

text \<open>The creation of an approved exception reads neither the profile, nor the permitted flows, nor the
  limits, nor the settings that bound them.\<close>

lemma flows_not_read_parts [simp]:
  fixes v :: ramp_env
  shows "ramp_row (v\<lparr>cr_flows := l, cr_limits := m\<rparr>) flow u dto w fee = ramp_row v flow u dto w fee"
    "quote_fiat_bo (v\<lparr>cr_flows := l, cr_limits := m\<rparr>) u dto d db = quote_fiat_bo v u dto d db"
    "quoteFiatUsFixedOutput (v\<lparr>cr_flows := l, cr_limits := m\<rparr>) u r c dto = quoteFiatUsFixedOutput v u r c dto"
    "world_fee (v\<lparr>cr_flows := l, cr_limits := m\<rparr>) u dto r c = world_fee v u dto r c"
    "reserve_balance (v\<lparr>cr_flows := l, cr_limits := m\<rparr>) u c a db = reserve_balance v u c a db"
  by (simp_all add: ramp_row_def quote_fiat_bo_def quoteFiatUsFixedOutput_def world_fee_def reserve_balance_def)

lemma flows_not_read_rows [simp]:
  fixes v :: ramp_env
  shows "payout_amounts (v\<lparr>cr_flows := l, cr_limits := m\<rparr>) u dto r c d = payout_amounts v u dto r c d"
    "world_checks (v\<lparr>cr_flows := l, cr_limits := m\<rparr>) u dto db = world_checks v u dto db"
    "payout_row (v\<lparr>cr_flows := l, cr_limits := m\<rparr>) u dto w s a c q = payout_row v u dto w s a c q"
    "world_row (v\<lparr>cr_flows := l, cr_limits := m\<rparr>) sk u dto wq = world_row v sk u dto wq"
    "fiat_bo_row (v\<lparr>cr_flows := l, cr_limits := m\<rparr>) sk u dto w account bq = fiat_bo_row v sk u dto w account bq"
    "reserve_and_insert (v\<lparr>cr_flows := l, cr_limits := m\<rparr>) sk u cu am row leg = reserve_and_insert v sk u cu am row leg"
  by (simp_all add: payout_amounts_def world_checks_def payout_row_def world_row_def fiat_bo_row_def fun_eq_iff
      reserve_and_insert_def cong: if_cong sum.case_cong)

lemma flows_not_read_payouts [simp]:
  fixes v :: ramp_env
  shows "createBridgeWalletToPeruPsav (v\<lparr>cr_flows := l, cr_limits := m\<rparr>) sk u dto s
      = createBridgeWalletToPeruPsav v sk u dto s"
    "createPayout (v\<lparr>cr_flows := l, cr_limits := m\<rparr>) sk u dto w s = createPayout v sk u dto w s"
  by (simp_all add: fun_eq_iff createBridgeWalletToPeruPsav_def createPayout_def Let_def case_prod_beta)

lemma flows_not_read:
  "dispatch_ramp (v\<lparr>cr_flows := l, cr_limits := m\<rparr>) sk u dto db = dispatch_ramp v sk u dto db"
proof -
  have "createBridgeWalletToFiatUs (v\<lparr>cr_flows := l, cr_limits := m\<rparr>) sk u dto db
      = createBridgeWalletToFiatUs v sk u dto db"
    unfolding createBridgeWalletToFiatUs_def flows_not_read_payouts ..
  then show ?thesis
    by (simp add: dispatch_ramp_def createFiatBoToBridgeWallet_def createCryptoToBridgeWallet_def
        createWalletToWorld_def createBridgeWalletToFiatBo_def createBridgeWalletToCrypto_def Let_def case_prod_beta
        insert_with_transfer_def cong: if_cong sum.case_cong)
qed

lemma created_row_flows [simp]:
  fixes v :: create_env
  shows "created_row (v\<lparr>cr_flows := l, cr_limits := m\<rparr>) = created_row v"
  by (simp add: created_row_def fun_eq_iff)

lemma interbank_flows_not_read_parts [simp]:
  fixes v :: create_env
  shows "interbank_row (v\<lparr>cr_flows := l, cr_limits := m\<rparr>) flow u dto = interbank_row v flow u dto"
    "world_quote (v\<lparr>cr_flows := l, cr_limits := m\<rparr>) u dto c s = world_quote v u dto c s"
    "w2w_fee (v\<lparr>cr_flows := l, cr_limits := m\<rparr>) u c a = w2w_fee v u c a"
    "w2w_percent (v\<lparr>cr_flows := l, cr_limits := m\<rparr>) u c = w2w_percent v u c"
  by (simp_all add: interbank_row_def world_quote_def calculateBoliviaToWorldAmounts_def w2w_fee_def w2w_percent_def
      cong: if_cong)

lemma run_now_flows [simp]:
  fixes v :: create_env
  shows "run_now (v\<lparr>cr_flows := l, cr_limits := m\<rparr>) sk lg = run_now v sk lg"
  unfolding run_now_def created_row_flows ..

lemma interbank_flows_not_read:
  fixes v :: create_env
  shows "dispatch_interbank (v\<lparr>cr_flows := l, cr_limits := m\<rparr>) sk u dto db = dispatch_interbank v sk u dto db"
  by (simp add: dispatch_interbank_def createBoliviaToWorld_def createWalletToWallet_def w2w_row_def psav_row_def
      createBoliviaToWallet_def createWorldToBolivia_def Let_def case_prod_beta cong: if_cong sum.case_cong)


definition barred :: "string \<Rightarrow> string \<Rightarrow> flows_db \<Rightarrow> bool" where
  "barred u flow fl \<longleftrightarrow> \<not> is_ok (assertOnboardingApproved u fl) \<or> \<not> is_ok (assertFlowEnabled u flow fl)"

text \<open>C16: Approving an exception does not ask again what creating an order asks. Whatever has become
  of the client since (onboarding withdrawn, the flow taken away, a lower limit), the approval
  does the same, although the same order asked for now would be refused.\<close>

theorem approval_asks_no_gate_again:
  "createOrderFromReview (v\<lparr>cr_flows := fl, cr_limits := lm\<rparr>) e i actor notes st
      = createOrderFromReview v e i actor notes st
   \<and> (barred u (cw_flow_type dto) fl \<longrightarrow>
        \<not> is_ok (fst (submitWalletRampOrder (v\<lparr>cr_flows := fl, cr_limits := lm\<rparr>) e s u dto reason doc st)))"
proof
  have "create_env.truncate (v\<lparr>cr_flows := fl, cr_limits := lm\<rparr>) = (create_env.truncate v)\<lparr>cr_flows := fl, cr_limits := lm\<rparr>"
    by (simp add: create_env.truncate_def)
  then have "create_reviewed (v\<lparr>cr_flows := fl, cr_limits := lm\<rparr>) r db = create_reviewed v r db" for r db
    by (simp add: create_reviewed_def createInterbankOrderBypassLimit_def createWalletRampOrderBypassLimit_def
        flows_not_read interbank_flows_not_read split: request_payload.split)
  then show "createOrderFromReview (v\<lparr>cr_flows := fl, cr_limits := lm\<rparr>) e i actor notes st
      = createOrderFromReview v e i actor notes st" by (simp only: createOrderFromReview_def)
  show "barred u (cw_flow_type dto) fl \<longrightarrow>
      \<not> is_ok (fst (submitWalletRampOrder (v\<lparr>cr_flows := fl, cr_limits := lm\<rparr>) e s u dto reason doc st))"
    by (auto simp: barred_def submitWalletRampOrder_def with_request_def createWalletRampOrder_def Let_def fst_lift is_ok_def
        bind_r_def split: sum.splits)
qed

theorem approval_asks_no_gate_again_witness:
  "is_ok (fst (createOrderFromReview (provider_up\<lparr>cr_flows := \<lparr>client_profiles = [], customer_flow_overrides = [],
       flows_audit = []\<rparr>\<rparr>) staff_env ''r1'' ''s'' None (rw_state asked_world)))
   \<and> \<not> is_ok (fst (submitWalletRampOrder (provider_up\<lparr>cr_flows := \<lparr>client_profiles = [], customer_flow_overrides = [],
       flows_audit = []\<rparr>\<rparr>) staff_env \<lparr>cache = None, cacheExpiresAt = 0\<rparr> ''u1'' withdrawal None None (rw_state asked_world)))"
proof -
  let ?fl = "\<lparr>client_profiles = [], customer_flow_overrides = [], flows_audit = []\<rparr> :: flows_db"
  have lm: "provider_up\<lparr>cr_flows := ?fl, cr_limits := cr_limits provider_up\<rparr> = provider_up\<lparr>cr_flows := ?fl\<rparr>" by simp
  have ok: "is_ok (fst (createOrderFromReview provider_up staff_env ''r1'' ''s'' None (rw_state asked_world)))"
    by code_simp
  have "barred ''u1'' (cw_flow_type withdrawal) ?fl" by (simp add: barred_def assertOnboardingApproved_def)
  with approval_asks_no_gate_again [where v = provider_up and fl = ?fl and lm = "cr_limits provider_up" and
      e = staff_env and u = "''u1''" and dto = withdrawal and st = "rw_state asked_world" and s = "\<lparr>cache = None, cacheExpiresAt = 0\<rparr>" and reason = None and doc = None,
      unfolded lm] ok
  show ?thesis by simp
qed

end
