(* ===== verification/Spec2Isabelle.thy ===== *)
theory Spec2Isabelle
  imports FeeProperties LedgerProperties OrderProperties OrderLimits FlowAccess VaProperties
    DrainProperties ApprovalProperties CreationGates ReviewProperties
begin

text \<open>
  A verification library for the payments back end of Guira, a NestJS service over a
  PostgreSQL database and a payments provider (Bridge). The program moves money between
  clients, Bolivian banks (through intermediaries, PSAV), crypto wallets and foreign
  accounts. Its core is the payment order: the client creates it, funds are reserved or
  awaited, staff review it where the configuration asks for it, a transfer is created at the
  provider, and staff or provider events close it. Fees, limits, permitted flows, the ledger
  and the quotes surround the order.

  \<^bold>\<open>Theories.\<close> Paths are below \<open>src/src/application\<close>; \<open>POS\<close> is
  \<open>payment-orders/payment-orders.service.ts\<close>.

  \<^item> \<open>Prelude\<close>: results, JavaScript numbers, rounding, number parsing and case mapping, tables as
    lists of rows with \<open>maybe_single\<close> (a \<open>SELECT\<close> of one row) and \<open>update_where\<close>.
  \<^item> \<open>CancellationPolicy\<close>: \<open>payment-orders/cancellation-policy.ts\<close>.
  \<^item> \<open>TtlCache\<close>: the interface of a cache with an expiry, as a locale.
  \<^item> \<open>ReviewGate\<close>: \<open>staff-review-gate.ts\<close> and \<open>flow-review-settings.service.ts\<close>; the settings
    service interprets the cache.
  \<^item> \<open>FixedOutput\<close>: \<open>fiat-us-fixed-output.ts\<close>.
  \<^item> \<open>Overrides\<close>: the contract of a table of per-client overrides with at most one active row
    for a key, as a locale with its reachable tables.
  \<^item> \<open>Fees\<close>, \<open>FeeProperties\<close>: \<open>fees/fees.service.ts\<close>; the fee overrides interpret \<open>Overrides\<close>.
  \<^item> \<open>Ledger\<close>, \<open>LedgerProperties\<close>: \<open>ledger/ledger.service.ts\<close>, the trigger
    \<open>update_balance_on_ledger_entry\<close>, \<open>settle_and_release_reserved\<close> (\<open>migrations/\<close>) and the
    fallback of \<open>releaseReservedBalance\<close> (\<open>bridge/bridge.service.ts\<close>), which interprets the
    contract of a release.
  \<^item> \<open>Orders\<close>: the tables of the orders, the reserve of an order in review, the reversals of the
    ledger, the loads and the shared parts of the Bridge legs, and the contract of a leg.
  \<^item> \<open>BridgeLegs\<close>: the nine executors and their dispatch (\<open>executeReviewedBridgeLeg\<close>), which
    interpret that contract.
  \<^item> \<open>OrderLifecycle\<close>: the operations on an existing order. \<open>OrderStates\<close>: the edges each
    operation may take and the step relation of complete operations. \<open>OrderProperties\<close>: what
    follows for the order, its reserve and its ledger entries.
  \<^item> \<open>OrderLimits\<close>: settings, hourly maximum, amount limits and limit overrides (\<open>POS\<close>).
  \<^item> \<open>FlowAccess\<close>: \<open>src/common/constants/flow-access.constants.ts\<close> and the flow overrides
    and barriers of \<open>POS\<close>.

  \<^item> \<open>WebhookQueue\<close>: the sink of provider events with its signature check, and the worker that
    claims, runs, retries and rescues them (\<open>webhooks/webhooks.service.ts\<close>).
  \<^item> \<open>VaDeposits\<close>, \<open>VaProperties\<close>: the events of deposits into virtual accounts (same file), and
    the invariant of their bookings over any sequence of events.
  \<^item> \<open>TransferEvents\<close>, \<open>TransferProperties\<close>: the events of transfers (same file).
  \<^item> \<open>DrainEvents\<close>, \<open>DrainProperties\<close>: the events of liquidation addresses and their drains
    (same file).
  \<^item> \<open>OrderApproval\<close>, \<open>ApprovalProperties\<close>: the approval of a received deposit, with the margin
    and the transfer of \<open>bolivia_to_world\<close>, and the edits of the client (\<open>POS\<close>).
  \<^item> \<open>RouteCatalogs\<close>: \<open>src/common/constants/bridge-route-catalog.constants.ts\<close> and
    \<open>transfer-route-catalog.constants.ts\<close>.
  \<^item> \<open>OrderIndexes\<close>: the checks against active orders (\<open>POS\<close>, \<open>assertNoConflicting...\<close>) and the
    partial unique indexes of \<open>migrations/20260909_pending_review_gate...sql\<close>.
  \<^item> \<open>OrderCreation\<close>: \<open>createInterbankOrder\<close> and its four flows. \<open>RampCreation\<close>: the flows into a
    wallet, and out of one to Bolivia or to an address. \<open>PayoutCreation\<close>: the flows to a bank account
    of a supplier and the entry point \<open>createWalletRampOrder\<close>.
  \<^item> \<open>CreationProperties\<close>: the shape of new orders, and what creation, failure and rejection do to
    the balances. \<open>CreationGates\<close>: the gates of the entry points, rates, addresses, the indexes.
  \<^item> \<open>OrderReview\<close>, \<open>ReviewProperties\<close>: requests for an exception to the limits
    (\<open>payment-orders/order-review.service.ts\<close>, \<open>createOrderFromReview\<close> of \<open>POS\<close>) and their
    interleavings as a step relation.

  \<^bold>\<open>Correspondence.\<close> A table is a list of records with the columns the code reads or
  writes, prefixed per table; a service is a function from its arguments and the tables to a
  result and the tables. An exception is \<open>Inl\<close> of its class, with the error code where the
  code gives one; texts that are only displayed are shortened or written without accents.
  A statement of the database that may fail takes the flag \<open>db_ok\<close>, so both outcomes are
  covered. An operation on an order that reads, calls out and writes later takes what other
  requests do in between as a function on the tables (\<open>oe_env\<close>); the write itself is a
  compare-and-set (\<open>cas_order\<close>) or an update by id alone (\<open>blind_update\<close>), as in the code.
  Numbers of JavaScript are exact rationals where the code computes with finite numbers, so
  the errors of binary floating point are not modelled; \<open>NaN\<close> and the infinities are kept
  (\<open>jsnum\<close>) where a parsed text is compared. Time is an integer of milliseconds, a date an
  integer of days.

  \<^bold>\<open>Parameters.\<close> The provider (\<open>lv_post\<close>, \<open>api_get\<close>, \<open>api_delete\<close>), the exchange rate
  service and the database functions \<open>reserve_balance\<close> and \<open>release_reserved_balance\<close>, whose
  bodies are not in the repository, are arguments. Theorems hold for every choice of them unless a hypothesis says
  what they keep.

  \<^bold>\<open>Bounds.\<close> The loops of the fixed-output quote have the code's own bound of 100000 rounds
  (\<open>LOOP_BOUND\<close>); the theorems show that the upward loop never needs it for a sane rule, and
  that the downward one runs out of it with a capped fee. All other recursion is structural.

  \<^bold>\<open>What the lemmas show.\<close> The policy theorems characterise decisions exactly. The override
  theorems are invariants over every reachable table. The ledger theorems relate balances and
  settled entries over every run. The order theorems give the state machine over every run,
  what a lost race, a failed leg and each way to close an order leave behind, and the places
  where the code does not keep the promise (leaked, doubled or stuck reserves). The creation
  theorems show that an order passed its gates, that it has the shape the review works on, that
  a creation that fails or is rejected leaves the balances as they were, and where rates,
  addresses and indexes do not do what they promise. The theorems on exceptions hold for every
  interleaving of the handlers: the step relation is a refinement of a machine of five phases, so
  an exception makes at most one order. The event
  theorems show that a deposit is booked once and a completion can be repeated, that a closed
  event is not run again, and where a failure, a refund, a sweep or an unsigned event goes wrong.

  \<^bold>\<open>Not modelled.\<close> The events of customers, the rest of the Bridge service, onboarding, identity checks,
  compliance, suppliers, members, guards and idempotency are planned next, in this order.
  Controllers, gateways, e-mails, rendering of documents and validation decorators are left out.
\<close>

end
